(* ===== verification/Prelude.thy ===== *)
theory Prelude
  imports Main "HOL-Library.Word"
begin

text \<open>
  Shared vocabulary of the development.

  \<^item> Types: instants and durations are integers of microseconds (Python's datetime resolution),
    a UUID is a 128-bit word, bytes are lists of 8-bit words.
  \<^item> Fallible pure code returns a value of the sum type \<open>'e + 'a\<close> (Inl is the raised exception).
  \<^item> Stateful fallible code is an action: a function from the state to an outcome and the state
    left behind. The state survives an exception, because in the program it does: a cache write
    or a failed-login counter is not undone by the exception raised after it.
  \<^item> The simp set of the combinators is collected in \<open>act_simps\<close>, inversion rules in
    \<open>act_elims\<close>.
\<close>

named_theorems act_simps \<open>evaluation of the action combinators\<close>
named_theorems act_conv \<open>inversion of the action combinators\<close>
named_theorems table_simps \<open>laws of keyed row lists\<close>

type_synonym datetime = int
type_synonym duration = int
type_synonym uuid = "128 word"
type_synonym bytes = "8 word list"

abbreviation seconds :: "int \<Rightarrow> duration" where
  "seconds n \<equiv> n * 1000000"

abbreviation minutes :: "int \<Rightarrow> duration" where
  "minutes n \<equiv> n * 60000000"

abbreviation hours :: "int \<Rightarrow> duration" where
  "hours n \<equiv> n * 3600000000"

abbreviation days :: "int \<Rightarrow> duration" where
  "days n \<equiv> n * 86400000000"

definition NIL_UUID :: uuid where
  "NIL_UUID = 0"

text \<open>Pure fallible code.\<close>

fun rbind :: "'e + 'a \<Rightarrow> ('a \<Rightarrow> 'e + 'b) \<Rightarrow> 'e + 'b" where
  "rbind (Inl e) f = Inl e"
| "rbind (Inr x) f = f x"

fun rmap :: "('a \<Rightarrow> 'e + 'b) \<Rightarrow> 'a list \<Rightarrow> 'e + 'b list" where
  "rmap f [] = Inr []"
| "rmap f (x # xs) = rbind (f x) (\<lambda>y. rbind (rmap f xs) (\<lambda>ys. Inr (y # ys)))"

text \<open>Actions.\<close>

type_synonym ('s, 'e, 'a) act = "'s \<Rightarrow> ('e + 'a) \<times> 's"

definition ret :: "'a \<Rightarrow> ('s, 'e, 'a) act" where
  "ret x s = (Inr x, s)"

definition throw :: "'e \<Rightarrow> ('s, 'e, 'a) act" where
  "throw e s = (Inl e, s)"

definition bnd :: "('s, 'e, 'a) act \<Rightarrow> ('a \<Rightarrow> ('s, 'e, 'b) act) \<Rightarrow> ('s, 'e, 'b) act" where
  "bnd m f s = (case m s of (Inl e, t) \<Rightarrow> (Inl e, t) | (Inr x, t) \<Rightarrow> f x t)"

definition thn :: "('s, 'e, 'a) act \<Rightarrow> ('s, 'e, 'b) act \<Rightarrow> ('s, 'e, 'b) act" where
  "thn m k = bnd m (\<lambda>_. k)"

definition lift :: "'e + 'a \<Rightarrow> ('s, 'e, 'a) act" where
  "lift r s = (r, s)"

definition reads :: "('s \<Rightarrow> 'a) \<Rightarrow> ('s, 'e, 'a) act" where
  "reads f s = (Inr (f s), s)"

definition modify :: "('s \<Rightarrow> 's) \<Rightarrow> ('s, 'e, unit) act" where
  "modify f s = (Inr (), f s)"

definition do_if :: "bool \<Rightarrow> ('s, 'e, unit) act \<Rightarrow> ('s, 'e, unit) act" where
  "do_if b m = (if b then m else ret ())"

fun for_each :: "'a list \<Rightarrow> ('a \<Rightarrow> ('s, 'e, unit) act) \<Rightarrow> ('s, 'e, unit) act" where
  "for_each [] f = ret ()"
| "for_each (x # xs) f = thn (f x) (for_each xs f)"

text \<open>Rows of a table: lists with a key function; the first matching row is what a query's
  \<open>first()\<close> returns.\<close>

definition find_row :: "('r \<Rightarrow> bool) \<Rightarrow> 'r list \<Rightarrow> 'r option" where
  "find_row P rows = List.find P rows"

definition update_where :: "('r \<Rightarrow> bool) \<Rightarrow> ('r \<Rightarrow> 'r) \<Rightarrow> 'r list \<Rightarrow> 'r list" where
  "update_where P f rows = map (\<lambda>r. if P r then f r else r) rows"

definition delete_where :: "('r \<Rightarrow> bool) \<Rightarrow> 'r list \<Rightarrow> 'r list" where
  "delete_where P rows = filter (\<lambda>r. \<not> P r) rows"

definition count_where :: "('r \<Rightarrow> bool) \<Rightarrow> 'r list \<Rightarrow> nat" where
  "count_where P rows = length (filter P rows)"

section \<open>Lemmas on outcomes and actions\<close>

lemma rbind_eq_Inr: "rbind r f = Inr y \<longleftrightarrow> (\<exists>x. r = Inr x \<and> f x = Inr y)"
  by (cases r) auto

lemma rmap_all_Inr: "(\<And>x. x \<in> set xs \<Longrightarrow> f x = Inr (g x)) \<Longrightarrow> rmap f xs = Inr (map g xs)"
  by (induction xs) auto

lemma ret_run [simp, act_simps]: "ret x s = (Inr x, s)"
  by (simp add: ret_def)

lemma throw_run [simp, act_simps]: "throw e s = (Inl e, s)"
  by (simp add: throw_def)

lemma lift_run [simp, act_simps]: "lift r s = (r, s)"
  by (simp add: lift_def)

lemma reads_run [simp, act_simps]: "reads f s = (Inr (f s), s)"
  by (simp add: reads_def)

lemma modify_run [simp, act_simps]: "modify f s = (Inr (), f s)"
  by (simp add: modify_def)

lemma do_if_run [simp, act_simps]: "do_if b m s = (if b then m s else (Inr (), s))"
  by (simp add: do_if_def)

lemma bnd_ret [simp, act_simps]: "bnd (ret x) f s = f x s"
  by (simp add: bnd_def)

lemma bnd_throw [simp, act_simps]: "bnd (throw e) f s = (Inl e, s)"
  by (simp add: bnd_def)

lemma bnd_reads [simp, act_simps]: "bnd (reads g) f s = f (g s) s"
  by (simp add: bnd_def)

lemma bnd_modify [simp, act_simps]: "bnd (modify g) f s = f () (g s)"
  by (simp add: bnd_def)

lemma thn_modify [simp, act_simps]: "thn (modify g) k s = k (g s)"
  by (simp add: thn_def)

lemma thn_ret [simp, act_simps]: "thn (ret x) k s = k s"
  by (simp add: thn_def)

lemma thn_throw [simp, act_simps]: "thn (throw e) k s = (Inl e, s)"
  by (simp add: thn_def)

lemma thn_do_if [simp, act_simps]: "thn (do_if b m) k s = (if b then thn m k s else k s)"
  by (simp add: thn_def bnd_def)

lemma bnd_lift_Inr [simp, act_simps]: "bnd (lift (Inr x)) f s = f x s"
  by (simp add: bnd_def)

lemma bnd_lift_Inl [simp, act_simps]: "bnd (lift (Inl e)) f s = (Inl e, s)"
  by (simp add: bnd_def)

lemma bnd_Inr: "m s = (Inr x, t) \<Longrightarrow> bnd m f s = f x t"
  by (simp add: bnd_def)

lemma bnd_Inl: "m s = (Inl e, t) \<Longrightarrow> bnd m f s = (Inl e, t)"
  by (simp add: bnd_def)

lemma thn_Inr: "m s = (Inr x, t) \<Longrightarrow> thn m k s = k t"
  by (simp add: thn_def bnd_def)

lemma thn_Inl: "m s = (Inl e, t) \<Longrightarrow> thn m k s = (Inl e, t)"
  by (simp add: thn_def bnd_def)

lemma bnd_eq_Inr [act_conv]:
  "bnd m f s = (Inr y, u) \<longleftrightarrow> (\<exists>x t. m s = (Inr x, t) \<and> f x t = (Inr y, u))"
  by (auto simp: bnd_def split: prod.splits sum.splits)

lemma bnd_eq_Inl [act_conv]:
  "bnd m f s = (Inl e, u) \<longleftrightarrow>
     m s = (Inl e, u) \<or> (\<exists>x t. m s = (Inr x, t) \<and> f x t = (Inl e, u))"
  by (auto simp: bnd_def split: prod.splits sum.splits)

lemma thn_eq_Inr [act_conv]:
  "thn m k s = (Inr y, u) \<longleftrightarrow> (\<exists>x t. m s = (Inr x, t) \<and> k t = (Inr y, u))"
  by (simp add: thn_def bnd_eq_Inr)

lemma thn_eq_Inl [act_conv]:
  "thn m k s = (Inl e, u) \<longleftrightarrow>
     m s = (Inl e, u) \<or> (\<exists>x t. m s = (Inr x, t) \<and> k t = (Inl e, u))"
  by (simp add: thn_def bnd_eq_Inl)

section \<open>Lemmas on rows\<close>

lemma length_filter_neq:
  "distinct xs \<Longrightarrow> x \<in> set xs \<Longrightarrow> length xs = Suc (length (filter (\<lambda>y. y \<noteq> x) xs))"
proof (induction xs)
  case Nil
  then show ?case by simp
next
  case (Cons y ys)
  then have "y = x \<Longrightarrow> filter (\<lambda>z. z \<noteq> x) ys = ys" by (auto intro!: filter_True)
  with Cons show ?case by auto
qed

lemma length_filter_mono:
  "(\<And>x. x \<in> set xs \<Longrightarrow> P x \<Longrightarrow> Q x) \<Longrightarrow> length (filter P xs) \<le> length (filter Q xs)"
  by (induction xs) (auto simp: le_SucI)

lemma list_ex_key: "list_ex (\<lambda>x. f x = v) xs \<longleftrightarrow> v \<in> f ` set xs"
  by (auto simp: list_ex_iff)

lemma notin_image_iff: "v \<notin> f ` A \<longleftrightarrow> (\<forall>x \<in> A. f x \<noteq> v)"
  by auto

lemma find_row_Nil [simp, table_simps]: "find_row P [] = None"
  by (simp add: find_row_def)

lemma find_row_Cons [table_simps]:
  "find_row P (r # rs) = (if P r then Some r else find_row P rs)"
  by (simp add: find_row_def)

lemma find_row_Some_iff:
  "find_row P rows = Some r \<Longrightarrow> r \<in> set rows \<and> P r"
  by (auto simp: find_row_def find_Some_iff)

lemma find_row_None_iff: "find_row P rows = None \<longleftrightarrow> (\<forall>r \<in> set rows. \<not> P r)"
  by (auto simp: find_row_def find_None_iff)

lemma find_row_append:
  "find_row P (xs @ ys) = (case find_row P xs of None \<Rightarrow> find_row P ys | Some r \<Rightarrow> Some r)"
  by (induction xs) (auto simp: table_simps)

lemma find_row_cong:
  "(\<And>r. r \<in> set rows \<Longrightarrow> P r = Q r) \<Longrightarrow> find_row P rows = find_row Q rows"
  by (induction rows) (auto simp: table_simps)

lemma find_row_unique:
  assumes "distinct (map key rows)" and "r \<in> set rows"
  shows "find_row (\<lambda>x. key x = key r) rows = Some r"
  using assms by (induction rows) (auto simp: table_simps rev_image_eqI)

lemma map_update_where:
  "(\<And>r. P r \<Longrightarrow> key (f r) = key r) \<Longrightarrow> map key (update_where P f rows) = map key rows"
  by (simp add: update_where_def)

lemma set_update_where:
  "set (update_where P f rows) = (\<lambda>r. if P r then f r else r) ` set rows"
  by (auto simp: update_where_def)

lemma list_all_update_where:
  "(\<And>r. P r \<Longrightarrow> Q (f r) = Q r) \<Longrightarrow> list_all Q (update_where P f rows) = list_all Q rows"
  by (induction rows) (auto simp: update_where_def)

lemma list_ex_update_where:
  "(\<And>r. P r \<Longrightarrow> Q (f r) = Q r) \<Longrightarrow> list_ex Q (update_where P f rows) = list_ex Q rows"
  by (induction rows) (auto simp: update_where_def)

lemma length_update_where [simp]: "length (update_where P f rows) = length rows"
  by (simp add: update_where_def)

lemma find_row_update_where:
  assumes "\<And>r. P r \<Longrightarrow> Q (f r) = Q r"
  shows "find_row Q (update_where P f rows) =
           map_option (\<lambda>r. if P r then f r else r) (find_row Q rows)"
  using assms by (induction rows) (auto simp: update_where_def table_simps)

lemma update_where_id: "(\<And>r. r \<in> set rows \<Longrightarrow> \<not> P r) \<Longrightarrow> update_where P f rows = rows"
  by (induction rows) (auto simp: update_where_def)

lemma update_where_append:
  "update_where P f (xs @ ys) = update_where P f xs @ update_where P f ys"
  by (simp add: update_where_def)

lemma set_delete_where: "set (delete_where P rows) = {r \<in> set rows. \<not> P r}"
  by (auto simp: delete_where_def)

lemma delete_where_idem: "delete_where P (delete_where P rows) = delete_where P rows"
  by (simp add: delete_where_def)

lemma distinct_map_delete_where:
  "distinct (map key rows) \<Longrightarrow> distinct (map key (delete_where P rows))"
  by (simp add: delete_where_def distinct_map_filter)

lemma count_where_0_iff: "count_where P rows = 0 \<longleftrightarrow> find_row P rows = None"
  by (simp add: count_where_def find_row_None_iff filter_empty_conv)

end
