(* ===== verification/Py_Text.thy ===== *)
theory Py_Text
  imports Prelude
begin

text \<open>
  What the program uses of Python's text handling: str methods (strip, split, replace, lower),
  the anchors of the re module, hexadecimal encodings of bytes, uuid.UUID and its str form, and
  the length of a UTF-8 encoding.

  A str is a \<open>string\<close>, a list of 8-bit characters; the identifiers of this program are validated
  against ASCII patterns and every other string is opaque to it. Passwords are the exception:
  there the difference between characters and UTF-8 bytes decides, so they are lists of code
  points.
\<close>

type_synonym codepoints = "nat list"

abbreviation code_of :: "char \<Rightarrow> nat" where
  "code_of c \<equiv> of_char c"

definition newline :: char where
  "newline = CHR 0x0A"

definition in_range :: "nat \<Rightarrow> nat \<Rightarrow> char \<Rightarrow> bool" where
  "in_range lo hi c = (lo \<le> code_of c \<and> code_of c \<le> hi)"

definition is_lower :: "char \<Rightarrow> bool" where
  "is_lower c = in_range 97 122 c"

definition is_upper :: "char \<Rightarrow> bool" where
  "is_upper c = in_range 65 90 c"

definition is_alpha :: "char \<Rightarrow> bool" where
  "is_alpha c = (is_lower c \<or> is_upper c)"

definition is_digit :: "char \<Rightarrow> bool" where
  "is_digit c = in_range 48 57 c"

definition is_alnum :: "char \<Rightarrow> bool" where
  "is_alnum c = (is_alpha c \<or> is_digit c)"

text \<open>str.lower() on the characters below U+0100.\<close>

definition lower_char :: "char \<Rightarrow> char" where
  "lower_char c =
     (if is_upper c \<or> (in_range 0xC0 0xDE c \<and> code_of c \<noteq> 0xD7) then char_of (code_of c + 32) else c)"

definition lower :: "string \<Rightarrow> string" where
  "lower s = map lower_char s"

text \<open>The characters str.strip() removes (those below U+0100).\<close>

definition is_space :: "char \<Rightarrow> bool" where
  "is_space c = (in_range 9 13 c \<or> in_range 28 32 c \<or> code_of c = 0x85 \<or> code_of c = 0xA0)"

definition strip_by :: "(char \<Rightarrow> bool) \<Rightarrow> string \<Rightarrow> string" where
  "strip_by P s = rev (dropWhile P (rev (dropWhile P s)))"

definition strip :: "string \<Rightarrow> string" where
  "strip s = strip_by is_space s"

text \<open>s.split(sep) for a one-character separator: always at least one field.\<close>

fun split_on :: "char \<Rightarrow> string \<Rightarrow> string list" where
  "split_on c [] = [[]]"
| "split_on c (x # xs) =
     (if x = c then [] # split_on c xs
      else (case split_on c xs of [] \<Rightarrow> [[x]] | f # fs \<Rightarrow> (x # f) # fs))"

text \<open>s.replace(p, '').\<close>

fun remove_sub :: "string \<Rightarrow> string \<Rightarrow> string" where
  "remove_sub p [] = []"
| "remove_sub p (c # cs) =
     (if p \<noteq> [] \<and> take (length p) (c # cs) = p then remove_sub p (drop (length p - 1) cs)
      else c # remove_sub p cs)"

text \<open>The test \<open>sub in text\<close>.\<close>

fun has_sub :: "string \<Rightarrow> string \<Rightarrow> bool" where
  "has_sub sub [] = (sub = [])"
| "has_sub sub (c # cs) = (take (length sub) (c # cs) = sub \<or> has_sub sub cs)"

text \<open>str(n) for an integer.\<close>

fun nat_str :: "nat \<Rightarrow> string" where
  "nat_str n =
     (if n < 10 then [char_of (48 + n)] else nat_str (n div 10) @ [char_of (48 + n mod 10)])"

declare nat_str.simps [simp del]

definition int_str :: "int \<Rightarrow> string" where
  "int_str n = (if n < 0 then CHR ''-'' # nat_str (nat (- n)) else nat_str (nat n))"

text \<open>s.split(): fields separated by runs of whitespace, no empty fields.\<close>

function split_ws :: "string \<Rightarrow> string list" where
  "split_ws [] = []"
| "split_ws (c # cs) =
     (if is_space c then split_ws cs
      else (c # takeWhile (\<lambda>x. \<not> is_space x) cs) # split_ws (dropWhile (\<lambda>x. \<not> is_space x) cs))"
  by pat_completeness auto
termination
  by (relation "measure length") (auto simp: less_Suc_eq_le length_dropWhile_le)

fun join :: "string \<Rightarrow> string list \<Rightarrow> string" where
  "join sep [] = []"
| "join sep [x] = x"
| "join sep (x # y # ys) = x @ sep @ join sep (y # ys)"

text \<open>
  re.match with a pattern \<open>^core$\<close>: the anchor \<open>$\<close> holds at the end of the string and also
  just before a newline that ends it.
\<close>

definition match_dollar :: "(string \<Rightarrow> bool) \<Rightarrow> string \<Rightarrow> bool" where
  "match_dollar core s =
     (core s \<or> (s \<noteq> [] \<and> last s = newline \<and> core (butlast s)))"

text \<open>Hexadecimal digits; bytes.hex() and bytes.fromhex().\<close>

definition hexdigit :: "nat \<Rightarrow> char" where
  "hexdigit n = char_of (if n < 10 then 48 + n else 87 + n)"

definition hexval :: "char \<Rightarrow> nat option" where
  "hexval c =
     (if is_digit c then Some (of_char c - 48)
      else if in_range 97 102 c then Some (of_char c - 87)
      else if in_range 65 70 c then Some (of_char c - 55)
      else None)"

definition byte_hex :: "8 word \<Rightarrow> string" where
  "byte_hex b = [hexdigit (unat b div 16), hexdigit (unat b mod 16)]"

definition hex :: "bytes \<Rightarrow> string" where
  "hex bs = concat (map byte_hex bs)"

fun fromhex :: "string \<Rightarrow> bytes option" where
  "fromhex [] = Some []"
| "fromhex [c] = (if is_space c then Some [] else None)"
| "fromhex (c # d # cs) =
     (if is_space c then fromhex (d # cs)
      else (case (hexval c, hexval d) of
              (Some h, Some l) \<Rightarrow> map_option ((#) (of_nat (16 * h + l))) (fromhex cs)
            | _ \<Rightarrow> None))"

text \<open>str(uuid): 32 lower-case hexadecimal digits in groups 8-4-4-4-12.\<close>

fun hexn :: "nat \<Rightarrow> nat \<Rightarrow> string" where
  "hexn 0 n = []"
| "hexn (Suc k) n = hexn k (n div 16) @ [hexdigit (n mod 16)]"

definition uuid_hex :: "uuid \<Rightarrow> string" where
  "uuid_hex u = hexn 32 (unat u)"

definition uuid_str :: "uuid \<Rightarrow> string" where
  "uuid_str u =
     (let h = uuid_hex u in
      take 8 h @ ''-'' @ take 4 (drop 8 h) @ ''-'' @ take 4 (drop 12 h) @ ''-'' @
      take 4 (drop 16 h) @ ''-'' @ drop 20 h)"

text \<open>int(s, 16): surrounding whitespace, a sign, a 0x prefix and single underscores between
  digits are accepted. None is ValueError.\<close>

fun hex_digits :: "nat \<Rightarrow> string \<Rightarrow> nat option" where
  "hex_digits acc [] = Some acc"
| "hex_digits acc (c # cs) =
     (if c = CHR ''_'' then
        (case cs of [] \<Rightarrow> None
         | d # ds \<Rightarrow> (case hexval d of None \<Rightarrow> None | Some v \<Rightarrow> hex_digits (acc * 16 + v) ds))
      else (case hexval c of None \<Rightarrow> None | Some v \<Rightarrow> hex_digits (acc * 16 + v) cs))"

definition int16_body :: "string \<Rightarrow> nat option" where
  "int16_body s =
     (if take 2 s = ''0x'' \<or> take 2 s = ''0X'' then
        (let r = drop 2 s; r' = (if take 1 r = ''_'' then drop 1 r else r) in
         if r' = [] \<or> take 1 r' = ''_'' then None else hex_digits 0 r')
      else if s = [] \<or> take 1 s = ''_'' then None
      else hex_digits 0 s)"

definition int16 :: "string \<Rightarrow> int option" where
  "int16 s =
     (case strip s of
        [] \<Rightarrow> None
      | c # cs \<Rightarrow>
          if c = CHR ''-'' then map_option (\<lambda>n. - int n) (int16_body cs)
          else if c = CHR ''+'' then map_option int (int16_body cs)
          else map_option int (int16_body (c # cs)))"

text \<open>uuid.UUID(s); None is ValueError.\<close>

definition uuid_parse :: "string \<Rightarrow> uuid option" where
  "uuid_parse s =
     (let h = remove_sub ''-'' (strip_by (\<lambda>c. c = CHR ''{'' \<or> c = CHR ''}'')
                (remove_sub ''uuid:'' (remove_sub ''urn:'' s))) in
      if length h \<noteq> 32 then None
      else (case int16 h of
              None \<Rightarrow> None
            | Some n \<Rightarrow> if 0 \<le> n \<and> n < 2 ^ 128 then Some (of_int n) else None))"

text \<open>len(s.encode('utf-8')); None is UnicodeEncodeError (a surrogate).\<close>

definition utf8_width :: "nat \<Rightarrow> nat option" where
  "utf8_width c =
     (if c < 0x80 then Some 1
      else if c < 0x800 then Some 2
      else if 0xD800 \<le> c \<and> c \<le> 0xDFFF then None
      else if c < 0x10000 then Some 3
      else if c \<le> 0x10FFFF then Some 4
      else None)"

fun utf8_length :: "codepoints \<Rightarrow> nat option" where
  "utf8_length [] = Some 0"
| "utf8_length (c # cs) =
     (case (utf8_width c, utf8_length cs) of
        (Some w, Some n) \<Rightarrow> Some (w + n)
      | _ \<Rightarrow> None)"

section \<open>Anchored patterns\<close>

lemma match_dollar_iff:
  "match_dollar core s \<longleftrightarrow> core s \<or> (\<exists>t. s = t @ [newline] \<and> core t)"
  by (auto simp: match_dollar_def) (metis append_butlast_last_id)

section \<open>Hexadecimal round trips\<close>

lemma hexval_hexdigit: "n < 16 \<Longrightarrow> hexval (hexdigit n) = Some n"
  by (auto simp: hexval_def hexdigit_def is_digit_def in_range_def)

lemma hexdigit_range:
  "n < 16 \<Longrightarrow> (48 \<le> code_of (hexdigit n) \<and> code_of (hexdigit n) \<le> 57) \<or>
               (97 \<le> code_of (hexdigit n) \<and> code_of (hexdigit n) \<le> 102)"
  by (auto simp: hexdigit_def)

lemma is_space_hexdigit: "n < 16 \<Longrightarrow> \<not> is_space (hexdigit n)"
  using hexdigit_range [of n] by (auto simp: is_space_def in_range_def)

lemma hexdigit_neq:
  assumes "n < 16" and "code_of c < 48 \<or> (57 < code_of c \<and> code_of c < 97) \<or> 102 < code_of c"
  shows "hexdigit n \<noteq> c"
  using hexdigit_range [OF assms(1)] assms(2) by auto

lemma byte_hex_split: "of_nat (16 * (unat b div 16) + unat b mod 16) = (b :: 8 word)"
  by simp

lemma unat_byte_bounds: "unat (b :: 8 word) div 16 < 16" "unat b mod 16 < 16"
  using unsigned_less [of b, where 'a = nat] by auto

theorem fromhex_hex: "fromhex (hex bs) = Some bs"
proof (induction bs)
  case Nil
  then show ?case by (simp add: hex_def)
next
  case (Cons b bs)
  then show ?case
    by (simp add: hex_def byte_hex_def is_space_hexdigit hexval_hexdigit unat_byte_bounds
          byte_hex_split del: of_nat_add of_nat_mult)
qed

lemma length_hexn [simp]: "length (hexn k n) = k"
  by (induction k arbitrary: n) auto

lemma set_hexn: "c \<in> set (hexn k n) \<Longrightarrow> \<exists>d < 16. c = hexdigit d"
proof (induction k arbitrary: n)
  case 0
  then show ?case by simp
next
  case (Suc k)
  show ?case
  proof (cases "c = hexdigit (n mod 16)")
    case True
    then show ?thesis by (intro exI [of _ "n mod 16"]) simp
  next
    case False
    with Suc show ?thesis by simp
  qed
qed

lemma hex_digits_append:
  assumes "\<forall>c \<in> set xs. hexval c \<noteq> None \<and> c \<noteq> CHR ''_''"
  shows "hex_digits acc (xs @ ys) =
           (case hex_digits acc xs of None \<Rightarrow> None | Some a \<Rightarrow> hex_digits a ys)"
  using assms
proof (induction xs arbitrary: acc)
  case Nil
  then show ?case by simp
next
  case (Cons x xs)
  then obtain v where v: "hexval x = Some v" "x \<noteq> CHR ''_''" by auto
  have "\<forall>c \<in> set xs. hexval c \<noteq> None \<and> c \<noteq> CHR ''_''" using Cons.prems by simp
  from Cons.IH [OF this, of "acc * 16 + v"] v show ?case by simp
qed

lemma hexdigit_not_special:
  assumes "d < 16"
  shows "hexdigit d \<noteq> CHR ''_''" "hexdigit d \<noteq> CHR ''-''" "hexdigit d \<noteq> CHR ''+''"
    "hexdigit d \<noteq> CHR ''x''" "hexdigit d \<noteq> CHR ''X''" "hexdigit d \<noteq> CHR ''u''"
    "hexdigit d \<noteq> CHR ''{''" "hexdigit d \<noteq> CHR ''}''" "\<not> is_space (hexdigit d)"
  using hexdigit_range [OF assms] is_space_hexdigit [OF assms] by auto

lemma hexn_not_special:
  "c \<in> set (hexn k n) \<Longrightarrow> hexval c \<noteq> None \<and> c \<noteq> CHR ''_'' \<and> c \<noteq> CHR ''-'' \<and> c \<noteq> CHR ''+'' \<and>
     c \<noteq> CHR ''x'' \<and> c \<noteq> CHR ''X'' \<and> c \<noteq> CHR ''u'' \<and> c \<noteq> CHR ''{'' \<and> c \<noteq> CHR ''}'' \<and> \<not> is_space c"
  using hexdigit_not_special hexval_hexdigit by (fastforce dest!: set_hexn)

lemma hex_digits_hexn: "hex_digits acc (hexn k n) = Some (acc * 16 ^ k + n mod 16 ^ k)"
proof (induction k arbitrary: n)
  case 0
  then show ?case by simp
next
  case (Suc k)
  have "hex_digits acc (hexn k (n div 16) @ [hexdigit (n mod 16)]) =
          hex_digits (acc * 16 ^ k + (n div 16) mod 16 ^ k) [hexdigit (n mod 16)]"
    by (subst hex_digits_append) (auto simp: Suc.IH dest: hexn_not_special)
  also have "\<dots> = Some ((acc * 16 ^ k + (n div 16) mod 16 ^ k) * 16 + n mod 16)"
    by (simp add: hexdigit_not_special hexval_hexdigit)
  also have "(acc * 16 ^ k + (n div 16) mod 16 ^ k) * 16 + n mod 16 =
               acc * 16 ^ Suc k + n mod 16 ^ Suc k"
    by (simp add: mod_mult2_eq algebra_simps)
  finally show ?case by simp
qed

lemma dropWhile_none: "(\<And>c. c \<in> set s \<Longrightarrow> \<not> P c) \<Longrightarrow> dropWhile P s = s"
  by (cases s) auto

lemma strip_by_none: "(\<And>c. c \<in> set s \<Longrightarrow> \<not> P c) \<Longrightarrow> strip_by P s = s"
  using dropWhile_none [of s P] dropWhile_none [of "rev s" P] by (simp add: strip_by_def)

lemma remove_sub_none: "p \<noteq> [] \<Longrightarrow> hd p \<notin> set s \<Longrightarrow> remove_sub p s = s"
  by (induction s) (auto simp: neq_Nil_conv)

lemma remove_sub_char: "remove_sub [c] s = filter (\<lambda>x. x \<noteq> c) s"
  by (induction s) auto

lemma filter_none: "(\<And>x. x \<in> set xs \<Longrightarrow> x \<noteq> c) \<Longrightarrow> filter (\<lambda>x. x \<noteq> c) xs = xs"
  by (induction xs) auto

lemma uuid_str_set:
  "c \<in> set (uuid_str u) \<Longrightarrow> c = CHR ''-'' \<or> c \<in> set (uuid_hex u)"
  by (auto simp: uuid_str_def Let_def dest: in_set_takeD in_set_dropD)

lemma groups_join:
  "take 8 h @ take 4 (drop 8 h) @ take 4 (drop 12 h) @ take 4 (drop 16 h) @ drop 20 h = h"
proof -
  have "take 4 (drop 16 h) @ drop 20 h = drop 16 h"
    using append_take_drop_id [of 4 "drop 16 h"] by simp
  moreover have "take 4 (drop 12 h) @ drop 16 h = drop 12 h"
    using append_take_drop_id [of 4 "drop 12 h"] by simp
  moreover have "take 4 (drop 8 h) @ drop 12 h = drop 8 h"
    using append_take_drop_id [of 4 "drop 8 h"] by simp
  ultimately show ?thesis using append_take_drop_id [of 8 h] by simp
qed

lemma uuid_str_undash: "remove_sub ''-'' (uuid_str u) = uuid_hex u"
proof -
  let ?h = "uuid_hex u"
  have nodash: "c \<noteq> CHR ''-''" if "c \<in> set ?h" for c
    using that by (auto simp: uuid_hex_def dest: hexn_not_special)
  have f: "filter (\<lambda>x. x \<noteq> CHR ''-'') (take n (drop m ?h)) = take n (drop m ?h)"
    "filter (\<lambda>x. x \<noteq> CHR ''-'') (take n ?h) = take n ?h"
    "filter (\<lambda>x. x \<noteq> CHR ''-'') (drop n ?h) = drop n ?h" for n m
    by (auto intro!: filter_none nodash dest: in_set_takeD in_set_dropD)
  show ?thesis
    by (simp add: uuid_str_def Let_def remove_sub_char f groups_join)
qed

lemma int16_hexn:
  assumes "0 < k"
  shows "int16 (hexn k n) = Some (int (n mod 16 ^ k))"
proof -
  have s: "strip (hexn k n) = hexn k n"
    unfolding strip_def by (rule strip_by_none) (auto dest: hexn_not_special)
  obtain c cs where h: "hexn k n = c # cs"
    using assms length_hexn [of k n] by (cases "hexn k n") auto
  have c: "c \<noteq> CHR ''_''" "c \<noteq> CHR ''-''" "c \<noteq> CHR ''+''"
    using hexn_not_special [of c k n] h by auto
  have "CHR ''x'' \<notin> set (take 2 (hexn k n))" "CHR ''X'' \<notin> set (take 2 (hexn k n))"
    by (auto dest!: in_set_takeD hexn_not_special)
  then have x: "take 2 (hexn k n) \<noteq> ''0x''" "take 2 (hexn k n) \<noteq> ''0X''"
    by auto
  have "take 1 (hexn k n) \<noteq> ''_''" "hexn k n \<noteq> []"
    using c h by auto
  then have "int16_body (hexn k n) = Some (n mod 16 ^ k)"
    unfolding int16_body_def using x by (simp only: if_False simp_thms hex_digits_hexn) simp
  moreover have "int16 (hexn k n) = map_option int (int16_body (hexn k n))"
    unfolding int16_def s using c by (simp add: h)
  ultimately show ?thesis by simp
qed

theorem uuid_parse_str: "uuid_parse (uuid_str u) = Some u"
proof -
  have nou: "CHR ''u'' \<notin> set (uuid_str u)" "CHR ''{'' \<notin> set (uuid_str u)" "CHR ''}'' \<notin> set (uuid_str u)"
    by (auto dest!: uuid_str_set simp: uuid_hex_def dest: hexn_not_special)
  have p: "remove_sub ''urn:'' (uuid_str u) = uuid_str u"
    "remove_sub ''uuid:'' (uuid_str u) = uuid_str u"
    using nou by (auto intro!: remove_sub_none)
  have q: "strip_by (\<lambda>c. c = CHR ''{'' \<or> c = CHR ''}'') (uuid_str u) = uuid_str u"
    using nou by (intro strip_by_none) auto
  have lt: "unat u < 2 ^ 128" using unsigned_less [of u, where 'a = nat] by simp
  have "int16 (uuid_hex u) = Some (int (unat u))"
    using lt by (simp add: uuid_hex_def int16_hexn)
  moreover have "uint u < 2 ^ 128" using unsigned_less [of u, where 'a = int] by simp
  ultimately show ?thesis
    by (simp add: uuid_parse_def Let_def p q uuid_str_undash uuid_hex_def)
qed

lemma uuid_str_inj: "uuid_str u = uuid_str v \<longleftrightarrow> u = v"
  by (metis option.inject uuid_parse_str)

section \<open>UTF-8 lengths\<close>

lemma utf8_width_bounds: "utf8_width c = Some w \<Longrightarrow> 1 \<le> w \<and> w \<le> 4"
  by (auto simp: utf8_width_def split: if_splits)

lemma utf8_length_bounds: "utf8_length cs = Some n \<Longrightarrow> length cs \<le> n \<and> n \<le> 4 * length cs"
proof (induction cs arbitrary: n)
  case Nil
  then show ?case by simp
next
  case (Cons c cs)
  then show ?case
    by (force split: option.splits dest: utf8_width_bounds)
qed

section \<open>Splitting\<close>

lemma split_on_nonempty [simp]: "split_on c s \<noteq> []"
  by (induction s) (auto split: list.splits)

lemma split_on_no_sep: "c \<notin> set s \<Longrightarrow> split_on c s = [s]"
  by (induction s) auto

lemma split_on_append:
  "c \<notin> set s \<Longrightarrow> split_on c (s @ c # t) = s # split_on c t"
  by (induction s) auto

lemma length_uuid_str [simp]: "length (uuid_str u) = 36"
  by (simp add: uuid_str_def uuid_hex_def Let_def)

end
