(* ===== verification/Errors.thy ===== *)
theory Errors
  imports Py_Text
begin

text \<open>
  The exceptions the program raises, as one datatype with the source's class names as
  constructors and the dataclass fields as arguments; their HTTP status and their message
  (\<open>status\<close> and \<open>detail\<close>). The classes come from domain/common/exceptions.py,
  domain/user/exceptions.py, the value objects, application/common/exceptions.py,
  application/user/two_factor_challenge.py, infrastructure/secret_cipher.py and
  infrastructure/hydra/exceptions.py. Exceptions that are not application errors (ValueError,
  the database's IntegrityError, the Hydra adapter's errors, the HTTP library's TransportError) have no status of their own.
\<close>

datatype (plugins only: code size) app_error =
    EmptyEmailError string
  | InvalidEmailFormatError string
  | EmptyUsernameError string
  | TooLongUsernameError string
  | WrongUsernameFormatError string
  | EmptyPasswordError codepoints
  | PasswordTooShortError codepoints
  | PasswordTooLongError codepoints
  | PasswordTooWeakError codepoints
  | WrongTokenHashError
  | WrongRoleIDError uuid
  | WrongUserIDError uuid
  | WrongRoleNameError string
  | WrongPermissionNameError string
  | UserIsDeletedError uuid
  | UsernameAlreadyExistsError "string option"
  | EmailAlreadyExistsError "string option"
  | InvalidCredentialsError "string option"
  | UserNotFoundError "string option"
  | InvalidTokenError "string option"
  | AccountLockedError "string option"
  | EmailNotVerifiedError
  | PasswordResetExpiredError
  | PermissionDeniedError "string option"
  | RoleNotFoundError "string option"
  | RoleAlreadyExistsError "string option"
  | TwoFactorAlreadyEnabledError
  | TwoFactorNotEnrolledError
  | ConcurrentModificationError "string option"
  | RefreshTokenReuseError
  | ConfigurationError string
  | TooManyLoginAttemptsError "int option"
  | OAuthClientNotFoundError string
  | TwoFactorChallengeExpiredError
  | SecretDecryptionError
  | ValueError string
  | UnicodeEncodeError
  | IntegrityError string
  | ProviderClientNotFoundError string
  | HydraAdminError int string
  | HydraChallengeNotFoundError int string
  | HydraChallengeGoneError int string
  | HydraClientNotFoundError int string
  | TransportError string

text \<open>The class attribute \<open>status\<close>; None for exceptions outside the BaseAppError hierarchy.\<close>

primrec status :: "app_error \<Rightarrow> int option" where
  "status (EmptyEmailError x) = Some 400"
| "status (InvalidEmailFormatError x) = Some 400"
| "status (EmptyUsernameError x) = Some 400"
| "status (TooLongUsernameError x) = Some 400"
| "status (WrongUsernameFormatError x) = Some 400"
| "status (EmptyPasswordError x) = Some 400"
| "status (PasswordTooShortError x) = Some 400"
| "status (PasswordTooLongError x) = Some 400"
| "status (PasswordTooWeakError x) = Some 400"
| "status WrongTokenHashError = Some 400"
| "status (WrongRoleIDError x) = Some 400"
| "status (WrongUserIDError x) = Some 400"
| "status (WrongRoleNameError x) = Some 400"
| "status (WrongPermissionNameError x) = Some 400"
| "status (UserIsDeletedError x) = Some 403"
| "status (UsernameAlreadyExistsError x) = Some 409"
| "status (EmailAlreadyExistsError x) = Some 409"
| "status (InvalidCredentialsError x) = Some 401"
| "status (UserNotFoundError x) = Some 404"
| "status (InvalidTokenError x) = Some 400"
| "status (AccountLockedError x) = Some 423"
| "status EmailNotVerifiedError = Some 403"
| "status PasswordResetExpiredError = Some 400"
| "status (PermissionDeniedError x) = Some 403"
| "status (RoleNotFoundError x) = Some 404"
| "status (RoleAlreadyExistsError x) = Some 409"
| "status TwoFactorAlreadyEnabledError = Some 409"
| "status TwoFactorNotEnrolledError = Some 400"
| "status (ConcurrentModificationError x) = Some 409"
| "status RefreshTokenReuseError = Some 401"
| "status (ConfigurationError x) = Some 500"
| "status (TooManyLoginAttemptsError x) = Some 429"
| "status (OAuthClientNotFoundError x) = Some 404"
| "status TwoFactorChallengeExpiredError = Some 401"
| "status SecretDecryptionError = Some 500"
| "status (ValueError x) = None"
| "status UnicodeEncodeError = None"
| "status (IntegrityError x) = None"
| "status (ProviderClientNotFoundError x) = None"
| "status (HydraAdminError x y) = None"
| "status (HydraChallengeNotFoundError x y) = None"
| "status (HydraChallengeGoneError x y) = None"
| "status (HydraClientNotFoundError x y) = None"
| "status (TransportError x) = None"

text \<open>\<open>self.message or default\<close>: None and the empty string both fall back.\<close>

fun or_default :: "string option \<Rightarrow> string \<Rightarrow> string" where
  "or_default None d = d"
| "or_default (Some m) d = (if m = [] then d else m)"

definition quoted :: "string \<Rightarrow> string" where
  "quoted s = CHR 0x22 # s @ [CHR 0x22]"

text \<open>The property \<open>detail\<close> of each class (for exceptions outside the hierarchy, \<open>str(exc)\<close>).\<close>

primrec detail :: "app_error \<Rightarrow> string" where
  "detail (EmptyEmailError x) = ''Email can'' @ [CHR 0x27] @ ''t be empty''"
| "detail (InvalidEmailFormatError e) = ''Invalid email format '' @ quoted e"
| "detail (EmptyUsernameError x) = ''Username can'' @ [CHR 0x27] @ ''t be empty''"
| "detail (TooLongUsernameError u) = ''Too long username '' @ quoted u"
| "detail (WrongUsernameFormatError u) = ''Wrong username format '' @ quoted u"
| "detail (EmptyPasswordError x) = ''Password can'' @ [CHR 0x27] @ ''t be empty''"
| "detail (PasswordTooShortError x) = ''Password must be at least 8 characters long''"
| "detail (PasswordTooLongError x) = ''Password must be at most 72 bytes long''"
| "detail (PasswordTooWeakError x) =
     ''Password must contain at least one lowercase letter, one uppercase letter, '' @
     ''one digit, and one non-alphanumeric character''"
| "detail WrongTokenHashError = ''Token hash cannot be empty''"
| "detail (WrongRoleIDError r) = ''Invalid role ID '' @ quoted (uuid_str r)"
| "detail (WrongUserIDError u) = ''Invalid user ID '' @ quoted (uuid_str u)"
| "detail (WrongRoleNameError n) = ''Invalid role name '' @ quoted n"
| "detail (WrongPermissionNameError n) = ''Invalid permission name '' @ quoted n"
| "detail (UserIsDeletedError u) = ''The user with '' @ quoted (uuid_str u) @ '' user_id is deleted''"
| "detail (UsernameAlreadyExistsError o1) =
     (case o1 of None \<Rightarrow> ''A user with the username already exists'' | Some u \<Rightarrow> ''A user with the '' @ quoted u @ '' username already exists'')"
| "detail (EmailAlreadyExistsError o1) =
     (case o1 of None \<Rightarrow> ''A user with the email already exists'' | Some e \<Rightarrow> ''A user with the '' @ quoted e @ '' email already exists'')"
| "detail (InvalidCredentialsError m) = or_default m ''Invalid username/email or password''"
| "detail (UserNotFoundError o1) =
     (case o1 of None \<Rightarrow> ''User not found'' | Some u \<Rightarrow> ''User with '' @ quoted u @ '' not found'')"
| "detail (InvalidTokenError m) = or_default m ''Invalid or expired token''"
| "detail (AccountLockedError x) = ''Account is locked due to too many failed login attempts''"
| "detail EmailNotVerifiedError = ''Email not verified''"
| "detail PasswordResetExpiredError = ''Password reset token has expired''"
| "detail (PermissionDeniedError o1) =
     (case o1 of None \<Rightarrow> ''Permission denied'' | Some p \<Rightarrow> ''Permission '' @ quoted p @ '' denied'')"
| "detail (RoleNotFoundError o1) =
     (case o1 of None \<Rightarrow> ''Role not found'' | Some r \<Rightarrow> ''Role '' @ quoted r @ '' not found'')"
| "detail (RoleAlreadyExistsError o1) =
     (case o1 of None \<Rightarrow> ''Role already exists'' | Some r \<Rightarrow> ''Role '' @ quoted r @ '' already exists'')"
| "detail TwoFactorAlreadyEnabledError =
     ''Two-factor authentication is already enabled; disable it first to re-enrol''"
| "detail TwoFactorNotEnrolledError = ''Two-factor authentication is not enrolled''"
| "detail (ConcurrentModificationError x) = ''The record was modified concurrently; please retry''"
| "detail RefreshTokenReuseError =
     ''Refresh token was already used; the session has been revoked''"
| "detail (ConfigurationError m) = or_default (Some m) ''The service is misconfigured''"
| "detail (TooManyLoginAttemptsError x) = ''Too many login attempts, try again later''"
| "detail (OAuthClientNotFoundError c) = ''OAuth client '' @ quoted c @ '' not found''"
| "detail TwoFactorChallengeExpiredError = ''Two-factor challenge expired; sign in again''"
| "detail SecretDecryptionError =
     ''A stored secret could not be decrypted. This means '' @
     ''SECRET_ENCRYPTION_KEY has changed since it was written.''"
| "detail (ValueError m) = m"
| "detail UnicodeEncodeError = ''surrogates not allowed''"
| "detail (IntegrityError c) = c"
| "detail (ProviderClientNotFoundError m) = m"
| "detail (HydraAdminError x m) = m"
| "detail (HydraChallengeNotFoundError x m) = m"
| "detail (HydraChallengeGoneError x m) = m"
| "detail (HydraClientNotFoundError x m) = m"
| "detail (TransportError m) = m"

section \<open>What a client can learn from an error\<close>

lemma status_range:
  "status e = Some n \<Longrightarrow> n \<in> {400, 401, 403, 404, 409, 423, 429, 500}"
  by (cases e) auto

lemma detail_account_locked: "detail (AccountLockedError i) = detail (AccountLockedError j)"
  by simp

end
