(* ===== verification/Value_Objects.thy ===== *)
theory Value_Objects
  imports Errors
begin

text \<open>
  The value objects of domain/user/value_objects. A value object with one field is represented by
  that field, and its constructor (which validates) by a function into \<open>app_error + _\<close> named after
  the class; \<open>to_raw\<close> is then the identity. Value objects with several fields are records with the
  source's field names. Every method that reads the clock takes the instant as an argument.

  Code outside the repository enters through the record \<open>env\<close>: the SHA-256 digest, the random
  sources (secrets, uuid4) indexed by a draw counter, bcrypt, pyotp, Fernet, pydantic's JSON
  codec for stored challenges, datetime.isoformat and the Unicode character predicates.
\<close>

type_synonym user_id = uuid
type_synonym role_id = uuid
type_synonym token_hash = bytes

text \<open>The fields a cached two-factor challenge is serialised with
  (infrastructure/two_factor_challenge_store.py, _StoredChallenge).\<close>

record stored_challenge =
  sc_user_id :: uuid
  sc_user_agent :: "string option"
  sc_ip_address :: "string option"
  sc_attempts :: int
  sc_login_challenge :: "string option"

record env =
  sha256 :: "string \<Rightarrow> 256 word"
  uuid4 :: "nat \<Rightarrow> uuid"
  token_urlsafe :: "nat \<Rightarrow> nat \<Rightarrow> string"
  token_hex :: "nat \<Rightarrow> nat \<Rightarrow> string"
  bcrypt_hashpw :: "codepoints \<Rightarrow> nat \<Rightarrow> bytes"
  bcrypt_checkpw :: "codepoints \<Rightarrow> bytes \<Rightarrow> bool"
  totp_random_secret :: "nat \<Rightarrow> string"
  totp_verify :: "string \<Rightarrow> string \<Rightarrow> datetime \<Rightarrow> bool"
  totp_provisioning_uri :: "string \<Rightarrow> string \<Rightarrow> string"
  fernet_encrypt :: "string \<Rightarrow> bytes"
  fernet_decrypt :: "bytes \<Rightarrow> string option"
  dump_challenge :: "stored_challenge \<Rightarrow> string"
  validate_challenge :: "string \<Rightarrow> stored_challenge option"
  isoformat :: "datetime \<Rightarrow> string"
  uni_islower :: "nat \<Rightarrow> bool"
  uni_isupper :: "nat \<Rightarrow> bool"
  uni_isdigit :: "nat \<Rightarrow> bool"
  uni_isalnum :: "nat \<Rightarrow> bool"

section \<open>Identifiers and names\<close>

definition UserID :: "uuid \<Rightarrow> app_error + user_id" where
  "UserID v = (if v = NIL_UUID then Inl (WrongUserIDError v) else Inr v)"

definition RoleID :: "uuid \<Rightarrow> app_error + role_id" where
  "RoleID v = (if v = NIL_UUID then Inl (WrongRoleIDError v) else Inr v)"

definition MAX_USERNAME_LENGTH :: nat where
  "MAX_USERNAME_LENGTH = 32"

definition username_core :: "string \<Rightarrow> bool" where
  "username_core s =
     (case s of [] \<Rightarrow> False
      | c # cs \<Rightarrow> is_alpha c \<and> cs \<noteq> [] \<and> list_all (\<lambda>x. is_alnum x \<or> x = CHR ''_'') cs)"

definition USERNAME_PATTERN :: "string \<Rightarrow> bool" where
  "USERNAME_PATTERN s = match_dollar username_core s"

definition Username :: "string \<Rightarrow> app_error + string" where
  "Username v =
     (if length v = 0 then Inl (EmptyUsernameError v)
      else if length v > MAX_USERNAME_LENGTH then Inl (TooLongUsernameError v)
      else if \<not> USERNAME_PATTERN v then Inl (WrongUsernameFormatError v)
      else Inr v)"

definition role_name_core :: "string \<Rightarrow> bool" where
  "role_name_core s =
     (case s of [] \<Rightarrow> False
      | c # cs \<Rightarrow> is_alpha c \<and> 2 \<le> length cs \<and> length cs \<le> 31 \<and>
          list_all (\<lambda>x. is_alnum x \<or> x = CHR ''_'' \<or> x = CHR ''-'') cs)"

definition ROLE_NAME_PATTERN :: "string \<Rightarrow> bool" where
  "ROLE_NAME_PATTERN s = match_dollar role_name_core s"

definition RoleName :: "string \<Rightarrow> app_error + string" where
  "RoleName v =
     (if v = [] then Inl (WrongRoleNameError v)
      else if \<not> ROLE_NAME_PATTERN v then Inl (WrongRoleNameError v)
      else Inr v)"

definition local_char :: "char \<Rightarrow> bool" where
  "local_char c = (is_alnum c \<or> c \<in> set ''._%+-'')"

definition domain_char :: "char \<Rightarrow> bool" where
  "domain_char c = (is_alnum c \<or> c \<in> set ''.-'')"

text \<open>The domain part \<open>[a-zA-Z0-9.-]+\.[a-zA-Z]{2,}\<close>: the dot is the last one.\<close>

definition email_domain :: "string \<Rightarrow> bool" where
  "email_domain d =
     (let tld = rev (takeWhile (\<lambda>c. c \<noteq> CHR ''.'') (rev d));
          front = rev (dropWhile (\<lambda>c. c \<noteq> CHR ''.'') (rev d)) in
      front \<noteq> [] \<and> butlast front \<noteq> [] \<and> list_all domain_char (butlast front) \<and>
      2 \<le> length tld \<and> list_all is_alpha tld)"

definition email_core :: "string \<Rightarrow> bool" where
  "email_core s =
     (let l = takeWhile (\<lambda>c. c \<noteq> CHR ''@'') s; r = dropWhile (\<lambda>c. c \<noteq> CHR ''@'') s in
      l \<noteq> [] \<and> list_all local_char l \<and> r \<noteq> [] \<and> email_domain (tl r))"

definition EMAIL_PATTERN :: "string \<Rightarrow> bool" where
  "EMAIL_PATTERN s = match_dollar email_core s"

definition Email :: "string option \<Rightarrow> app_error + string option" where
  "Email v =
     (case v of
        None \<Rightarrow> Inr None
      | Some s \<Rightarrow>
          if s = [] then Inl (EmptyEmailError s)
          else if \<not> EMAIL_PATTERN s then Inl (InvalidEmailFormatError s)
          else Inr (Some s))"

section \<open>Passwords\<close>

definition MIN_PASSWORD_LENGTH :: nat where
  "MIN_PASSWORD_LENGTH = 8"

definition MAX_PASSWORD_BYTES :: nat where
  "MAX_PASSWORD_BYTES = 72"

definition has_required_mix :: "env \<Rightarrow> codepoints \<Rightarrow> bool" where
  "has_required_mix E v =
     (list_ex (uni_islower E) v \<and> list_ex (uni_isupper E) v \<and> list_ex (uni_isdigit E) v \<and>
      list_ex (\<lambda>c. \<not> uni_isalnum E c) v)"

definition PlainPassword :: "env \<Rightarrow> codepoints \<Rightarrow> app_error + codepoints" where
  "PlainPassword E v =
     (if v = [] then Inl (EmptyPasswordError v)
      else if length v < MIN_PASSWORD_LENGTH then Inl (PasswordTooShortError v)
      else (case utf8_length v of
              None \<Rightarrow> Inl UnicodeEncodeError
            | Some n \<Rightarrow>
                if n > MAX_PASSWORD_BYTES then Inl (PasswordTooLongError v)
                else if \<not> has_required_mix E v then Inl (PasswordTooWeakError v)
                else Inr v))"

definition HashedPassword :: "bytes \<Rightarrow> app_error + bytes" where
  "HashedPassword v =
     (if v = [] then Inl (ValueError ''Hashed password cannot be empty'') else Inr v)"

section \<open>Token hashes and tokens\<close>

definition TokenHash :: "bytes \<Rightarrow> app_error + token_hash" where
  "TokenHash v = (if v = [] then Inl WrongTokenHashError else Inr v)"

text \<open>hashlib.sha256(...).digest(): the 32 bytes of the digest, most significant first.\<close>

definition digest_bytes :: "256 word \<Rightarrow> bytes" where
  "digest_bytes w = map (\<lambda>i. ucast (drop_bit (8 * (31 - i)) w)) [0..<32]"

definition from_raw :: "env \<Rightarrow> string \<Rightarrow> token_hash" where
  "from_raw E raw_token = digest_bytes (sha256 E raw_token)"

record secure_token =
  st_value :: string
  st_created_at :: "datetime option"
  st_expires_at :: "datetime option"

definition secure_token_create :: "env \<Rightarrow> nat \<Rightarrow> datetime \<Rightarrow> nat \<Rightarrow> int \<Rightarrow> secure_token" where
  "secure_token_create E draw now len expires_in_hours =
     \<lparr>st_value = token_urlsafe E len draw, st_created_at = Some now,
      st_expires_at = Some (now + hours expires_in_hours)\<rparr>"

definition secure_token_create_hex :: "env \<Rightarrow> nat \<Rightarrow> datetime \<Rightarrow> nat \<Rightarrow> int \<Rightarrow> secure_token" where
  "secure_token_create_hex E draw now len expires_in_hours =
     \<lparr>st_value = token_hex E len draw, st_created_at = Some now,
      st_expires_at = Some (now + hours expires_in_hours)\<rparr>"

definition secure_token_is_valid :: "secure_token \<Rightarrow> datetime \<Rightarrow> bool" where
  "secure_token_is_valid t now =
     (case st_expires_at t of None \<Rightarrow> False | Some e \<Rightarrow> now < e)"

section \<open>Deletion time\<close>

definition create_deleted :: "datetime \<Rightarrow> datetime option" where
  "create_deleted now = Some now"

definition create_not_deleted :: "datetime option" where
  "create_not_deleted = None"

definition deletion_is_deleted :: "datetime option \<Rightarrow> bool" where
  "deletion_is_deleted d = (d \<noteq> None)"

section \<open>Account lock\<close>

record account_lock_info =
  is_locked :: bool
  locked_at :: "datetime option"
  lock_reason :: "string option"
  failed_attempts :: int
  lock_until :: "datetime option"

definition lock_create :: account_lock_info where
  "lock_create =
     \<lparr>is_locked = False, locked_at = None, lock_reason = None, failed_attempts = 0,
      lock_until = None\<rparr>"

definition create_locked :: "datetime \<Rightarrow> string \<Rightarrow> datetime option \<Rightarrow> account_lock_info" where
  "create_locked now reason until =
     \<lparr>is_locked = True, locked_at = Some now, lock_reason = Some reason, failed_attempts = 0,
      lock_until = until\<rparr>"

definition lock_window_elapsed :: "account_lock_info \<Rightarrow> datetime \<Rightarrow> bool" where
  "lock_window_elapsed l now =
     (is_locked l \<and> (case lock_until l of None \<Rightarrow> False | Some t \<Rightarrow> now \<ge> t))"

definition is_locked_out :: "account_lock_info \<Rightarrow> datetime \<Rightarrow> bool" where
  "is_locked_out l now = (if \<not> is_locked l then False else \<not> lock_window_elapsed l now)"

definition record_failed_attempt ::
    "account_lock_info \<Rightarrow> datetime \<Rightarrow> int \<Rightarrow> int \<Rightarrow> account_lock_info" where
  "record_failed_attempt l now max_attempts lockout_duration_minutes =
     (let base_attempts = (if lock_window_elapsed l now then 0 else failed_attempts l);
          new_failed_attempts = base_attempts + 1;
          locked = (new_failed_attempts \<ge> max_attempts) in
      \<lparr>is_locked = locked, locked_at = locked_at l, lock_reason = lock_reason l,
       failed_attempts = new_failed_attempts,
       lock_until = (if locked then Some (now + minutes lockout_duration_minutes) else None)\<rparr>)"

definition lock_record_successful_login :: "account_lock_info \<Rightarrow> account_lock_info" where
  "lock_record_successful_login l =
     \<lparr>is_locked = False, locked_at = None, lock_reason = None, failed_attempts = 0,
      lock_until = None\<rparr>"

definition lock_unlock :: "account_lock_info \<Rightarrow> account_lock_info" where
  "lock_unlock l =
     l\<lparr>is_locked := False, lock_reason := None, failed_attempts := 0, lock_until := None\<rparr>"

text \<open>A run of failed logins at the given instants.\<close>

definition fail_logins ::
    "account_lock_info \<Rightarrow> datetime list \<Rightarrow> int \<Rightarrow> int \<Rightarrow> account_lock_info" where
  "fail_logins l ts m d = foldl (\<lambda>l t. record_failed_attempt l t m d) l ts"

section \<open>Email verification and password reset\<close>

record email_verification =
  is_verified :: bool
  ev_token_hash :: "token_hash option"
  verified_at :: "datetime option"
  ev_expires_at :: "datetime option"

definition create_unverified :: "env \<Rightarrow> datetime \<Rightarrow> string \<Rightarrow> int \<Rightarrow> email_verification" where
  "create_unverified E now tok expires_in_hours =
     \<lparr>is_verified = False, ev_token_hash = Some (from_raw E tok), verified_at = None,
      ev_expires_at = Some (now + hours expires_in_hours)\<rparr>"

definition ev_verify :: "env \<Rightarrow> email_verification \<Rightarrow> datetime \<Rightarrow> string \<Rightarrow> bool" where
  "ev_verify E v now tok =
     (if is_verified v then True
      else (case ev_token_hash v of
              None \<Rightarrow> False
            | Some h \<Rightarrow>
                if h \<noteq> from_raw E tok then False
                else \<not> (case ev_expires_at v of None \<Rightarrow> False | Some e \<Rightarrow> now \<ge> e)))"

definition mark_verified :: "datetime \<Rightarrow> email_verification \<Rightarrow> email_verification" where
  "mark_verified now v =
     \<lparr>is_verified = True, ev_token_hash = None, verified_at = Some now, ev_expires_at = None\<rparr>"

record password_reset_token =
  pr_token_hash :: token_hash
  pr_created_at :: "datetime option"
  pr_expires_at :: "datetime option"
  is_used :: bool

definition password_reset_create :: "env \<Rightarrow> datetime \<Rightarrow> string \<Rightarrow> int \<Rightarrow> password_reset_token" where
  "password_reset_create E now tok expires_in_hours =
     \<lparr>pr_token_hash = from_raw E tok, pr_created_at = Some now,
      pr_expires_at = Some (now + hours expires_in_hours), is_used = False\<rparr>"

definition password_reset_is_valid :: "password_reset_token \<Rightarrow> datetime \<Rightarrow> bool" where
  "password_reset_is_valid t now =
     (\<not> is_used t \<and> (case pr_expires_at t of None \<Rightarrow> False | Some e \<Rightarrow> now < e))"

definition password_reset_matches :: "env \<Rightarrow> password_reset_token \<Rightarrow> string \<Rightarrow> bool" where
  "password_reset_matches E t tok = (pr_token_hash t = from_raw E tok)"

definition mark_used :: "password_reset_token \<Rightarrow> password_reset_token" where
  "mark_used t = t\<lparr>is_used := True\<rparr>"

section \<open>Two-factor secret\<close>

definition BACKUP_CODE_COUNT :: nat where
  "BACKUP_CODE_COUNT = 10"

definition BACKUP_CODE_BYTES :: nat where
  "BACKUP_CODE_BYTES = 8"

record two_factor_secret =
  secret :: string
  backup_code_hashes :: "token_hash list"
  enabled_at :: "datetime option"

definition two_factor_create :: "env \<Rightarrow> nat \<Rightarrow> string \<Rightarrow> two_factor_secret \<times> string list" where
  "two_factor_create E draw sec =
     (let codes = map (\<lambda>i. token_hex E BACKUP_CODE_BYTES (draw + i)) [0..<BACKUP_CODE_COUNT] in
      (\<lparr>secret = sec, backup_code_hashes = map (from_raw E) codes, enabled_at = None\<rparr>, codes))"

definition two_factor_enable :: "datetime \<Rightarrow> two_factor_secret \<Rightarrow> two_factor_secret" where
  "two_factor_enable now t = t\<lparr>enabled_at := Some now\<rparr>"

fun consume_loop ::
    "two_factor_secret \<Rightarrow> token_hash \<Rightarrow> token_hash list \<Rightarrow> two_factor_secret option" where
  "consume_loop t candidate [] = None"
| "consume_loop t candidate (stored # rest) =
     (if stored = candidate
      then Some (t\<lparr>backup_code_hashes := filter (\<lambda>held. held \<noteq> stored) (backup_code_hashes t)\<rparr>)
      else consume_loop t candidate rest)"

definition consume_backup_code :: "env \<Rightarrow> two_factor_secret \<Rightarrow> string \<Rightarrow> two_factor_secret option" where
  "consume_backup_code E t code = consume_loop t (from_raw E code) (backup_code_hashes t)"

definition remaining_backup_codes :: "two_factor_secret \<Rightarrow> nat" where
  "remaining_backup_codes t = length (backup_code_hashes t)"

section \<open>A concrete environment\<close>

text \<open>An instance of the outside code with which the definitions can be evaluated.\<close>

definition sample_env :: env where
  "sample_env =
     \<lparr>sha256 = (\<lambda>s. of_nat (foldl (\<lambda>a c. a * 257 + code_of c + 1) 0 s)),
      uuid4 = (\<lambda>k. of_nat (k + 1)),
      token_urlsafe = (\<lambda>n k. CHR ''T'' # nat_str k),
      token_hex = (\<lambda>n k. CHR ''H'' # nat_str k),
      bcrypt_hashpw = (\<lambda>p k. 1 # map of_nat p),
      bcrypt_checkpw = (\<lambda>p h. h = 1 # map of_nat p),
      totp_random_secret = (\<lambda>k. CHR ''S'' # nat_str k),
      totp_verify = (\<lambda>sec code t. code = ''123456''),
      totp_provisioning_uri = (\<lambda>sec name. ''otpauth:'' @ sec),
      fernet_encrypt = (\<lambda>s. 1 # map (\<lambda>c. of_nat (code_of c)) s),
      fernet_decrypt = (\<lambda>bs. case bs of [] \<Rightarrow> None | b # r \<Rightarrow> Some (map (\<lambda>w. char_of (unat w)) r)),
      dump_challenge = (\<lambda>c. nat_str (nat (sc_attempts c))),
      validate_challenge = (\<lambda>s. None),
      isoformat = int_str,
      uni_islower = (\<lambda>c. 97 \<le> c \<and> c \<le> 122),
      uni_isupper = (\<lambda>c. 65 \<le> c \<and> c \<le> 90),
      uni_isdigit = (\<lambda>c. 48 \<le> c \<and> c \<le> 57),
      uni_isalnum = (\<lambda>c. (97 \<le> c \<and> c \<le> 122) \<or> (65 \<le> c \<and> c \<le> 90) \<or> (48 \<le> c \<and> c \<le> 57))\<rparr>"

lemma sample_env_simps [simp]:
  "totp_verify sample_env sec code t = (code = ''123456'')"
  "bcrypt_checkpw sample_env p h = (h = 1 # map of_nat p)"
  "bcrypt_hashpw sample_env p k = 1 # map of_nat p"
  "uuid4 sample_env k = of_nat (k + 1)"
  "uni_islower sample_env c = (97 \<le> c \<and> c \<le> 122)"
  "uni_isupper sample_env c = (65 \<le> c \<and> c \<le> 90)"
  "uni_isdigit sample_env c = (48 \<le> c \<and> c \<le> 57)"
  "uni_isalnum sample_env c = ((97 \<le> c \<and> c \<le> 122) \<or> (65 \<le> c \<and> c \<le> 90) \<or> (48 \<le> c \<and> c \<le> 57))"
  by (simp_all add: sample_env_def)

lemma sample_fernet: "fernet_decrypt sample_env (fernet_encrypt sample_env s) = Some s"
proof -
  have "map ((\<lambda>w. char_of (unat w)) \<circ> (\<lambda>c. of_nat (code_of c) :: 8 word)) s = map id s"
    by (rule map_cong) (auto simp: unat_of_nat of_char_mod_256)
  then show ?thesis by (simp add: sample_env_def)
qed

section \<open>Which names are accepted\<close>

lemma UserID_eq: "UserID v = Inr w \<longleftrightarrow> w = v \<and> v \<noteq> NIL_UUID"
  by (auto simp: UserID_def)

lemma RoleID_eq: "RoleID v = Inr w \<longleftrightarrow> w = v \<and> v \<noteq> NIL_UUID"
  by (auto simp: RoleID_def)

lemma Username_value: "Username v = Inr w \<Longrightarrow> w = v"
  by (auto simp: Username_def split: if_splits)

lemma Email_value: "Email v = Inr w \<Longrightarrow> w = v"
  by (auto simp: Email_def split: if_splits option.splits)

lemma RoleName_value: "RoleName v = Inr w \<Longrightarrow> w = v"
  by (auto simp: RoleName_def split: if_splits)

lemma PlainPassword_value: "PlainPassword E v = Inr w \<Longrightarrow> w = v"
  by (auto simp: PlainPassword_def split: if_splits option.splits)

lemma HashedPassword_eq: "HashedPassword v = Inr w \<longleftrightarrow> w = v \<and> v \<noteq> []"
  by (auto simp: HashedPassword_def)

lemma TokenHash_eq: "TokenHash v = Inr w \<longleftrightarrow> w = v \<and> v \<noteq> []"
  by (auto simp: TokenHash_def)

lemma length_from_raw [simp]: "length (from_raw E t) = 32"
  by (simp add: from_raw_def digest_bytes_def)

lemma from_raw_nonempty [simp]: "from_raw E t \<noteq> []"
  using length_from_raw [of E t] by (metis list.size(3) zero_neq_numeral)

lemma TokenHash_from_raw [simp]: "TokenHash (from_raw E t) = Inr (from_raw E t)"
  by (simp add: TokenHash_def)

lemma username_core_iff:
  "username_core s \<longleftrightarrow>
     (\<exists>c cs. s = c # cs \<and> is_alpha c \<and> cs \<noteq> [] \<and> list_all (\<lambda>x. is_alnum x \<or> x = CHR ''_'') cs)"
  by (auto simp: username_core_def split: list.splits)

lemma not_alnum_newline: "\<not> is_alnum newline"
  by (simp add: is_alnum_def is_alpha_def is_lower_def is_upper_def is_digit_def in_range_def
        newline_def)

text \<open>A username is accepted exactly when it has at most 32 characters and is a letter
  followed by one or more letters, digits or underscores, optionally followed by one newline
  character: the anchor \<open>$\<close> of the pattern also matches before a final newline, so the pattern
  does not exclude it.\<close>

theorem username_accepted_iff:
  "Username v = Inr v \<longleftrightarrow>
     length v \<le> 32 \<and>
     (\<exists>c cs. is_alpha c \<and> cs \<noteq> [] \<and> list_all (\<lambda>x. is_alnum x \<or> x = CHR ''_'') cs \<and>
        (v = c # cs \<or> v = c # cs @ [newline]))"
proof -
  let ?P = "\<lambda>c cs. is_alpha c \<and> cs \<noteq> [] \<and> list_all (\<lambda>x. is_alnum x \<or> x = CHR ''_'') cs"
  have "(\<exists>t. v = t @ [newline] \<and> username_core t) \<longleftrightarrow> (\<exists>c cs. v = c # cs @ [newline] \<and> ?P c cs)"
    unfolding username_core_iff by auto
  then have p: "USERNAME_PATTERN v \<longleftrightarrow> (\<exists>c cs. ?P c cs \<and> (v = c # cs \<or> v = c # cs @ [newline]))"
    unfolding USERNAME_PATTERN_def match_dollar_iff username_core_iff [of v] by blast
  have "Username v = Inr v \<longleftrightarrow> length v \<noteq> 0 \<and> length v \<le> 32 \<and> USERNAME_PATTERN v"
    by (auto simp: Username_def MAX_USERNAME_LENGTH_def)
  then show ?thesis unfolding p by auto
qed

lemma email_domain_iff:
  "email_domain d \<longleftrightarrow>
     (\<exists>a b. d = a @ ''.'' @ b \<and> a \<noteq> [] \<and> list_all domain_char a \<and> 2 \<le> length b \<and> list_all is_alpha b)"
  (is "?l \<longleftrightarrow> ?r")
proof
  assume l: ?l
  let ?b = "rev (takeWhile (\<lambda>c. c \<noteq> CHR ''.'') (rev d))"
  let ?f = "rev (dropWhile (\<lambda>c. c \<noteq> CHR ''.'') (rev d))"
  have fb: "d = ?f @ ?b"
    by (metis rev_append rev_rev_ident takeWhile_dropWhile_id)
  have "?f \<noteq> []" using l by (simp add: email_domain_def Let_def)
  moreover have "last ?f = CHR ''.''"
    using \<open>?f \<noteq> []\<close> hd_dropWhile [of "\<lambda>c. c \<noteq> CHR ''.''" "rev d"] by (simp add: last_rev)
  ultimately have "?f = butlast ?f @ ''.''"
    by (metis append_butlast_last_id)
  then have "d = butlast ?f @ ''.'' @ ?b" using fb by (metis append.assoc)
  moreover have "butlast ?f \<noteq> []" "list_all domain_char (butlast ?f)" "2 \<le> length ?b"
    "list_all is_alpha ?b"
    using l unfolding email_domain_def Let_def by blast+
  ultimately show ?r by blast
next
  assume ?r
  then obtain a b where d: "d = a @ ''.'' @ b" and h: "a \<noteq> []" "list_all domain_char a"
    "2 \<le> length b" "list_all is_alpha b" by blast
  have nb: "\<forall>c \<in> set (rev b). c \<noteq> CHR ''.''"
    using h(4) by (auto simp: list_all_iff is_alpha_def is_lower_def is_upper_def in_range_def)
  have "takeWhile (\<lambda>c. c \<noteq> CHR ''.'') (rev d) = rev b"
    "dropWhile (\<lambda>c. c \<noteq> CHR ''.'') (rev d) = CHR ''.'' # rev a"
    using nb by (simp_all add: d takeWhile_append dropWhile_append)
  then show ?l using h by (simp add: email_domain_def Let_def)
qed

lemma email_core_iff:
  "email_core s \<longleftrightarrow>
     (\<exists>l a b. s = l @ ''@'' @ a @ ''.'' @ b \<and> l \<noteq> [] \<and> list_all local_char l \<and>
        a \<noteq> [] \<and> list_all domain_char a \<and> 2 \<le> length b \<and> list_all is_alpha b)"
  (is "?l \<longleftrightarrow> ?r")
proof
  assume l: ?l
  let ?t = "takeWhile (\<lambda>c. c \<noteq> CHR ''@'') s" and ?d = "dropWhile (\<lambda>c. c \<noteq> CHR ''@'') s"
  have "?d \<noteq> []" using l by (simp add: email_core_def Let_def)
  then have "?d = CHR ''@'' # tl ?d"
    using hd_dropWhile [of "\<lambda>c. c \<noteq> CHR ''@''" s] by (metis (full_types) list.collapse)
  then have s: "s = ?t @ ''@'' @ tl ?d" by (metis append_Cons append_Nil takeWhile_dropWhile_id)
  have "email_domain (tl ?d)" using l by (simp add: email_core_def Let_def)
  then obtain a b where "tl ?d = a @ ''.'' @ b" "a \<noteq> []" "list_all domain_char a" "2 \<le> length b"
    "list_all is_alpha b" by (auto simp: email_domain_iff)
  moreover have "?t \<noteq> []" "list_all local_char ?t" using l by (auto simp: email_core_def Let_def)
  ultimately show ?r using s by metis
next
  assume ?r
  then obtain l a b where s: "s = l @ ''@'' @ a @ ''.'' @ b" and h: "l \<noteq> []" "list_all local_char l"
    "a \<noteq> []" "list_all domain_char a" "2 \<le> length b" "list_all is_alpha b" by blast
  have "\<forall>c \<in> set l. c \<noteq> CHR ''@''"
    using h(2) by (auto simp: list_all_iff local_char_def is_alnum_def is_alpha_def is_lower_def
        is_upper_def is_digit_def in_range_def)
  then have "takeWhile (\<lambda>c. c \<noteq> CHR ''@'') s = l"
    "dropWhile (\<lambda>c. c \<noteq> CHR ''@'') s = ''@'' @ a @ ''.'' @ b"
    by (simp_all add: s takeWhile_append dropWhile_append)
  then show ?l using h by (auto simp: email_core_def Let_def email_domain_iff)
qed

text \<open>An address is accepted exactly when it is local part, at sign, domain, dot and a
  top-level label of at least two letters over the pattern's character classes, optionally
  followed by one newline character: the split-based matcher decides the pattern of email.py.\<close>

theorem email_accepted_iff:
  "Email (Some v) = Inr (Some v) \<longleftrightarrow>
     (\<exists>l a b. (v = l @ ''@'' @ a @ ''.'' @ b \<or> v = l @ ''@'' @ a @ ''.'' @ b @ [newline]) \<and>
        l \<noteq> [] \<and> list_all local_char l \<and> a \<noteq> [] \<and> list_all domain_char a \<and>
        2 \<le> length b \<and> list_all is_alpha b)"
proof -
  let ?P = "\<lambda>l a b. l \<noteq> [] \<and> list_all local_char l \<and> a \<noteq> [] \<and> list_all domain_char a \<and>
        2 \<le> length b \<and> list_all is_alpha b"
  have "Email (Some v) = Inr (Some v) \<longleftrightarrow> v \<noteq> [] \<and> EMAIL_PATTERN v"
    by (auto simp: Email_def)
  also have "\<dots> \<longleftrightarrow> EMAIL_PATTERN v"
    by (auto simp: EMAIL_PATTERN_def match_dollar_def email_core_def)
  also have "\<dots> \<longleftrightarrow> (\<exists>l a b. v = l @ ''@'' @ a @ ''.'' @ b \<and> ?P l a b) \<or>
      (\<exists>t. v = t @ [newline] \<and> email_core t)"
    unfolding EMAIL_PATTERN_def match_dollar_iff email_core_iff [of v] ..
  also have "(\<exists>t. v = t @ [newline] \<and> email_core t) \<longleftrightarrow>
      (\<exists>l a b. v = l @ ''@'' @ a @ ''.'' @ b @ [newline] \<and> ?P l a b)"
    unfolding email_core_iff by auto blast+
  finally show ?thesis by blast
qed

section \<open>Passwords and bcrypt's limit\<close>

lemma PlainPassword_Inr:
  "PlainPassword E v = Inr w \<longleftrightarrow>
     w = v \<and> 8 \<le> length v \<and> (\<exists>n \<le> 72. utf8_length v = Some n) \<and> has_required_mix E v"
  by (auto simp: PlainPassword_def MIN_PASSWORD_LENGTH_def MAX_PASSWORD_BYTES_def
        split: if_splits option.splits)

section \<open>Lockout\<close>

lemma record_failed_attempt_unlocked:
  "\<not> is_locked l \<Longrightarrow> failed_attempts (record_failed_attempt l t m d) = failed_attempts l + 1"
  by (simp add: record_failed_attempt_def lock_window_elapsed_def Let_def)

lemma is_locked_record_failed_attempt:
  "is_locked (record_failed_attempt l t m d) \<longleftrightarrow> failed_attempts (record_failed_attempt l t m d) \<ge> m"
  by (simp add: record_failed_attempt_def Let_def)

lemma lock_until_record_failed_attempt:
  "lock_until (record_failed_attempt l t m d) =
     (if is_locked (record_failed_attempt l t m d) then Some (t + minutes d) else None)"
  by (simp add: record_failed_attempt_def Let_def)

lemma is_locked_out_iff:
  "is_locked_out l t \<longleftrightarrow> is_locked l \<and> (case lock_until l of None \<Rightarrow> True | Some u \<Rightarrow> t < u)"
  by (auto simp: is_locked_out_def lock_window_elapsed_def split: option.splits)

lemma failures_below_limit:
  assumes "\<not> is_locked l" and "failed_attempts l + int (length ts) < m"
  shows "\<not> is_locked (fail_logins l ts m d) \<and>
         failed_attempts (fail_logins l ts m d) = failed_attempts l + int (length ts)"
  using assms
proof (induction ts rule: rev_induct)
  case Nil
  then show ?case by (simp add: fail_logins_def)
next
  case (snoc t ts)
  then show ?case
    by (simp add: fail_logins_def record_failed_attempt_unlocked is_locked_record_failed_attempt)
qed

text \<open>Starting from an unlocked account with no recorded failures, n failed logins with
  n at most the limit leave the counter at n; the account is locked exactly when n reaches the
  limit, and then it is locked out at an instant t exactly when t lies before the last failure
  plus the lockout duration.\<close>

theorem lockout_exact:
  assumes "\<not> is_locked l" and "failed_attempts l = 0"
    and "ts \<noteq> []" and "int (length ts) \<le> m"
  shows "failed_attempts (fail_logins l ts m d) = int (length ts) \<and>
         (is_locked (fail_logins l ts m d) \<longleftrightarrow> int (length ts) = m) \<and>
         (is_locked_out (fail_logins l ts m d) t \<longleftrightarrow>
            int (length ts) = m \<and> t < last ts + minutes d)"
proof -
  obtain us u where ts: "ts = us @ [u]" using assms(3) by (metis append_butlast_last_id)
  let ?k = "fail_logins l us m d" and ?l = "fail_logins l ts m d"
  have k: "\<not> is_locked ?k" "failed_attempts ?k = int (length us)"
    using failures_below_limit [of l us m d] assms(1,2,4) by (simp_all add: ts)
  have eq: "?l = record_failed_attempt ?k u m d" by (simp add: fail_logins_def ts)
  have f: "failed_attempts ?l = int (length ts)"
    unfolding eq by (simp add: record_failed_attempt_unlocked k ts)
  have g: "is_locked ?l \<longleftrightarrow> int (length ts) = m"
    using f assms(4) unfolding eq is_locked_record_failed_attempt by auto
  have "lock_until ?l = (if is_locked ?l then Some (u + minutes d) else None)"
    unfolding eq by (rule lock_until_record_failed_attempt)
  with f g show ?thesis by (auto simp: is_locked_out_iff ts)
qed

theorem lockout_exact_witness:
  "is_locked (fail_logins lock_create [1, 2, 3, 4, 5] 5 15) \<and>
   \<not> is_locked (fail_logins lock_create [1, 2, 3, 4] 5 15)"
  using lockout_exact [of lock_create "[1, 2, 3, 4, 5]" 5 15]
    lockout_exact [of lock_create "[1, 2, 3, 4]" 5 15]
  by (simp add: lock_create_def)

text \<open>Once a timed lockout has elapsed the account is usable again, and the next failed
  login counts from one: with a limit above one it does not lock the account, so a known
  username cannot be kept locked by one wrong password per window.\<close>

theorem lockout_elapses:
  assumes "lock_window_elapsed l now" and "1 < m"
  shows "\<not> is_locked_out l now \<and> failed_attempts (record_failed_attempt l now m d) = 1 \<and>
         \<not> is_locked_out (record_failed_attempt l now m d) now"
  using assms by (simp add: is_locked_out_def record_failed_attempt_def Let_def)

theorem lockout_elapses_witness:
  "failed_attempts (record_failed_attempt
      \<lparr>is_locked = True, locked_at = None, lock_reason = None, failed_attempts = 5,
       lock_until = Some 100\<rparr> 100 5 15) = 1"
  using lockout_elapses [of "\<lparr>is_locked = True, locked_at = None, lock_reason = None,
      failed_attempts = 5, lock_until = Some 100\<rparr>" 100 5 15]
  by (simp add: lock_window_elapsed_def)

lemma unlock_not_locked: "\<not> is_locked_out (lock_unlock l) t"
  by (simp add: is_locked_out_def lock_unlock_def)

lemma success_not_locked: "\<not> is_locked_out (lock_record_successful_login l) t"
  by (simp add: is_locked_out_def lock_record_successful_login_def)

section \<open>One-time codes and tokens\<close>

lemma consume_loop_eq:
  "consume_loop t c hs =
     (if c \<in> set hs
      then Some (t\<lparr>backup_code_hashes := filter (\<lambda>h. h \<noteq> c) (backup_code_hashes t)\<rparr>)
      else None)"
  by (induction hs) auto

lemma consume_backup_code_eq:
  "consume_backup_code E t code =
     (if from_raw E code \<in> set (backup_code_hashes t)
      then Some (t\<lparr>backup_code_hashes := filter (\<lambda>h. h \<noteq> from_raw E code) (backup_code_hashes t)\<rparr>)
      else None)"
  by (simp add: consume_backup_code_def consume_loop_eq)

text \<open>Consuming a recovery code removes exactly its hash: the code cannot be consumed again,
  every code with another hash still can, the secret and the activation instant are unchanged,
  and when the stored hashes are distinct exactly one code fewer remains.\<close>

theorem backup_code_one_shot:
  assumes "consume_backup_code E t code = Some t'"
  shows "consume_backup_code E t' code = None \<and>
         (from_raw E other \<noteq> from_raw E code \<longrightarrow>
            (consume_backup_code E t' other = None) = (consume_backup_code E t other = None)) \<and>
         secret t' = secret t \<and> enabled_at t' = enabled_at t \<and>
         (distinct (backup_code_hashes t) \<longrightarrow>
            remaining_backup_codes t = Suc (remaining_backup_codes t'))"
proof -
  from assms have mem: "from_raw E code \<in> set (backup_code_hashes t)"
    and t': "t' = t\<lparr>backup_code_hashes := filter (\<lambda>h. h \<noteq> from_raw E code) (backup_code_hashes t)\<rparr>"
    by (auto simp: consume_backup_code_eq split: if_splits)
  then show ?thesis
    by (auto simp: consume_backup_code_eq remaining_backup_codes_def length_filter_neq)
qed

theorem backup_code_one_shot_witness:
  "\<exists>t'. consume_backup_code sample_env \<lparr>secret = ''s'', backup_code_hashes = [from_raw sample_env ''c''],
        enabled_at = None\<rparr> ''c'' = Some t' \<and> consume_backup_code sample_env t' ''c'' = None"
  using backup_code_one_shot [of sample_env "\<lparr>secret = ''s'', backup_code_hashes = [from_raw sample_env ''c''],
      enabled_at = None\<rparr>" "''c''"]
  by (simp add: consume_backup_code_eq)

lemma password_reset_mark_used: "\<not> password_reset_is_valid (mark_used t) now"
  by (simp add: password_reset_is_valid_def mark_used_def)

lemma password_reset_expiry:
  "password_reset_is_valid (password_reset_create E now tok h) t \<longleftrightarrow> t < now + hours h"
  by (simp add: password_reset_is_valid_def password_reset_create_def)

lemma ev_verify_created:
  "ev_verify E (create_unverified E now tok h) t tok' \<longleftrightarrow>
     from_raw E tok = from_raw E tok' \<and> t < now + hours h"
  by (auto simp: ev_verify_def create_unverified_def)

end
