(* ===== verification/Events.thy ===== *)
theory Events
  imports Value_Objects
begin

text \<open>
  Domain events (domain/common/event.py, domain/common/event_dispatcher.py,
  domain/user/events.py): one constructor per event class with the dataclass fields as
  arguments; their wire name, payload, sensitive payload keys, and the aggregate each belongs to.
  The identifier and timestamp every event object also carries are read by no code of the
  program and are not modelled. A payload dict is an association list in insertion order.
\<close>

datatype json =
    JNull
  | JBool bool
  | JInt int
  | JStr string
  | JList "json list"
  | JObj "(string \<times> json) list"

type_synonym payload = "(string \<times> json) list"

datatype (plugins only: code size) event =
    UserCreatedEvent uuid string "string option"
  | UserAuthenticatedEvent uuid string
  | UserProfileUpdatedEvent uuid "string list"
  | UserDeletedEvent uuid
  | SessionCreatedEvent uuid uuid "(string \<times> string option) list"
  | SessionRevokedEvent uuid uuid
  | TokenRefreshedEvent uuid uuid
  | RoleCreatedEvent uuid string
  | RoleUpdatedEvent uuid "string list"
  | RoleDeletedEvent uuid
  | UserRoleAssignedEvent uuid uuid "uuid option"
  | UserRoleRevokedEvent uuid uuid "uuid option"
  | AccountLockedEvent uuid string "datetime option"
  | AccountUnlockedEvent uuid
  | PasswordResetRequestedEvent uuid string string
  | PasswordResetCompletedEvent uuid
  | PasswordChangedEvent uuid
  | EmailVerificationRequestedEvent uuid string string
  | EmailVerifiedEvent uuid string
  | TwoFactorEnabledEvent uuid nat
  | TwoFactorDisabledEvent uuid

text \<open>BaseEvent.wire_name: no class sets event_name, so it is the class name.\<close>

primrec wire_name :: "event \<Rightarrow> string" where
  "wire_name (UserCreatedEvent u n m) = ''UserCreatedEvent''"
| "wire_name (UserAuthenticatedEvent u n) = ''UserAuthenticatedEvent''"
| "wire_name (UserProfileUpdatedEvent u fs) = ''UserProfileUpdatedEvent''"
| "wire_name (UserDeletedEvent u) = ''UserDeletedEvent''"
| "wire_name (SessionCreatedEvent s u d) = ''SessionCreatedEvent''"
| "wire_name (SessionRevokedEvent s u) = ''SessionRevokedEvent''"
| "wire_name (TokenRefreshedEvent s u) = ''TokenRefreshedEvent''"
| "wire_name (RoleCreatedEvent r n) = ''RoleCreatedEvent''"
| "wire_name (RoleUpdatedEvent r fs) = ''RoleUpdatedEvent''"
| "wire_name (RoleDeletedEvent r) = ''RoleDeletedEvent''"
| "wire_name (UserRoleAssignedEvent u r b) = ''UserRoleAssignedEvent''"
| "wire_name (UserRoleRevokedEvent u r b) = ''UserRoleRevokedEvent''"
| "wire_name (AccountLockedEvent u r t) = ''AccountLockedEvent''"
| "wire_name (AccountUnlockedEvent u) = ''AccountUnlockedEvent''"
| "wire_name (PasswordResetRequestedEvent u m t) = ''PasswordResetRequestedEvent''"
| "wire_name (PasswordResetCompletedEvent u) = ''PasswordResetCompletedEvent''"
| "wire_name (PasswordChangedEvent u) = ''PasswordChangedEvent''"
| "wire_name (EmailVerificationRequestedEvent u m t) = ''EmailVerificationRequestedEvent''"
| "wire_name (EmailVerifiedEvent u m) = ''EmailVerifiedEvent''"
| "wire_name (TwoFactorEnabledEvent u n) = ''TwoFactorEnabledEvent''"
| "wire_name (TwoFactorDisabledEvent u) = ''TwoFactorDisabledEvent''"

text \<open>The class attribute sensitive_fields, sorted.\<close>

definition sensitive_fields :: "event \<Rightarrow> string list" where
  "sensitive_fields e =
     (case e of
        PasswordResetRequestedEvent u m t \<Rightarrow> [''reset_token'']
      | EmailVerificationRequestedEvent u m t \<Rightarrow> [''verification_token'']
      | _ \<Rightarrow> [])"

definition jopt :: "('a \<Rightarrow> json) \<Rightarrow> 'a option \<Rightarrow> json" where
  "jopt f v = (case v of None \<Rightarrow> JNull | Some x \<Rightarrow> f x)"

definition juuid :: "uuid \<Rightarrow> json" where
  "juuid u = JStr (uuid_str u)"

text \<open>BaseEvent.to_payload of each class.\<close>

primrec to_payload :: "env \<Rightarrow> event \<Rightarrow> payload" where
  "to_payload E (UserCreatedEvent u n m) =
     [(''user_id'', juuid u), (''username'', JStr n), (''email'', jopt JStr m)]"
| "to_payload E (UserAuthenticatedEvent u n) = [(''user_id'', juuid u), (''username'', JStr n)]"
| "to_payload E (UserProfileUpdatedEvent u fs) =
     [(''user_id'', juuid u), (''updated_fields'', JList (map JStr fs))]"
| "to_payload E (UserDeletedEvent u) = [(''user_id'', juuid u)]"
| "to_payload E (SessionCreatedEvent s u d) =
     [(''session_id'', juuid s), (''user_id'', juuid u),
      (''device_info'', JObj (map (\<lambda>(k, v). (k, jopt JStr v)) d))]"
| "to_payload E (SessionRevokedEvent s u) = [(''session_id'', juuid s), (''user_id'', juuid u)]"
| "to_payload E (TokenRefreshedEvent s u) = [(''session_id'', juuid s), (''user_id'', juuid u)]"
| "to_payload E (RoleCreatedEvent r n) = [(''role_id'', juuid r), (''name'', JStr n)]"
| "to_payload E (RoleUpdatedEvent r fs) =
     [(''role_id'', juuid r), (''updated_fields'', JList (map JStr fs))]"
| "to_payload E (RoleDeletedEvent r) = [(''role_id'', juuid r)]"
| "to_payload E (UserRoleAssignedEvent u r b) =
     [(''user_id'', juuid u), (''role_id'', juuid r), (''assigned_by'', jopt juuid b)]"
| "to_payload E (UserRoleRevokedEvent u r b) =
     [(''user_id'', juuid u), (''role_id'', juuid r), (''revoked_by'', jopt juuid b)]"
| "to_payload E (AccountLockedEvent u r t) =
     [(''user_id'', juuid u), (''reason'', JStr r),
      (''locked_until'', jopt (\<lambda>i. JStr (isoformat E i)) t)]"
| "to_payload E (AccountUnlockedEvent u) = [(''user_id'', juuid u)]"
| "to_payload E (PasswordResetRequestedEvent u m t) =
     [(''user_id'', juuid u), (''email'', JStr m), (''reset_token'', JStr t)]"
| "to_payload E (PasswordResetCompletedEvent u) = [(''user_id'', juuid u)]"
| "to_payload E (PasswordChangedEvent u) = [(''user_id'', juuid u)]"
| "to_payload E (EmailVerificationRequestedEvent u m t) =
     [(''user_id'', juuid u), (''email'', JStr m), (''verification_token'', JStr t)]"
| "to_payload E (EmailVerifiedEvent u m) = [(''user_id'', juuid u), (''email'', JStr m)]"
| "to_payload E (TwoFactorEnabledEvent u n) =
     [(''user_id'', juuid u), (''codes_issued'', JInt (int n))]"
| "to_payload E (TwoFactorDisabledEvent u) = [(''user_id'', juuid u)]"

text \<open>The table EVENT_AGGREGATE: aggregate type and payload key of the aggregate's identifier.\<close>

definition EVENT_AGGREGATE :: "event \<Rightarrow> string \<times> string" where
  "EVENT_AGGREGATE e =
     (case e of
        SessionCreatedEvent s u d \<Rightarrow> (''Session'', ''session_id'')
      | SessionRevokedEvent s u \<Rightarrow> (''Session'', ''session_id'')
      | TokenRefreshedEvent s u \<Rightarrow> (''Session'', ''session_id'')
      | RoleCreatedEvent r n \<Rightarrow> (''Role'', ''role_id'')
      | RoleUpdatedEvent r fs \<Rightarrow> (''Role'', ''role_id'')
      | RoleDeletedEvent r \<Rightarrow> (''Role'', ''role_id'')
      | UserRoleAssignedEvent u r b \<Rightarrow> (''Role'', ''role_id'')
      | UserRoleRevokedEvent u r b \<Rightarrow> (''Role'', ''role_id'')
      | _ \<Rightarrow> (''User'', ''user_id''))"

definition event_aggregate :: "env \<Rightarrow> event \<Rightarrow> app_error + (string \<times> uuid option)" where
  "event_aggregate E e =
     (let (aggregate_type, id_field) = EVENT_AGGREGATE e in
      if id_field = [] then Inr (aggregate_type, None)
      else (case map_of (to_payload E e) id_field of
              Some (JStr s) \<Rightarrow>
                (case uuid_parse s of
                   None \<Rightarrow> Inl (ValueError ''badly formed hexadecimal UUID string'')
                 | Some u \<Rightarrow> Inr (aggregate_type, Some u))
            | _ \<Rightarrow> Inr (aggregate_type, None)))"

text \<open>DomainEventDispatcher: the events recorded on an entity and not yet pulled.\<close>

definition record_event :: "event \<Rightarrow> event list \<Rightarrow> event list" where
  "record_event e evs = evs @ [e]"

definition pull_events :: "event list \<Rightarrow> event list \<times> event list" where
  "pull_events evs = (evs, [])"

definition has_events :: "event list \<Rightarrow> bool" where
  "has_events evs = (length evs > 0)"

text \<open>getattr(event, 'user_id', None) and the identifier of the aggregate, read off the event.\<close>

primrec event_user :: "event \<Rightarrow> uuid option" where
  "event_user (UserCreatedEvent u n m) = Some u"
| "event_user (UserAuthenticatedEvent u n) = Some u"
| "event_user (UserProfileUpdatedEvent u fs) = Some u"
| "event_user (UserDeletedEvent u) = Some u"
| "event_user (SessionCreatedEvent s u d) = Some u"
| "event_user (SessionRevokedEvent s u) = Some u"
| "event_user (TokenRefreshedEvent s u) = Some u"
| "event_user (RoleCreatedEvent r n) = None"
| "event_user (RoleUpdatedEvent r fs) = None"
| "event_user (RoleDeletedEvent r) = None"
| "event_user (UserRoleAssignedEvent u r b) = Some u"
| "event_user (UserRoleRevokedEvent u r b) = Some u"
| "event_user (AccountLockedEvent u r t) = Some u"
| "event_user (AccountUnlockedEvent u) = Some u"
| "event_user (PasswordResetRequestedEvent u m t) = Some u"
| "event_user (PasswordResetCompletedEvent u) = Some u"
| "event_user (PasswordChangedEvent u) = Some u"
| "event_user (EmailVerificationRequestedEvent u m t) = Some u"
| "event_user (EmailVerifiedEvent u m) = Some u"
| "event_user (TwoFactorEnabledEvent u n) = Some u"
| "event_user (TwoFactorDisabledEvent u) = Some u"

definition event_subject :: "event \<Rightarrow> string \<times> uuid" where
  "event_subject e =
     (case e of
        SessionCreatedEvent s u d \<Rightarrow> (''Session'', s)
      | SessionRevokedEvent s u \<Rightarrow> (''Session'', s)
      | TokenRefreshedEvent s u \<Rightarrow> (''Session'', s)
      | RoleCreatedEvent r n \<Rightarrow> (''Role'', r)
      | RoleUpdatedEvent r fs \<Rightarrow> (''Role'', r)
      | RoleDeletedEvent r \<Rightarrow> (''Role'', r)
      | UserRoleAssignedEvent u r b \<Rightarrow> (''Role'', r)
      | UserRoleRevokedEvent u r b \<Rightarrow> (''Role'', r)
      | _ \<Rightarrow> (''User'', the (event_user e)))"

section \<open>Routing of events\<close>

lemma juuid_simp [simp]: "juuid u = JStr (uuid_str u)"
  by (simp add: juuid_def)

lemma event_aggregate_eq:
  "event_aggregate E e = Inr (fst (event_subject e), Some (snd (event_subject e)))"
  by (cases e) (simp_all add: event_aggregate_def EVENT_AGGREGATE_def event_subject_def
      uuid_parse_str)

text \<open>Every event is attributed to an aggregate: event_aggregate never raises and never
  answers without an identifier; it returns the type and the very UUID the event was built with,
  through the payload's string form and back.\<close>

theorem event_aggregate_total:
  "event_aggregate E e = Inr (fst (event_subject e), Some (snd (event_subject e)))"
  by (rule event_aggregate_eq)

lemma payload_keys_distinct: "distinct (map fst (to_payload E e))"
  by (cases e) simp_all

lemma sensitive_in_payload: "k \<in> set (sensitive_fields e) \<Longrightarrow> k \<in> fst ` set (to_payload E e)"
  by (cases e) (auto simp: sensitive_fields_def)

lemma wire_name_inj_class:
  "wire_name a = wire_name b \<Longrightarrow> sensitive_fields a = sensitive_fields b"
  by (cases a; cases b) (simp_all add: sensitive_fields_def)

lemma record_event_simps [simp]:
  "record_event e evs \<noteq> []" "has_events (record_event e evs)" "pull_events evs = (evs, [])"
  "set (record_event e evs) = insert e (set evs)"
  by (auto simp: record_event_def has_events_def pull_events_def)

end
