(* ===== verification/Session_Entity.thy ===== *)
theory Session_Entity
  imports Events
begin

text \<open>
  The session aggregate (domain/user/entities/session.py): device information, refresh tokens and
  the session that owns them, with the methods that add, find, revoke and refresh.
\<close>

record device_info =
  di_user_agent :: "string option"
  di_ip_address :: "string option"
  di_device_name :: "string option"
  di_browser :: "string option"
  di_os :: "string option"
  di_is_mobile :: bool

definition DeviceInfo :: "string option \<Rightarrow> string option \<Rightarrow> device_info" where
  "DeviceInfo user_agent ip_address =
     \<lparr>di_user_agent = user_agent, di_ip_address = ip_address, di_device_name = None,
      di_browser = None, di_os = None, di_is_mobile = False\<rparr>"

definition with_user_agent :: "string option \<Rightarrow> device_info \<Rightarrow> device_info" where
  "with_user_agent user_agent d = d\<lparr>di_user_agent := user_agent\<rparr>"

definition with_ip :: "string option \<Rightarrow> device_info \<Rightarrow> device_info" where
  "with_ip ip_address d = d\<lparr>di_ip_address := ip_address\<rparr>"

record refresh_token =
  rt_token_hash :: token_hash
  rt_id :: uuid
  rt_expires_at :: datetime
  rt_is_revoked :: bool
  rt_created_at :: datetime

definition rt_is_expired :: "refresh_token \<Rightarrow> datetime \<Rightarrow> bool" where
  "rt_is_expired t now = (now \<ge> rt_expires_at t)"

definition rt_is_valid :: "refresh_token \<Rightarrow> datetime \<Rightarrow> bool" where
  "rt_is_valid t now = (\<not> rt_is_revoked t \<and> \<not> rt_is_expired t now)"

definition revoked :: "refresh_token \<Rightarrow> refresh_token" where
  "revoked t = t\<lparr>rt_is_revoked := True\<rparr>"

record session =
  s_session_id :: uuid
  s_user_id :: user_id
  s_device_info :: device_info
  s_created_at :: datetime
  s_expires_at :: datetime
  s_is_revoked :: bool
  s_refresh_tokens :: "refresh_token list"
  s_events :: "event list"

abbreviation s_raise_event :: "event \<Rightarrow> session \<Rightarrow> session" where
  "s_raise_event e s \<equiv> s\<lparr>s_events := record_event e (s_events s)\<rparr>"

definition session_create :: "env \<Rightarrow> nat \<Rightarrow> datetime \<Rightarrow> user_id \<Rightarrow> device_info \<Rightarrow> int \<Rightarrow> session" where
  "session_create E draw now user_id device_info session_expire_seconds =
     (let s = \<lparr>s_session_id = uuid4 E draw, s_user_id = user_id, s_device_info = device_info,
               s_created_at = now, s_expires_at = now + seconds session_expire_seconds,
               s_is_revoked = False, s_refresh_tokens = [], s_events = []\<rparr> in
      s_raise_event (SessionCreatedEvent (s_session_id s) user_id
         [(''user_agent'', di_user_agent device_info), (''ip_address'', di_ip_address device_info),
          (''device_name'', di_device_name device_info)]) s)"

definition session_is_expired :: "session \<Rightarrow> datetime \<Rightarrow> bool" where
  "session_is_expired s now = (now \<ge> s_expires_at s)"

definition session_is_valid :: "session \<Rightarrow> datetime \<Rightarrow> bool" where
  "session_is_valid s now = (\<not> s_is_revoked s \<and> \<not> session_is_expired s now)"

definition add_refresh_token :: "refresh_token \<Rightarrow> session \<Rightarrow> session" where
  "add_refresh_token t s = s\<lparr>s_refresh_tokens := s_refresh_tokens s @ [t]\<rparr>"

fun find_token_loop :: "token_hash \<Rightarrow> refresh_token list \<Rightarrow> refresh_token option" where
  "find_token_loop h [] = None"
| "find_token_loop h (t # ts) = (if rt_token_hash t = h then Some t else find_token_loop h ts)"

definition find_refresh_token :: "token_hash \<Rightarrow> session \<Rightarrow> refresh_token option" where
  "find_refresh_token h s = find_token_loop h (s_refresh_tokens s)"

definition find_valid_refresh_token :: "token_hash \<Rightarrow> datetime \<Rightarrow> session \<Rightarrow> refresh_token option" where
  "find_valid_refresh_token h now s =
     (case find_refresh_token h s of
        None \<Rightarrow> None
      | Some t \<Rightarrow> if rt_is_valid t now then Some t else None)"

definition revoke_token :: "uuid \<Rightarrow> session \<Rightarrow> session" where
  "revoke_token token_id s =
     s\<lparr>s_refresh_tokens :=
         map (\<lambda>t. if rt_id t = token_id then revoked t else t) (s_refresh_tokens s)\<rparr>"

definition revoke :: "session \<Rightarrow> session" where
  "revoke s =
     s_raise_event (SessionRevokedEvent (s_session_id s) (s_user_id s))
       (s\<lparr>s_is_revoked := True, s_refresh_tokens := map revoked (s_refresh_tokens s)\<rparr>)"

definition refresh :: "datetime \<Rightarrow> int \<Rightarrow> session \<Rightarrow> session" where
  "refresh now new_expire_seconds s =
     s_raise_event (TokenRefreshedEvent (s_session_id s) (s_user_id s))
       (s\<lparr>s_expires_at := now + seconds new_expire_seconds\<rparr>)"

definition valid_tokens :: "datetime \<Rightarrow> session \<Rightarrow> refresh_token list" where
  "valid_tokens now s = filter (\<lambda>t. rt_is_valid t now) (s_refresh_tokens s)"

section \<open>Lemmas\<close>

lemma find_token_loop_find: "find_token_loop h ts = find_row (\<lambda>t. rt_token_hash t = h) ts"
  by (induction ts) (auto simp: table_simps)

lemma find_refresh_token_Some:
  "find_refresh_token h s = Some t \<Longrightarrow> t \<in> set (s_refresh_tokens s) \<and> rt_token_hash t = h"
  unfolding find_refresh_token_def find_token_loop_find by (rule find_row_Some_iff)

lemma find_valid_refresh_token_Some:
  "find_valid_refresh_token h now s = Some t \<Longrightarrow>
     t \<in> set (s_refresh_tokens s) \<and> rt_token_hash t = h \<and> rt_is_valid t now"
  by (auto simp: find_valid_refresh_token_def dest: find_refresh_token_Some
        split: option.splits if_splits)

lemma revoke_no_valid_token: "find_valid_refresh_token h now (revoke s) = None"
  by (auto simp: find_valid_refresh_token_def revoke_def rt_is_valid_def revoked_def
        dest!: find_refresh_token_Some split: option.splits)

lemma revoke_invalid: "\<not> session_is_valid (revoke s) now"
  by (simp add: session_is_valid_def revoke_def)

lemma revoked_simps [simp]:
  "rt_token_hash (revoked t) = rt_token_hash t" "rt_id (revoked t) = rt_id t"
  "rt_expires_at (revoked t) = rt_expires_at t" "rt_is_revoked (revoked t)"
  "rt_created_at (revoked t) = rt_created_at t"
  by (simp_all add: revoked_def)

lemma revoke_simps [simp]:
  "s_session_id (revoke s) = s_session_id s" "s_user_id (revoke s) = s_user_id s"
  "s_is_revoked (revoke s)" "s_refresh_tokens (revoke s) = map revoked (s_refresh_tokens s)"
  by (simp_all add: revoke_def)

lemma valid_after_revoke:
  assumes t: "t \<in> set (s_refresh_tokens s)" and d: "distinct (map rt_id (s_refresh_tokens s))"
  shows "set (valid_tokens now (revoke_token (rt_id t) s)) = set (valid_tokens now s) - {t}"
proof -
  have same: "x = t" if "x \<in> set (s_refresh_tokens s)" "rt_id x = rt_id t" for x
    using d t that by (auto simp: distinct_map dest: inj_onD)
  have v: "\<not> rt_is_valid (revoked x) now" for x by (simp add: rt_is_valid_def)
  let ?f = "\<lambda>x. if rt_id x = rt_id t then revoked x else x"
  have "x \<in> set (valid_tokens now (revoke_token (rt_id t) s)) \<longleftrightarrow>
      (\<exists>y \<in> set (s_refresh_tokens s). x = ?f y \<and> rt_is_valid (?f y) now)" for x
    by (auto simp: valid_tokens_def revoke_token_def)
  also have "\<dots> x \<longleftrightarrow> (\<exists>y \<in> set (s_refresh_tokens s). x = y \<and> y \<noteq> t \<and> rt_is_valid y now)" for x
    using same v by (intro bex_cong) auto
  finally show ?thesis by (auto simp: valid_tokens_def)
qed

lemma revoked_not_found:
  assumes t: "t \<in> set (s_refresh_tokens s)" and d: "distinct (map rt_token_hash (s_refresh_tokens s))"
  shows "find_valid_refresh_token (rt_token_hash t) now (revoke_token (rt_id t) s) = None"
proof -
  have "\<not> rt_is_valid x now" if "find_token_loop (rt_token_hash t) (s_refresh_tokens (revoke_token (rt_id t) s)) = Some x" for x
  proof -
    from that find_row_Some_iff obtain y where y: "y \<in> set (s_refresh_tokens s)" "x = (if rt_id y = rt_id t then revoked y else y)"
      "rt_token_hash x = rt_token_hash t" by (fastforce simp: find_token_loop_find revoke_token_def)
    then have "y = t" using d t by (auto simp: distinct_map dest: inj_onD split: if_splits)
    with y(2) show ?thesis by (simp add: rt_is_valid_def)
  qed
  then show ?thesis by (auto simp: find_valid_refresh_token_def find_refresh_token_def split: option.splits)
qed

lemma find_after_add:
  assumes "rt_token_hash n \<notin> rt_token_hash ` set (s_refresh_tokens s)"
  shows "find_refresh_token h (add_refresh_token n s) = (if h = rt_token_hash n then Some n else find_refresh_token h s)"
proof -
  have "find_row (\<lambda>x. rt_token_hash x = rt_token_hash n) (s_refresh_tokens s) = None"
    using assms by (auto simp: find_row_None_iff image_iff)
  then show ?thesis
    by (auto simp: find_refresh_token_def add_refresh_token_def find_token_loop_find find_row_append table_simps split: option.splits)
qed

text \<open>Rotating a refresh token (revoke the presented one, append a fresh one) leaves exactly
  the other valid tokens and the new one valid; the presented token is no longer accepted and the
  new one is found.\<close>

theorem rotation_exact:
  assumes "find_valid_refresh_token h now s = Some t"
    and "distinct (map rt_id (s_refresh_tokens s))"
    and "distinct (map rt_token_hash (s_refresh_tokens s))"
    and "rt_is_valid n now" and "rt_token_hash n \<notin> rt_token_hash ` set (s_refresh_tokens s)"
  shows "set (valid_tokens now (add_refresh_token n (revoke_token (rt_id t) s))) =
           insert n (set (valid_tokens now s) - {t}) \<and>
         find_valid_refresh_token h now (add_refresh_token n (revoke_token (rt_id t) s)) = None \<and>
         find_valid_refresh_token (rt_token_hash n) now
           (add_refresh_token n (revoke_token (rt_id t) s)) = Some n"
proof -
  let ?s = "revoke_token (rt_id t) s"
  from find_valid_refresh_token_Some [OF assms(1)] have t: "t \<in> set (s_refresh_tokens s)" "rt_token_hash t = h" by auto
  have n: "rt_token_hash n \<notin> rt_token_hash ` set (s_refresh_tokens ?s)" using assms(5) by (force simp: revoke_token_def)
  have h: "h \<noteq> rt_token_hash n" using assms(5) t imageI by metis
  have "set (valid_tokens now (add_refresh_token n ?s)) = insert n (set (valid_tokens now ?s))"
    using assms(4) by (auto simp: valid_tokens_def add_refresh_token_def)
  moreover have "find_valid_refresh_token h now (add_refresh_token n ?s) = find_valid_refresh_token h now ?s"
    "find_valid_refresh_token (rt_token_hash n) now (add_refresh_token n ?s) = Some n"
    using h assms(4) by (simp_all add: find_valid_refresh_token_def find_after_add [OF n])
  ultimately show ?thesis using valid_after_revoke [OF t(1) assms(2), of now] revoked_not_found [OF t(1) assms(3), of now] t(2) by simp
qed

definition sample_token :: "token_hash \<Rightarrow> uuid \<Rightarrow> refresh_token" where
  "sample_token h i =
     \<lparr>rt_token_hash = h, rt_id = i, rt_expires_at = 100, rt_is_revoked = False, rt_created_at = 0\<rparr>"

definition sample_session :: session where
  "sample_session =
     add_refresh_token (sample_token [7] 1)
       (session_create sample_env 0 0 1 (DeviceInfo None None) 60)"

theorem rotation_exact_witness:
  "find_valid_refresh_token [7] 5
     (add_refresh_token (sample_token [8] 2) (revoke_token 1 sample_session)) = None \<and>
   find_valid_refresh_token [8] 5
     (add_refresh_token (sample_token [8] 2) (revoke_token 1 sample_session)) = Some (sample_token [8] 2)"
  using rotation_exact [of "[7]" 5 sample_session "sample_token [7] 1" "sample_token [8] 2"]
  by (simp add: sample_session_def sample_token_def session_create_def add_refresh_token_def
      find_valid_refresh_token_def find_refresh_token_def rt_is_valid_def rt_is_expired_def)

end
