(* ===== verification/Cache.thy ===== *)
theory Cache
  imports Session_Entity
begin

text \<open>
  The cache (infrastructure/cache/memory_cache.py) and the three stores kept in it: pending
  two-factor challenges (infrastructure/two_factor_challenge_store.py), codes already accepted
  (application/user/replay_guard.py) and responses kept for idempotent retries
  (infrastructure/idempotency.py).

  The stores are written against the operations of CacheInterface, the record \<open>cache_ops\<close>. The
  locale \<open>cache_store\<close> states what they rely on and proves what follows; it is interpreted on the
  in-memory cache here and holds of the Redis cache in theory Redis. A cache entry expires at the instant its time to live has passed; a time to
  live of 0 is treated as absent by the in-memory cache (\<open>if ttl_seconds\<close>).
\<close>

record 'c cache_ops =
  c_get :: "datetime \<Rightarrow> string \<Rightarrow> 'c \<Rightarrow> string option \<times> 'c"
  c_set :: "datetime \<Rightarrow> string \<Rightarrow> string \<Rightarrow> int option \<Rightarrow> 'c \<Rightarrow> 'c"
  c_delete :: "string \<Rightarrow> 'c \<Rightarrow> 'c"

type_synonym mem_cache = "string \<rightharpoonup> string \<times> datetime option"

definition mem_get :: "datetime \<Rightarrow> string \<Rightarrow> mem_cache \<Rightarrow> string option \<times> mem_cache" where
  "mem_get now key store =
     (case store key of
        None \<Rightarrow> (None, store)
      | Some (value, expires_at) \<Rightarrow>
          if (case expires_at of None \<Rightarrow> False | Some e \<Rightarrow> now \<ge> e)
          then (None, store(key := None))
          else (Some value, store))"

definition mem_set :: "datetime \<Rightarrow> string \<Rightarrow> string \<Rightarrow> int option \<Rightarrow> mem_cache \<Rightarrow> mem_cache" where
  "mem_set now key value ttl_seconds store =
     (let expires_at = (case ttl_seconds of
                          None \<Rightarrow> None
                        | Some n \<Rightarrow> if n = 0 then None else Some (now + seconds n)) in
      store(key \<mapsto> (value, expires_at)))"

definition mem_delete :: "string \<Rightarrow> mem_cache \<Rightarrow> mem_cache" where
  "mem_delete key store = store(key := None)"

definition InMemoryCache :: "mem_cache cache_ops" where
  "InMemoryCache = \<lparr>c_get = mem_get, c_set = mem_set, c_delete = mem_delete\<rparr>"

section \<open>Pending two-factor challenges\<close>

definition CHALLENGE_TTL_SECONDS :: int where
  "CHALLENGE_TTL_SECONDS = 300"

definition MAX_ATTEMPTS :: int where
  "MAX_ATTEMPTS = 5"

record two_factor_challenge =
  ch_user_id :: uuid
  ch_device_info :: device_info
  ch_attempts :: int
  ch_login_challenge :: "string option"

definition with_failed_attempt :: "two_factor_challenge \<Rightarrow> two_factor_challenge" where
  "with_failed_attempt ch = ch\<lparr>ch_attempts := ch_attempts ch + 1\<rparr>"

definition is_exhausted :: "two_factor_challenge \<Rightarrow> bool" where
  "is_exhausted ch = (ch_attempts ch \<ge> MAX_ATTEMPTS)"

definition stored_of :: "two_factor_challenge \<Rightarrow> stored_challenge" where
  "stored_of ch =
     \<lparr>sc_user_id = ch_user_id ch, sc_user_agent = di_user_agent (ch_device_info ch),
      sc_ip_address = di_ip_address (ch_device_info ch), sc_attempts = ch_attempts ch,
      sc_login_challenge = ch_login_challenge ch\<rparr>"

definition to_challenge :: "stored_challenge \<Rightarrow> two_factor_challenge" where
  "to_challenge sc =
     \<lparr>ch_user_id = sc_user_id sc,
      ch_device_info = DeviceInfo (sc_user_agent sc) (sc_ip_address sc),
      ch_attempts = sc_attempts sc, ch_login_challenge = sc_login_challenge sc\<rparr>"

definition CACHE_PREFIX :: string where
  "CACHE_PREFIX = ''pending_2fa:''"

definition challenge_issue ::
    "'c cache_ops \<Rightarrow> env \<Rightarrow> nat \<Rightarrow> datetime \<Rightarrow> two_factor_challenge \<Rightarrow> 'c \<Rightarrow> string \<times> 'c" where
  "challenge_issue ops E draw now ch c =
     (let token = token_urlsafe E 32 draw in
      (token, c_set ops now (CACHE_PREFIX @ token) (dump_challenge E (stored_of ch))
                (Some CHALLENGE_TTL_SECONDS) c))"

definition challenge_discard :: "'c cache_ops \<Rightarrow> string \<Rightarrow> 'c \<Rightarrow> 'c" where
  "challenge_discard ops token c = c_delete ops (CACHE_PREFIX @ token) c"

definition challenge_read ::
    "'c cache_ops \<Rightarrow> env \<Rightarrow> datetime \<Rightarrow> string \<Rightarrow> 'c \<Rightarrow> (app_error + two_factor_challenge) \<times> 'c" where
  "challenge_read ops E now token c =
     (let (raw, c1) = c_get ops now (CACHE_PREFIX @ token) c in
      case raw of
        None \<Rightarrow> (Inl TwoFactorChallengeExpiredError, c1)
      | Some s \<Rightarrow>
          (case validate_challenge E s of
             Some sc \<Rightarrow> (Inr (to_challenge sc), c1)
           | None \<Rightarrow> (Inl TwoFactorChallengeExpiredError, challenge_discard ops token c1)))"

definition challenge_record_failure ::
    "'c cache_ops \<Rightarrow> env \<Rightarrow> datetime \<Rightarrow> string \<Rightarrow> two_factor_challenge \<Rightarrow> 'c \<Rightarrow> (app_error + unit) \<times> 'c" where
  "challenge_record_failure ops E now token ch c =
     (let updated = with_failed_attempt ch in
      if is_exhausted updated
      then (Inl TwoFactorChallengeExpiredError, challenge_discard ops token c)
      else (Inr (), c_set ops now (CACHE_PREFIX @ token) (dump_challenge E (stored_of updated))
                      (Some CHALLENGE_TTL_SECONDS) c))"

section \<open>Codes already accepted\<close>

definition CODE_MEMORY_SECONDS :: int where
  "CODE_MEMORY_SECONDS = 120"

definition used_code_key :: "env \<Rightarrow> uuid \<Rightarrow> string \<Rightarrow> string" where
  "used_code_key E user_id code =
     ''used_2fa_code:'' @ hex (digest_bytes (sha256 E (uuid_str user_id @ '':'' @ code)))"

definition was_used :: "'c cache_ops \<Rightarrow> env \<Rightarrow> datetime \<Rightarrow> uuid \<Rightarrow> string \<Rightarrow> 'c \<Rightarrow> bool \<times> 'c" where
  "was_used ops E now user_id code c =
     (let (v, c1) = c_get ops now (used_code_key E user_id code) c in (v \<noteq> None, c1))"

definition remember :: "'c cache_ops \<Rightarrow> env \<Rightarrow> datetime \<Rightarrow> uuid \<Rightarrow> string \<Rightarrow> 'c \<Rightarrow> 'c" where
  "remember ops E now user_id code c =
     c_set ops now (used_code_key E user_id code) ''1'' (Some CODE_MEMORY_SECONDS) c"

section \<open>Idempotent responses\<close>

definition IDEMPOTENCY_TTL_SECONDS :: int where
  "IDEMPOTENCY_TTL_SECONDS = 86400"

definition cache_key :: "string \<Rightarrow> string \<Rightarrow> string \<Rightarrow> string" where
  "cache_key endpoint scope idempotency_key =
     ''idempotency:'' @ endpoint @ '':'' @ scope @ '':'' @ idempotency_key"

text \<open>The JSON text of a response is what pydantic's adapter produces: the store keeps it as a
  string, and \<open>validate\<close> is the adapter's parser.\<close>

definition get_cached_response ::
    "'c cache_ops \<Rightarrow> (string \<Rightarrow> app_error + 'r) \<Rightarrow> datetime \<Rightarrow> string \<Rightarrow> string \<Rightarrow> string \<Rightarrow> 'c \<Rightarrow>
     (app_error + 'r option) \<times> 'c" where
  "get_cached_response ops validate now endpoint scope idempotency_key c =
     (let (v, c1) = c_get ops now (cache_key endpoint scope idempotency_key) c in
      case v of
        None \<Rightarrow> (Inr None, c1)
      | Some s \<Rightarrow> (rbind (validate s) (\<lambda>r. Inr (Some r)), c1))"

definition cache_response ::
    "'c cache_ops \<Rightarrow> ('r \<Rightarrow> string) \<Rightarrow> datetime \<Rightarrow> string \<Rightarrow> string \<Rightarrow> string \<Rightarrow> 'r \<Rightarrow> 'c \<Rightarrow> 'c" where
  "cache_response ops dump now endpoint scope idempotency_key response c =
     c_set ops now (cache_key endpoint scope idempotency_key) (dump response)
       (Some IDEMPOTENCY_TTL_SECONDS) c"

section \<open>What the stores rely on\<close>

text \<open>\<open>visible ops t k c\<close> is what a read of key k at instant t answers.\<close>

definition visible :: "'c cache_ops \<Rightarrow> datetime \<Rightarrow> string \<Rightarrow> 'c \<Rightarrow> string option" where
  "visible ops t k c = fst (c_get ops t k c)"

locale cache_store =
  fixes ops :: "'c cache_ops"
  assumes set_visible: "0 < n \<Longrightarrow> t0 \<le> t \<Longrightarrow>
      visible ops t k (c_set ops t0 k v (Some n) c) = (if t < t0 + seconds n then Some v else None)"
    and set_other: "k \<noteq> k' \<Longrightarrow> 0 < n \<Longrightarrow> visible ops t k (c_set ops t0 k' v (Some n) c) = visible ops t k c"
    and delete_visible: "visible ops t k (c_delete ops k c) = None"
    and delete_other: "k \<noteq> k' \<Longrightarrow> visible ops t k (c_delete ops k' c) = visible ops t k c"
    and get_keeps: "t0 \<le> t \<Longrightarrow> visible ops t k (snd (c_get ops t0 k' c)) = visible ops t k c"
begin

lemma read_eq:
  "fst (challenge_read ops E t token c) =
     (case visible ops t (CACHE_PREFIX @ token) c of
        None \<Rightarrow> Inl TwoFactorChallengeExpiredError
      | Some s \<Rightarrow> (case validate_challenge E s of
                     None \<Rightarrow> Inl TwoFactorChallengeExpiredError
                   | Some sc \<Rightarrow> Inr (to_challenge sc)))"
  by (simp add: challenge_read_def visible_def Let_def split: prod.splits option.splits)

lemma was_used_eq: "fst (was_used ops E t u code c) \<longleftrightarrow> visible ops t (used_code_key E u code) c \<noteq> None"
  by (simp add: was_used_def visible_def case_prod_unfold Let_def)

lemma get_cached_eq:
  "fst (get_cached_response ops validate t e s k c) =
     (case visible ops t (cache_key e s k) c of
        None \<Rightarrow> Inr None | Some v \<Rightarrow> rbind (validate v) (\<lambda>r. Inr (Some r)))"
  by (simp add: get_cached_response_def visible_def case_prod_unfold Let_def split: option.splits)

lemma issued_readable:
  assumes "validate_challenge E (dump_challenge E (stored_of ch)) = Some (stored_of ch)"
    and "t0 \<le> t"
  shows "fst (challenge_read ops E t (fst (challenge_issue ops E k t0 ch c)) (snd (challenge_issue ops E k t0 ch c))) =
     (if t < t0 + seconds CHALLENGE_TTL_SECONDS then Inr (to_challenge (stored_of ch))
      else Inl TwoFactorChallengeExpiredError)"
  using assms set_visible [of CHALLENGE_TTL_SECONDS t0 t]
  by (simp add: read_eq challenge_issue_def Let_def CHALLENGE_TTL_SECONDS_def)

lemma discarded_gone:
  "fst (challenge_read ops E t token (challenge_discard ops token c)) = Inl TwoFactorChallengeExpiredError"
  by (simp add: read_eq challenge_discard_def delete_visible)

lemma failure_counts:
  assumes "validate_challenge E (dump_challenge E (stored_of (with_failed_attempt ch))) =
             Some (stored_of (with_failed_attempt ch))"
    and "t0 \<le> t" and "challenge_record_failure ops E t0 token ch c = (r, c')"
  shows "if ch_attempts ch + 1 \<ge> MAX_ATTEMPTS
         then r = Inl TwoFactorChallengeExpiredError \<and>
              fst (challenge_read ops E t token c') = Inl TwoFactorChallengeExpiredError
         else r = Inr () \<and>
              fst (challenge_read ops E t token c') =
                (if t < t0 + seconds CHALLENGE_TTL_SECONDS
                 then Inr (to_challenge (stored_of (with_failed_attempt ch)))
                 else Inl TwoFactorChallengeExpiredError)"
proof (cases "ch_attempts ch + 1 \<ge> MAX_ATTEMPTS")
  case True
  then have "r = Inl TwoFactorChallengeExpiredError" "c' = challenge_discard ops token c"
    using assms(3) by (simp_all add: challenge_record_failure_def Let_def is_exhausted_def
        with_failed_attempt_def)
  then show ?thesis using True discarded_gone by simp
next
  case False
  then have "r = Inr ()" "c' = c_set ops t0 (CACHE_PREFIX @ token)
      (dump_challenge E (stored_of (with_failed_attempt ch))) (Some CHALLENGE_TTL_SECONDS) c"
    using assms(3) by (auto simp: challenge_record_failure_def Let_def is_exhausted_def
        with_failed_attempt_def)
  then show ?thesis
    using False assms(1,2) set_visible [of CHALLENGE_TTL_SECONDS t0 t]
    by (simp add: read_eq CHALLENGE_TTL_SECONDS_def)
qed

lemma remembered_used:
  "t0 \<le> t \<Longrightarrow> fst (was_used ops E t u code (remember ops E t0 u code c)) \<longleftrightarrow>
     t < t0 + seconds CODE_MEMORY_SECONDS"
  using set_visible [of CODE_MEMORY_SECONDS t0 t]
  by (simp add: was_used_eq remember_def CODE_MEMORY_SECONDS_def)

lemma cached_response_replayed:
  "t0 \<le> t \<Longrightarrow>
     fst (get_cached_response ops validate t e s k (cache_response ops dump t0 e s k r c)) =
       (if t < t0 + seconds IDEMPOTENCY_TTL_SECONDS
        then rbind (validate (dump r)) (\<lambda>r. Inr (Some r)) else Inr None)"
  using set_visible [of IDEMPOTENCY_TTL_SECONDS t0 t]
  by (simp add: get_cached_eq cache_response_def IDEMPOTENCY_TTL_SECONDS_def)

lemma was_used_keeps: "t0 \<le> t \<Longrightarrow> visible ops t k (snd (was_used ops E t0 u code c)) = visible ops t k c"
  using get_keeps by (simp add: was_used_def Let_def split: prod.splits) (metis snd_conv)

end

lemma InMemoryCache_sel [simp]:
  "c_get InMemoryCache = mem_get" "c_set InMemoryCache = mem_set" "c_delete InMemoryCache = mem_delete"
  by (simp_all add: InMemoryCache_def)

lemma visible_mem:
  "visible InMemoryCache t k c =
     (case c k of None \<Rightarrow> None
      | Some (v, None) \<Rightarrow> Some v
      | Some (v, Some e) \<Rightarrow> if t < e then Some v else None)"
  by (auto simp: visible_def mem_get_def split: option.splits)

interpretation mem: cache_store InMemoryCache
proof
  fix n :: int and t0 t :: datetime and k k' v :: string and c :: mem_cache
  show "0 < n \<Longrightarrow> t0 \<le> t \<Longrightarrow> visible InMemoryCache t k (c_set InMemoryCache t0 k v (Some n) c) =
      (if t < t0 + seconds n then Some v else None)"
    by (simp add: visible_mem mem_set_def Let_def)
  show "k \<noteq> k' \<Longrightarrow> 0 < n \<Longrightarrow> visible InMemoryCache t k (c_set InMemoryCache t0 k' v (Some n) c) = visible InMemoryCache t k c"
    by (simp add: visible_mem mem_set_def Let_def)
  show "visible InMemoryCache t k (c_delete InMemoryCache k c) = None"
    by (simp add: visible_mem mem_delete_def)
  show "k \<noteq> k' \<Longrightarrow> visible InMemoryCache t k (c_delete InMemoryCache k' c) = visible InMemoryCache t k c"
    by (simp add: visible_mem mem_delete_def)
  show "t0 \<le> t \<Longrightarrow> visible InMemoryCache t k (snd (c_get InMemoryCache t0 k' c)) = visible InMemoryCache t k c"
    by (auto simp: visible_mem mem_get_def split: option.splits prod.splits)
qed

section \<open>The stores over the in-memory cache\<close>

text \<open>A codec for stored challenges that satisfies the law of pydantic's JSON round trip.\<close>

definition enc_opt :: "string option \<Rightarrow> string" where
  "enc_opt v = (case v of None \<Rightarrow> ''N'' | Some s \<Rightarrow> concat (map (\<lambda>c. [CHR ''C'', c]) s) @ ''E'')"

fun dec_opt :: "string \<Rightarrow> (string option \<times> string) option" where
  "dec_opt (c # d # r) =
     (if c = CHR ''N'' then Some (None, d # r)
      else if c = CHR ''E'' then Some (Some [], d # r)
      else (case dec_opt r of Some (Some s, r') \<Rightarrow> Some (Some (d # s), r') | _ \<Rightarrow> None))"
| "dec_opt [c] = (if c = CHR ''N'' then Some (None, []) else if c = CHR ''E'' then Some (Some [], []) else None)"
| "dec_opt [] = None"

definition sample_dump :: "stored_challenge \<Rightarrow> string" where
  "sample_dump sc =
     uuid_str (sc_user_id sc) @ enc_opt (sc_user_agent sc) @ enc_opt (sc_ip_address sc) @
     enc_opt (sc_login_challenge sc) @ (if sc_attempts sc < 0 then ''-'' else ''+'') @
     replicate (nat (abs (sc_attempts sc))) (CHR ''I'')"

definition sample_validate :: "string \<Rightarrow> stored_challenge option" where
  "sample_validate s =
     Option.bind (uuid_parse (take 36 s)) (\<lambda>u.
     Option.bind (dec_opt (drop 36 s)) (\<lambda>(a, r1).
     Option.bind (dec_opt r1) (\<lambda>(i, r2).
     Option.bind (dec_opt r2) (\<lambda>(l, r3).
       case r3 of [] \<Rightarrow> None
       | c # r4 \<Rightarrow> Some \<lparr>sc_user_id = u, sc_user_agent = a, sc_ip_address = i,
           sc_attempts = (if c = CHR ''-'' then - int (length r4) else int (length r4)),
           sc_login_challenge = l\<rparr>))))"

definition sample_env2 :: env where
  "sample_env2 = sample_env\<lparr>dump_challenge := sample_dump, validate_challenge := sample_validate\<rparr>"

definition challenge_codec_law :: "env \<Rightarrow> bool" where
  "challenge_codec_law E = (\<forall>sc. validate_challenge E (dump_challenge E sc) = Some sc)"

lemma dec_enc_opt: "dec_opt (enc_opt v @ r) = Some (v, r)"
proof (cases v)
  case None
  then show ?thesis by (cases r) (simp_all add: enc_opt_def)
next
  case (Some s)
  have "dec_opt (concat (map (\<lambda>c. [CHR ''C'', c]) s) @ CHR ''E'' # r) = Some (Some s, r)"
    by (induction s) (cases r; simp)+
  with Some show ?thesis by (simp add: enc_opt_def)
qed

lemma sample_codec: "sample_validate (sample_dump sc) = Some sc"
  by (simp add: sample_validate_def sample_dump_def uuid_parse_str dec_enc_opt)

lemma sample_codec_law: "challenge_codec_law sample_env2"
  by (simp add: challenge_codec_law_def sample_env2_def sample_codec)


definition sample_challenge :: two_factor_challenge where
  "sample_challenge = \<lparr>ch_user_id = 7, ch_device_info = DeviceInfo None None, ch_attempts = 4,
     ch_login_challenge = None\<rparr>"


text \<open>A code that was accepted for a user is refused for that user for the next 120 seconds
  and only for those: the registry answers that it was used exactly before that instant.\<close>

theorem used_code_window:
  assumes "t0 \<le> t"
  shows "fst (was_used InMemoryCache E t u code (remember InMemoryCache E t0 u code c)) \<longleftrightarrow>
           t < t0 + seconds 120"
  using mem.remembered_used [OF assms] by (simp add: CODE_MEMORY_SECONDS_def)

theorem used_code_window_witness:
  "fst (was_used InMemoryCache sample_env 60 7 ''123456''
          (remember InMemoryCache sample_env 0 7 ''123456'' Map.empty))"
  using used_code_window [of 0 60 sample_env 7 "''123456''" Map.empty] by simp

lemma zero_ttl_never_expires:
  "visible InMemoryCache t k (mem_set t0 k v (Some 0) c) = Some v"
  by (simp add: visible_mem mem_set_def)

end
