(* ===== verification/Limiter.thy ===== *)
theory Limiter
  imports Errors "HOL-Library.AList" "HOL-Library.List_Lexorder"
begin

text \<open>
  The in-memory limiters (infrastructure/security/rate_limiter.py): the sliding-window request
  limiter and the login-attempt limiter. A bucket dict is an association list in insertion order;
  both limiters sweep old buckets at most once per cleanup interval and then evict the buckets
  that sort first when more than max_keys remain.
\<close>

record rate_limit_config =
  max_requests :: int
  window_seconds :: int
  max_login_attempts :: int
  lockout_seconds :: int
  cleanup_interval_seconds :: int
  max_keys :: int

definition default_config :: rate_limit_config where
  "default_config = \<lparr>max_requests = 100, window_seconds = 60, max_login_attempts = 5,
     lockout_seconds = 900, cleanup_interval_seconds = 300, max_keys = 10000\<rparr>"

record rate_limit_result =
  allowed :: bool
  remaining :: int
  reset_at :: "datetime option"

definition retry_after_seconds :: "rate_limit_result \<Rightarrow> datetime \<Rightarrow> int option" where
  "retry_after_seconds r now =
     (case reset_at r of None \<Rightarrow> None | Some t \<Rightarrow> Some (max 1 ((t - now) div 1000000)))"

type_synonym buckets = "(string \<times> datetime list) list"

record limiter =
  lm_buckets :: buckets
  lm_last_cleanup :: datetime

definition bucket_of :: "string \<Rightarrow> buckets \<Rightarrow> datetime list" where
  "bucket_of k bs = (case map_of bs k of None \<Rightarrow> [] | Some ts \<Rightarrow> ts)"

text \<open>Eviction: \<open>sorted(keys, key=bucket)\<close>, and the first len - max_keys of them are deleted.\<close>

definition evict :: "int \<Rightarrow> buckets \<Rightarrow> buckets" where
  "evict mx bs =
     (if int (length bs) > mx
      then (let victims = map fst (take (nat (int (length bs) - mx)) (sort_key snd bs)) in
            filter (\<lambda>(k, ts). k \<notin> set victims) bs)
      else bs)"

text \<open>_maybe_cleanup of both limiters; \<open>window\<close> is window_seconds or lockout_seconds.\<close>

definition maybe_cleanup :: "rate_limit_config \<Rightarrow> int \<Rightarrow> datetime \<Rightarrow> limiter \<Rightarrow> limiter" where
  "maybe_cleanup cfg window now l =
     (if now - lm_last_cleanup l < seconds (cleanup_interval_seconds cfg) then l
      else (let window_start = now - seconds (window * 2);
                live = filter (\<lambda>(k, ts). \<not> (ts = [] \<or> list_all (\<lambda>t. t < window_start) ts)) (lm_buckets l) in
            \<lparr>lm_buckets = evict (max_keys cfg) live, lm_last_cleanup = now\<rparr>))"

definition rate_check ::
    "rate_limit_config \<Rightarrow> datetime \<Rightarrow> string \<Rightarrow> limiter \<Rightarrow> (app_error + rate_limit_result) \<times> limiter" where
  "rate_check cfg now key l0 =
     (let l = maybe_cleanup cfg (window_seconds cfg) now l0;
          window_start = now - seconds (window_seconds cfg);
          bucket = filter (\<lambda>t. t > window_start) (bucket_of key (lm_buckets l)) in
      if int (length bucket) \<ge> max_requests cfg
      then ((case bucket of
               [] \<Rightarrow> Inl (ValueError ''min() iterable argument is empty'')
             | _ \<Rightarrow> Inr \<lparr>allowed = False, remaining = 0,
                         reset_at = Some (Min (set bucket) + seconds (window_seconds cfg))\<rparr>),
            l\<lparr>lm_buckets := AList.update key bucket (lm_buckets l)\<rparr>)
      else (Inr \<lparr>allowed = True, remaining = max_requests cfg - int (length bucket),
                 reset_at = Some (now + seconds (window_seconds cfg))\<rparr>,
            l\<lparr>lm_buckets := AList.update key (bucket @ [now]) (lm_buckets l)\<rparr>))"

definition rate_reset :: "string \<Rightarrow> limiter \<Rightarrow> limiter" where
  "rate_reset key l = l\<lparr>lm_buckets := AList.delete key (lm_buckets l)\<rparr>"

section \<open>Login attempts\<close>

definition record_failed_login ::
    "rate_limit_config \<Rightarrow> datetime \<Rightarrow> string \<Rightarrow> limiter \<Rightarrow> bool \<times> limiter" where
  "record_failed_login cfg now ip l0 =
     (let l = maybe_cleanup cfg (lockout_seconds cfg) now l0;
          window_start = now - seconds (lockout_seconds cfg);
          attempts = filter (\<lambda>t. t > window_start) (bucket_of ip (lm_buckets l) @ [now]) in
      (int (length attempts) \<ge> max_login_attempts cfg,
       l\<lparr>lm_buckets := AList.update ip attempts (lm_buckets l)\<rparr>))"

definition recent_attempts :: "rate_limit_config \<Rightarrow> datetime \<Rightarrow> string \<Rightarrow> limiter \<Rightarrow> datetime list" where
  "recent_attempts cfg now ip l =
     filter (\<lambda>t. t > now - seconds (lockout_seconds cfg)) (bucket_of ip (lm_buckets l))"

definition attempts_is_locked :: "rate_limit_config \<Rightarrow> datetime \<Rightarrow> string \<Rightarrow> limiter \<Rightarrow> bool" where
  "attempts_is_locked cfg now ip l = (int (length (recent_attempts cfg now ip l)) \<ge> max_login_attempts cfg)"

definition get_remaining_lock_time :: "rate_limit_config \<Rightarrow> datetime \<Rightarrow> string \<Rightarrow> limiter \<Rightarrow> int" where
  "get_remaining_lock_time cfg now ip l =
     (let recent = recent_attempts cfg now ip l in
      if recent = [] then 0
      else max 0 ((Min (set recent) + seconds (lockout_seconds cfg) - now) div 1000000))"

definition attempts_reset :: "string \<Rightarrow> limiter \<Rightarrow> limiter" where
  "attempts_reset ip l = l\<lparr>lm_buckets := AList.delete ip (lm_buckets l)\<rparr>"

text \<open>A run of checks: the instants and keys in order; the result is the log of the admitted
  ones and the limiter left behind.\<close>

fun run_checks ::
    "rate_limit_config \<Rightarrow> (datetime \<times> string) list \<Rightarrow> limiter \<Rightarrow> (datetime \<times> string) list \<times> limiter" where
  "run_checks cfg [] l = ([], l)"
| "run_checks cfg ((t, k) # cs) l =
     (let (r, l1) = rate_check cfg t k l;
          admitted = (case r of Inr x \<Rightarrow> if allowed x then [(t, k)] else [] | Inl _ \<Rightarrow> []);
          (log, l2) = run_checks cfg cs l1 in
      (admitted @ log, l2))"

text \<open>The admitted requests of one key in the window that ends at t.\<close>

definition in_window :: "rate_limit_config \<Rightarrow> datetime \<Rightarrow> string \<Rightarrow> (datetime \<times> string) list \<Rightarrow> datetime list" where
  "in_window cfg t k log =
     map fst (filter (\<lambda>(s, j). j = k \<and> s > t - seconds (window_seconds cfg) \<and> s \<le> t) log)"

section \<open>Lemmas\<close>

lemma bucket_of_update: "bucket_of k (AList.update j ts bs) = (if k = j then ts else bucket_of k bs)"
  by (simp add: bucket_of_def update_conv')

lemma bucket_of_delete: "bucket_of k (AList.delete j bs) = (if k = j then [] else bucket_of k bs)"
  by (simp add: bucket_of_def delete_conv')

lemma retry_after_positive: "retry_after_seconds r now = Some n \<Longrightarrow> 1 \<le> n"
  by (auto simp: retry_after_seconds_def split: option.splits)

lemma evict_few: "int (length bs) \<le> mx \<Longrightarrow> evict mx bs = bs"
  by (simp add: evict_def)

lemma evict_sub: "set (evict mx bs) \<subseteq> set bs"
  by (auto simp: evict_def Let_def)

lemma evict_length: "0 \<le> mx \<Longrightarrow> distinct (map fst bs) \<Longrightarrow> int (length (evict mx bs)) \<le> mx"
proof (cases "int (length bs) > mx")
  case True
  assume d: "distinct (map fst bs)" and m: "0 \<le> mx"
  let ?n = "nat (int (length bs) - mx)" and ?s = "sort_key snd bs"
  let ?v = "map fst (take ?n ?s)"
  have "evict mx bs = filter (\<lambda>(k, ts). k \<notin> set ?v) bs" using True by (simp add: evict_def Let_def)
  then have s: "set (map fst (evict mx bs)) = fst ` set bs - set ?v" by (auto simp: image_iff)
  have ds: "distinct (map fst ?s)" using d by (simp add: distinct_map)
  have "distinct ?v" using ds by (metis distinct_take take_map)
  then have cv: "card (set ?v) = ?n" using True m
    by (subst distinct_card) (auto simp: min_def)
  have sub: "set ?v \<subseteq> fst ` set bs" by (auto dest!: in_set_takeD)
  have "distinct (map fst (evict mx bs))"
    using d True by (simp add: evict_def Let_def distinct_map_filter)
  then have "length (evict mx bs) = card (set (map fst (evict mx bs)))"
    by (metis distinct_card length_map)
  also have "\<dots> = card (fst ` set bs) - ?n" unfolding s using sub cv
    by (simp add: card_Diff_subset)
  also have "card (fst ` set bs) = length bs" using d by (metis distinct_card length_map list.set_map)
  finally show ?thesis using True m by simp
next
  case False
  then show ?thesis by (simp add: evict_def)
qed

text \<open>A sweep drops no timestamp that could still be counted, unless it has to evict.\<close>

lemma bucket_of_filter:
  "distinct (map fst bs) \<Longrightarrow>
     bucket_of k (filter (\<lambda>(j, ts). P ts) bs) = (if P (bucket_of k bs) \<or> bucket_of k bs = [] then bucket_of k bs else [])"
  if "\<not> P []" for P
proof -
  assume d: "distinct (map fst bs)"
  have "map_of (filter (\<lambda>(j, ts). P ts) bs) k = (case map_of bs k of None \<Rightarrow> None | Some ts \<Rightarrow> if P ts then Some ts else None)"
    using d
  proof (induction bs)
    case (Cons b bs)
    have "fst b \<notin> fst ` set bs" using Cons.prems by simp
    then have "map_of bs (fst b) = None" by (simp add: map_of_eq_None_iff)
    with Cons show ?case by (cases b) (auto split: option.splits)
  qed simp
  then show ?thesis using that by (auto simp: bucket_of_def split: option.splits)
qed

section \<open>The window bound over whole runs\<close>

abbreviation live :: "rate_limit_config \<Rightarrow> datetime \<Rightarrow> datetime list \<Rightarrow> datetime list" where
  "live cfg t ts \<equiv> filter (\<lambda>s. s > t - seconds (window_seconds cfg)) ts"

definition key_log :: "string \<Rightarrow> (datetime \<times> string) list \<Rightarrow> datetime list" where
  "key_log k log = map fst (filter (\<lambda>(s, j). j = k) log)"

lemma key_log_append [simp]: "key_log k (xs @ ys) = key_log k xs @ key_log k ys"
  by (simp add: key_log_def)

lemma key_log_single [simp]: "key_log k [(t, j)] = (if j = k then [t] else [])"
  by (simp add: key_log_def)

lemma in_window_key_log:
  "in_window cfg t k log = filter (\<lambda>s. s > t - seconds (window_seconds cfg) \<and> s \<le> t) (key_log k log)"
  by (induction log) (auto simp: in_window_def key_log_def)

text \<open>With at most max_keys keys in use, each bucket holds the admitted requests of its key that
  still count.\<close>

definition lim_inv :: "rate_limit_config \<Rightarrow> string set \<Rightarrow> datetime \<Rightarrow> (datetime \<times> string) list \<Rightarrow> limiter \<Rightarrow> bool" where
  "lim_inv cfg K now log l =
     (distinct (map fst (lm_buckets l)) \<and> fst ` set (lm_buckets l) \<subseteq> K \<and>
      (\<forall>k. live cfg now (bucket_of k (lm_buckets l)) = live cfg now (key_log k log)) \<and>
      (\<forall>k. \<forall>s \<in> set (key_log k log). s \<le> now))"

lemma live_live: "now \<le> t \<Longrightarrow> live cfg t (live cfg now ts) = live cfg t ts"
  by (induction ts) auto

lemma length_distinct_keys: "distinct (map fst bs) \<Longrightarrow> length bs = card (fst ` set bs)"
  by (metis distinct_card length_map list.set_map)

lemma cleanup_live:
  assumes d: "distinct (map fst (lm_buckets l))" and K: "fst ` set (lm_buckets l) \<subseteq> K" "finite K"
    "int (card K) \<le> max_keys cfg" and w: "0 \<le> window_seconds cfg"
  shows "distinct (map fst (lm_buckets (maybe_cleanup cfg (window_seconds cfg) t l))) \<and>
         fst ` set (lm_buckets (maybe_cleanup cfg (window_seconds cfg) t l)) \<subseteq> K \<and>
         live cfg t (bucket_of k (lm_buckets (maybe_cleanup cfg (window_seconds cfg) t l))) =
           live cfg t (bucket_of k (lm_buckets l))"
proof (cases "t - lm_last_cleanup l < seconds (cleanup_interval_seconds cfg)")
  case True
  then show ?thesis using d K by (simp add: maybe_cleanup_def)
next
  case False
  let ?P = "\<lambda>ts. \<not> (ts = [] \<or> list_all (\<lambda>s. s < t - seconds (window_seconds cfg * 2)) ts)"
  let ?bs = "filter (\<lambda>(k, ts). ?P ts) (lm_buckets l)"
  have db: "distinct (map fst ?bs)" using d by (simp add: distinct_map_filter)
  have kb: "fst ` set ?bs \<subseteq> K" using K(1) by auto
  have "length ?bs = card (fst ` set ?bs)" using db by (rule length_distinct_keys)
  also have "\<dots> \<le> card K" using K(2) kb by (rule card_mono)
  finally have e: "evict (max_keys cfg) ?bs = ?bs" using K(3) by (intro evict_few) linarith
  have b: "lm_buckets (maybe_cleanup cfg (window_seconds cfg) t l) = ?bs"
    using False e by (simp add: maybe_cleanup_def Let_def)
  have old: "live cfg t ts = []" if "\<not> ?P ts" for ts
  proof -
    have "s \<le> t - seconds (window_seconds cfg)" if "s < t - seconds (window_seconds cfg * 2)" for s
      using that w by linarith
    with \<open>\<not> ?P ts\<close> show ?thesis by (auto simp: filter_empty_conv list_all_iff not_less)
  qed
  have nil: "\<not> ?P []" by simp
  have "live cfg t (bucket_of k ?bs) = live cfg t (bucket_of k (lm_buckets l))"
    unfolding bucket_of_filter [where P = ?P, OF nil d]
    using old [of "bucket_of k (lm_buckets l)"] by (simp only: split: if_split) auto
  with b db kb show ?thesis by simp
qed

lemma update_keys: "fst ` set (AList.update k v bs) = insert k (fst ` set bs)"
  by (simp add: dom_update)

lemma rate_check_step:
  assumes inv: "lim_inv cfg K now log l" and t: "now \<le> t" and k: "k \<in> K" and K: "finite K"
    "int (card K) \<le> max_keys cfg" and w: "0 < window_seconds cfg"
    and r: "rate_check cfg t k l = (r, l1)"
  shows "lim_inv cfg K t (log @ (case r of Inr x \<Rightarrow> if allowed x then [(t, k)] else [] | Inl _ \<Rightarrow> [])) l1 \<and>
         ((\<exists>x. r = Inr x \<and> allowed x) \<longleftrightarrow> int (length (live cfg t (key_log k log))) < max_requests cfg)"
proof -
  let ?l = "maybe_cleanup cfg (window_seconds cfg) t l"
  let ?b = "live cfg t (bucket_of k (lm_buckets ?l))"
  have d: "distinct (map fst (lm_buckets l))" "fst ` set (lm_buckets l) \<subseteq> K"
    using inv by (auto simp: lim_inv_def)
  note c = cleanup_live [OF d K less_imp_le [OF w], of t]
  have lv: "live cfg t (bucket_of j (lm_buckets ?l)) = live cfg t (key_log j log)" for j
  proof -
    have "live cfg t (bucket_of j (lm_buckets ?l)) = live cfg t (live cfg now (bucket_of j (lm_buckets l)))"
      using c [of j] live_live [OF t] by simp
    also have "\<dots> = live cfg t (key_log j log)"
      using inv live_live [OF t] by (simp add: lim_inv_def)
    finally show ?thesis .
  qed
  have old: "\<forall>j. \<forall>s \<in> set (key_log j log). s \<le> t" using inv t by (fastforce simp: lim_inv_def)
  show ?thesis
  proof (cases "int (length ?b) \<ge> max_requests cfg")
    case True
    then have "l1 = ?l\<lparr>lm_buckets := AList.update k ?b (lm_buckets ?l)\<rparr>"
      and "r = Inr x \<Longrightarrow> \<not> allowed x" for x
      using r by (auto simp: rate_check_def Let_def split: list.splits)
    moreover from this(2) have "(case r of Inr x \<Rightarrow> if allowed x then [(t, k)] else [] | Inl _ \<Rightarrow> []) = []"
      by (simp split: sum.splits)
    ultimately show ?thesis
      using c lv old k True by (auto simp: lim_inv_def bucket_of_update distinct_update update_keys)
  next
    case False
    then have l1: "l1 = ?l\<lparr>lm_buckets := AList.update k (?b @ [t]) (lm_buckets ?l)\<rparr>"
      and x: "\<exists>x. r = Inr x \<and> allowed x"
      using r by (auto simp: rate_check_def Let_def)
    from x have "(case r of Inr x \<Rightarrow> if allowed x then [(t, k)] else [] | Inl _ \<Rightarrow> []) = [(t, k)]"
      by auto
    with l1 x show ?thesis
      using c lv old k False by (auto simp: lim_inv_def bucket_of_update distinct_update update_keys)
  qed
qed

lemma run_checks_bound:
  assumes "finite K" "int (card K) \<le> max_keys cfg" "0 < window_seconds cfg"
  shows "lim_inv cfg K now log l \<Longrightarrow> sorted (now # map fst cs) \<Longrightarrow> snd ` set cs \<subseteq> K \<Longrightarrow>
     (\<And>t k. int (length (in_window cfg t k log)) \<le> max 0 (max_requests cfg)) \<Longrightarrow>
     int (length (in_window cfg t k (log @ fst (run_checks cfg cs l)))) \<le> max 0 (max_requests cfg)"
proof (induction cs arbitrary: now log l t k)
  case Nil
  then show ?case by simp
next
  case (Cons c cs)
  obtain u j where c: "c = (u, j)" by (cases c)
  obtain r l1 where r: "rate_check cfg u j l = (r, l1)" by fastforce
  let ?a = "case r of Inr x \<Rightarrow> if allowed x then [(u, j)] else [] | Inl _ \<Rightarrow> []"
  have s: "now \<le> u" "j \<in> K" "sorted (u # map fst cs)" "snd ` set cs \<subseteq> K"
    using Cons.prems(2,3) by (auto simp: c)
  note st = rate_check_step [OF Cons.prems(1) s(1,2) assms r]
  have "int (length (in_window cfg t k (log @ ?a))) \<le> max 0 (max_requests cfg)" for t k
  proof (cases "\<exists>x. r = Inr x \<and> allowed x")
    case True
    then have a: "?a = [(u, j)]" by auto
    show ?thesis
    proof (cases "j = k \<and> u \<le> t")
      case True
      have "length (filter (\<lambda>s. s > t - seconds (window_seconds cfg) \<and> s \<le> t) (key_log k log)) \<le>
          length (live cfg u (key_log k log))"
        using True by (intro length_filter_mono) auto
      moreover have "int (length (live cfg u (key_log k log))) < max_requests cfg"
        using st \<open>\<exists>x. r = Inr x \<and> allowed x\<close> True by blast
      ultimately show ?thesis using True by (simp add: a in_window_key_log)
    next
      case False
      then show ?thesis using Cons.prems(4) [of t k] by (auto simp: a in_window_key_log)
    qed
  next
    case False
    then have "?a = []" by (auto split: sum.splits)
    then show ?thesis using Cons.prems(4) by simp
  qed
  from Cons.IH [OF conjunct1 [OF st] s(3,4) this] show ?case
    by (simp add: c r Let_def case_prod_unfold)
qed

text \<open>C34. Sliding window: for a run of checks at non-decreasing instants on at most max_keys
  different keys, starting from an empty limiter, no window of window_seconds contains more than
  max_requests admitted requests of one key; periodic sweeps do not weaken the bound.\<close>

theorem rate_limit_window_bound:
  assumes "0 < window_seconds cfg" and "sorted (map fst cs)"
    and "int (card (snd ` set cs)) \<le> max_keys cfg"
  shows "int (length (in_window cfg t k (fst (run_checks cfg cs \<lparr>lm_buckets = [], lm_last_cleanup = t0\<rparr>))))
           \<le> max 0 (max_requests cfg)"
proof (cases cs)
  case Nil
  then show ?thesis by (simp add: in_window_def)
next
  case (Cons c ds)
  have inv: "lim_inv cfg (snd ` set cs) (fst c) [] \<lparr>lm_buckets = [], lm_last_cleanup = t0\<rparr>"
    by (simp add: lim_inv_def bucket_of_def key_log_def)
  have "sorted (fst c # map fst cs)" using assms(2) by (simp add: Cons)
  from run_checks_bound [OF finite_imageI [OF finite_set] assms(3,1) inv this order_refl, of t k]
  show ?thesis by (simp add: in_window_def)
qed

theorem rate_limit_window_bound_witness:
  "int (length (in_window (default_config\<lparr>max_requests := 1\<rparr>) 5 ''a''
      (fst (run_checks (default_config\<lparr>max_requests := 1\<rparr>) [(1, ''a''), (2, ''a''), (3, ''b'')]
              \<lparr>lm_buckets = [], lm_last_cleanup = 0\<rparr>)))) \<le> 1"
proof -
  have "card (snd ` set [(1 :: datetime, ''a''), (2, ''a''), (3, ''b'')]) \<le> 3"
    by (rule order_trans [OF card_image_le]) (auto intro: order_trans [OF card_length])
  then show ?thesis
    using rate_limit_window_bound [of "default_config\<lparr>max_requests := 1\<rparr>"
        "[(1, ''a''), (2, ''a''), (3, ''b'')]" 5 "''a''" 0]
    by (simp add: default_config_def)
qed

text \<open>A failed login counts in its own bucket only: after recording, the bucket is locked
  exactly when the recent failures with this one reach the limit, the answer says so, other
  buckets keep their state while no eviction is due, and a reset unlocks the bucket.\<close>

theorem login_attempts_exact:
  assumes "now - lm_last_cleanup l < seconds (cleanup_interval_seconds cfg)"
    and "0 < lockout_seconds cfg" and "0 < max_login_attempts cfg"
  shows "let (answer, l') = record_failed_login cfg now ip l in
         (answer \<longleftrightarrow> int (length (recent_attempts cfg now ip l)) + 1 \<ge> max_login_attempts cfg) \<and>
         (attempts_is_locked cfg now ip l' \<longleftrightarrow> answer) \<and>
         (\<forall>j. j \<noteq> ip \<longrightarrow> attempts_is_locked cfg now j l' = attempts_is_locked cfg now j l) \<and>
         \<not> attempts_is_locked cfg now ip (attempts_reset ip l')"
  using assms
  by (auto simp: record_failed_login_def maybe_cleanup_def Let_def attempts_is_locked_def
      recent_attempts_def bucket_of_update attempts_reset_def bucket_of_delete)

theorem login_attempts_exact_witness:
  "\<not> attempts_is_locked default_config 1 ''ip''
      (snd (record_failed_login default_config 1 ''ip'' \<lparr>lm_buckets = [], lm_last_cleanup = 0\<rparr>))"
  using login_attempts_exact [of 1 "\<lparr>lm_buckets = [], lm_last_cleanup = 0\<rparr>" default_config "''ip''"]
  by (simp add: default_config_def recent_attempts_def bucket_of_def case_prod_unfold Let_def)

end
