(* ===== verification/Redis.thy ===== *)
theory Redis
  imports Cache Limiter
begin

text \<open>
  The adapters that a production service runs with (infrastructure/cache/redis_cache.py and
  infrastructure/security/redis_rate_limiter.py). The Redis server and its client are outside the
  repository: a \<open>redis\<close> record holds the commands the adapters send, each at an instant, and
  \<open>redis_law\<close> what the documentation of the commands says about the keyspace, a map from keys to a
  value and an expiry.
\<close>

record 's redis =
  rd_get :: "datetime \<Rightarrow> string \<Rightarrow> 's \<Rightarrow> string option"
  rd_set :: "datetime \<Rightarrow> string \<Rightarrow> string \<Rightarrow> int option \<Rightarrow> 's \<Rightarrow> 's"
  rd_delete :: "string \<Rightarrow> 's \<Rightarrow> 's"
  rd_incr :: "datetime \<Rightarrow> string \<Rightarrow> 's \<Rightarrow> int \<times> 's"
  rd_expire :: "datetime \<Rightarrow> string \<Rightarrow> int \<Rightarrow> bool \<Rightarrow> 's \<Rightarrow> 's"
  rd_ttl :: "datetime \<Rightarrow> string \<Rightarrow> 's \<Rightarrow> int"

section \<open>RedisCache\<close>

definition RedisCache :: "'s redis \<Rightarrow> 's cache_ops" where
  "RedisCache R = \<lparr>c_get = (\<lambda>now key s. (rd_get R now key s, s)), c_set = rd_set R, c_delete = rd_delete R\<rparr>"

section \<open>RedisRateLimiter\<close>

definition rate_key :: "string \<Rightarrow> string" where
  "rate_key key = ''ratelimit:'' @ key"

definition redis_check :: "'s redis \<Rightarrow> int \<Rightarrow> int \<Rightarrow> datetime \<Rightarrow> string \<Rightarrow> 's \<Rightarrow> rate_limit_result \<times> 's" where
  "redis_check R max_reqs window now key s =
     (let (count, s1) = rd_incr R now (rate_key key) s;
          s2 = (if count = 1 then rd_expire R now (rate_key key) window False s1 else s1);
          ttl = rd_ttl R now (rate_key key) s2;
          reset = now + seconds (if ttl > 0 then ttl else window) in
      if count > max_reqs then (\<lparr>allowed = False, remaining = 0, reset_at = Some reset\<rparr>, s2)
      else (\<lparr>allowed = True, remaining = max_reqs - count, reset_at = Some reset\<rparr>, s2))"

definition redis_rate_reset :: "'s redis \<Rightarrow> string \<Rightarrow> 's \<Rightarrow> 's" where
  "redis_rate_reset R key s = rd_delete R (rate_key key) s"

section \<open>RedisLoginAttemptLimiter\<close>

text \<open>int(s) on the text of a reply.\<close>

fun digits_value :: "nat \<Rightarrow> string \<Rightarrow> nat option" where
  "digits_value acc [] = Some acc"
| "digits_value acc (c # cs) =
     (if is_digit c then digits_value (10 * acc + (of_char c - 48)) cs
      else if c = CHR ''_'' \<and> cs \<noteq> [] \<and> is_digit (hd cs) then digits_value acc cs
      else None)"

definition py_int :: "string \<Rightarrow> app_error + int" where
  "py_int text =
     (let t = strip text;
          neg = (take 1 t = ''-'');
          u = (if neg \<or> take 1 t = ''+'' then drop 1 t else t) in
      case (if u = [] \<or> \<not> is_digit (hd u) then None else digits_value 0 u) of
        None \<Rightarrow> Inl (ValueError ''invalid literal for int() with base 10'')
      | Some n \<Rightarrow> Inr (if neg then - int n else int n))"

definition failed_key :: "string \<Rightarrow> string" where
  "failed_key ip = ''login_failed:'' @ ip"

definition redis_record_failed_login :: "'s redis \<Rightarrow> int \<Rightarrow> int \<Rightarrow> datetime \<Rightarrow> string \<Rightarrow> 's \<Rightarrow> bool \<times> 's" where
  "redis_record_failed_login R max_attempts lockout now ip s =
     (let (count, s1) = rd_incr R now (failed_key ip) s;
          s2 = rd_expire R now (failed_key ip) lockout True s1 in
      (count \<ge> max_attempts, s2))"

definition redis_is_locked :: "'s redis \<Rightarrow> int \<Rightarrow> datetime \<Rightarrow> string \<Rightarrow> 's \<Rightarrow> app_error + bool" where
  "redis_is_locked R max_attempts now ip s =
     (case rd_get R now (failed_key ip) s of
        None \<Rightarrow> Inr False
      | Some current \<Rightarrow> rbind (py_int current) (\<lambda>n. Inr (n \<ge> max_attempts)))"

definition redis_get_remaining_lock_time :: "'s redis \<Rightarrow> datetime \<Rightarrow> string \<Rightarrow> 's \<Rightarrow> int" where
  "redis_get_remaining_lock_time R now ip s =
     (let ttl = rd_ttl R now (failed_key ip) s in if ttl > 0 then ttl else 0)"

definition redis_attempts_reset :: "'s redis \<Rightarrow> string \<Rightarrow> 's \<Rightarrow> 's" where
  "redis_attempts_reset R ip s = rd_delete R (failed_key ip) s"

section \<open>What the commands do\<close>

type_synonym keyspace = "string \<rightharpoonup> string \<times> datetime option"

definition alive :: "datetime \<Rightarrow> (string \<times> datetime option) option \<Rightarrow> (string \<times> datetime option) option" where
  "alive now x = (case x of
     None \<Rightarrow> None
   | Some (v, e) \<Rightarrow> if (case e of None \<Rightarrow> True | Some t \<Rightarrow> now < t) then Some (v, e) else None)"

text \<open>INCR takes a missing key for 0 and keeps the expiry; EXPIRE NX sets one only where there is
  none; positive times to live.\<close>

definition redis_law :: "'s redis \<Rightarrow> ('s \<Rightarrow> keyspace) \<Rightarrow> bool" where
  "redis_law R ks =
     ((\<forall>now k s. rd_get R now k s = map_option fst (alive now (ks s k))) \<and>
      (\<forall>now k v s. ks (rd_set R now k v None s) = (ks s)(k \<mapsto> (v, None))) \<and>
      (\<forall>now k v n s. 0 < n \<longrightarrow> ks (rd_set R now k v (Some n) s) = (ks s)(k \<mapsto> (v, Some (now + seconds n)))) \<and>
      (\<forall>k s. ks (rd_delete R k s) = (ks s)(k := None)) \<and>
      (\<forall>now k s. alive now (ks s k) = None \<longrightarrow> fst (rd_incr R now k s) = 1 \<and>
         ks (snd (rd_incr R now k s)) = (ks s)(k \<mapsto> (int_str 1, None))) \<and>
      (\<forall>now k s n e. alive now (ks s k) = Some (int_str n, e) \<longrightarrow> fst (rd_incr R now k s) = n + 1 \<and>
         ks (snd (rd_incr R now k s)) = (ks s)(k \<mapsto> (int_str (n + 1), e))) \<and>
      (\<forall>now k n nx s v e. 0 < n \<longrightarrow> alive now (ks s k) = Some (v, e) \<longrightarrow>
         ks (rd_expire R now k n nx s) = (if nx \<and> e \<noteq> None then ks s else (ks s)(k \<mapsto> (v, Some (now + seconds n))))))"

lemma redis_lawD:
  assumes "redis_law R ks"
  shows "rd_get R now k s = map_option fst (alive now (ks s k))"
    "ks (rd_set R now k v None s) = (ks s)(k \<mapsto> (v, None))"
    "0 < n \<Longrightarrow> ks (rd_set R now k v (Some n) s) = (ks s)(k \<mapsto> (v, Some (now + seconds n)))"
    "ks (rd_delete R k s) = (ks s)(k := None)"
    "alive now (ks s k) = None \<Longrightarrow> fst (rd_incr R now k s) = 1"
    "alive now (ks s k) = None \<Longrightarrow> ks (snd (rd_incr R now k s)) = (ks s)(k \<mapsto> (int_str 1, None))"
    "alive now (ks s k) = Some (int_str m, e) \<Longrightarrow> fst (rd_incr R now k s) = m + 1"
    "alive now (ks s k) = Some (int_str m, e) \<Longrightarrow> ks (snd (rd_incr R now k s)) = (ks s)(k \<mapsto> (int_str (m + 1), e))"
    "0 < n \<Longrightarrow> alive now (ks s k) = Some (v, e) \<Longrightarrow>
       ks (rd_expire R now k n nx s) = (if nx \<and> e \<noteq> None then ks s else (ks s)(k \<mapsto> (v, Some (now + seconds n))))"
  using assms by (simp_all add: redis_law_def)

section \<open>The cache keeps its contract\<close>

lemma RedisCache_sel [simp]:
  "c_get (RedisCache R) = (\<lambda>now key s. (rd_get R now key s, s))" "c_set (RedisCache R) = rd_set R" "c_delete (RedisCache R) = rd_delete R"
  by (simp_all add: RedisCache_def)

text \<open>What the in-memory cache promises the stores, the Redis cache promises too, for every time to
  live the server accepts.\<close>

lemma redis_visible:
  assumes "redis_law R ks"
  shows "visible (RedisCache R) t k s = map_option fst (alive t (ks s k))"
  by (simp add: visible_def redis_lawD [OF assms])

lemma redis_cache_store: "redis_law R ks \<Longrightarrow> cache_store (RedisCache R)"
  by unfold_locales (auto simp: redis_visible redis_lawD alive_def)

section \<open>The fixed window\<close>

text \<open>A counter: its value and the instant it expires.\<close>

definition counts :: "('s \<Rightarrow> keyspace) \<Rightarrow> 's \<Rightarrow> string \<Rightarrow> int \<Rightarrow> datetime \<Rightarrow> bool" where
  "counts ks s k n e = (ks s k = Some (int_str n, Some e))"

lemma check_fresh:
  assumes law: "redis_law R ks" and w: "0 < w" and dead: "alive t (ks s (rate_key key)) = None"
    and run: "redis_check R mx w t key s = (r, s')"
  shows "counts ks s' (rate_key key) 1 (t + seconds w)" "allowed r \<longleftrightarrow> 1 \<le> mx"
proof -
  note l = redis_lawD [OF law]
  obtain s1 where i: "rd_incr R t (rate_key key) s = (1, s1)" using l(5) [OF dead] by (metis prod.collapse)
  have k1: "ks s1 = (ks s)(rate_key key \<mapsto> (int_str 1, None))" using l(6) [OF dead] i by simp
  have "ks (rd_expire R t (rate_key key) w False s1) (rate_key key) = Some (int_str 1, Some (t + seconds w))"
    using l(9) [OF w, of t s1 "rate_key key" "int_str 1" None False] k1 by (simp add: alive_def)
  with run i show "counts ks s' (rate_key key) 1 (t + seconds w)" "allowed r \<longleftrightarrow> 1 \<le> mx"
    by (auto simp: redis_check_def counts_def Let_def split: if_splits)
qed

lemma check_counted:
  assumes law: "redis_law R ks" and c: "counts ks s (rate_key key) n e" and live: "t < e" and n: "1 \<le> n"
    and run: "redis_check R mx w t key s = (r, s')"
  shows "counts ks s' (rate_key key) (n + 1) e" "allowed r \<longleftrightarrow> n + 1 \<le> mx"
proof -
  note l = redis_lawD [OF law]
  have a: "alive t (ks s (rate_key key)) = Some (int_str n, Some e)" using c live by (simp add: counts_def alive_def)
  obtain s1 where i: "rd_incr R t (rate_key key) s = (n + 1, s1)" using l(7) [OF a] by (metis prod.collapse)
  have "ks s1 = (ks s)(rate_key key \<mapsto> (int_str (n + 1), Some e))" using l(8) [OF a] i by simp
  with run i n show "counts ks s' (rate_key key) (n + 1) e" "allowed r \<longleftrightarrow> n + 1 \<le> mx"
    by (auto simp: redis_check_def counts_def Let_def split: if_splits)
qed

text \<open>A run of checks on one key: the instants at which the request was admitted.\<close>

fun redis_run :: "'s redis \<Rightarrow> int \<Rightarrow> int \<Rightarrow> string \<Rightarrow> datetime list \<Rightarrow> 's \<Rightarrow> datetime list" where
  "redis_run R mx w key [] s = []"
| "redis_run R mx w key (t # ts) s =
     (let (r, s') = redis_check R mx w t key s in (if allowed r then [t] else []) @ redis_run R mx w key ts s')"

definition between :: "datetime \<Rightarrow> datetime \<Rightarrow> datetime list \<Rightarrow> int" where
  "between a b ts = int (length (filter (\<lambda>t. a \<le> t \<and> t < b) ts))"

lemma between_simps [simp]:
  "between a b [] = 0" "between a b (t # ts) = (if a \<le> t \<and> t < b then 1 else 0) + between a b ts"
  "between a b (ts @ us) = between a b ts + between a b us"
  by (simp_all add: between_def)

lemma run_later:
  "list_all (\<lambda>t. b \<le> t) ts \<Longrightarrow> between a b (redis_run R mx w key ts s) = 0"
  by (induction ts arbitrary: s) (auto split: prod.splits)

lemma run_counted:
  assumes law: "redis_law R ks" and w: "0 < w" and mx: "1 \<le> mx" and b: "b \<le> a + seconds w"
  shows "counts ks s (rate_key key) n e \<Longrightarrow> 1 \<le> n \<Longrightarrow> sorted ts \<Longrightarrow>
     between a b (redis_run R mx w key ts s) \<le>
       (if e \<le> a then 2 * mx - 1 else max 0 (mx - n) + (if b \<le> e then 0 else mx))"
proof (induction ts arbitrary: s n e)
  case (Cons t ts)
  obtain r s' where run: "redis_check R mx w t key s = (r, s')" by fastforce
  show ?case
  proof (cases "t < e")
    case True
    note c = check_counted [OF law Cons.prems(1) True Cons.prems(2) run]
    from Cons.IH [OF c(1)] Cons.prems(2,3) mx True c(2) show ?thesis by (auto simp: run)
  next
    case False
    have "alive t (ks s (rate_key key)) = None" using Cons.prems(1) False by (simp add: counts_def alive_def)
    note c = check_fresh [OF law w this run]
    show ?thesis
    proof (cases "b \<le> t")
      case True
      then have "list_all (\<lambda>u. b \<le> u) (t # ts)" using Cons.prems(3) by (auto simp: list_all_iff)
      then show ?thesis using mx by (simp only: run_later) simp
    next
      case lt: False
      from Cons.IH [OF c(1)] Cons.prems(3) have "between a b (redis_run R mx w key ts s') \<le>
        (if t + seconds w \<le> a then 2 * mx - 1 else mx - 1 + (if b \<le> t + seconds w then 0 else mx))" using mx by simp
      with mx False lt c(2) b w show ?thesis by (auto simp: run split: if_splits)
    qed
  qed
qed (use mx in simp)

text \<open>C35. The limiter of a production service counts in fixed windows that begin with the first
  request: over any stretch of time as long as the window it admits at most one less than twice the
  configured number of requests of one key, at whatever instants they arrive.\<close>

theorem redis_rate_bound:
  assumes "redis_law R ks" and "0 < w" and "1 \<le> mx" and "ks s (rate_key key) = None" and "sorted ts"
  shows "between a (a + seconds w) (redis_run R mx w key ts s) \<le> 2 * mx - 1"
proof (cases ts)
  case (Cons t us)
  obtain r s' where run: "redis_check R mx w t key s = (r, s')" by fastforce
  have "alive t (ks s (rate_key key)) = None" using assms(4) by (simp add: alive_def)
  note c = check_fresh [OF assms(1,2) this run]
  from run_counted [OF assms(1-3) order_refl c(1), of us a] assms(2,3,5) c(2) show ?thesis
    by (auto simp: Cons run split: if_splits)
qed (use assms(3) in simp)

section \<open>Locked out\<close>

lemma digits_value_nat_str: "digits_value acc (nat_str n @ r) = digits_value (acc * 10 ^ length (nat_str n) + n) r"
proof (induction n arbitrary: acc r rule: nat_str.induct)
  case (1 n)
  have d: "is_digit (char_of (48 + m))" "of_char (char_of (48 + m) :: char) = 48 + m" if "m < 10" for m :: nat
    using that by (simp_all add: is_digit_def in_range_def)
  show ?case
  proof (cases "n < 10")
    case True
    then show ?thesis by (subst (1 2) nat_str.simps) (simp add: d mult.commute)
  next
    case False
    have e: "nat_str n = nat_str (n div 10) @ [char_of (48 + n mod 10)]" by (subst nat_str.simps) (simp add: False)
    show ?thesis using 1 [OF False, of acc "char_of (48 + n mod 10) # r"] False
      by (simp add: e d algebra_simps)
  qed
qed

lemma nat_str_digits: "nat_str n \<noteq> [] \<and> list_all is_digit (nat_str n)"
proof (induction n rule: nat_str.induct)
  case (1 n)
  have d: "is_digit (char_of (48 + m))" if "m < 10" for m :: nat using that by (simp add: is_digit_def in_range_def)
  from 1 show ?case by (subst (1 2) nat_str.simps) (auto simp: d)
qed

lemma digit_char: "is_digit c \<Longrightarrow> \<not> is_space c \<and> c \<noteq> CHR ''-'' \<and> c \<noteq> CHR ''+''"
  by (auto simp: is_digit_def is_space_def in_range_def)

lemma py_int_str: "py_int (int_str m) = Inr m"
proof -
  obtain n neg where m: "m = (if neg then - int n else int n)" "neg \<longleftrightarrow> m < 0" "n = nat (abs m)"
    by (rule that [of "m < 0" "nat (abs m)"]) auto
  obtain c cs where n: "nat_str n = c # cs" "is_digit c" using nat_str_digits [of n] by (cases "nat_str n") auto
  have t: "int_str m = (if neg then ''-'' else []) @ nat_str n" using m by (simp add: int_str_def)
  have "strip (int_str m) = (if neg then ''-'' else []) @ nat_str n"
    unfolding strip_def t by (rule strip_by_none) (use nat_str_digits [of n] digit_char in \<open>auto simp: list_all_iff is_space_def in_range_def\<close>)
  moreover have "digits_value 0 (nat_str n) = Some n" using digits_value_nat_str [of 0 n "[]"] by simp
  ultimately have "py_int (int_str m) = Inr (if neg then - int n else int n)"
    using n digit_char [OF n(2)] unfolding py_int_def Let_def by (cases neg) simp_all
  then show ?thesis using m(1) by simp
qed

definition redis_failures :: "'s redis \<Rightarrow> int \<Rightarrow> int \<Rightarrow> string \<Rightarrow> datetime list \<Rightarrow> 's \<Rightarrow> 's" where
  "redis_failures R mx lockout ip ts s = foldl (\<lambda>s t. snd (redis_record_failed_login R mx lockout t ip s)) s ts"

lemma failure_first:
  assumes "redis_law R ks" and "0 < L" and "ks s (failed_key ip) = None"
  shows "counts ks (snd (redis_record_failed_login R mx L t ip s)) (failed_key ip) 1 (t + seconds L)"
proof -
  note l = redis_lawD [OF assms(1)]
  have dead: "alive t (ks s (failed_key ip)) = None" by (simp add: alive_def assms(3))
  have "ks (snd (rd_incr R t (failed_key ip) s)) = (ks s)(failed_key ip \<mapsto> (int_str 1, None))" by (rule l(6) [OF dead])
  then show ?thesis
    using l(9) [OF assms(2), of t "snd (rd_incr R t (failed_key ip) s)" "failed_key ip" "int_str 1" None True]
    by (simp add: redis_record_failed_login_def case_prod_unfold Let_def counts_def alive_def)
qed

lemma failure_again:
  assumes "redis_law R ks" and "0 < L" and "counts ks s (failed_key ip) n e" and "t < e"
  shows "counts ks (snd (redis_record_failed_login R mx L t ip s)) (failed_key ip) (n + 1) e"
proof -
  note l = redis_lawD [OF assms(1)]
  have a: "alive t (ks s (failed_key ip)) = Some (int_str n, Some e)" using assms(3,4) by (simp add: alive_def counts_def)
  have "ks (snd (rd_incr R t (failed_key ip) s)) = (ks s)(failed_key ip \<mapsto> (int_str (n + 1), Some e))" by (rule l(8) [OF a])
  then show ?thesis
    using l(9) [OF assms(2), of t "snd (rd_incr R t (failed_key ip) s)" "failed_key ip" "int_str (n + 1)" "Some e" True] assms(4)
    by (simp add: redis_record_failed_login_def case_prod_unfold Let_def counts_def alive_def)
qed

text \<open>Failed logins in production: failures within the lockout time of the first one add up, and
  the bucket is locked exactly until that time has passed since the first failure and exactly when
  they are as many as the limit; a successful login clears it.\<close>

theorem redis_lockout_exact:
  assumes "redis_law R ks" and "0 < L" and "ks s (failed_key ip) = None" and "list_all (\<lambda>u. u < t1 + seconds L) ts"
  shows "redis_is_locked R mx t ip (redis_failures R mx L ip (t1 # ts) s) =
       Inr (t < t1 + seconds L \<and> mx \<le> int (length (t1 # ts))) \<and>
     redis_is_locked R mx t ip (redis_attempts_reset R ip (redis_failures R mx L ip (t1 # ts) s)) = Inr False"
proof
  have "counts ks (foldl (\<lambda>s t. snd (redis_record_failed_login R mx L t ip s)) s' ts) (failed_key ip) (n + int (length ts)) (t1 + seconds L)"
    if "counts ks s' (failed_key ip) n (t1 + seconds L)" "list_all (\<lambda>u. u < t1 + seconds L) ts" for s' n
    using that
  proof (induction ts arbitrary: s' n)
    case (Cons u us)
    then show ?case using Cons.IH [of _ "n + 1"] failure_again [OF assms(1,2)] by (fastforce simp: algebra_simps)
  qed simp
  from this [OF failure_first [OF assms(1-3)] assms(4)]
  have c: "counts ks (redis_failures R mx L ip (t1 # ts) s) (failed_key ip) (int (length (t1 # ts))) (t1 + seconds L)"
    by (simp add: redis_failures_def algebra_simps)
  show "redis_is_locked R mx t ip (redis_failures R mx L ip (t1 # ts) s) = Inr (t < t1 + seconds L \<and> mx \<le> int (length (t1 # ts)))"
    using c py_int_str [of "int (length (t1 # ts))"]
    by (simp add: redis_is_locked_def redis_lawD(1) [OF assms(1)] counts_def alive_def del: length_Cons)
  show "redis_is_locked R mx t ip (redis_attempts_reset R ip (redis_failures R mx L ip (t1 # ts) s)) = Inr False"
    by (simp add: redis_is_locked_def redis_attempts_reset_def redis_lawD(1,4) [OF assms(1)] alive_def)
qed

section \<open>A counter that lost its expiry\<close>

text \<open>INCR and EXPIRE are two commands: a process that stops between them leaves a counter without an
  expiry. Nothing sets one later, so once the limit is reached every request is refused, at any time.\<close>

lemma counter_without_expiry:
  assumes law: "redis_law R ks" and c: "ks s (rate_key key) = Some (int_str n, None)" and n: "1 \<le> n" "mx \<le> n"
    and run: "redis_check R mx w t key s = (r, s')"
  shows "\<not> allowed r \<and> ks s' (rate_key key) = Some (int_str (n + 1), None)"
proof -
  note l = redis_lawD [OF law]
  have a: "alive t (ks s (rate_key key)) = Some (int_str n, None)" using c by (simp add: alive_def)
  obtain s1 where i: "rd_incr R t (rate_key key) s = (n + 1, s1)" using l(7) [OF a] by (metis prod.collapse)
  have "ks s1 = (ks s)(rate_key key \<mapsto> (int_str (n + 1), None))" using l(8) [OF a] i by simp
  with run i n show ?thesis by (auto simp: redis_check_def Let_def split: if_splits)
qed

section \<open>A server\<close>

definition demo_redis :: "keyspace redis" where
  "demo_redis =
     \<lparr>rd_get = (\<lambda>now k s. map_option fst (alive now (s k))),
      rd_set = (\<lambda>now k v n s. case n of None \<Rightarrow> s(k \<mapsto> (v, None)) | Some m \<Rightarrow> if 0 < m then s(k \<mapsto> (v, Some (now + seconds m))) else s),
      rd_delete = (\<lambda>k s. s(k := None)),
      rd_incr = (\<lambda>now k s. case alive now (s k) of
          None \<Rightarrow> (1, s(k \<mapsto> (int_str 1, None)))
        | Some (v, e) \<Rightarrow> (case py_int v of Inl _ \<Rightarrow> (0, s) | Inr n \<Rightarrow> (n + 1, s(k \<mapsto> (int_str (n + 1), e))))),
      rd_expire = (\<lambda>now k n nx s. case alive now (s k) of
          None \<Rightarrow> s
        | Some (v, e) \<Rightarrow> if nx \<and> e \<noteq> None then s else s(k \<mapsto> (v, Some (now + seconds n)))),
      rd_ttl = (\<lambda>now k s. case alive now (s k) of
          None \<Rightarrow> - 2 | Some (v, None) \<Rightarrow> - 1 | Some (v, Some e) \<Rightarrow> (e - now) div 1000000)\<rparr>"

lemma demo_redis_law: "redis_law demo_redis (\<lambda>s. s)"
  by (simp add: redis_law_def demo_redis_def py_int_str)

theorem redis_rate_bound_witness:
  "between 999999 (999999 + seconds 1) (redis_run demo_redis 2 1 ''ip'' [0, 999999, 1000000, 1000001] Map.empty) \<le> 3"
  using redis_rate_bound [OF demo_redis_law, of 1 2 Map.empty "''ip''" "[0, 999999, 1000000, 1000001]" 999999] by simp

text \<open>The bound is reached: two requests a second, and three of these four within one.\<close>

lemma redis_rate_bound_reached:
  "between 999999 (999999 + seconds 1) (redis_run demo_redis 2 1 ''ip'' [0, 999999, 1000000, 1000001] Map.empty) = 3"
  by (simp add: redis_check_def demo_redis_def alive_def py_int_str Let_def)

theorem redis_lockout_exact_witness:
  "redis_is_locked demo_redis 3 5 ''ip'' (redis_failures demo_redis 3 900 ''ip'' [0, 1, 2] Map.empty) = Inr True"
  using redis_lockout_exact [OF demo_redis_law, of 900 Map.empty "''ip''" 0 "[1, 2]" 3 5] by simp

text \<open>The stores over the Redis cache: a pending challenge is as short-lived and as limited in its
  attempts as over the in-memory one.\<close>

lemma redis_challenge_attempts:
  assumes "redis_law R ks" and "challenge_codec_law E" and "t0 \<le> t"
    and "challenge_record_failure (RedisCache R) E t0 token ch c = (r, c')"
  shows "if ch_attempts ch + 1 \<ge> MAX_ATTEMPTS
     then r = Inl TwoFactorChallengeExpiredError \<and> fst (challenge_read (RedisCache R) E t token c') = Inl TwoFactorChallengeExpiredError
     else r = Inr () \<and> fst (challenge_read (RedisCache R) E t token c') =
       (if t < t0 + seconds CHALLENGE_TTL_SECONDS then Inr (to_challenge (stored_of (with_failed_attempt ch)))
        else Inl TwoFactorChallengeExpiredError)"
  using cache_store.failure_counts [OF redis_cache_store [OF assms(1)] _ assms(3,4)] assms(2) by (simp add: challenge_codec_law_def)

end
