(* ===== verification/Audit_Log.thy ===== *)
theory Audit_Log
  imports Events
begin

text \<open>
  The audit trail (domain/audit): the action each event is recorded as, the audit entry built
  from an event, and the handler the unit of work runs for every event before the commit. An
  audit repository is the list of its rows; the identifier and the instant of an entry are
  arguments.
\<close>

datatype audit_action =
    USER_CREATED | USER_LOGIN | USER_LOGIN_FAILED | USER_LOGOUT | USER_PASSWORD_CHANGED
  | USER_PASSWORD_RESET | USER_EMAIL_VERIFIED | USER_PROFILE_UPDATED | USER_DELETED
  | USER_LOCKED | USER_UNLOCKED | USER_2FA_ENABLED | USER_2FA_DISABLED | SESSION_CREATED
  | SESSION_REVOKED | SESSION_REFRESHED | ROLE_ASSIGNED | ROLE_REVOKED | ROLE_CREATED
  | ROLE_UPDATED | ROLE_DELETED | PERMISSION_GRANTED | PERMISSION_REVOKED

primrec action_value :: "audit_action \<Rightarrow> string" where
  "action_value USER_CREATED = ''user.created''"
| "action_value USER_LOGIN = ''user.login''"
| "action_value USER_LOGIN_FAILED = ''user.login_failed''"
| "action_value USER_LOGOUT = ''user.logout''"
| "action_value USER_PASSWORD_CHANGED = ''user.password_changed''"
| "action_value USER_PASSWORD_RESET = ''user.password_reset''"
| "action_value USER_EMAIL_VERIFIED = ''user.email_verified''"
| "action_value USER_PROFILE_UPDATED = ''user.profile_updated''"
| "action_value USER_DELETED = ''user.deleted''"
| "action_value USER_LOCKED = ''user.locked''"
| "action_value USER_UNLOCKED = ''user.unlocked''"
| "action_value USER_2FA_ENABLED = ''user.two_factor_enabled''"
| "action_value USER_2FA_DISABLED = ''user.two_factor_disabled''"
| "action_value SESSION_CREATED = ''session.created''"
| "action_value SESSION_REVOKED = ''session.revoked''"
| "action_value SESSION_REFRESHED = ''session.refreshed''"
| "action_value ROLE_ASSIGNED = ''role.assigned''"
| "action_value ROLE_REVOKED = ''role.revoked''"
| "action_value ROLE_CREATED = ''role.created''"
| "action_value ROLE_UPDATED = ''role.updated''"
| "action_value ROLE_DELETED = ''role.deleted''"
| "action_value PERMISSION_GRANTED = ''permission.granted''"
| "action_value PERMISSION_REVOKED = ''permission.revoked''"

record audit_log =
  al_id :: uuid
  al_user_id :: "uuid option"
  al_action :: string
  al_entity_type :: string
  al_entity_id :: "uuid option"
  al_details :: payload
  al_ip_address :: "string option"
  al_user_agent :: "string option"
  al_timestamp :: datetime
  al_success :: bool

text \<open>AuditLog.create: \<open>details or {}\<close> keeps an absent or empty dict empty.\<close>

definition audit_log_create ::
    "uuid \<Rightarrow> datetime \<Rightarrow> uuid option \<Rightarrow> string \<Rightarrow> string \<Rightarrow> uuid option \<Rightarrow> payload option \<Rightarrow>
     string option \<Rightarrow> string option \<Rightarrow> bool \<Rightarrow> audit_log" where
  "audit_log_create i now user_id action entity_type entity_id details ip_address user_agent success =
     \<lparr>al_id = i, al_user_id = user_id, al_action = action, al_entity_type = entity_type,
      al_entity_id = entity_id, al_details = (case details of None \<Rightarrow> [] | Some d \<Rightarrow> d),
      al_ip_address = ip_address, al_user_agent = user_agent, al_timestamp = now,
      al_success = success\<rparr>"

text \<open>The table EVENT_TO_ACTION; None for the two events it does not list.\<close>

primrec EVENT_TO_ACTION :: "event \<Rightarrow> audit_action option" where
  "EVENT_TO_ACTION (UserCreatedEvent u n m) = Some USER_CREATED"
| "EVENT_TO_ACTION (UserAuthenticatedEvent u n) = Some USER_LOGIN"
| "EVENT_TO_ACTION (UserProfileUpdatedEvent u fs) = Some USER_PROFILE_UPDATED"
| "EVENT_TO_ACTION (UserDeletedEvent u) = Some USER_DELETED"
| "EVENT_TO_ACTION (SessionCreatedEvent s u d) = Some SESSION_CREATED"
| "EVENT_TO_ACTION (SessionRevokedEvent s u) = Some SESSION_REVOKED"
| "EVENT_TO_ACTION (TokenRefreshedEvent s u) = Some SESSION_REFRESHED"
| "EVENT_TO_ACTION (RoleCreatedEvent r n) = Some ROLE_CREATED"
| "EVENT_TO_ACTION (RoleUpdatedEvent r fs) = Some ROLE_UPDATED"
| "EVENT_TO_ACTION (RoleDeletedEvent r) = Some ROLE_DELETED"
| "EVENT_TO_ACTION (UserRoleAssignedEvent u r b) = Some ROLE_ASSIGNED"
| "EVENT_TO_ACTION (UserRoleRevokedEvent u r b) = Some ROLE_REVOKED"
| "EVENT_TO_ACTION (AccountLockedEvent u r t) = Some USER_LOCKED"
| "EVENT_TO_ACTION (AccountUnlockedEvent u) = Some USER_UNLOCKED"
| "EVENT_TO_ACTION (PasswordResetRequestedEvent u m t) = None"
| "EVENT_TO_ACTION (PasswordResetCompletedEvent u) = Some USER_PASSWORD_RESET"
| "EVENT_TO_ACTION (PasswordChangedEvent u) = Some USER_PASSWORD_CHANGED"
| "EVENT_TO_ACTION (EmailVerificationRequestedEvent u m t) = None"
| "EVENT_TO_ACTION (EmailVerifiedEvent u m) = Some USER_EMAIL_VERIFIED"
| "EVENT_TO_ACTION (TwoFactorEnabledEvent u n) = Some USER_2FA_ENABLED"
| "EVENT_TO_ACTION (TwoFactorDisabledEvent u) = Some USER_2FA_DISABLED"

definition event_to_audit :: "env \<Rightarrow> uuid \<Rightarrow> datetime \<Rightarrow> event \<Rightarrow> app_error + audit_log option" where
  "event_to_audit E i now e =
     (case EVENT_TO_ACTION e of
        None \<Rightarrow> Inr None
      | Some action \<Rightarrow>
          rbind (event_aggregate E e) (\<lambda>(entity_type, entity_id).
            Inr (Some (audit_log_create i now (event_user e) (action_value action) entity_type
                         entity_id None None None True))))"

text \<open>AuditEventHandler.handle and handle_many over the repository's rows; entry number k of a
  run takes its identifier from the draw counter.\<close>

definition audit_handle :: "env \<Rightarrow> nat \<Rightarrow> datetime \<Rightarrow> event \<Rightarrow> audit_log list \<Rightarrow> app_error + audit_log list" where
  "audit_handle E draw now e rows =
     rbind (event_to_audit E (uuid4 E draw) now e)
       (\<lambda>entry. Inr (case entry of None \<Rightarrow> rows | Some l \<Rightarrow> rows @ [l]))"

fun audit_handle_many :: "env \<Rightarrow> nat \<Rightarrow> datetime \<Rightarrow> event list \<Rightarrow> audit_log list \<Rightarrow> app_error + audit_log list" where
  "audit_handle_many E draw now [] rows = Inr rows"
| "audit_handle_many E draw now (e # es) rows =
     rbind (audit_handle E draw now e rows) (audit_handle_many E (Suc draw) now es)"

definition audited :: "event \<Rightarrow> bool" where
  "audited e = (EVENT_TO_ACTION e \<noteq> None)"

section \<open>The trail is complete\<close>

lemma audited_iff:
  "audited e \<longleftrightarrow>
     wire_name e \<noteq> ''PasswordResetRequestedEvent'' \<and> wire_name e \<noteq> ''EmailVerificationRequestedEvent''"
  by (cases e) (simp_all add: audited_def)

lemma not_audited_iff: "\<not> audited e \<longleftrightarrow> sensitive_fields e \<noteq> []"
  by (cases e) (simp_all add: audited_def sensitive_fields_def)

lemma event_to_audit_ok:
  "\<exists>entry. event_to_audit E i now e = Inr entry \<and> (entry \<noteq> None \<longleftrightarrow> audited e)"
  by (auto simp: event_to_audit_def audited_def event_aggregate_eq split: option.splits)

lemma audit_handle_ok:
  "\<exists>l. audit_handle E d now e rows = Inr (if audited e then rows @ [l] else rows) \<and>
     (audited e \<longrightarrow> al_user_id l = event_user e \<and> Some (al_action l) = map_option action_value (EVENT_TO_ACTION e) \<and>
        (al_entity_type l, al_entity_id l) = (fst (event_subject e), Some (snd (event_subject e))) \<and>
        al_timestamp l = now)"
  by (auto simp: audit_handle_def event_to_audit_def audited_def event_aggregate_eq
        audit_log_create_def split: option.splits)

text \<open>Handling a list of events never fails and appends one entry for each audited event,
  in order, with the event's user, its action and its aggregate; the only events without an
  entry are the two that carry a live token in their payload.\<close>

theorem audit_handle_many_complete:
  "\<exists>ls. audit_handle_many E d now es rows = Inr (rows @ ls) \<and>
      map (\<lambda>l. (al_user_id l, al_action l, al_entity_type l, al_entity_id l)) ls =
      map (\<lambda>e. (event_user e, action_value (the (EVENT_TO_ACTION e)), fst (event_subject e),
                 Some (snd (event_subject e))))
          (filter (\<lambda>e. sensitive_fields e = []) es)"
proof (induction es arbitrary: d rows)
  case Nil
  then show ?case by simp
next
  case (Cons e es)
  obtain l where l: "audit_handle E d now e rows = Inr (if audited e then rows @ [l] else rows)"
    and p: "audited e \<Longrightarrow> al_user_id l = event_user e \<and>
        Some (al_action l) = map_option action_value (EVENT_TO_ACTION e) \<and>
        (al_entity_type l, al_entity_id l) = (fst (event_subject e), Some (snd (event_subject e)))"
    using audit_handle_ok by blast
  have a: "audited e \<longleftrightarrow> sensitive_fields e = []" using not_audited_iff by blast
  show ?case
  proof (cases "audited e")
    case True
    with p have q: "al_action l = action_value (the (EVENT_TO_ACTION e))"
      by (cases "EVENT_TO_ACTION e") (auto simp: audited_def)
    from Cons.IH [of "Suc d" "rows @ [l]"] obtain ls where
      "audit_handle_many E (Suc d) now es (rows @ [l]) = Inr ((rows @ [l]) @ ls)" and
      m: "map (\<lambda>l. (al_user_id l, al_action l, al_entity_type l, al_entity_id l)) ls =
      map (\<lambda>e. (event_user e, action_value (the (EVENT_TO_ACTION e)), fst (event_subject e),
                 Some (snd (event_subject e))))
          (filter (\<lambda>e. sensitive_fields e = []) es)" by blast
    with l True a p q show ?thesis by (intro exI [of _ "l # ls"]) simp
  next
    case False
    with Cons.IH [of "Suc d" rows] l a show ?thesis by simp
  qed
qed

end
