(* ===== verification/User_Entity.thy ===== *)
theory User_Entity
  imports Events
begin

text \<open>
  The user aggregate (domain/user/entities/user.py). The record \<open>user\<close> has the dataclass fields
  plus the recorded, unpulled events; \<open>_with\<close> is a record update, which carries the events over.
  Each method is a function of the same name; the instant \<open>now\<close> is what datetime.now(UTC) returns
  and \<open>draw\<close> the index of the next value of the random source. A method that may answer \<open>self\<close>
  returns the same record. \<open>user_step\<close> collects the methods as one labelled step relation.
\<close>

record user =
  u_id :: user_id
  u_username :: string
  u_email :: "string option"
  u_hashed_password :: bytes
  u_deleted_at :: "datetime option"
  u_account_lock :: account_lock_info
  u_email_verification :: email_verification
  u_password_reset_token :: "password_reset_token option"
  u_two_factor_secret :: "two_factor_secret option"
  u_version :: int
  u_events :: "event list"

abbreviation raise_event :: "event \<Rightarrow> user \<Rightarrow> user" where
  "raise_event e u \<equiv> u\<lparr>u_events := record_event e (u_events u)\<rparr>"

abbreviation email_or_blank :: "string option \<Rightarrow> string" where
  "email_or_blank m \<equiv> (case m of None \<Rightarrow> [] | Some s \<Rightarrow> s)"

definition user_create ::
    "env \<Rightarrow> datetime \<Rightarrow> user_id \<Rightarrow> string \<Rightarrow> string option \<Rightarrow> bytes \<Rightarrow> string \<Rightarrow> user" where
  "user_create E now user_id username email hashed_password verification_token =
     (let u = \<lparr>u_id = user_id, u_username = username, u_email = email,
               u_hashed_password = hashed_password, u_deleted_at = create_not_deleted,
               u_account_lock = lock_create,
               u_email_verification = create_unverified E now verification_token 24,
               u_password_reset_token = None, u_two_factor_secret = None, u_version = 0,
               u_events = []\<rparr> in
      raise_event (EmailVerificationRequestedEvent user_id (email_or_blank email) verification_token)
        (raise_event (UserCreatedEvent user_id username email) u))"

definition is_deleted :: "user \<Rightarrow> bool" where
  "is_deleted u = deletion_is_deleted (u_deleted_at u)"

definition user_is_locked :: "user \<Rightarrow> datetime \<Rightarrow> bool" where
  "user_is_locked u now = is_locked_out (u_account_lock u) now"

definition has_two_factor :: "user \<Rightarrow> bool" where
  "has_two_factor u =
     (case u_two_factor_secret u of None \<Rightarrow> False | Some t \<Rightarrow> enabled_at t \<noteq> None)"

definition verify_password :: "env \<Rightarrow> user \<Rightarrow> codepoints \<Rightarrow> bool" where
  "verify_password E u plain_password = bcrypt_checkpw E plain_password (u_hashed_password u)"

text \<open>verify_two_factor answers a pair; the second component is None when the code returns the
  object itself, which callers test with \<open>is\<close>, and Some of the copy otherwise.\<close>

definition verify_two_factor :: "env \<Rightarrow> datetime \<Rightarrow> user \<Rightarrow> string \<Rightarrow> bool \<times> user option" where
  "verify_two_factor E now u code =
     (case u_two_factor_secret u of
        None \<Rightarrow> (False, None)
      | Some t \<Rightarrow>
          if enabled_at t = None then (False, None)
          else if totp_verify E (secret t) code now then (True, None)
          else (case consume_backup_code E t code of
                  Some consumed \<Rightarrow> (True, Some (u\<lparr>u_two_factor_secret := Some consumed\<rparr>))
                | None \<Rightarrow> (False, None)))"

definition record_failed_login_attempt :: "datetime \<Rightarrow> int \<Rightarrow> int \<Rightarrow> user \<Rightarrow> user" where
  "record_failed_login_attempt now max_attempts lockout_duration_minutes u =
     (let new_lock_info = record_failed_attempt (u_account_lock u) now max_attempts
                            lockout_duration_minutes;
          new_user = u\<lparr>u_account_lock := new_lock_info\<rparr> in
      if is_locked new_lock_info \<and> \<not> is_locked (u_account_lock u)
      then raise_event (AccountLockedEvent (u_id u) ''Too many failed login attempts''
                          (lock_until new_lock_info)) new_user
      else new_user)"

definition record_successful_login :: "user \<Rightarrow> user" where
  "record_successful_login u =
     raise_event (UserAuthenticatedEvent (u_id u) (u_username u))
       (u\<lparr>u_account_lock := lock_record_successful_login (u_account_lock u)\<rparr>)"

definition unlock :: "user \<Rightarrow> user" where
  "unlock u =
     raise_event (AccountUnlockedEvent (u_id u)) (u\<lparr>u_account_lock := lock_unlock (u_account_lock u)\<rparr>)"

definition lock :: "datetime \<Rightarrow> string \<Rightarrow> user \<Rightarrow> user" where
  "lock now reason u =
     raise_event (AccountLockedEvent (u_id u) reason None)
       (u\<lparr>u_account_lock := create_locked now reason None\<rparr>)"

definition verify_email :: "env \<Rightarrow> datetime \<Rightarrow> user \<Rightarrow> string \<Rightarrow> bool" where
  "verify_email E now u tok = ev_verify E (u_email_verification u) now tok"

definition mark_email_verified :: "datetime \<Rightarrow> user \<Rightarrow> user" where
  "mark_email_verified now u =
     raise_event (EmailVerifiedEvent (u_id u) (email_or_blank (u_email u)))
       (u\<lparr>u_email_verification := mark_verified now (u_email_verification u)\<rparr>)"

definition request_password_reset :: "env \<Rightarrow> nat \<Rightarrow> datetime \<Rightarrow> int \<Rightarrow> user \<Rightarrow> user" where
  "request_password_reset E draw now expires_in_hours u =
     (let token = st_value (secure_token_create E draw now 32 expires_in_hours) in
      raise_event (PasswordResetRequestedEvent (u_id u) (email_or_blank (u_email u)) token)
        (u\<lparr>u_password_reset_token := Some (password_reset_create E now token expires_in_hours)\<rparr>))"

definition reset_password ::
    "env \<Rightarrow> datetime \<Rightarrow> string \<Rightarrow> bytes \<Rightarrow> user \<Rightarrow> app_error + user" where
  "reset_password E now tok new_hashed_password u =
     (case u_password_reset_token u of
        None \<Rightarrow> Inl (InvalidTokenError (Some ''Invalid or expired password reset token''))
      | Some t \<Rightarrow>
          if \<not> password_reset_is_valid t now
          then Inl (InvalidTokenError (Some ''Invalid or expired password reset token''))
          else if \<not> password_reset_matches E t tok
          then Inl (InvalidTokenError (Some ''Invalid password reset token''))
          else Inr (raise_event (PasswordResetCompletedEvent (u_id u))
                 (u\<lparr>u_hashed_password := new_hashed_password,
                    u_account_lock := lock_unlock (u_account_lock u),
                    u_password_reset_token := Some (mark_used t)\<rparr>)))"

definition begin_two_factor_enrolment :: "env \<Rightarrow> nat \<Rightarrow> user \<Rightarrow> user \<times> string list" where
  "begin_two_factor_enrolment E draw u =
     (let (sec, codes) = two_factor_create E (Suc draw) (totp_random_secret E draw) in
      (u\<lparr>u_two_factor_secret := Some sec\<rparr>, codes))"

definition confirm_two_factor :: "env \<Rightarrow> datetime \<Rightarrow> string \<Rightarrow> user \<Rightarrow> app_error + user" where
  "confirm_two_factor E now code u =
     (case u_two_factor_secret u of
        None \<Rightarrow> Inl TwoFactorNotEnrolledError
      | Some t \<Rightarrow>
          if enabled_at t \<noteq> None then Inl TwoFactorAlreadyEnabledError
          else if \<not> totp_verify E (secret t) code now
          then Inl (InvalidCredentialsError (Some ''Invalid two-factor code''))
          else Inr (raise_event (TwoFactorEnabledEvent (u_id u) (remaining_backup_codes t))
                 (u\<lparr>u_two_factor_secret := Some (two_factor_enable now t)\<rparr>)))"

definition disable_two_factor :: "user \<Rightarrow> user" where
  "disable_two_factor u =
     raise_event (TwoFactorDisabledEvent (u_id u)) (u\<lparr>u_two_factor_secret := None\<rparr>)"

definition update_username :: "string \<Rightarrow> user \<Rightarrow> user" where
  "update_username new_username u =
     (if new_username \<noteq> u_username u
      then raise_event (UserProfileUpdatedEvent (u_id u) [''username''])
             (u\<lparr>u_username := new_username\<rparr>)
      else u)"

definition update_email :: "env \<Rightarrow> nat \<Rightarrow> datetime \<Rightarrow> string option \<Rightarrow> user \<Rightarrow> user" where
  "update_email E draw now new_email u =
     (if new_email \<noteq> u_email u
      then (let token = st_value (secure_token_create_hex E draw now 32 24) in
            raise_event (EmailVerificationRequestedEvent (u_id u) (email_or_blank new_email) token)
              (raise_event (UserProfileUpdatedEvent (u_id u) [''email''])
                 (u\<lparr>u_email := new_email,
                    u_email_verification := create_unverified E now token 24\<rparr>)))
      else u)"

definition delete :: "datetime \<Rightarrow> user \<Rightarrow> user" where
  "delete now u =
     (if \<not> is_deleted u
      then raise_event (UserDeletedEvent (u_id u)) (u\<lparr>u_deleted_at := create_deleted now\<rparr>)
      else u)"

definition assign_role :: "role_id \<Rightarrow> user_id option \<Rightarrow> user \<Rightarrow> user" where
  "assign_role role_id assigned_by u =
     raise_event (UserRoleAssignedEvent (u_id u) role_id assigned_by) u"

definition revoke_role :: "role_id \<Rightarrow> user \<Rightarrow> user" where
  "revoke_role role_id u = raise_event (UserRoleRevokedEvent (u_id u) role_id None) u"

definition change_password :: "env \<Rightarrow> codepoints \<Rightarrow> bytes \<Rightarrow> user \<Rightarrow> app_error + user" where
  "change_password E old_password new_password u =
     (if \<not> verify_password E u old_password
      then Inl (InvalidCredentialsError (Some ''Invalid current password''))
      else Inr (raise_event (PasswordChangedEvent (u_id u))
             (u\<lparr>u_hashed_password := new_password,
                u_account_lock := lock_unlock (u_account_lock u),
                u_password_reset_token := None\<rparr>)))"

section \<open>The methods as a step relation\<close>

datatype user_op =
    FailedLogin | SuccessfulLogin | Unlock | Lock string | MarkVerified | RequestReset
  | ResetPassword string bytes | BeginEnrolment | ConfirmEnrolment string | SpendCode string
  | DisableTwoFactor | UpdateUsername string | UpdateEmail "string option" | DeleteUser
  | AssignRole role_id "user_id option" | RevokeRole role_id | ChangePassword codepoints bytes

inductive user_step :: "env \<Rightarrow> datetime \<Rightarrow> user \<Rightarrow> user_op \<Rightarrow> user \<Rightarrow> bool"
  for E :: env and now :: datetime where
  "user_step E now u FailedLogin (record_failed_login_attempt now m d u)"
| "user_step E now u SuccessfulLogin (record_successful_login u)"
| "user_step E now u Unlock (unlock u)"
| "user_step E now u (Lock r) (lock now r u)"
| "user_step E now u MarkVerified (mark_email_verified now u)"
| "user_step E now u RequestReset (request_password_reset E k now h u)"
| "reset_password E now tok p u = Inr u' \<Longrightarrow> user_step E now u (ResetPassword tok p) u'"
| "user_step E now u BeginEnrolment (fst (begin_two_factor_enrolment E k u))"
| "confirm_two_factor E now code u = Inr u' \<Longrightarrow> user_step E now u (ConfirmEnrolment code) u'"
| "verify_two_factor E now u code = (True, Some u') \<Longrightarrow> user_step E now u (SpendCode code) u'"
| "user_step E now u DisableTwoFactor (disable_two_factor u)"
| "user_step E now u (UpdateUsername n) (update_username n u)"
| "user_step E now u (UpdateEmail m) (update_email E k now m u)"
| "user_step E now u DeleteUser (delete now u)"
| "user_step E now u (AssignRole r b) (assign_role r b u)"
| "user_step E now u (RevokeRole r) (revoke_role r u)"
| "change_password E old p u = Inr u' \<Longrightarrow> user_step E now u (ChangePassword old p) u'"

inductive user_run :: "env \<Rightarrow> user \<Rightarrow> (datetime \<times> user_op) list \<Rightarrow> user \<Rightarrow> bool"
  for E :: env where
  run_refl: "user_run E u [] u"
| run_step: "user_step E now u p v \<Longrightarrow> user_run E v ps w \<Longrightarrow> user_run E u ((now, p) # ps) w"

lemmas user_method_defs = record_failed_login_attempt_def record_successful_login_def unlock_def
  lock_def mark_email_verified_def request_password_reset_def disable_two_factor_def
  update_username_def update_email_def delete_def assign_role_def revoke_role_def
  begin_two_factor_enrolment_def two_factor_create_def Let_def

inductive_cases user_step_ResetPassword: "user_step E now u (ResetPassword tok p) u'"
inductive_cases user_step_ConfirmEnrolment: "user_step E now u (ConfirmEnrolment code) u'"
inductive_cases user_step_ChangePassword: "user_step E now u (ChangePassword old p) u'"
inductive_cases user_run_Cons: "user_run E u (x # ps) w"
inductive_cases user_run_Nil: "user_run E u [] w"

section \<open>Inversion of the fallible methods\<close>

lemma reset_password_Inr:
  "reset_password E now tok p u = Inr u' \<longleftrightarrow>
     (\<exists>t. u_password_reset_token u = Some t \<and> password_reset_is_valid t now \<and>
        password_reset_matches E t tok \<and>
        u' = raise_event (PasswordResetCompletedEvent (u_id u))
               (u\<lparr>u_hashed_password := p, u_account_lock := lock_unlock (u_account_lock u),
                  u_password_reset_token := Some (mark_used t)\<rparr>))"
  by (auto simp: reset_password_def split: option.splits if_splits)

lemma confirm_two_factor_Inr:
  "confirm_two_factor E now code u = Inr u' \<longleftrightarrow>
     (\<exists>t. u_two_factor_secret u = Some t \<and> enabled_at t = None \<and> totp_verify E (secret t) code now \<and>
        u' = raise_event (TwoFactorEnabledEvent (u_id u) (remaining_backup_codes t))
               (u\<lparr>u_two_factor_secret := Some (two_factor_enable now t)\<rparr>))"
  by (auto simp: confirm_two_factor_def split: option.splits if_splits)

lemma change_password_Inr:
  "change_password E old p u = Inr u' \<longleftrightarrow>
     verify_password E u old \<and>
     u' = raise_event (PasswordChangedEvent (u_id u))
            (u\<lparr>u_hashed_password := p, u_account_lock := lock_unlock (u_account_lock u),
               u_password_reset_token := None\<rparr>)"
  by (auto simp: change_password_def)

lemma verify_two_factor_consumed:
  "verify_two_factor E now u code = (b, Some u') \<longleftrightarrow>
     b \<and> (\<exists>t t'. u_two_factor_secret u = Some t \<and> enabled_at t \<noteq> None \<and>
        \<not> totp_verify E (secret t) code now \<and> consume_backup_code E t code = Some t' \<and>
        u' = u\<lparr>u_two_factor_secret := Some t'\<rparr>)"
  by (auto simp: verify_two_factor_def split: option.splits if_splits)

lemmas user_inversions = reset_password_Inr confirm_two_factor_Inr change_password_Inr
  verify_two_factor_consumed

lemma consume_backup_code_keeps:
  "consume_backup_code E t code = Some t' \<Longrightarrow> enabled_at t' = enabled_at t \<and> secret t' = secret t"
  by (auto simp: consume_backup_code_eq split: if_splits)

lemma has_two_factor_iff:
  "has_two_factor u \<longleftrightarrow> (\<exists>t. u_two_factor_secret u = Some t \<and> enabled_at t \<noteq> None)"
  by (auto simp: has_two_factor_def split: option.splits)

section \<open>What every method keeps\<close>

lemma user_step_frame:
  "user_step E now u p u' \<Longrightarrow>
     u_id u' = u_id u \<and> u_version u' = u_version u \<and> (\<exists>es. u_events u' = u_events u @ es)"
  by (induction rule: user_step.induct)
    (auto simp: user_method_defs user_inversions record_event_def split: if_splits prod.splits)

lemma user_run_frame:
  "user_run E u ps u' \<Longrightarrow>
     u_id u' = u_id u \<and> u_version u' = u_version u \<and> (\<exists>es. u_events u' = u_events u @ es)"
proof (induction rule: user_run.induct)
  case (run_step now u p v ps w)
  then show ?case using user_step_frame [OF run_step.hyps(1)] by auto
qed simp

lemma user_step_two_factor:
  "user_step E now u p u' \<Longrightarrow> has_two_factor u' \<Longrightarrow> \<not> has_two_factor u \<Longrightarrow>
     \<exists>code t. p = ConfirmEnrolment code \<and> u_two_factor_secret u = Some t \<and>
       totp_verify E (secret t) code now \<and> u_two_factor_secret u' = Some (two_factor_enable now t)"
  by (induction rule: user_step.induct)
    (auto simp: user_method_defs user_inversions has_two_factor_iff consume_backup_code_keeps
      split: if_splits prod.splits)

lemma user_step_password:
  "user_step E now u p u' \<Longrightarrow> u_hashed_password u' \<noteq> u_hashed_password u \<Longrightarrow>
     (\<exists>tok t. p = ResetPassword tok (u_hashed_password u') \<and> u_password_reset_token u = Some t \<and>
        password_reset_is_valid t now \<and> pr_token_hash t = from_raw E tok) \<or>
     (\<exists>old. p = ChangePassword old (u_hashed_password u') \<and> bcrypt_checkpw E old (u_hashed_password u))"
  by (induction rule: user_step.induct)
    (auto simp: user_method_defs user_inversions verify_password_def password_reset_matches_def
      split: if_splits prod.splits)

text \<open>A reset token that is absent or used stays so until a new reset is requested.\<close>

definition reset_closed :: "user \<Rightarrow> bool" where
  "reset_closed u = (case u_password_reset_token u of None \<Rightarrow> True | Some t \<Rightarrow> is_used t)"

lemma user_step_reset_closed:
  "user_step E now u p u' \<Longrightarrow> reset_closed u \<Longrightarrow> p \<noteq> RequestReset \<Longrightarrow> reset_closed u'"
  by (induction rule: user_step.induct)
    (auto simp: user_method_defs user_inversions reset_closed_def mark_used_def
      split: if_splits prod.splits option.splits)

lemma reset_closed_rejects: "reset_closed u \<Longrightarrow> reset_password E now tok p u \<noteq> Inr u'"
  by (auto simp: reset_password_Inr reset_closed_def password_reset_is_valid_def split: option.splits)

lemma user_run_reset_closed:
  "user_run E u ps u' \<Longrightarrow> reset_closed u \<Longrightarrow> RequestReset \<notin> snd ` set ps \<Longrightarrow> reset_closed u'"
  by (induction rule: user_run.induct) (auto dest: user_step_reset_closed)

section \<open>Security of the aggregate over whole runs\<close>

lemma user_run_enabling_step:
  "user_run E u ps u' \<Longrightarrow> \<not> has_two_factor u \<Longrightarrow> has_two_factor u' \<Longrightarrow>
     \<exists>ps1 now code ps2 v t. ps = ps1 @ (now, ConfirmEnrolment code) # ps2 \<and> user_run E u ps1 v \<and>
       u_two_factor_secret v = Some t \<and> totp_verify E (secret t) code now"
proof (induction rule: user_run.induct)
  case (run_refl u)
  then show ?case by simp
next
  case (run_step now u p v ps w)
  show ?case
  proof (cases "has_two_factor v")
    case True
    with user_step_two_factor [OF run_step.hyps(1)] run_step.prems(1) obtain code t where
      "p = ConfirmEnrolment code" "u_two_factor_secret u = Some t" "totp_verify E (secret t) code now"
      by blast
    then show ?thesis using user_run.run_refl [of E u] by (metis append_Nil)
  next
    case False
    with run_step.IH run_step.prems(2) obtain ps1 n code ps2 x t where
      "ps = ps1 @ (n, ConfirmEnrolment code) # ps2" "user_run E v ps1 x"
      "u_two_factor_secret x = Some t" "totp_verify E (secret t) code n" by blast
    moreover have "user_run E u ((now, p) # ps1) x"
      using run_step.hyps(1) calculation(2) by (rule user_run.run_step)
    ultimately show ?thesis by (metis append_Cons)
  qed
qed

lemma user_run_password_step:
  "user_run E u ps u' \<Longrightarrow> u_hashed_password u' \<noteq> u_hashed_password u \<Longrightarrow>
     \<exists>ps1 now p ps2 v w. ps = ps1 @ (now, p) # ps2 \<and> user_run E u ps1 v \<and> user_step E now v p w \<and> user_run E w ps2 u' \<and>
       ((\<exists>tok t. p = ResetPassword tok (u_hashed_password u') \<and> u_password_reset_token v = Some t \<and>
           password_reset_is_valid t now \<and> pr_token_hash t = from_raw E tok) \<or>
        (\<exists>old. p = ChangePassword old (u_hashed_password u') \<and> bcrypt_checkpw E old (u_hashed_password v)))"
proof (induction rule: user_run.induct)
  case (run_refl u)
  then show ?case by simp
next
  case (run_step now u p v ps w)
  show ?case
  proof (cases "u_hashed_password w = u_hashed_password v")
    case True
    with run_step.prems user_step_password [OF run_step.hyps(1)]
    have "(\<exists>tok t. p = ResetPassword tok (u_hashed_password w) \<and> u_password_reset_token u = Some t \<and>
           password_reset_is_valid t now \<and> pr_token_hash t = from_raw E tok) \<or>
        (\<exists>old. p = ChangePassword old (u_hashed_password w) \<and> bcrypt_checkpw E old (u_hashed_password u))" by auto
    with run_step.hyps user_run.run_refl [of E u] show ?thesis by (metis append_Nil)
  next
    case False
    from run_step.IH [OF False] obtain ps1 n q ps2 x y where
      *: "ps = ps1 @ (n, q) # ps2" "user_run E v ps1 x" "user_step E n x q y" "user_run E y ps2 w"
        "(\<exists>tok t. q = ResetPassword tok (u_hashed_password w) \<and> u_password_reset_token x = Some t \<and>
           password_reset_is_valid t n \<and> pr_token_hash t = from_raw E tok) \<or>
        (\<exists>old. q = ChangePassword old (u_hashed_password w) \<and> bcrypt_checkpw E old (u_hashed_password x))"
      by blast
    have "user_run E u ((now, p) # ps1) x"
      using run_step.hyps(1) *(2) by (rule user_run.run_step)
    with * show ?thesis by (metis append_Cons)
  qed
qed

text \<open>C15. In every run of the aggregate's methods that starts without an active second factor and
  ends with one, some step confirmed an enrolment with a code the authenticator accepts for the
  secret pending at that moment: no other method activates the factor.\<close>

theorem two_factor_activation_confirmed:
  assumes "user_run E u ps u'" and "\<not> has_two_factor u" and "has_two_factor u'"
  shows "\<exists>ps1 now code ps2 v t. ps = ps1 @ (now, ConfirmEnrolment code) # ps2 \<and>
           user_run E u ps1 v \<and> u_two_factor_secret v = Some t \<and> totp_verify E (secret t) code now"
  using user_run_enabling_step [OF assms] .

text \<open>A concrete user, and its state after an enrolment was confirmed.\<close>

definition sample_user :: user where
  "sample_user = user_create sample_env 0 1 ''alice'' (Some ''a@b.cc'') [1, 65] ''V''"

definition sample_enrolled :: user where
  "sample_enrolled = fst (begin_two_factor_enrolment sample_env 0 sample_user)"

lemma sample_confirm:
  "\<exists>v. confirm_two_factor sample_env 5 ''123456'' sample_enrolled = Inr v \<and> has_two_factor v"
  by (simp add: confirm_two_factor_def sample_enrolled_def begin_two_factor_enrolment_def
      two_factor_create_def has_two_factor_def two_factor_enable_def)

lemma sample_not_enrolled: "\<not> has_two_factor sample_user"
  by (simp add: has_two_factor_def sample_user_def user_create_def)

theorem two_factor_activation_confirmed_witness:
  "\<exists>ps u'. user_run sample_env sample_user ps u' \<and>
     (\<exists>ps1 now code ps2 v t. ps = ps1 @ (now, ConfirmEnrolment code) # ps2 \<and>
        user_run sample_env sample_user ps1 v \<and> u_two_factor_secret v = Some t \<and>
        totp_verify sample_env (secret t) code now)"
proof -
  obtain v where v: "confirm_two_factor sample_env 5 ''123456'' sample_enrolled = Inr v"
    and f: "has_two_factor v" using sample_confirm by blast
  have "user_step sample_env 1 sample_user BeginEnrolment sample_enrolled"
    unfolding sample_enrolled_def by (rule user_step.intros)
  moreover have "user_step sample_env 5 sample_enrolled (ConfirmEnrolment ''123456'') v"
    using v by (rule user_step.intros)
  ultimately have "user_run sample_env sample_user [(1, BeginEnrolment), (5, ConfirmEnrolment ''123456'')] v"
    by (blast intro: user_run.intros)
  with two_factor_activation_confirmed [OF this sample_not_enrolled f] show ?thesis by blast
qed

text \<open>C14. In every run of the aggregate's methods that changes the stored password hash, the final
  hash was written by one step of the run, and that step was authorised in the state it was taken in:
  it was a reset whose token hashed to the reset token stored at that moment, unused and unexpired then,
  or a change of password that presented the password stored at that moment. No other method writes
  the password.\<close>

theorem password_change_authorised:
  assumes "user_run E u ps u'" and "u_hashed_password u' \<noteq> u_hashed_password u"
  shows "\<exists>ps1 now p ps2 v w. ps = ps1 @ (now, p) # ps2 \<and>
       user_run E u ps1 v \<and> user_step E now v p w \<and> user_run E w ps2 u' \<and>
       ((\<exists>tok t. p = ResetPassword tok (u_hashed_password u') \<and> u_password_reset_token v = Some t \<and>
           password_reset_is_valid t now \<and> pr_token_hash t = from_raw E tok) \<or>
        (\<exists>old. p = ChangePassword old (u_hashed_password u') \<and> bcrypt_checkpw E old (u_hashed_password v)))"
  using user_run_password_step [OF assms] .

lemma sample_change:
  "\<exists>v. change_password sample_env [65] [1, 66] sample_user = Inr v \<and>
     u_hashed_password v \<noteq> u_hashed_password sample_user"
  by (simp add: change_password_def verify_password_def sample_user_def user_create_def)

theorem password_change_authorised_witness:
  "\<exists>u' v old. user_run sample_env sample_user [(2, BeginEnrolment), (3, ChangePassword [65] [1, 66])] u' \<and>
     u_hashed_password u' = [1, 66] \<and> user_run sample_env sample_user [(2, BeginEnrolment)] v \<and>
     bcrypt_checkpw sample_env old (u_hashed_password v)"
proof -
  let ?v = "fst (begin_two_factor_enrolment sample_env 0 sample_user)"
  let ?ps = "[(2 :: datetime, BeginEnrolment), (3, ChangePassword [65] [1, 66])]"
  have v: "u_hashed_password ?v = u_hashed_password sample_user" by (simp add: begin_two_factor_enrolment_def split: prod.split)
  obtain u' where u': "change_password sample_env [65] [1, 66] ?v = Inr u'" "u_hashed_password u' \<noteq> u_hashed_password sample_user"
    using sample_change v by (auto simp: change_password_def verify_password_def split: if_splits)
  have "user_step sample_env 2 sample_user BeginEnrolment ?v" by (rule user_step.intros)
  moreover have "user_step sample_env 3 ?v (ChangePassword [65] [1, 66]) u'" using u'(1) by (rule user_step.intros)
  ultimately have r: "user_run sample_env sample_user ?ps u'" by (blast intro: user_run.intros)
  from password_change_authorised [OF this u'(2)] obtain ps1 now p ps2 v where
    *: "?ps = ps1 @ (now, p) # ps2" "user_run sample_env sample_user ps1 v" and
    **: "(\<exists>tok. p = ResetPassword tok (u_hashed_password u')) \<or>
      (\<exists>old. p = ChangePassword old (u_hashed_password u') \<and> bcrypt_checkpw sample_env old (u_hashed_password v))" by blast
  have "ps1 = [(2, BeginEnrolment)] \<and> p = ChangePassword [65] [1, 66]"
    using *(1) ** by (auto simp: Cons_eq_append_conv)
  with r * ** show ?thesis by blast
qed

text \<open>A password reset token is one-shot: after a successful reset, no sequence of the
  aggregate's methods without a new reset request leads to a user whose reset accepts any token.\<close>

theorem reset_token_one_shot:
  assumes "reset_password E now tok p u = Inr v"
    and "user_run E v ps w" and "RequestReset \<notin> snd ` set ps"
  shows "\<exists>m. reset_password E now' tok' p' w = Inl (InvalidTokenError (Some m))"
proof -
  from assms(1) have "reset_closed v" by (auto simp: reset_password_Inr reset_closed_def mark_used_def)
  with assms(2,3) have "reset_closed w" using user_run_reset_closed by blast
  then show ?thesis
    by (auto simp: reset_password_def reset_closed_def password_reset_is_valid_def split: option.splits)
qed

lemma sample_reset:
  "\<exists>v. reset_password sample_env 9 (token_urlsafe sample_env 32 7) [2]
         (request_password_reset sample_env 7 0 1 sample_user) = Inr v"
  by (simp add: reset_password_def request_password_reset_def secure_token_create_def Let_def
      password_reset_create_def password_reset_is_valid_def password_reset_matches_def)

theorem reset_token_one_shot_witness:
  "\<exists>v m. reset_password sample_env 9 (token_urlsafe sample_env 32 7) [2]
           (request_password_reset sample_env 7 0 1 sample_user) = Inr v \<and>
         reset_password sample_env 10 (token_urlsafe sample_env 32 7) [3] v = Inl (InvalidTokenError (Some m))"
proof -
  obtain v where v: "reset_password sample_env 9 (token_urlsafe sample_env 32 7) [2]
         (request_password_reset sample_env 7 0 1 sample_user) = Inr v" using sample_reset by blast
  with reset_token_one_shot [OF v user_run.run_refl, of 10 "token_urlsafe sample_env 32 7" "[3]"] show ?thesis by auto
qed

lemma failed_login_event:
  "u_events (record_failed_login_attempt now m d u) =
     u_events u @ (if is_locked (record_failed_attempt (u_account_lock u) now m d) \<and>
                      \<not> is_locked (u_account_lock u)
                   then [AccountLockedEvent (u_id u) ''Too many failed login attempts'' (Some (now + minutes d))]
                   else [])"
  by (simp add: record_failed_login_attempt_def Let_def record_event_def
      lock_until_record_failed_attempt)

end
