(* ===== verification/Rbac_Entity.thy ===== *)
theory Rbac_Entity
  imports Events
begin

text \<open>
  Roles and permissions (domain/user/entities/rbac.py). A method that may answer \<open>self\<close> returns
  the same record.
\<close>

definition permission_core :: "string \<Rightarrow> bool" where
  "permission_core s =
     (case s of [] \<Rightarrow> False
      | c # cs \<Rightarrow> is_alpha c \<and> 1 \<le> length cs \<and> length cs \<le> 63 \<and>
          list_all (\<lambda>x. is_alnum x \<or> x \<in> set ''_:.-'') cs)"

definition PERMISSION_NAME_PATTERN :: "string \<Rightarrow> bool" where
  "PERMISSION_NAME_PATTERN s = match_dollar permission_core s"

record permission =
  p_name :: string
  p_description :: "string option"

definition Permission :: "string \<Rightarrow> string option \<Rightarrow> app_error + permission" where
  "Permission name description =
     (if \<not> PERMISSION_NAME_PATTERN name then Inl (WrongPermissionNameError name)
      else Inr \<lparr>p_name = name, p_description = description\<rparr>)"

record role =
  r_role_id :: role_id
  r_name :: string
  r_description :: "string option"
  r_permissions :: "permission list"
  r_events :: "event list"

abbreviation r_raise_event :: "event \<Rightarrow> role \<Rightarrow> role" where
  "r_raise_event e r \<equiv> r\<lparr>r_events := record_event e (r_events r)\<rparr>"

definition role_create :: "env \<Rightarrow> nat \<Rightarrow> string \<Rightarrow> string option \<Rightarrow> app_error + role" where
  "role_create E draw name description =
     rbind (RoleID (uuid4 E draw)) (\<lambda>role_id.
       Inr (r_raise_event (RoleCreatedEvent role_id name)
              \<lparr>r_role_id = role_id, r_name = name, r_description = description,
               r_permissions = [], r_events = []\<rparr>))"

definition has_permission :: "string \<Rightarrow> role \<Rightarrow> bool" where
  "has_permission permission_name r = list_ex (\<lambda>p. p_name p = permission_name) (r_permissions r)"

definition add_permission :: "permission \<Rightarrow> role \<Rightarrow> role" where
  "add_permission p r =
     (if has_permission (p_name p) r then r
      else r_raise_event (RoleUpdatedEvent (r_role_id r) [''permissions''])
             (r\<lparr>r_permissions := r_permissions r @ [p]\<rparr>))"

definition remove_permission :: "string \<Rightarrow> role \<Rightarrow> role" where
  "remove_permission permission_name r =
     (let new_permissions = filter (\<lambda>p. p_name p \<noteq> permission_name) (r_permissions r);
          role = r\<lparr>r_permissions := new_permissions\<rparr> in
      if length new_permissions \<noteq> length (r_permissions r)
      then r_raise_event (RoleUpdatedEvent (r_role_id r) [''permissions'']) role
      else role)"

text \<open>Role.update: a None argument leaves the field, and only changed fields are reported.\<close>

definition role_update :: "string option \<Rightarrow> string option \<Rightarrow> role \<Rightarrow> role" where
  "role_update name description r =
     (let name_changes = (case name of None \<Rightarrow> False | Some n \<Rightarrow> n \<noteq> r_name r);
          description_changes = (description \<noteq> None \<and> description \<noteq> r_description r);
          updated_fields = (if name_changes then [''name''] else []) @
                           (if description_changes then [''description''] else []) in
      if updated_fields = [] then r
      else r_raise_event (RoleUpdatedEvent (r_role_id r) updated_fields)
             (r\<lparr>r_name := (if name_changes then the name else r_name r),
                r_description := (if description_changes then description else r_description r)\<rparr>))"

definition role_delete :: "role \<Rightarrow> role" where
  "role_delete r = r_raise_event (RoleDeletedEvent (r_role_id r)) r"

record user_role =
  ur_user_id :: user_id
  ur_role_id :: role_id
  ur_assigned_at :: datetime
  ur_assigned_by :: "user_id option"

definition perm_names :: "role \<Rightarrow> string set" where
  "perm_names r = p_name ` set (r_permissions r)"

section \<open>Lemmas\<close>

lemma has_permission_iff: "has_permission n r \<longleftrightarrow> n \<in> perm_names r"
  by (auto simp: has_permission_def list_ex_iff perm_names_def)

lemma add_permission_names [simp]: "perm_names (add_permission p r) = insert (p_name p) (perm_names r)"
  by (auto simp: add_permission_def has_permission_iff) (auto simp: perm_names_def)

lemma remove_permission_names [simp]: "perm_names (remove_permission n r) = perm_names r - {n}"
  by (auto simp: remove_permission_def Let_def perm_names_def)

lemma remove_absent_length:
  "length (filter (\<lambda>p. p_name p \<noteq> n) (r_permissions r)) = length (r_permissions r) \<longleftrightarrow>
     n \<notin> perm_names r"
proof -
  have "length (filter (\<lambda>p. p_name p \<noteq> n) ps) = length ps \<longleftrightarrow> n \<notin> p_name ` set ps" for ps
  proof (induction ps)
    case (Cons p ps)
    have "length (filter (\<lambda>p. p_name p \<noteq> n) ps) \<noteq> Suc (length ps)"
      using length_filter_le [of "\<lambda>p. p_name p \<noteq> n" ps] by linarith
    with Cons show ?case by auto
  qed simp
  then show ?thesis by (simp add: perm_names_def)
qed

text \<open>Granting and revoking act on the permission names as set insertion and removal, keep
  the names free of duplicates, and record an update event exactly when the set changes.\<close>

theorem permission_edit_exact:
  assumes "distinct (map p_name (r_permissions r))"
  shows "perm_names (add_permission p r) = insert (p_name p) (perm_names r) \<and>
         perm_names (remove_permission n r) = perm_names r - {n} \<and>
         distinct (map p_name (r_permissions (add_permission p r))) \<and>
         distinct (map p_name (r_permissions (remove_permission n r))) \<and>
         (r_events (add_permission p r) \<noteq> r_events r \<longleftrightarrow> perm_names (add_permission p r) \<noteq> perm_names r) \<and>
         (r_events (remove_permission n r) \<noteq> r_events r \<longleftrightarrow>
            perm_names (remove_permission n r) \<noteq> perm_names r)"
proof -
  have "distinct (map p_name (r_permissions (add_permission p r)))"
    using assms by (auto simp: add_permission_def has_permission_iff perm_names_def)
  moreover have "distinct (map p_name (r_permissions (remove_permission n r)))"
    using assms by (auto simp: remove_permission_def Let_def distinct_map_filter)
  moreover have "r_events (add_permission p r) \<noteq> r_events r \<longleftrightarrow> p_name p \<notin> perm_names r"
    by (simp add: add_permission_def has_permission_iff record_event_def)
  moreover have "r_events (remove_permission n r) \<noteq> r_events r \<longleftrightarrow> n \<in> perm_names r"
    by (simp add: remove_permission_def Let_def record_event_def remove_absent_length)
  ultimately show ?thesis by auto
qed

theorem permission_edit_exact_witness:
  "perm_names (remove_permission ''x''
     (add_permission \<lparr>p_name = ''x'', p_description = None\<rparr>
       \<lparr>r_role_id = 1, r_name = ''ops'', r_description = None, r_permissions = [], r_events = []\<rparr>)) = {}"
  using permission_edit_exact [of "add_permission \<lparr>p_name = ''x'', p_description = None\<rparr>
       \<lparr>r_role_id = 1, r_name = ''ops'', r_description = None, r_permissions = [], r_events = []\<rparr>" _ "''x''"]
  by (simp add: add_permission_def has_permission_def perm_names_def)

lemma role_update_reports:
  "r_events (role_update n d r) = r_events r \<longleftrightarrow>
     (case n of None \<Rightarrow> True | Some m \<Rightarrow> m = r_name r) \<and> (d = None \<or> d = r_description r)"
  by (auto simp: role_update_def Let_def record_event_def split: option.splits)

end
