(* ===== verification/Database.thy ===== *)
theory Database
  imports Audit_Log User_Entity Session_Entity Rbac_Entity
begin

text \<open>
  The relational schema (infrastructure/db/sqlalchemy/models): one row record per table with the
  table's columns, the database as the lists of its rows, and its constraints (primary keys,
  unique columns, foreign keys) as a predicate on the whole database. Statements that would
  violate a constraint raise IntegrityError with the name of the constraint, following the naming
  convention of models/base.py.
\<close>

record user_row =
  c_id :: uuid
  c_version :: int
  c_username :: string
  c_email :: "string option"
  c_hashed_password :: bytes
  c_deleted_at :: "datetime option"
  c_is_locked :: bool
  c_locked_at :: "datetime option"
  c_lock_reason :: "string option"
  c_failed_attempts :: int
  c_lock_until :: "datetime option"
  c_is_email_verified :: bool
  c_email_verification_token_hash :: "bytes option"
  c_email_verified_at :: "datetime option"
  c_email_verification_expires_at :: "datetime option"
  c_password_reset_token_hash :: "bytes option"
  c_password_reset_created_at :: "datetime option"
  c_password_reset_expires_at :: "datetime option"
  c_password_reset_used :: bool
  c_two_factor_secret :: "bytes option"
  c_two_factor_enabled_at :: "datetime option"
  c_two_factor_backup_codes :: "string list option"

record session_row =
  sr_session_id :: uuid
  sr_user_id :: uuid
  sr_user_agent :: "string option"
  sr_ip_address :: "string option"
  sr_device_name :: "string option"
  sr_browser :: "string option"
  sr_os :: "string option"
  sr_is_mobile :: bool
  sr_created_at :: datetime
  sr_expires_at :: datetime
  sr_is_revoked :: bool

record refresh_token_row =
  tr_id :: uuid
  tr_session_id :: uuid
  tr_token_hash :: bytes
  tr_expires_at :: datetime
  tr_is_revoked :: bool
  tr_created_at :: datetime

record permission_row =
  pr_id :: uuid
  pr_name :: string
  pr_description :: "string option"

record role_row =
  rr_id :: uuid
  rr_name :: string
  rr_description :: "string option"

record role_permission_row =
  rp_role_id :: uuid
  rp_permission_id :: uuid

record user_role_row =
  urr_user_id :: uuid
  urr_role_id :: uuid
  urr_assigned_at :: datetime
  urr_assigned_by :: "uuid option"

record outbox_row =
  ob_id :: uuid
  ob_aggregate_type :: string
  ob_aggregate_id :: "uuid option"
  ob_event_type :: string
  ob_payload :: payload
  ob_sensitive_keys :: "string list option"
  ob_created_at :: datetime
  ob_processed_at :: "datetime option"
  ob_attempts :: nat
  ob_last_error :: "string option"
  ob_next_attempt_at :: "datetime option"
  ob_failed_at :: "datetime option"

record db =
  users :: "user_row list"
  sessions :: "session_row list"
  refresh_tokens :: "refresh_token_row list"
  permissions :: "permission_row list"
  roles :: "role_row list"
  role_permissions :: "role_permission_row list"
  user_roles :: "user_role_row list"
  audit_logs :: "audit_log list"
  outbox_events :: "outbox_row list"

definition empty_db :: db where
  "empty_db = \<lparr>users = [], sessions = [], refresh_tokens = [], permissions = [], roles = [],
     role_permissions = [], user_roles = [], audit_logs = [], outbox_events = []\<rparr>"

definition has_user :: "uuid \<Rightarrow> db \<Rightarrow> bool" where
  "has_user i d = list_ex (\<lambda>r. c_id r = i) (users d)"

definition has_session :: "uuid \<Rightarrow> db \<Rightarrow> bool" where
  "has_session i d = list_ex (\<lambda>r. sr_session_id r = i) (sessions d)"

definition has_role :: "uuid \<Rightarrow> db \<Rightarrow> bool" where
  "has_role i d = list_ex (\<lambda>r. rr_id r = i) (roles d)"

definition has_permission_row :: "uuid \<Rightarrow> db \<Rightarrow> bool" where
  "has_permission_row i d = list_ex (\<lambda>r. pr_id r = i) (permissions d)"

text \<open>Non-null values of a nullable unique column.\<close>

definition some_values :: "('r \<Rightarrow> 'v option) \<Rightarrow> 'r list \<Rightarrow> 'v list" where
  "some_values f rows = map (\<lambda>r. the (f r)) (filter (\<lambda>r. f r \<noteq> None) rows)"

text \<open>The constraints of each table, and of the database.\<close>

definition users_ok :: "user_row list \<Rightarrow> bool" where
  "users_ok us = (distinct (map c_id us) \<and> distinct (map c_username us) \<and>
     distinct (some_values c_email us))"

definition sessions_ok :: "db \<Rightarrow> bool" where
  "sessions_ok d = (distinct (map sr_session_id (sessions d)) \<and>
     list_all (\<lambda>s. has_user (sr_user_id s) d) (sessions d) \<and>
     distinct (map tr_id (refresh_tokens d)) \<and> distinct (map tr_token_hash (refresh_tokens d)) \<and>
     list_all (\<lambda>t. has_session (tr_session_id t) d) (refresh_tokens d))"

definition rbac_ok :: "db \<Rightarrow> bool" where
  "rbac_ok d = (distinct (map pr_id (permissions d)) \<and> distinct (map pr_name (permissions d)) \<and>
     distinct (map rr_id (roles d)) \<and> distinct (map rr_name (roles d)) \<and>
     distinct (role_permissions d) \<and>
     list_all (\<lambda>x. has_role (rp_role_id x) d \<and> has_permission_row (rp_permission_id x) d)
       (role_permissions d) \<and>
     distinct (map (\<lambda>x. (urr_user_id x, urr_role_id x)) (user_roles d)) \<and>
     list_all (\<lambda>x. has_user (urr_user_id x) d \<and> has_role (urr_role_id x) d \<and>
        pred_option (\<lambda>b. has_user b d) (urr_assigned_by x)) (user_roles d))"

definition logs_ok :: "db \<Rightarrow> bool" where
  "logs_ok d = (distinct (map al_id (audit_logs d)) \<and>
     list_all (\<lambda>l. pred_option (\<lambda>u. has_user u d) (al_user_id l)) (audit_logs d) \<and>
     distinct (map ob_id (outbox_events d)))"

definition db_ok :: "db \<Rightarrow> bool" where
  "db_ok d = (users_ok (users d) \<and> sessions_ok d \<and> rbac_ok d \<and> logs_ok d)"

section \<open>Lemmas\<close>

text \<open>Existence tests look at one table only.\<close>

lemma has_user_other [simp]:
  "has_user i (d\<lparr>sessions := x_sessions\<rparr>) = has_user i d"
  "has_user i (d\<lparr>refresh_tokens := x_refresh_tokens\<rparr>) = has_user i d"
  "has_user i (d\<lparr>permissions := x_permissions\<rparr>) = has_user i d"
  "has_user i (d\<lparr>roles := x_roles\<rparr>) = has_user i d"
  "has_user i (d\<lparr>role_permissions := x_role_permissions\<rparr>) = has_user i d"
  "has_user i (d\<lparr>user_roles := x_user_roles\<rparr>) = has_user i d"
  "has_user i (d\<lparr>audit_logs := x_audit_logs\<rparr>) = has_user i d"
  "has_user i (d\<lparr>outbox_events := x_outbox_events\<rparr>) = has_user i d"
  by (simp_all add: has_user_def)

lemma has_session_other [simp]:
  "has_session i (d\<lparr>users := x_users\<rparr>) = has_session i d"
  "has_session i (d\<lparr>refresh_tokens := x_refresh_tokens\<rparr>) = has_session i d"
  "has_session i (d\<lparr>permissions := x_permissions\<rparr>) = has_session i d"
  "has_session i (d\<lparr>roles := x_roles\<rparr>) = has_session i d"
  "has_session i (d\<lparr>role_permissions := x_role_permissions\<rparr>) = has_session i d"
  "has_session i (d\<lparr>user_roles := x_user_roles\<rparr>) = has_session i d"
  "has_session i (d\<lparr>audit_logs := x_audit_logs\<rparr>) = has_session i d"
  "has_session i (d\<lparr>outbox_events := x_outbox_events\<rparr>) = has_session i d"
  by (simp_all add: has_session_def)

lemma has_role_other [simp]:
  "has_role i (d\<lparr>users := x_users\<rparr>) = has_role i d"
  "has_role i (d\<lparr>sessions := x_sessions\<rparr>) = has_role i d"
  "has_role i (d\<lparr>refresh_tokens := x_refresh_tokens\<rparr>) = has_role i d"
  "has_role i (d\<lparr>permissions := x_permissions\<rparr>) = has_role i d"
  "has_role i (d\<lparr>role_permissions := x_role_permissions\<rparr>) = has_role i d"
  "has_role i (d\<lparr>user_roles := x_user_roles\<rparr>) = has_role i d"
  "has_role i (d\<lparr>audit_logs := x_audit_logs\<rparr>) = has_role i d"
  "has_role i (d\<lparr>outbox_events := x_outbox_events\<rparr>) = has_role i d"
  by (simp_all add: has_role_def)

lemma has_permission_row_other [simp]:
  "has_permission_row i (d\<lparr>users := x_users\<rparr>) = has_permission_row i d"
  "has_permission_row i (d\<lparr>sessions := x_sessions\<rparr>) = has_permission_row i d"
  "has_permission_row i (d\<lparr>refresh_tokens := x_refresh_tokens\<rparr>) = has_permission_row i d"
  "has_permission_row i (d\<lparr>roles := x_roles\<rparr>) = has_permission_row i d"
  "has_permission_row i (d\<lparr>role_permissions := x_role_permissions\<rparr>) = has_permission_row i d"
  "has_permission_row i (d\<lparr>user_roles := x_user_roles\<rparr>) = has_permission_row i d"
  "has_permission_row i (d\<lparr>audit_logs := x_audit_logs\<rparr>) = has_permission_row i d"
  "has_permission_row i (d\<lparr>outbox_events := x_outbox_events\<rparr>) = has_permission_row i d"
  by (simp_all add: has_permission_row_def)

lemma has_user_iff: "has_user i d \<longleftrightarrow> i \<in> c_id ` set (users d)"
  by (auto simp: has_user_def list_ex_iff)

lemma has_session_iff: "has_session i d \<longleftrightarrow> i \<in> sr_session_id ` set (sessions d)"
  by (auto simp: has_session_def list_ex_iff)

lemma has_role_iff: "has_role i d \<longleftrightarrow> i \<in> rr_id ` set (roles d)"
  by (auto simp: has_role_def list_ex_iff)

lemma has_permission_row_iff: "has_permission_row i d \<longleftrightarrow> i \<in> pr_id ` set (permissions d)"
  by (auto simp: has_permission_row_def list_ex_iff)

lemma has_user_cong: "map c_id (users d) = map c_id (users d') \<Longrightarrow> has_user i d = has_user i d'"
  unfolding has_user_iff by (metis list.set_map)

lemma some_values_Nil [simp]: "some_values f [] = []"
  by (simp add: some_values_def)

lemma some_values_Cons:
  "some_values f (r # rs) = (case f r of None \<Rightarrow> some_values f rs | Some v \<Rightarrow> v # some_values f rs)"
  by (auto simp: some_values_def split: option.splits)

lemma some_values_append: "some_values f (xs @ ys) = some_values f xs @ some_values f ys"
  by (simp add: some_values_def)

lemma set_some_values: "set (some_values f rows) = {v. \<exists>r \<in> set rows. f r = Some v}"
  by (induction rows) (auto simp: some_values_Cons split: option.splits)

lemma db_ok_users: "db_ok d \<Longrightarrow> users_ok (users d)"
  by (simp add: db_ok_def)

lemma empty_db_ok: "db_ok empty_db"
  by (simp add: db_ok_def empty_db_def users_ok_def sessions_ok_def rbac_ok_def logs_ok_def)

lemma find_by_id:
  "users_ok us \<Longrightarrow> r \<in> set us \<Longrightarrow> find_row (\<lambda>x. c_id x = c_id r) us = Some r"
  by (rule find_row_unique) (auto simp: users_ok_def)

end
