(* ===== verification/User_Repo.thy ===== *)
theory User_Repo
  imports Database
begin

text \<open>
  SQLAlchemyUserRepo (infrastructure/db/sqlalchemy/repositories/user.py) over the users table,
  with the Fernet cipher of infrastructure/secret_cipher.py. A repository method is a function of
  the database the transaction sees; a statement that violates a constraint raises what the
  method translates it to. \<open>update\<close> also answers the user object, whose version the method bumps.

  The locale \<open>versioned_store\<close> states the optimistic-locking contract the services rely on.
\<close>

section \<open>Secret cipher\<close>

definition SECRET_ENCRYPTION_KEY_VAR :: string where
  "SECRET_ENCRYPTION_KEY_VAR = ''SECRET_ENCRYPTION_KEY''"

text \<open>FernetSecretCipher(key): the derived cipher is the environment's Fernet.\<close>

definition FernetSecretCipher :: "string \<Rightarrow> app_error + unit" where
  "FernetSecretCipher key =
     (if key = [] \<or> length key < 32
      then Inl (ConfigurationError (SECRET_ENCRYPTION_KEY_VAR @
             '' must be at least 32 characters. Generate one with: openssl rand -hex 32''))
      else Inr ())"

definition encrypt :: "env \<Rightarrow> string \<Rightarrow> bytes" where
  "encrypt E plaintext = fernet_encrypt E plaintext"

definition decrypt :: "env \<Rightarrow> bytes \<Rightarrow> app_error + string" where
  "decrypt E ciphertext =
     (case fernet_decrypt E ciphertext of None \<Rightarrow> Inl SecretDecryptionError | Some s \<Rightarrow> Inr s)"

section \<open>Rows and aggregates\<close>

definition row_reset_token :: "user_row \<Rightarrow> app_error + password_reset_token option" where
  "row_reset_token r =
     (case c_password_reset_token_hash r of
        None \<Rightarrow> Inr None
      | Some h \<Rightarrow>
          if h = [] then Inr None
          else rbind (TokenHash h) (\<lambda>th.
            Inr (Some \<lparr>pr_token_hash = th, pr_created_at = c_password_reset_created_at r,
                       pr_expires_at = c_password_reset_expires_at r,
                       is_used = c_password_reset_used r\<rparr>)))"

definition row_backup_code :: "string \<Rightarrow> app_error + token_hash" where
  "row_backup_code code =
     (case fromhex code of
        None \<Rightarrow> Inl (ValueError ''non-hexadecimal number found in fromhex() arg'')
      | Some bs \<Rightarrow> TokenHash bs)"

definition row_two_factor :: "env \<Rightarrow> user_row \<Rightarrow> app_error + two_factor_secret option" where
  "row_two_factor E r =
     (case c_two_factor_secret r of
        None \<Rightarrow> Inr None
      | Some c \<Rightarrow>
          if c = [] then Inr None
          else rbind (decrypt E c) (\<lambda>s.
            rbind (rmap row_backup_code
                     (case c_two_factor_backup_codes r of None \<Rightarrow> [] | Some cs \<Rightarrow> cs)) (\<lambda>hs.
              Inr (Some \<lparr>secret = s, backup_code_hashes = hs,
                         enabled_at = c_two_factor_enabled_at r\<rparr>))))"

definition row_verification :: "user_row \<Rightarrow> app_error + email_verification" where
  "row_verification r =
     rbind (case c_email_verification_token_hash r of
              None \<Rightarrow> Inr None
            | Some h \<Rightarrow> if h = [] then Inr None else rbind (TokenHash h) (\<lambda>th. Inr (Some th)))
       (\<lambda>th. Inr \<lparr>is_verified = c_is_email_verified r, ev_token_hash = th,
                  verified_at = c_email_verified_at r,
                  ev_expires_at = c_email_verification_expires_at r\<rparr>)"

definition row_to_user :: "env \<Rightarrow> user_row \<Rightarrow> app_error + user" where
  "row_to_user E r =
     rbind (row_reset_token r) (\<lambda>reset.
     rbind (row_two_factor E r) (\<lambda>two_factor.
     rbind (UserID (c_id r)) (\<lambda>i.
     rbind (Username (c_username r)) (\<lambda>n.
     rbind (Email (c_email r)) (\<lambda>m.
     rbind (HashedPassword (c_hashed_password r)) (\<lambda>p.
     rbind (row_verification r) (\<lambda>v.
       Inr \<lparr>u_id = i, u_username = n, u_email = m, u_hashed_password = p,
            u_deleted_at = c_deleted_at r,
            u_account_lock = \<lparr>is_locked = c_is_locked r, locked_at = c_locked_at r,
              lock_reason = c_lock_reason r, failed_attempts = c_failed_attempts r,
              lock_until = c_lock_until r\<rparr>,
            u_email_verification = v, u_password_reset_token = reset,
            u_two_factor_secret = two_factor, u_version = c_version r, u_events = []\<rparr>)))))))"

text \<open>_user_to_values, with the version column the caller adds (0 is the server default of an
  insert).\<close>

definition user_to_values :: "env \<Rightarrow> user \<Rightarrow> int \<Rightarrow> user_row" where
  "user_to_values E u version =
     \<lparr>c_id = u_id u, c_version = version, c_username = u_username u, c_email = u_email u,
      c_hashed_password = u_hashed_password u, c_deleted_at = u_deleted_at u,
      c_is_locked = is_locked (u_account_lock u), c_locked_at = locked_at (u_account_lock u),
      c_lock_reason = lock_reason (u_account_lock u),
      c_failed_attempts = failed_attempts (u_account_lock u),
      c_lock_until = lock_until (u_account_lock u),
      c_is_email_verified = is_verified (u_email_verification u),
      c_email_verification_token_hash = ev_token_hash (u_email_verification u),
      c_email_verified_at = verified_at (u_email_verification u),
      c_email_verification_expires_at = ev_expires_at (u_email_verification u),
      c_password_reset_token_hash = map_option pr_token_hash (u_password_reset_token u),
      c_password_reset_created_at = Option.bind (u_password_reset_token u) pr_created_at,
      c_password_reset_expires_at = Option.bind (u_password_reset_token u) pr_expires_at,
      c_password_reset_used =
        (case u_password_reset_token u of None \<Rightarrow> False | Some t \<Rightarrow> is_used t),
      c_two_factor_secret = map_option (\<lambda>t. encrypt E (secret t)) (u_two_factor_secret u),
      c_two_factor_enabled_at = Option.bind (u_two_factor_secret u) enabled_at,
      c_two_factor_backup_codes =
        map_option (\<lambda>t. map hex (backup_code_hashes t)) (u_two_factor_secret u)\<rparr>"

definition uniqueness_error :: "string \<Rightarrow> user \<Rightarrow> app_error" where
  "uniqueness_error constraint u =
     (if has_sub ''email'' constraint then EmailAlreadyExistsError (u_email u)
      else if has_sub ''username'' constraint then UsernameAlreadyExistsError (Some (u_username u))
      else UsernameAlreadyExistsError (Some (u_username u)))"

text \<open>The unique constraint a row would violate against the other rows of the table.\<close>

definition users_violation :: "user_row \<Rightarrow> user_row list \<Rightarrow> string option" where
  "users_violation r others =
     (if list_ex (\<lambda>x. c_id x = c_id r) others then Some ''pk_users''
      else if list_ex (\<lambda>x. c_username x = c_username r) others then Some ''uq_users_username''
      else if c_email r \<noteq> None \<and> list_ex (\<lambda>x. c_email x = c_email r) others
      then Some ''uq_users_email''
      else None)"

section \<open>The repository\<close>

definition load_user :: "env \<Rightarrow> user_row option \<Rightarrow> app_error + user option" where
  "load_user E row =
     (case row of None \<Rightarrow> Inr None | Some r \<Rightarrow> rbind (row_to_user E r) (\<lambda>u. Inr (Some u)))"

definition user_acquire_by_id :: "env \<Rightarrow> user_id \<Rightarrow> db \<Rightarrow> app_error + user option" where
  "user_acquire_by_id E i d = load_user E (find_row (\<lambda>r. c_id r = i) (users d))"

definition user_acquire_by_username :: "env \<Rightarrow> string \<Rightarrow> db \<Rightarrow> app_error + user option" where
  "user_acquire_by_username E n d =
     load_user E (find_row (\<lambda>r. c_username r = n \<and> c_deleted_at r = None) (users d))"

definition user_acquire_by_email :: "env \<Rightarrow> string option \<Rightarrow> db \<Rightarrow> app_error + user option" where
  "user_acquire_by_email E m d =
     (if m = None then Inr None
      else load_user E (find_row (\<lambda>r. c_email r = m \<and> c_deleted_at r = None) (users d)))"

definition user_acquire_by_verification_token ::
    "env \<Rightarrow> token_hash \<Rightarrow> db \<Rightarrow> app_error + user option" where
  "user_acquire_by_verification_token E h d =
     load_user E (find_row (\<lambda>r. c_email_verification_token_hash r = Some h) (users d))"

definition user_acquire_by_reset_token ::
    "env \<Rightarrow> token_hash \<Rightarrow> db \<Rightarrow> app_error + user option" where
  "user_acquire_by_reset_token E h d =
     load_user E (find_row (\<lambda>r. c_password_reset_token_hash r = Some h) (users d))"

definition user_add :: "env \<Rightarrow> user \<Rightarrow> db \<Rightarrow> app_error + db" where
  "user_add E u d =
     (let r = user_to_values E u 0 in
      case users_violation r (users d) of
        Some constraint \<Rightarrow> Inl (uniqueness_error constraint u)
      | None \<Rightarrow> Inr (d\<lparr>users := users d @ [r]\<rparr>))"

definition user_update :: "env \<Rightarrow> user \<Rightarrow> db \<Rightarrow> app_error + (user \<times> db)" where
  "user_update E u d =
     (let matches = (\<lambda>r. c_id r = u_id u \<and> c_version r = u_version u);
          values = user_to_values E u (u_version u + 1);
          others = filter (\<lambda>r. \<not> matches r) (users d) in
      if find_row matches (users d) = None
      then Inl (ConcurrentModificationError (Some (uuid_str (u_id u))))
      else case users_violation values others of
        Some constraint \<Rightarrow> Inl (uniqueness_error constraint u)
      | None \<Rightarrow>
          Inr (u\<lparr>u_version := u_version u + 1\<rparr>,
               d\<lparr>users := update_where matches (\<lambda>_. values) (users d)\<rparr>))"

definition check_username_exists :: "string \<Rightarrow> db \<Rightarrow> bool" where
  "check_username_exists n d = list_ex (\<lambda>r. c_username r = n \<and> c_deleted_at r = None) (users d)"

definition check_email_exists :: "string option \<Rightarrow> db \<Rightarrow> bool" where
  "check_email_exists m d =
     (if m = None then False
      else list_ex (\<lambda>r. c_email r = m \<and> c_deleted_at r = None) (users d))"

definition get_all_user_ids :: "db \<Rightarrow> string list" where
  "get_all_user_ids d = map (\<lambda>r. uuid_str (c_id r)) (users d)"

text \<open>A sequence of successful updates, one after the other.\<close>

fun run_updates :: "('u \<Rightarrow> 'd \<Rightarrow> 'e + ('u \<times> 'd)) \<Rightarrow> 'u list \<Rightarrow> 'd \<Rightarrow> 'e + 'd" where
  "run_updates upd [] d = Inr d"
| "run_updates upd (u # us) d = rbind (upd u d) (\<lambda>(u', d'). run_updates upd us d')"

text \<open>The version a user's row has, if there is one.\<close>

definition row_version :: "user_id \<Rightarrow> db \<Rightarrow> int option" where
  "row_version i d = map_option c_version (find_row (\<lambda>r. c_id r = i) (users d))"

section \<open>Round trip between aggregates and rows\<close>

text \<open>What the value objects of a user guarantee.\<close>

definition user_wf :: "user \<Rightarrow> bool" where
  "user_wf u =
     (UserID (u_id u) = Inr (u_id u) \<and> Username (u_username u) = Inr (u_username u) \<and>
      Email (u_email u) = Inr (u_email u) \<and> u_hashed_password u \<noteq> [] \<and>
      (case ev_token_hash (u_email_verification u) of None \<Rightarrow> True | Some h \<Rightarrow> h \<noteq> []) \<and>
      (case u_password_reset_token u of None \<Rightarrow> True | Some t \<Rightarrow> pr_token_hash t \<noteq> []) \<and>
      (case u_two_factor_secret u of None \<Rightarrow> True
       | Some t \<Rightarrow> list_all (\<lambda>h. h \<noteq> []) (backup_code_hashes t)))"

text \<open>The documented behaviour of Fernet: tokens are never empty, and decryption inverts
  encryption under the same key.\<close>

definition fernet_law :: "env \<Rightarrow> bool" where
  "fernet_law E = (\<forall>s. fernet_encrypt E s \<noteq> [] \<and> fernet_decrypt E (fernet_encrypt E s) = Some s)"

lemma sample_fernet_law: "fernet_law sample_env"
  by (auto simp: fernet_law_def sample_fernet) (simp add: sample_env_def)

lemma row_backup_code_hex [simp]: "h \<noteq> [] \<Longrightarrow> row_backup_code (hex h) = Inr h"
  by (simp add: row_backup_code_def fromhex_hex TokenHash_def)

lemma rmap_backup_codes:
  "list_all (\<lambda>h. h \<noteq> []) hs \<Longrightarrow> rmap row_backup_code (map hex hs) = Inr hs"
  by (induction hs) auto

lemma row_reset_token_values:
  "(case u_password_reset_token u of None \<Rightarrow> True | Some t \<Rightarrow> pr_token_hash t \<noteq> []) \<Longrightarrow>
     row_reset_token (user_to_values E u v) = Inr (u_password_reset_token u)"
  by (auto simp: row_reset_token_def user_to_values_def TokenHash_def split: option.splits)

lemma row_verification_values:
  "(case ev_token_hash (u_email_verification u) of None \<Rightarrow> True | Some h \<Rightarrow> h \<noteq> []) \<Longrightarrow>
     row_verification (user_to_values E u v) = Inr (u_email_verification u)"
  by (auto simp: row_verification_def user_to_values_def TokenHash_def split: option.splits)

lemma row_two_factor_values:
  "fernet_law E \<Longrightarrow>
     (case u_two_factor_secret u of None \<Rightarrow> True | Some t \<Rightarrow> list_all (\<lambda>h. h \<noteq> []) (backup_code_hashes t)) \<Longrightarrow>
     row_two_factor E (user_to_values E u v) = Inr (u_two_factor_secret u)"
  by (auto simp: row_two_factor_def user_to_values_def encrypt_def decrypt_def fernet_law_def
        rmap_backup_codes split: option.splits)

lemma row_to_user_values:
  assumes "fernet_law E" and "user_wf u"
  shows "row_to_user E (user_to_values E u v) = Inr (u\<lparr>u_version := v, u_events := []\<rparr>)"
proof -
  have "row_reset_token (user_to_values E u v) = Inr (u_password_reset_token u)"
    "row_verification (user_to_values E u v) = Inr (u_email_verification u)"
    "row_two_factor E (user_to_values E u v) = Inr (u_two_factor_secret u)"
    using assms by (auto intro!: row_reset_token_values row_verification_values row_two_factor_values
        simp: user_wf_def)
  then show ?thesis
    using assms(2) by (simp add: row_to_user_def user_wf_def HashedPassword_def)
      (simp add: user_to_values_def)
qed

text \<open>Every user built by reading a row is well-formed.\<close>

lemma rmap_backup_codes_nonempty:
  "rmap row_backup_code cs = Inr hs \<Longrightarrow> list_all (\<lambda>h. h \<noteq> []) hs"
  by (induction cs arbitrary: hs)
    (auto simp: rbind_eq_Inr row_backup_code_def TokenHash_eq split: option.splits)

lemma row_to_user_wf: "row_to_user E r = Inr u \<Longrightarrow> user_wf u"
proof -
  assume "row_to_user E r = Inr u"
  then obtain t f n m v where
    t: "row_reset_token r = Inr t" and f: "row_two_factor E r = Inr f" and
    v: "row_verification r = Inr v" and
    i: "UserID (c_id r) = Inr (u_id u)" "Username (c_username r) = Inr (u_username u)"
    "Email (c_email r) = Inr (u_email u)" "HashedPassword (c_hashed_password r) = Inr (u_hashed_password u)"
    and e: "u_email_verification u = v" "u_password_reset_token u = t" "u_two_factor_secret u = f"
    by (auto simp: row_to_user_def rbind_eq_Inr)
  have "case ev_token_hash v of None \<Rightarrow> True | Some h \<Rightarrow> h \<noteq> []"
    using v by (auto simp: row_verification_def rbind_eq_Inr TokenHash_eq split: option.splits if_splits)
  moreover have "case t of None \<Rightarrow> True | Some t \<Rightarrow> pr_token_hash t \<noteq> []"
    using t by (auto simp: row_reset_token_def rbind_eq_Inr TokenHash_eq split: option.splits if_splits)
  moreover have "case f of None \<Rightarrow> True | Some t \<Rightarrow> list_all (\<lambda>h. h \<noteq> []) (backup_code_hashes t)"
    using f by (auto simp: row_two_factor_def rbind_eq_Inr split: option.splits if_splits
        dest: rmap_backup_codes_nonempty)
  moreover note i [unfolded UserID_eq HashedPassword_eq] Username_value [OF i(2)] Email_value [OF i(3)]
  ultimately show ?thesis unfolding user_wf_def e by (auto simp: UserID_eq)
qed

text \<open>C38. Writing a user and reading the row back gives the same aggregate: every field survives
  the column encoding, the encryption of the TOTP seed and the hex encoding of the recovery code
  hashes; only the unpulled events are dropped and the version is the one written.\<close>

theorem user_row_roundtrip:
  assumes "fernet_law E" and "user_wf u"
  shows "row_to_user E (user_to_values E u v) = Inr (u\<lparr>u_version := v, u_events := []\<rparr>)"
  using row_to_user_values [OF assms] .

lemma sample_user_wf: "user_wf sample_user"
  by (simp add: user_wf_def sample_user_def user_create_def create_unverified_def UserID_def
      NIL_UUID_def Username_def MAX_USERNAME_LENGTH_def USERNAME_PATTERN_def match_dollar_def
      username_core_def Email_def EMAIL_PATTERN_def email_core_def email_domain_def local_char_def
      domain_char_def is_alnum_def is_alpha_def is_lower_def is_upper_def is_digit_def in_range_def
      newline_def)

theorem user_row_roundtrip_witness:
  "row_to_user sample_env (user_to_values sample_env sample_user 3) =
     Inr (sample_user\<lparr>u_version := 3, u_events := []\<rparr>)"
  using user_row_roundtrip [OF sample_fernet_law sample_user_wf] .

section \<open>Writes keep the constraints\<close>

lemma users_violation_None:
  "users_violation r others = None \<longleftrightarrow>
     c_id r \<notin> c_id ` set others \<and> c_username r \<notin> c_username ` set others \<and>
     (\<forall>m. c_email r = Some m \<longrightarrow> m \<notin> set (some_values c_email others))"
  by (cases "c_email r")
    (auto simp: users_violation_def list_ex_key set_some_values notin_image_iff split: if_splits)

lemma users_ok_snoc:
  "users_ok us \<Longrightarrow> users_violation r us = None \<Longrightarrow> users_ok (us @ [r])"
  by (auto simp: users_ok_def users_violation_None some_values_append some_values_Cons
      split: option.splits)

lemma users_ok_replace:
  "users_ok (xs @ r # ys) \<Longrightarrow> users_violation v (xs @ ys) = None \<Longrightarrow> users_ok (xs @ v # ys)"
  by (auto simp: users_ok_def users_violation_None some_values_append some_values_Cons
      split: option.splits)

lemma user_update_split:
  assumes "user_update E u d = Inr (u', d')" and "users_ok (users d)"
  shows "\<exists>xs r ys. users d = xs @ r # ys \<and> c_id r = u_id u \<and> c_version r = u_version u \<and>
           (\<forall>x \<in> set (xs @ ys). c_id x \<noteq> u_id u) \<and> u' = u\<lparr>u_version := u_version u + 1\<rparr> \<and>
           users_violation (user_to_values E u (u_version u + 1)) (xs @ ys) = None \<and>
           d' = d\<lparr>users := xs @ user_to_values E u (u_version u + 1) # ys\<rparr>"
proof -
  let ?m = "\<lambda>r. c_id r = u_id u \<and> c_version r = u_version u"
  let ?v = "user_to_values E u (u_version u + 1)"
  from assms(1) have ne: "find_row ?m (users d) \<noteq> None"
    and v: "users_violation ?v (filter (\<lambda>r. \<not> ?m r) (users d)) = None"
    and u': "u' = u\<lparr>u_version := u_version u + 1\<rparr>"
    and d': "d' = d\<lparr>users := update_where ?m (\<lambda>_. ?v) (users d)\<rparr>"
    by (auto simp: user_update_def Let_def split: if_splits option.splits)
  from ne obtain r where "r \<in> set (users d)" and m: "?m r"
    by (auto simp: find_row_None_iff)
  then obtain xs ys where s: "users d = xs @ r # ys" by (meson split_list)
  with assms(2) m have n: "(\<forall>x \<in> set (xs @ ys). c_id x \<noteq> u_id u)"
    by (auto simp: users_ok_def notin_image_iff)
  then have "filter (\<lambda>r. \<not> ?m r) xs = xs" "filter (\<lambda>r. \<not> ?m r) ys = ys"
    "update_where ?m (\<lambda>_. ?v) xs = xs" "update_where ?m (\<lambda>_. ?v) ys = ys"
    by (auto intro!: filter_True update_where_id)
  then have "filter (\<lambda>r. \<not> ?m r) (users d) = xs @ ys"
    "update_where ?m (\<lambda>_. ?v) (users d) = xs @ ?v # ys"
    using m by (simp_all add: s update_where_def)
  with v u' d' s m n show ?thesis by auto
qed

lemma find_row_split:
  "(\<forall>x \<in> set (xs @ ys). c_id x \<noteq> u_id u) \<Longrightarrow> c_id r = u_id u \<Longrightarrow>
     find_row (\<lambda>x. c_id x = u_id u) (xs @ r # ys) = Some r"
  by (induction xs) (auto simp: table_simps)

lemma find_row_split_other:
  "i \<noteq> u_id u \<Longrightarrow> c_id r = u_id u \<Longrightarrow> c_id v = u_id u \<Longrightarrow>
     find_row (\<lambda>x. c_id x = i) (xs @ r # ys) = find_row (\<lambda>x. c_id x = i) (xs @ v # ys)"
  by (induction xs) (auto simp: table_simps)

lemma user_to_values_id [simp]: "c_id (user_to_values E u v) = u_id u"
  "c_version (user_to_values E u v) = v" "c_username (user_to_values E u v) = u_username u"
  "c_email (user_to_values E u v) = u_email u" "c_deleted_at (user_to_values E u v) = u_deleted_at u"
  by (simp_all add: user_to_values_def)

lemma user_update_users_ok:
  "user_update E u d = Inr (u', d') \<Longrightarrow> users_ok (users d) \<Longrightarrow> users_ok (users d')"
  by (auto dest!: user_update_split intro: users_ok_replace)

lemma user_update_row:
  "user_update E u d = Inr (u', d') \<Longrightarrow> users_ok (users d) \<Longrightarrow>
     find_row (\<lambda>r. c_id r = u_id u) (users d') = Some (user_to_values E u (u_version u + 1))"
  using user_update_split find_row_split [of _ _ u "user_to_values E u (u_version u + 1)"] by fastforce

lemma user_update_frame:
  assumes "user_update E u d = Inr (u', d')" and "users_ok (users d)"
  shows "map c_id (users d') = map c_id (users d)" and "d' = d\<lparr>users := users d'\<rparr>"
    and "i \<noteq> u_id u \<Longrightarrow> find_row (\<lambda>r. c_id r = i) (users d') = find_row (\<lambda>r. c_id r = i) (users d)"
proof -
  obtain xs r ys where s: "users d = xs @ r # ys" "c_id r = u_id u"
    "d' = d\<lparr>users := xs @ user_to_values E u (u_version u + 1) # ys\<rparr>"
    using user_update_split [OF assms] by blast
  then show "map c_id (users d') = map c_id (users d)" "d' = d\<lparr>users := users d'\<rparr>" by simp_all
  show "i \<noteq> u_id u \<Longrightarrow> find_row (\<lambda>r. c_id r = i) (users d') = find_row (\<lambda>r. c_id r = i) (users d)"
    using find_row_split_other [of i u "user_to_values E u (u_version u + 1)" r xs ys] s by simp
qed

lemma user_update_result:
  "user_update E u d = Inr (u', d') \<Longrightarrow> u' = u\<lparr>u_version := u_version u + 1\<rparr>"
  by (auto simp: user_update_def Let_def split: if_splits option.splits)

text \<open>A write that touches only the users table and keeps its identifiers, or adds to them, keeps
  the foreign keys that point to it.\<close>

lemma db_ok_users_change:
  assumes "db_ok d" and "users_ok us" and "c_id ` set (users d) \<subseteq> c_id ` set us"
  shows "db_ok (d\<lparr>users := us\<rparr>)"
proof -
  have h: "has_user i d \<Longrightarrow> has_user i (d\<lparr>users := us\<rparr>)" for i
    using assms(3) by (auto simp: has_user_iff)
  have s: "has_session i (d\<lparr>users := us\<rparr>) = has_session i d" "has_role i (d\<lparr>users := us\<rparr>) = has_role i d"
    "has_permission_row i (d\<lparr>users := us\<rparr>) = has_permission_row i d" for i
    by (simp_all add: has_session_def has_role_def has_permission_row_def)
  have "sessions_ok (d\<lparr>users := us\<rparr>)"
    using assms(1) h by (auto simp: db_ok_def sessions_ok_def list_all_iff s)
  moreover have "rbac_ok (d\<lparr>users := us\<rparr>)"
    using assms(1) h by (auto simp: db_ok_def rbac_ok_def list_all_iff s option.pred_set)
  moreover have "logs_ok (d\<lparr>users := us\<rparr>)"
    using assms(1) h by (auto simp: db_ok_def logs_ok_def list_all_iff option.pred_set)
  ultimately show ?thesis using assms(2) by (simp add: db_ok_def)
qed

lemma user_update_db_ok: "db_ok d \<Longrightarrow> user_update E u d = Inr (u', d') \<Longrightarrow> db_ok d'"
proof -
  assume d: "db_ok d" and u: "user_update E u d = Inr (u', d')"
  note ok = db_ok_users [OF d]
  have "c_id ` set (users d) \<subseteq> c_id ` set (users d')"
    using user_update_frame(1) [OF u ok] by (metis list.set_map order_refl)
  then have "db_ok (d\<lparr>users := users d'\<rparr>)"
    using db_ok_users_change [OF d] user_update_users_ok [OF u ok] by blast
  then show "db_ok d'" using user_update_frame(2) [OF u ok] by simp
qed

lemma user_add_Inr:
  "user_add E u d = Inr d' \<longleftrightarrow> users_violation (user_to_values E u 0) (users d) = None \<and>
     d' = d\<lparr>users := users d @ [user_to_values E u 0]\<rparr>"
  by (auto simp: user_add_def Let_def split: option.splits)

lemma user_add_db_ok: "db_ok d \<Longrightarrow> user_add E u d = Inr d' \<Longrightarrow> db_ok d'"
  unfolding user_add_Inr by (auto intro!: db_ok_users_change users_ok_snoc dest: db_ok_users)

section \<open>Optimistic locking\<close>

text \<open>The contract of a versioned store: a write succeeds only on the version it was computed
  from, bumps it, and leaves other keys alone.\<close>

locale versioned_store =
  fixes inv :: "'d \<Rightarrow> bool"
    and ver :: "'k \<Rightarrow> 'd \<Rightarrow> int option"
    and key :: "'u \<Rightarrow> 'k"
    and uver :: "'u \<Rightarrow> int"
    and upd :: "'u \<Rightarrow> 'd \<Rightarrow> 'e + ('u \<times> 'd)"
  assumes upd_inv: "inv d \<Longrightarrow> upd u d = Inr (u', d') \<Longrightarrow> inv d'"
    and upd_current: "inv d \<Longrightarrow> upd u d = Inr (u', d') \<Longrightarrow> ver (key u) d = Some (uver u)"
    and upd_bumps: "inv d \<Longrightarrow> upd u d = Inr (u', d') \<Longrightarrow> ver (key u) d' = Some (uver u + 1)"
    and upd_others: "inv d \<Longrightarrow> upd u d = Inr (u', d') \<Longrightarrow> k \<noteq> key u \<Longrightarrow> ver k d' = ver k d"
begin

lemma upd_monotone:
  assumes "inv d" and "upd u d = Inr (u', d')" and "ver k d = Some n"
  shows "\<exists>m \<ge> n. ver k d' = Some m"
proof (cases "k = key u")
  case True
  then show ?thesis using upd_current [OF assms(1,2)] upd_bumps [OF assms(1,2)] assms(3) by auto
next
  case False
  then show ?thesis using upd_others [OF assms(1,2)] assms(3) by auto
qed

lemma run_monotone:
  "inv d \<Longrightarrow> run_updates upd us d = Inr d' \<Longrightarrow> ver k d = Some n \<Longrightarrow>
     inv d' \<and> (\<exists>m \<ge> n. ver k d' = Some m)"
proof (induction us arbitrary: d n)
  case Nil
  then show ?case by auto
next
  case (Cons u us)
  from Cons.prems(2) obtain u1 d1 where u: "upd u d = Inr (u1, d1)"
    and r: "run_updates upd us d1 = Inr d'" by (auto simp: rbind_eq_Inr)
  from upd_monotone [OF Cons.prems(1) u Cons.prems(3)] obtain m where "m \<ge> n" "ver k d1 = Some m"
    by blast
  with Cons.IH [OF upd_inv [OF Cons.prems(1) u] r] show ?case by (meson order_trans)
qed

lemma stale_write_version:
  assumes "inv d" and "upd u d = Inr (u', d1)" and "run_updates upd us d1 = Inr d2"
  shows "inv d2 \<and> (\<exists>m > uver u. ver (key u) d2 = Some m)"
  using run_monotone [OF upd_inv [OF assms(1,2)] assms(3) upd_bumps [OF assms(1,2)]]
  by (meson less_add_one order_less_le_trans)

lemma stale_write_fails:
  assumes "inv d" and "upd u d = Inr (u', d1)" and "run_updates upd us d1 = Inr d2"
    and "key w = key u" and "uver w \<le> uver u"
  shows "\<exists>e. upd w d2 = Inl e"
proof (cases "upd w d2")
  case (Inr p)
  then obtain w' d3 where "upd w d2 = Inr (w', d3)" by (cases p) auto
  with stale_write_version [OF assms(1-3)] upd_current assms(4,5) show ?thesis by fastforce
qed simp

end

interpretation user_rows: versioned_store "\<lambda>d. users_ok (users d)" row_version u_id u_version
    "user_update E" for E
proof
  fix d u u' d' and k :: user_id
  assume ok: "users_ok (users d)" and u: "user_update E u d = Inr (u', d')"
  show "users_ok (users d')" using user_update_users_ok [OF u ok] .
  show "row_version (u_id u) d = Some (u_version u)"
    using user_update_split [OF u ok] find_row_split by (fastforce simp: row_version_def)
  show "row_version (u_id u) d' = Some (u_version u + 1)"
    using user_update_row [OF u ok] by (simp add: row_version_def)
  show "k \<noteq> u_id u \<Longrightarrow> row_version k d' = row_version k d"
    using user_update_frame(3) [OF u ok] by (simp add: row_version_def)
qed

lemma user_update_stale:
  assumes "users_ok (users d)" and "row_version (u_id w) d = Some m" and "m \<noteq> u_version w"
  shows "user_update E w d = Inl (ConcurrentModificationError (Some (uuid_str (u_id w))))"
proof -
  obtain r where "find_row (\<lambda>r. c_id r = u_id w) (users d) = Some r" and v: "c_version r = m"
    using assms(2) by (auto simp: row_version_def)
  then have r: "r \<in> set (users d)" "c_id r = u_id w" using find_row_Some_iff by fastforce+
  have "x = r" if "x \<in> set (users d)" "c_id x = u_id w" for x
    using assms(1) r that by (metis distinct_map inj_onD users_ok_def)
  then have "find_row (\<lambda>x. c_id x = u_id w \<and> c_version x = u_version w) (users d) = None"
    using v assms(3) by (auto simp: find_row_None_iff)
  then show ?thesis by (simp add: user_update_def Let_def)
qed

text \<open>C1. Two writers cannot both succeed from the same read. After one update of a user
  succeeded, and whatever further updates of any users followed it, an update computed from the
  same version is refused with ConcurrentModificationError: no failed-login increment is lost and
  no recovery code is spent twice.\<close>

theorem no_lost_update:
  assumes "users_ok (users d)" and "user_update E u d = Inr (u', d1)"
    and "run_updates (user_update E) us d1 = Inr d2"
    and "u_id w = u_id u" and "u_version w = u_version u"
  shows "user_update E w d2 = Inl (ConcurrentModificationError (Some (uuid_str (u_id w))))"
proof -
  obtain m where "users_ok (users d2)" "m > u_version u" "row_version (u_id u) d2 = Some m"
    using user_rows.stale_write_version [OF assms(1-3)] by blast
  with assms(4,5) show ?thesis using user_update_stale [of d2 w m E] by simp
qed

definition sample_db :: db where
  "sample_db = empty_db\<lparr>users := [user_to_values sample_env sample_user 0]\<rparr>"

lemma sample_user_version: "u_version sample_user = 0" "u_id sample_user = 1"
  by (simp_all add: sample_user_def user_create_def)

lemma sample_db_ok: "db_ok sample_db"
  by (auto simp: sample_db_def empty_db_def db_ok_def users_ok_def sessions_ok_def rbac_ok_def
      logs_ok_def some_values_Cons split: option.splits)

lemma sample_update: "\<exists>u' d1. user_update sample_env sample_user sample_db = Inr (u', d1)"
  by (simp add: user_update_def sample_db_def Let_def find_row_Cons sample_user_version
      users_violation_def)

theorem no_lost_update_witness:
  "\<exists>u' d1. user_update sample_env sample_user sample_db = Inr (u', d1) \<and>
     user_update sample_env sample_user d1 =
       Inl (ConcurrentModificationError (Some (uuid_str (u_id sample_user))))"
proof -
  obtain u' d1 where u: "user_update sample_env sample_user sample_db = Inr (u', d1)"
    using sample_update by blast
  have "users_ok (users sample_db)" using sample_db_ok by (rule db_ok_users)
  from no_lost_update [OF this u, of "[]" d1 sample_user] u show ?thesis by auto
qed

text \<open>A successful update is read back: the user found under the identifier is the one
  written, with the next version and without pending events, every other user reads as before,
  and the constraints of the schema still hold.\<close>

theorem user_update_reads_back:
  assumes "fernet_law E" and "user_wf u" and "db_ok d" and "user_update E u d = Inr (u', d')"
  shows "user_acquire_by_id E (u_id u) d' = Inr (Some (u'\<lparr>u_events := []\<rparr>)) \<and>
         (\<forall>i. i \<noteq> u_id u \<longrightarrow> user_acquire_by_id E i d' = user_acquire_by_id E i d) \<and> db_ok d'"
proof -
  note ok = db_ok_users [OF assms(3)]
  have "user_acquire_by_id E (u_id u) d' = Inr (Some (u'\<lparr>u_events := []\<rparr>))"
    using row_to_user_values [OF assms(1,2)]
    by (simp add: user_acquire_by_id_def load_user_def user_update_row [OF assms(4) ok]
        user_update_result [OF assms(4)])
  moreover have "user_acquire_by_id E i d' = user_acquire_by_id E i d" if "i \<noteq> u_id u" for i
    using user_update_frame(3) [OF assms(4) ok that] by (simp add: user_acquire_by_id_def)
  ultimately show ?thesis using user_update_db_ok [OF assms(3,4)] by blast
qed

theorem user_update_reads_back_witness:
  "\<exists>u' d'. user_update sample_env sample_user sample_db = Inr (u', d') \<and>
     user_acquire_by_id sample_env (u_id sample_user) d' = Inr (Some (u'\<lparr>u_events := []\<rparr>))"
  using sample_update
    user_update_reads_back [OF sample_fernet_law sample_user_wf sample_db_ok] by blast

lemma row_to_user_fields:
  "row_to_user E r = Inr u \<Longrightarrow> u_id u = c_id r \<and> u_username u = c_username r \<and> u_email u = c_email r \<and>
     u_hashed_password u = c_hashed_password r \<and> u_version u = c_version r \<and> u_events u = [] \<and>
     u_deleted_at u = c_deleted_at r"
  by (auto simp: row_to_user_def rbind_eq_Inr UserID_eq HashedPassword_eq dest: Username_value Email_value)

lemma acquire_by_id_id:
  assumes "user_acquire_by_id E i d = Inr (Some u)"
  shows "u_id u = i"
  using assms
  by (auto simp: user_acquire_by_id_def load_user_def rbind_eq_Inr row_to_user_fields split: option.splits dest!: find_row_Some_iff)

section \<open>Well-formed accounts stay well formed\<close>

text \<open>What the callers of the methods pass: value objects.\<close>

fun op_wf :: "user_op \<Rightarrow> bool" where
  "op_wf (ResetPassword tok p) = (p \<noteq> [])"
| "op_wf (ChangePassword old p) = (p \<noteq> [])"
| "op_wf (UpdateUsername n) = (Username n = Inr n)"
| "op_wf (UpdateEmail m) = (Email m = Inr m)"
| "op_wf _ = True"

lemma consume_loop_wf: 
  "consume_backup_code E t code = Some t' \<Longrightarrow> list_all (\<lambda>h. h \<noteq> []) (backup_code_hashes t) \<Longrightarrow> list_all (\<lambda>h. h \<noteq> []) (backup_code_hashes t')"
  by (auto simp: consume_backup_code_eq list_all_iff split: if_splits)

lemma user_step_wf: "user_step E now u p v \<Longrightarrow> user_wf u \<Longrightarrow> op_wf p \<Longrightarrow> user_wf v"
proof (induction rule: user_step.induct)
  case (10 code u u')
  then show ?case by (auto simp: verify_two_factor_consumed user_wf_def dest: consume_loop_wf)
qed (auto simp: user_wf_def user_method_defs user_inversions password_reset_create_def mark_used_def two_factor_enable_def 
     list_all_iff create_unverified_def secure_token_create_def mark_verified_def split: option.splits if_splits)

text \<open>C39. Accounts stay well formed: whatever sequence of methods runs on an account, with value
  objects as arguments, the identifier, name and address remain valid, the password hash and every
  stored token or recovery-code hash remain non-empty, so the account can be stored and read back.\<close>

theorem user_run_wf:
  assumes "user_run E u ops v" and "user_wf u" and "list_all (\<lambda>(now, p). op_wf p) ops"
  shows "user_wf v"
  using assms
proof (induction rule: user_run.induct)
  case (run_step now u p v ps w)
  then have "user_wf v" by (auto intro: user_step_wf)
  with run_step show ?case by simp
qed

theorem user_run_wf_witness:
  "user_wf (delete 9 (update_username ''bobby'' sample_user))"
proof -
  have "Username ''bobby'' = Inr ''bobby''" by code_simp
  moreover have "user_run sample_env sample_user [(1, UpdateUsername ''bobby''), (9, DeleteUser)] (delete 9 (update_username ''bobby'' sample_user))"
    by (rule run_step [OF user_step.intros(12)], rule run_step [OF user_step.intros(14)], rule run_refl)
  ultimately show ?thesis
    using user_run_wf [OF _ sample_user_wf] by fastforce
qed

end
