(* ===== verification/Session_Repo.thy ===== *)
theory Session_Repo
  imports Database
begin

text \<open>
  SQLAlchemySessionRepo (infrastructure/db/sqlalchemy/repositories/session.py) over the sessions
  and refresh_tokens tables. Constraint violations are not translated by this repository: they
  surface as IntegrityError. Deleting a session removes its tokens through the foreign key.
\<close>

definition device_info_from_row :: "session_row \<Rightarrow> device_info" where
  "device_info_from_row r =
     \<lparr>di_user_agent = sr_user_agent r, di_ip_address = sr_ip_address r,
      di_device_name = sr_device_name r, di_browser = sr_browser r, di_os = sr_os r,
      di_is_mobile = sr_is_mobile r\<rparr>"

definition session_from_rows :: "session_row \<Rightarrow> refresh_token list \<Rightarrow> app_error + session" where
  "session_from_rows r tokens =
     rbind (UserID (sr_user_id r)) (\<lambda>i.
       Inr \<lparr>s_session_id = sr_session_id r, s_user_id = i, s_device_info = device_info_from_row r,
            s_created_at = sr_created_at r, s_expires_at = sr_expires_at r,
            s_is_revoked = sr_is_revoked r, s_refresh_tokens = tokens, s_events = []\<rparr>)"

definition refresh_token_from_row :: "refresh_token_row \<Rightarrow> app_error + refresh_token" where
  "refresh_token_from_row r =
     rbind (TokenHash (tr_token_hash r)) (\<lambda>h.
       Inr \<lparr>rt_token_hash = h, rt_id = tr_id r, rt_expires_at = tr_expires_at r,
            rt_is_revoked = tr_is_revoked r, rt_created_at = tr_created_at r\<rparr>)"

definition session_tokens :: "uuid \<Rightarrow> db \<Rightarrow> refresh_token_row list" where
  "session_tokens i d = filter (\<lambda>t. tr_session_id t = i) (refresh_tokens d)"

definition session_acquire_by_session_id :: "uuid \<Rightarrow> db \<Rightarrow> app_error + session option" where
  "session_acquire_by_session_id i d =
     (case find_row (\<lambda>r. sr_session_id r = i) (sessions d) of
        None \<Rightarrow> Inr None
      | Some r \<Rightarrow>
          rbind (rmap refresh_token_from_row (session_tokens i d)) (\<lambda>tokens.
          rbind (session_from_rows r tokens) (\<lambda>s. Inr (Some s))))"

text \<open>_refresh_tokens_for: the tokens of a batch of sessions, each with its session.\<close>

definition refresh_tokens_for :: "uuid list \<Rightarrow> db \<Rightarrow> app_error + (uuid \<times> refresh_token) list" where
  "refresh_tokens_for ids d =
     rmap (\<lambda>t. rbind (refresh_token_from_row t) (\<lambda>x. Inr (tr_session_id t, x)))
       (filter (\<lambda>t. tr_session_id t \<in> set ids) (refresh_tokens d))"

definition session_acquire_by_user_id :: "user_id \<Rightarrow> db \<Rightarrow> app_error + session list" where
  "session_acquire_by_user_id i d =
     (let rows = filter (\<lambda>r. sr_user_id r = i \<and> \<not> sr_is_revoked r) (sessions d) in
      if rows = [] then Inr []
      else rbind (refresh_tokens_for (map sr_session_id rows) d) (\<lambda>grouped.
        rmap (\<lambda>r. session_from_rows r
                 (map snd (filter (\<lambda>g. fst g = sr_session_id r) grouped))) rows))"

definition session_to_row :: "session \<Rightarrow> session_row" where
  "session_to_row s =
     \<lparr>sr_session_id = s_session_id s, sr_user_id = s_user_id s,
      sr_user_agent = di_user_agent (s_device_info s),
      sr_ip_address = di_ip_address (s_device_info s),
      sr_device_name = di_device_name (s_device_info s), sr_browser = di_browser (s_device_info s),
      sr_os = di_os (s_device_info s), sr_is_mobile = di_is_mobile (s_device_info s),
      sr_created_at = s_created_at s, sr_expires_at = s_expires_at s,
      sr_is_revoked = s_is_revoked s\<rparr>"

definition token_to_row :: "uuid \<Rightarrow> refresh_token \<Rightarrow> refresh_token_row" where
  "token_to_row i t =
     \<lparr>tr_id = rt_id t, tr_session_id = i, tr_token_hash = rt_token_hash t,
      tr_expires_at = rt_expires_at t, tr_is_revoked = rt_is_revoked t,
      tr_created_at = rt_created_at t\<rparr>"

definition insert_token :: "refresh_token_row \<Rightarrow> db \<Rightarrow> app_error + db" where
  "insert_token r d =
     (if list_ex (\<lambda>x. tr_id x = tr_id r) (refresh_tokens d)
      then Inl (IntegrityError ''pk_refresh_tokens'')
      else if list_ex (\<lambda>x. tr_token_hash x = tr_token_hash r) (refresh_tokens d)
      then Inl (IntegrityError ''uq_refresh_tokens_token_hash'')
      else if \<not> has_session (tr_session_id r) d
      then Inl (IntegrityError ''fk_refresh_tokens_session_id_sessions'')
      else Inr (d\<lparr>refresh_tokens := refresh_tokens d @ [r]\<rparr>))"

text \<open>INSERT ... ON CONFLICT (id) DO UPDATE SET is_revoked, expires_at.\<close>

definition upsert_token :: "refresh_token_row \<Rightarrow> db \<Rightarrow> app_error + db" where
  "upsert_token r d =
     (if list_ex (\<lambda>x. tr_id x = tr_id r) (refresh_tokens d)
      then Inr (d\<lparr>refresh_tokens :=
             update_where (\<lambda>x. tr_id x = tr_id r)
               (\<lambda>x. x\<lparr>tr_is_revoked := tr_is_revoked r, tr_expires_at := tr_expires_at r\<rparr>)
               (refresh_tokens d)\<rparr>)
      else insert_token r d)"

fun insert_tokens :: "refresh_token_row list \<Rightarrow> db \<Rightarrow> app_error + db" where
  "insert_tokens [] d = Inr d"
| "insert_tokens (r # rs) d = rbind (insert_token r d) (insert_tokens rs)"

fun upsert_tokens :: "refresh_token_row list \<Rightarrow> db \<Rightarrow> app_error + db" where
  "upsert_tokens [] d = Inr d"
| "upsert_tokens (r # rs) d = rbind (upsert_token r d) (upsert_tokens rs)"

definition session_add :: "session \<Rightarrow> db \<Rightarrow> app_error + db" where
  "session_add s d =
     (if has_session (s_session_id s) d then Inl (IntegrityError ''pk_sessions'')
      else if \<not> has_user (s_user_id s) d then Inl (IntegrityError ''fk_sessions_user_id_users'')
      else insert_tokens (map (token_to_row (s_session_id s)) (s_refresh_tokens s))
             (d\<lparr>sessions := sessions d @ [session_to_row s]\<rparr>))"

definition session_update :: "session \<Rightarrow> db \<Rightarrow> app_error + db" where
  "session_update s d =
     upsert_tokens (map (token_to_row (s_session_id s)) (s_refresh_tokens s))
       (d\<lparr>sessions :=
          update_where (\<lambda>r. sr_session_id r = s_session_id s)
            (\<lambda>r. r\<lparr>sr_is_revoked := s_is_revoked s, sr_expires_at := s_expires_at s\<rparr>)
            (sessions d)\<rparr>)"

text \<open>DELETE FROM sessions, with the cascade to refresh_tokens.\<close>

definition delete_sessions :: "(session_row \<Rightarrow> bool) \<Rightarrow> db \<Rightarrow> db" where
  "delete_sessions P d =
     (let gone = map sr_session_id (filter P (sessions d)) in
      d\<lparr>sessions := delete_where P (sessions d),
        refresh_tokens := delete_where (\<lambda>t. tr_session_id t \<in> set gone) (refresh_tokens d)\<rparr>)"

definition session_delete :: "uuid \<Rightarrow> db \<Rightarrow> db" where
  "session_delete i d =
     (let d1 = delete_sessions (\<lambda>r. sr_session_id r = i) d in
      d1\<lparr>refresh_tokens := delete_where (\<lambda>t. tr_session_id t = i) (refresh_tokens d1)\<rparr>)"

definition delete_by_user_id :: "user_id \<Rightarrow> db \<Rightarrow> db" where
  "delete_by_user_id i d = delete_sessions (\<lambda>r. sr_user_id r = i) d"

definition delete_expired :: "datetime \<Rightarrow> db \<Rightarrow> nat \<times> db" where
  "delete_expired before d =
     (count_where (\<lambda>r. sr_expires_at r < before) (sessions d),
      delete_sessions (\<lambda>r. sr_expires_at r < before) d)"

definition session_acquire_by_token_hash :: "bytes \<Rightarrow> db \<Rightarrow> app_error + session option" where
  "session_acquire_by_token_hash h d =
     (case find_row (\<lambda>t. tr_token_hash t = h \<and> \<not> tr_is_revoked t) (refresh_tokens d) of
        None \<Rightarrow> Inr None
      | Some t \<Rightarrow>
          (case find_row (\<lambda>r. sr_session_id r = tr_session_id t) (sessions d) of
             None \<Rightarrow> Inr None
           | Some r \<Rightarrow>
               if sr_is_revoked r then Inr None
               else rbind (rmap refresh_token_from_row (session_tokens (tr_session_id t) d)) (\<lambda>ts.
                    rbind (session_from_rows r ts) (\<lambda>s. Inr (Some s)))))"

section \<open>Writes keep the constraints\<close>

lemma token_to_row_simps [simp]:
  "tr_id (token_to_row i t) = rt_id t" "tr_session_id (token_to_row i t) = i"
  "tr_token_hash (token_to_row i t) = rt_token_hash t"
  "tr_is_revoked (token_to_row i t) = rt_is_revoked t"
  "tr_expires_at (token_to_row i t) = rt_expires_at t"
  "tr_created_at (token_to_row i t) = rt_created_at t"
  by (simp_all add: token_to_row_def)

lemma session_to_row_simps [simp]:
  "sr_session_id (session_to_row s) = s_session_id s" "sr_user_id (session_to_row s) = s_user_id s"
  "sr_is_revoked (session_to_row s) = s_is_revoked s"
  "sr_expires_at (session_to_row s) = s_expires_at s"
  "sr_created_at (session_to_row s) = s_created_at s"
  "device_info_from_row (session_to_row s) = s_device_info s"
  by (simp_all add: session_to_row_def device_info_from_row_def)

lemma token_row_back [simp]:
  "rt_token_hash t \<noteq> [] \<Longrightarrow> refresh_token_from_row (token_to_row i t) = Inr t"
  by (simp add: refresh_token_from_row_def TokenHash_def)

lemma session_row_back [simp]:
  "UserID (s_user_id s) = Inr (s_user_id s) \<Longrightarrow>
     session_from_rows (session_to_row s) (s_refresh_tokens s) = Inr (s\<lparr>s_events := []\<rparr>)"
  by (simp add: session_from_rows_def)

text \<open>The other tables do not depend on sessions and tokens.\<close>

lemma db_ok_sessions_change:
  assumes "db_ok d" and "sessions_ok (d\<lparr>sessions := ss, refresh_tokens := ts\<rparr>)"
  shows "db_ok (d\<lparr>sessions := ss, refresh_tokens := ts\<rparr>)"
  using assms by (simp add: db_ok_def rbac_ok_def logs_ok_def)

lemma insert_token_Inr:
  "insert_token r d = Inr d' \<longleftrightarrow>
     tr_id r \<notin> tr_id ` set (refresh_tokens d) \<and> tr_token_hash r \<notin> tr_token_hash ` set (refresh_tokens d) \<and>
     has_session (tr_session_id r) d \<and> d' = d\<lparr>refresh_tokens := refresh_tokens d @ [r]\<rparr>"
  by (auto simp: insert_token_def list_ex_key)

lemma db_ok_tokens_change:
  assumes "db_ok d" and "sessions_ok (d\<lparr>refresh_tokens := ts\<rparr>)"
  shows "db_ok (d\<lparr>refresh_tokens := ts\<rparr>)"
  using assms by (simp add: db_ok_def rbac_ok_def logs_ok_def)

lemma insert_token_ok: "db_ok d \<Longrightarrow> insert_token r d = Inr d' \<Longrightarrow> db_ok d'"
  unfolding insert_token_Inr
  by (auto simp: db_ok_def sessions_ok_def rbac_ok_def logs_ok_def)

lemma upsert_token_ok: "db_ok d \<Longrightarrow> upsert_token r d = Inr d' \<Longrightarrow> db_ok d'"
proof (cases "list_ex (\<lambda>x. tr_id x = tr_id r) (refresh_tokens d)")
  case True
  assume d: "db_ok d" and u: "upsert_token r d = Inr d'"
  let ?f = "\<lambda>x. x\<lparr>tr_is_revoked := tr_is_revoked r, tr_expires_at := tr_expires_at r\<rparr>"
  let ?ts = "update_where (\<lambda>x. tr_id x = tr_id r) ?f (refresh_tokens d)"
  from True u have d': "d' = d\<lparr>refresh_tokens := ?ts\<rparr>" by (simp add: upsert_token_def)
  have "map tr_id ?ts = map tr_id (refresh_tokens d)"
    "map tr_token_hash ?ts = map tr_token_hash (refresh_tokens d)"
    "list_all (\<lambda>t. has_session (tr_session_id t) (d\<lparr>refresh_tokens := ?ts\<rparr>)) ?ts =
     list_all (\<lambda>t. has_session (tr_session_id t) d) (refresh_tokens d)"
    by (simp_all add: map_update_where list_all_update_where)
  then have "sessions_ok (d\<lparr>refresh_tokens := ?ts\<rparr>)"
    using d by (simp add: db_ok_def sessions_ok_def)
  with d show "db_ok d'" unfolding d' by (rule db_ok_tokens_change)
next
  case False
  assume "db_ok d" and "upsert_token r d = Inr d'"
  then show "db_ok d'" using False by (simp add: upsert_token_def insert_token_ok)
qed

lemma insert_tokens_ok: "db_ok d \<Longrightarrow> insert_tokens rs d = Inr d' \<Longrightarrow> db_ok d'"
  by (induction rs arbitrary: d) (auto simp: rbind_eq_Inr intro: insert_token_ok)

lemma upsert_tokens_ok: "db_ok d \<Longrightarrow> upsert_tokens rs d = Inr d' \<Longrightarrow> db_ok d'"
  by (induction rs arbitrary: d) (auto simp: rbind_eq_Inr intro: upsert_token_ok)

lemma session_row_added_ok:
  "db_ok d \<Longrightarrow> \<not> has_session (s_session_id s) d \<Longrightarrow> has_user (s_user_id s) d \<Longrightarrow>
     db_ok (d\<lparr>sessions := sessions d @ [session_to_row s]\<rparr>)"
  by (auto simp: db_ok_def sessions_ok_def rbac_ok_def logs_ok_def has_session_iff list_all_iff)

lemma session_add_ok: "db_ok d \<Longrightarrow> session_add s d = Inr d' \<Longrightarrow> db_ok d'"
  by (auto simp: session_add_def split: if_splits intro: insert_tokens_ok session_row_added_ok)

lemma session_row_updated_ok:
  assumes "db_ok d"
  shows "db_ok (d\<lparr>sessions := update_where (\<lambda>r. sr_session_id r = i)
           (\<lambda>r. r\<lparr>sr_is_revoked := b, sr_expires_at := t\<rparr>) (sessions d)\<rparr>)" (is "db_ok (d\<lparr>sessions := ?ss\<rparr>)")
proof -
  have "map sr_session_id ?ss = map sr_session_id (sessions d)" "map sr_user_id ?ss = map sr_user_id (sessions d)"
    by (simp_all add: map_update_where)
  moreover have "has_session j (d\<lparr>sessions := ?ss\<rparr>) = has_session j d" for j
    by (simp add: has_session_def list_ex_update_where)
  moreover have "list_all (\<lambda>s. has_user (sr_user_id s) d) ?ss =
      list_all (\<lambda>s. has_user (sr_user_id s) d) (sessions d)"
    by (simp add: list_all_update_where)
  ultimately show ?thesis
    using assms by (simp add: db_ok_def sessions_ok_def rbac_ok_def logs_ok_def)
qed

lemma session_update_ok: "db_ok d \<Longrightarrow> session_update s d = Inr d' \<Longrightarrow> db_ok d'"
  unfolding session_update_def by (rule upsert_tokens_ok [OF session_row_updated_ok])

lemma delete_sessions_ok: "db_ok d \<Longrightarrow> db_ok (delete_sessions P d)"
proof -
  assume d: "db_ok d"
  let ?gone = "map sr_session_id (filter P (sessions d))"
  let ?ss = "delete_where P (sessions d)"
  let ?ts = "delete_where (\<lambda>t. tr_session_id t \<in> set ?gone) (refresh_tokens d)"
  have keep: "has_session i (d\<lparr>sessions := ?ss, refresh_tokens := ?ts\<rparr>)"
    if "has_session i d" "i \<notin> set ?gone" for i
    using that by (auto simp: has_session_iff set_delete_where)
  have "sessions_ok (d\<lparr>sessions := ?ss, refresh_tokens := ?ts\<rparr>)"
    using d keep by (auto simp: db_ok_def sessions_ok_def distinct_map_delete_where list_all_iff
        set_delete_where)
  from db_ok_sessions_change [OF d this] show ?thesis by (simp add: delete_sessions_def Let_def)
qed

section \<open>Reading back what was written\<close>

definition overlay :: "refresh_token_row list \<Rightarrow> refresh_token_row \<Rightarrow> refresh_token_row" where
  "overlay rs x =
     (case find_row (\<lambda>r. tr_id r = tr_id x) rs of
        None \<Rightarrow> x
      | Some r \<Rightarrow> x\<lparr>tr_is_revoked := tr_is_revoked r, tr_expires_at := tr_expires_at r\<rparr>)"

lemma overlay_simps [simp]:
  "tr_id (overlay rs x) = tr_id x" "tr_session_id (overlay rs x) = tr_session_id x"
  "tr_token_hash (overlay rs x) = tr_token_hash x" "tr_created_at (overlay rs x) = tr_created_at x"
  by (simp_all add: overlay_def split: option.splits)

lemma upsert_token_table:
  "upsert_token r d = Inr d' \<Longrightarrow>
     d' = d\<lparr>refresh_tokens := map (overlay [r]) (refresh_tokens d) @
            (if tr_id r \<in> tr_id ` set (refresh_tokens d) then [] else [r])\<rparr>"
proof (cases "tr_id r \<in> tr_id ` set (refresh_tokens d)")
  case True
  assume "upsert_token r d = Inr d'"
  with True show ?thesis
    by (auto simp: upsert_token_def list_ex_key update_where_def overlay_def table_simps intro!: map_cong)
next
  case False
  assume "upsert_token r d = Inr d'"
  moreover have "map (overlay [r]) (refresh_tokens d) = refresh_tokens d"
    using False by (intro map_idI) (auto simp: overlay_def table_simps)
  ultimately show ?thesis using False by (simp add: upsert_token_def list_ex_key insert_token_Inr)
qed

lemma upsert_tokens_table:
  "upsert_tokens rs d = Inr d' \<Longrightarrow> distinct (map tr_id rs) \<Longrightarrow>
     d' = d\<lparr>refresh_tokens := map (overlay rs) (refresh_tokens d) @
            filter (\<lambda>r. tr_id r \<notin> tr_id ` set (refresh_tokens d)) rs\<rparr>"
proof (induction rs arbitrary: d)
  case Nil
  have "map (overlay []) (refresh_tokens d) = refresh_tokens d"
    by (intro map_idI) (simp add: overlay_def)
  with Nil show ?case by simp
next
  case (Cons r rs)
  let ?new = "if tr_id r \<in> tr_id ` set (refresh_tokens d) then [] else [r]"
  from Cons.prems obtain d1 where u: "upsert_token r d = Inr d1" and rs: "upsert_tokens rs d1 = Inr d'"
    by (auto simp: rbind_eq_Inr)
  note d1 = upsert_token_table [OF u]
  have r: "find_row (\<lambda>x. tr_id x = tr_id r) rs = None"
    using Cons.prems(2) by (auto simp: find_row_None_iff image_iff)
  have o: "overlay rs (overlay [r] x) = overlay (r # rs) x" for x
    using r by (auto simp: overlay_def table_simps split: option.splits) 
  have n: "overlay rs r = r" using r by (simp add: overlay_def)
  have i: "tr_id ` set (refresh_tokens d1) = insert (tr_id r) (tr_id ` set (refresh_tokens d))"
    unfolding d1 by (auto simp: image_image)
  have "filter (\<lambda>x. tr_id x \<notin> tr_id ` set (refresh_tokens d1)) rs =
      filter (\<lambda>x. tr_id x \<notin> tr_id ` set (refresh_tokens d)) rs"
    using Cons.prems(2) by (intro filter_cong) (auto simp: i image_iff)
  with Cons.IH [OF rs] Cons.prems(2) show ?case by (simp add: d1 o n)
qed

text \<open>Reading tokens and writing them are inverse.\<close>

lemma tokens_read:
  "rmap refresh_token_from_row rows = Inr ts \<Longrightarrow> list_all (\<lambda>r. tr_session_id r = i) rows \<Longrightarrow>
     map (token_to_row i) ts = rows \<and> list_all (\<lambda>t. rt_token_hash t \<noteq> []) ts"
proof (induction rows arbitrary: ts)
  case (Cons r rows)
  then show ?case
    by (cases r) (auto simp: rbind_eq_Inr refresh_token_from_row_def TokenHash_eq token_to_row_def)
qed simp

lemma tokens_written:
  "list_all (\<lambda>t. rt_token_hash t \<noteq> []) ts \<Longrightarrow>
     rmap refresh_token_from_row (map (token_to_row i) ts) = Inr ts"
  by (induction ts) auto

lemma session_acquire_Some:
  "session_acquire_by_session_id i d = Inr (Some s) \<longleftrightarrow>
     (\<exists>r ts. find_row (\<lambda>r. sr_session_id r = i) (sessions d) = Some r \<and>
        rmap refresh_token_from_row (session_tokens i d) = Inr ts \<and> sr_user_id r \<noteq> NIL_UUID \<and>
        s = \<lparr>s_session_id = sr_session_id r, s_user_id = sr_user_id r,
             s_device_info = device_info_from_row r, s_created_at = sr_created_at r,
             s_expires_at = sr_expires_at r, s_is_revoked = sr_is_revoked r,
             s_refresh_tokens = ts, s_events = []\<rparr>)"
  by (auto simp: session_acquire_by_session_id_def rbind_eq_Inr session_from_rows_def UserID_eq
      split: option.splits)

lemma session_acquire_tokens:
  assumes "session_acquire_by_session_id i d = Inr (Some s)"
  shows "map (token_to_row i) (s_refresh_tokens s) = session_tokens i d"
    and "list_all (\<lambda>t. rt_token_hash t \<noteq> []) (s_refresh_tokens s)" and "s_session_id s = i"
  using assms tokens_read [of "session_tokens i d" _ i] find_row_Some_iff
  by (auto simp: session_acquire_Some session_tokens_def list_all_iff dest!: find_row_Some_iff)

text \<open>A change of a stored session that keeps the identity of the tokens it had, and appends
  tokens with fresh identifiers, is read back as written.\<close>

definition session_evolves :: "session \<Rightarrow> session \<Rightarrow> (refresh_token \<Rightarrow> refresh_token) \<Rightarrow> refresh_token list \<Rightarrow> bool" where
  "session_evolves s s' f new =
     (s_session_id s' = s_session_id s \<and> s_user_id s' = s_user_id s \<and>
      s_device_info s' = s_device_info s \<and> s_created_at s' = s_created_at s \<and>
      s_refresh_tokens s' = map f (s_refresh_tokens s) @ new)"

lemma overlay_map:
  assumes dist: "distinct (map tr_id (map (token_to_row i \<circ> f) ts @ new))"
    and f: "\<And>t. rt_id (f t) = rt_id t \<and> rt_token_hash (f t) = rt_token_hash t \<and>
              rt_created_at (f t) = rt_created_at t"
  shows "map (overlay (map (token_to_row i \<circ> f) ts @ new)) (map (token_to_row i) ts) =
           map (token_to_row i \<circ> f) ts"
proof (simp, rule ballI)
  fix t assume "t \<in> set ts"
  then have "token_to_row i (f t) \<in> set (map (token_to_row i \<circ> f) ts @ new)" by auto
  from find_row_unique [OF dist this] have
    "find_row (\<lambda>r. tr_id r = rt_id t) (map (token_to_row i \<circ> f) ts @ new) = Some (token_to_row i (f t))"
    by (simp add: f)
  then show "overlay (map (token_to_row i \<circ> f) ts @ new) (token_to_row i t) = token_to_row i (f t)"
    by (simp add: overlay_def f token_to_row_def)
qed

lemma session_update_reads_back:
  assumes ok: "db_ok d" and s: "session_acquire_by_session_id i d = Inr (Some s)"
    and ev: "session_evolves s s' f new"
    and f: "\<And>t. rt_id (f t) = rt_id t \<and> rt_token_hash (f t) = rt_token_hash t \<and>
              rt_created_at (f t) = rt_created_at t"
    and fresh: "\<And>t. t \<in> set new \<Longrightarrow> rt_id t \<notin> tr_id ` set (refresh_tokens d) \<and> rt_token_hash t \<noteq> []"
    and new: "distinct (map rt_id new)"
    and u: "session_update s' d = Inr d'"
  shows "session_acquire_by_session_id i d' = Inr (Some (s'\<lparr>s_events := []\<rparr>)) \<and>
         refresh_tokens d' = map (overlay (map (token_to_row i) (s_refresh_tokens s'))) (refresh_tokens d) @
            map (token_to_row i) new"
proof -
  let ?ss = "update_where (\<lambda>r. sr_session_id r = i)
      (\<lambda>r. r\<lparr>sr_is_revoked := s_is_revoked s', sr_expires_at := s_expires_at s'\<rparr>) (sessions d)"
  let ?old = "map (token_to_row i \<circ> f) (s_refresh_tokens s)" and ?new = "map (token_to_row i) new"
  note tk = session_acquire_tokens [OF s]
  have s': "s_session_id s' = i" "map (token_to_row i) (s_refresh_tokens s') = ?old @ ?new"
    using ev tk(3) by (simp_all add: session_evolves_def)
  have u2: "upsert_tokens (?old @ ?new) (d\<lparr>sessions := ?ss\<rparr>) = Inr d'"
    using u by (simp add: session_update_def s')
  have ids: "map tr_id ?old = map tr_id (session_tokens i d)"
    unfolding tk(1) [symmetric] by (simp add: f)
  then have in_old: "tr_id r \<in> tr_id ` set (refresh_tokens d)" if "r \<in> set ?old" for r
    using that by (metis (no_types, lifting) image_eqI in_mono list.set_map filter_is_subset
        image_mono session_tokens_def)
  have notin: "tr_id r \<notin> tr_id ` set (refresh_tokens d)" if "r \<in> set ?new" for r
    using that fresh by fastforce
  have dist: "distinct (map tr_id (?old @ ?new))"
  proof -
    have "distinct (map tr_id (session_tokens i d))"
      using ok by (simp add: db_ok_def sessions_ok_def session_tokens_def distinct_map_filter)
    moreover have "map tr_id ?new = map rt_id new" by simp
    moreover have "set (map tr_id ?old) \<inter> set (map tr_id ?new) = {}"
      using in_old notin by (fastforce simp del: map_map)
    ultimately show ?thesis using new by (simp only: map_append distinct_append ids)
  qed
  have flt: "filter (\<lambda>r. tr_id r \<notin> tr_id ` set (refresh_tokens d)) (?old @ ?new) = ?new"
    using in_old notin by (simp add: filter_empty_conv del: set_map map_map)
  from upsert_tokens_table [OF u2 dist] have d': "d' = d\<lparr>sessions := ?ss,
      refresh_tokens := map (overlay (?old @ ?new)) (refresh_tokens d) @ ?new\<rparr>"
    using flt by simp
  have "map (overlay (?old @ ?new)) (session_tokens i d) = ?old"
    using overlay_map [OF dist f] tk(1) by simp
  then have tokens: "session_tokens i d' = ?old @ ?new"
    by (simp add: session_tokens_def d' filter_map comp_def)
  have "list_all (\<lambda>t. rt_token_hash t \<noteq> []) (s_refresh_tokens s')"
    using tk(2) fresh ev f by (auto simp: session_evolves_def list_all_iff)
  then have "rmap refresh_token_from_row (session_tokens i d') = Inr (s_refresh_tokens s')"
    unfolding tokens s'(2) [symmetric] by (rule tokens_written)
  moreover from s obtain r where r: "find_row (\<lambda>r. sr_session_id r = i) (sessions d) = Some r"
    "s_user_id s = sr_user_id r" "sr_user_id r \<noteq> NIL_UUID" "s_device_info s = device_info_from_row r"
    "s_created_at s = sr_created_at r" by (auto simp: session_acquire_Some)
  moreover have "sr_session_id r = i" using r(1) find_row_Some_iff by fastforce
  ultimately have "session_acquire_by_session_id i d' = Inr (Some (s'\<lparr>s_events := []\<rparr>))"
    using ev s'(1) by (simp add: session_acquire_Some d' find_row_update_where session_evolves_def
        device_info_from_row_def)
  then show ?thesis by (simp add: d' s'(2))
qed

section \<open>What adding a session writes\<close>

definition session_added :: "session \<Rightarrow> db \<Rightarrow> db \<Rightarrow> bool" where
  "session_added x d d' =
     (sessions d' = sessions d @ [session_to_row x] \<and>
      refresh_tokens d' = refresh_tokens d @ map (token_to_row (s_session_id x)) (s_refresh_tokens x))"

lemma insert_tokens_Inr:
  "insert_tokens rs d = Inr d' \<Longrightarrow> d' = d\<lparr>refresh_tokens := refresh_tokens d @ rs\<rparr>"
proof (induction rs arbitrary: d)
  case (Cons r rs)
  then obtain d1 where d1: "d1 = d\<lparr>refresh_tokens := refresh_tokens d @ [r]\<rparr>" "insert_tokens rs d1 = Inr d'"
    by (auto simp: rbind_eq_Inr insert_token_Inr)
  show ?case using Cons.IH [OF d1(2)] by (simp add: d1(1))
qed simp

lemma session_add_Inr:
  assumes "session_add x d = Inr d'"
  shows "session_added x d d'" and "users d' = users d"
  using assms insert_tokens_Inr by (fastforce simp: session_add_def session_added_def split: if_splits)+

end
