(* ===== verification/Unit_Of_Work.thy ===== *)
theory Unit_Of_Work
  imports User_Repo Session_Repo Cache Limiter
begin

text \<open>
  The state a request works on, and the units of work (infrastructure/db/sqlalchemy/uow.py,
  infrastructure/db/memory/uow.py).

  \<open>st_committed\<close> is the database other transactions see, \<open>st_work\<close> what the current transaction
  sees. A unit of work tracks aggregate objects: \<open>ag_ref\<close> is the object (Python's \<open>is\<close>),
  \<open>ag_identity\<close> its type and identifier (what \<open>==\<close> compares), \<open>ag_events\<close> its unpulled events;
  entities are immutable, so the events of a tracked object change only when they are pulled.
  \<open>in_request\<close> wraps a handler: the session is closed without a commit when the request ends.
\<close>

record aggregate =
  ag_ref :: nat
  ag_identity :: "string \<times> uuid"
  ag_events :: "event list"

record uow =
  uow_pending :: "event list"
  uow_aggregates :: "aggregate list"

definition empty_uow :: uow where
  "empty_uow = \<lparr>uow_pending = [], uow_aggregates = []\<rparr>"

text \<open>SQLAlchemyUoW.register compares by identity.\<close>

definition sql_register :: "aggregate \<Rightarrow> uow \<Rightarrow> uow" where
  "sql_register a w =
     (if \<not> list_ex (\<lambda>t. ag_ref t = ag_ref a) (uow_aggregates w)
      then w\<lparr>uow_aggregates := uow_aggregates w @ [a]\<rparr> else w)"

text \<open>InMemoryUoW.register uses \<open>not in\<close>, which compares by entity equality.\<close>

definition mem_register :: "aggregate \<Rightarrow> uow \<Rightarrow> uow" where
  "mem_register a w =
     (if \<not> list_ex (\<lambda>t. ag_ref t = ag_ref a \<or> ag_identity t = ag_identity a) (uow_aggregates w)
      then w\<lparr>uow_aggregates := uow_aggregates w @ [a]\<rparr> else w)"

definition add_events :: "event list \<Rightarrow> uow \<Rightarrow> uow" where
  "add_events es w = w\<lparr>uow_pending := uow_pending w @ es\<rparr>"

text \<open>_drain, the same in both classes.\<close>

definition drain :: "uow \<Rightarrow> event list \<times> uow" where
  "drain w =
     (uow_pending w @ concat (map (\<lambda>a. fst (pull_events (ag_events a))) (uow_aggregates w)), empty_uow)"

text \<open>InMemoryUoW keeps what it committed.\<close>

definition mem_commit :: "uow \<times> event list \<Rightarrow> uow \<times> event list" where
  "mem_commit p = (let (events, w) = drain (fst p) in (w, snd p @ events))"

definition mem_rollback :: "uow \<times> event list \<Rightarrow> uow \<times> event list" where
  "mem_rollback p = (snd (drain (fst p)), snd p)"

section \<open>The state of a request\<close>

record st =
  st_committed :: db
  st_work :: db
  st_uow :: uow
  st_draw :: nat
  st_cache :: mem_cache
  st_rate :: limiter
  st_attempts :: limiter
  st_metrics :: "(string \<times> string) list"

type_synonym 'a action = "(st, app_error, 'a) act"

definition query :: "(db \<Rightarrow> app_error + 'a) \<Rightarrow> 'a action" where
  "query f s = (f (st_work s), s)"

definition on_work :: "(db \<Rightarrow> app_error + db) \<Rightarrow> unit action" where
  "on_work f s =
     (case f (st_work s) of Inl e \<Rightarrow> (Inl e, s) | Inr d \<Rightarrow> (Inr (), s\<lparr>st_work := d\<rparr>))"

definition on_work_with :: "(db \<Rightarrow> app_error + ('a \<times> db)) \<Rightarrow> 'a action" where
  "on_work_with f s =
     (case f (st_work s) of Inl e \<Rightarrow> (Inl e, s) | Inr (x, d) \<Rightarrow> (Inr x, s\<lparr>st_work := d\<rparr>))"

definition on_cache :: "(mem_cache \<Rightarrow> 'a \<times> mem_cache) \<Rightarrow> 'a action" where
  "on_cache f s = (let (x, c) = f (st_cache s) in (Inr x, s\<lparr>st_cache := c\<rparr>))"

definition on_cache_may_fail :: "(mem_cache \<Rightarrow> (app_error + 'a) \<times> mem_cache) \<Rightarrow> 'a action" where
  "on_cache_may_fail f s = (let (x, c) = f (st_cache s) in (x, s\<lparr>st_cache := c\<rparr>))"

text \<open>The next index of the random source.\<close>

definition next_draw :: "nat \<Rightarrow> nat action" where
  "next_draw n s = (Inr (st_draw s), s\<lparr>st_draw := st_draw s + n\<rparr>)"

text \<open>MetricsInterface: counters, kept as the list of increments (counter, label).\<close>

definition metric :: "string \<Rightarrow> string \<Rightarrow> unit action" where
  "metric counter label = modify (\<lambda>s. s\<lparr>st_metrics := st_metrics s @ [(counter, label)]\<rparr>)"

text \<open>uow.register of an object made in this request: the services register each object once.\<close>

definition register :: "string \<times> uuid \<Rightarrow> event list \<Rightarrow> unit action" where
  "register ident es =
     modify (\<lambda>s. s\<lparr>st_uow := sql_register
        \<lparr>ag_ref = length (uow_aggregates (st_uow s)), ag_identity = ident, ag_events = es\<rparr> (st_uow s)\<rparr>)"

definition insert_outbox :: "outbox_row \<Rightarrow> db \<Rightarrow> app_error + db" where
  "insert_outbox r d =
     (if list_ex (\<lambda>x. ob_id x = ob_id r) (outbox_events d)
      then Inl (IntegrityError ''pk_outbox_events'')
      else Inr (d\<lparr>outbox_events := outbox_events d @ [r]\<rparr>))"

definition outbox_row_of :: "env \<Rightarrow> nat \<Rightarrow> datetime \<Rightarrow> string \<times> uuid option \<Rightarrow> event \<Rightarrow> outbox_row" where
  "outbox_row_of E k now agg e =
     \<lparr>ob_id = uuid4 E k, ob_aggregate_type = fst agg, ob_aggregate_id = snd agg,
      ob_event_type = wire_name e, ob_payload = to_payload E e,
      ob_sensitive_keys = (if sensitive_fields e = [] then None else Some (sensitive_fields e)),
      ob_created_at = now, ob_processed_at = None, ob_attempts = 0, ob_last_error = None,
      ob_next_attempt_at = None, ob_failed_at = None\<rparr>"

definition persist_outbox_event :: "env \<Rightarrow> datetime \<Rightarrow> event \<Rightarrow> unit action" where
  "persist_outbox_event E now e =
     bnd (lift (event_aggregate E e)) (\<lambda>agg.
     bnd (next_draw 1) (\<lambda>k. on_work (insert_outbox (outbox_row_of E k now agg e))))"

text \<open>SQLAlchemyAuditLogRepo.add, and the handler the unit of work runs for each event.\<close>

definition audit_repo_add :: "audit_log \<Rightarrow> db \<Rightarrow> app_error + db" where
  "audit_repo_add l d =
     (if list_ex (\<lambda>x. al_id x = al_id l) (audit_logs d) then Inl (IntegrityError ''pk_audit_logs'')
      else if \<not> pred_option (\<lambda>u. has_user u d) (al_user_id l)
      then Inl (IntegrityError ''fk_audit_logs_user_id_users'')
      else Inr (d\<lparr>audit_logs := audit_logs d @ [l]\<rparr>))"

definition audit_event :: "env \<Rightarrow> datetime \<Rightarrow> event \<Rightarrow> unit action" where
  "audit_event E now e =
     bnd (next_draw 1) (\<lambda>k.
     bnd (lift (event_to_audit E (uuid4 E k) now e)) (\<lambda>entry.
       case entry of None \<Rightarrow> ret () | Some l \<Rightarrow> on_work (audit_repo_add l)))"

definition drain_uow :: "event list action" where
  "drain_uow s = (let (es, w) = drain (st_uow s) in (Inr es, s\<lparr>st_uow := w\<rparr>))"

text \<open>SQLAlchemyUoW.commit: outbox rows, then handlers, then the transaction's commit; any
  exception rolls back and is raised again.\<close>

definition commit :: "env \<Rightarrow> datetime \<Rightarrow> unit action" where
  "commit E now =
     bnd drain_uow (\<lambda>events s.
       case thn (for_each events (persist_outbox_event E now)) (for_each events (audit_event E now)) s of
         (Inr _, s1) \<Rightarrow> (Inr (), s1\<lparr>st_committed := st_work s1\<rparr>)
       | (Inl e, s1) \<Rightarrow> (Inl e, s1\<lparr>st_work := st_committed s1\<rparr>))"

definition rollback :: "unit action" where
  "rollback = thn (modify (\<lambda>s. s\<lparr>st_work := st_committed s\<rparr>)) (thn drain_uow (ret ()))"

text \<open>__aexit__: commit on success, roll back when the body raised.\<close>

definition uow_block :: "env \<Rightarrow> datetime \<Rightarrow> 'a action \<Rightarrow> 'a action" where
  "uow_block E now body s =
     (case body s of
        (Inr x, s1) \<Rightarrow> thn (commit E now) (ret x) s1
      | (Inl e, s1) \<Rightarrow> thn rollback (throw e) s1)"

definition in_request :: "'a action \<Rightarrow> 'a action" where
  "in_request h s =
     (let (r, s1) = h (s\<lparr>st_work := st_committed s, st_uow := empty_uow\<rparr>) in
      (r, s1\<lparr>st_work := st_committed s1, st_uow := empty_uow\<rparr>))"

text \<open>The rows a commit appends.\<close>

fun outbox_rows :: "env \<Rightarrow> nat \<Rightarrow> datetime \<Rightarrow> event list \<Rightarrow> outbox_row list" where
  "outbox_rows E k now [] = []"
| "outbox_rows E k now (e # es) =
     outbox_row_of E k now (fst (event_subject e), Some (snd (event_subject e))) e #
     outbox_rows E (Suc k) now es"

definition audit_row_of :: "env \<Rightarrow> nat \<Rightarrow> datetime \<Rightarrow> event \<Rightarrow> audit_log list" where
  "audit_row_of E k now e =
     (case event_to_audit E (uuid4 E k) now e of Inr (Some l) \<Rightarrow> [l] | _ \<Rightarrow> [])"

fun audit_rows :: "env \<Rightarrow> nat \<Rightarrow> datetime \<Rightarrow> event list \<Rightarrow> audit_log list" where
  "audit_rows E k now [] = []"
| "audit_rows E k now (e # es) = audit_row_of E k now e @ audit_rows E (Suc k) now es"

text \<open>The events waiting in a unit of work.\<close>

definition waiting :: "uow \<Rightarrow> event list" where
  "waiting w = fst (drain w)"

section \<open>Running the state actions\<close>

lemma on_work_eq [act_simps]:
  "on_work f s = (Inr u, s') \<longleftrightarrow> (\<exists>d. f (st_work s) = Inr d \<and> s' = s\<lparr>st_work := d\<rparr>)"
  "on_work f s = (Inl e, s') \<longleftrightarrow> f (st_work s) = Inl e \<and> s' = s"
  by (auto simp: on_work_def split: sum.splits)

lemma next_draw_run [simp]: "next_draw n s = (Inr (st_draw s), s\<lparr>st_draw := st_draw s + n\<rparr>)"
  by (simp add: next_draw_def)

lemma bnd_next_draw [simp]: "bnd (next_draw n) f s = f (st_draw s) (s\<lparr>st_draw := st_draw s + n\<rparr>)"
  by (simp add: bnd_def)

lemma query_run [simp]: "query f s = (f (st_work s), s)"
  by (simp add: query_def)

section \<open>What is registered is delivered\<close>

lemma waiting_eq: "waiting w = uow_pending w @ concat (map ag_events (uow_aggregates w))"
  by (simp add: waiting_def drain_def pull_events_def)

text \<open>The contract between the services and a unit of work: registering an object not tracked yet
  adds its events behind those already waiting.\<close>

locale event_tracking =
  fixes reg :: "aggregate \<Rightarrow> uow \<Rightarrow> uow"
  assumes reg_new: "ag_ref a \<notin> ag_ref ` set (uow_aggregates w) \<Longrightarrow> waiting (reg a w) = waiting w @ ag_events a"
    and reg_known: "ag_ref a \<in> ag_ref ` set (uow_aggregates w) \<Longrightarrow> reg a w = w"
    and reg_refs: "ag_ref ` set (uow_aggregates (reg a w)) = insert (ag_ref a) (ag_ref ` set (uow_aggregates w))"
begin

lemma reg_all:
  "distinct (map ag_ref as) \<Longrightarrow> set (map ag_ref as) \<inter> ag_ref ` set (uow_aggregates w) = {} \<Longrightarrow>
     waiting (foldl (\<lambda>w a. reg a w) w as) = waiting w @ concat (map ag_events as)"
proof (induction as arbitrary: w)
  case (Cons a as)
  then have "ag_ref a \<notin> ag_ref ` set (uow_aggregates w)" by auto
  moreover have "set (map ag_ref as) \<inter> ag_ref ` set (uow_aggregates (reg a w)) = {}"
    using Cons.prems unfolding reg_refs by auto
  ultimately show ?case using Cons by (simp add: reg_new)
qed simp

lemma reg_twice: "reg a (reg a w) = reg a w"
  using reg_known [of a "reg a w"] by (simp add: reg_refs)

end

interpretation sql_uow: event_tracking sql_register
  by unfold_locales (auto simp: sql_register_def list_ex_key waiting_eq)

text \<open>Every event of every aggregate registered with the database unit of work is drained
  exactly once, in registration order and behind the events added directly; registering the same
  object again changes nothing.\<close>

theorem registered_events_drained:
  assumes "distinct (map ag_ref as)"
  shows "fst (drain (foldl (\<lambda>w a. sql_register a w) (add_events es empty_uow) as)) =
           es @ concat (map ag_events as) \<and>
         sql_register a (sql_register a w) = sql_register a w"
  using sql_uow.reg_all [OF assms, of "add_events es empty_uow"] sql_uow.reg_twice
  by (simp add: waiting_def [symmetric] add_events_def empty_uow_def waiting_eq)

definition sample_agg :: "nat \<Rightarrow> event list \<Rightarrow> aggregate" where
  "sample_agg k es = \<lparr>ag_ref = k, ag_identity = (''User'', 7), ag_events = es\<rparr>"

theorem registered_events_drained_witness:
  "fst (drain (sql_register (sample_agg 1 [UserDeletedEvent 7])
          (sql_register (sample_agg 0 [AccountUnlockedEvent 7]) empty_uow))) =
     [AccountUnlockedEvent 7, UserDeletedEvent 7]"
  using registered_events_drained [of "[sample_agg 0 [AccountUnlockedEvent 7], sample_agg 1 [UserDeletedEvent 7]]" "[]"]
  by (simp add: sample_agg_def add_events_def empty_uow_def)

text \<open>The in-memory unit of work does not honour that contract: a later version of an entity
  already tracked is equal to it and is not added, so the later version's events are lost, while
  the database unit of work delivers them.\<close>

theorem mem_uow_drops_later_version:
  "fst (drain (mem_register (sample_agg 1 [UserDeletedEvent 7])
          (mem_register (sample_agg 0 [AccountUnlockedEvent 7]) empty_uow))) = [AccountUnlockedEvent 7] \<and>
   fst (drain (sql_register (sample_agg 1 [UserDeletedEvent 7])
          (sql_register (sample_agg 0 [AccountUnlockedEvent 7]) empty_uow))) =
     [AccountUnlockedEvent 7, UserDeletedEvent 7]"
  by (simp add: sample_agg_def mem_register_def sql_register_def empty_uow_def drain_def pull_events_def)

section \<open>Registration in a request\<close>

definition uow_wf :: "uow \<Rightarrow> bool" where
  "uow_wf w = list_all (\<lambda>a. ag_ref a < length (uow_aggregates w)) (uow_aggregates w)"

lemma uow_wf_empty [simp]: "uow_wf empty_uow"
  by (simp add: uow_wf_def empty_uow_def)

lemma waiting_empty [simp]: "waiting empty_uow = []"
  by (simp add: waiting_eq empty_uow_def)

lemma register_run:
  assumes "uow_wf (st_uow s)"
  shows "\<exists>w. register i es s = (Inr (), s\<lparr>st_uow := w\<rparr>) \<and> uow_wf w \<and> waiting w = waiting (st_uow s) @ es"
proof -
  have "length (uow_aggregates (st_uow s)) \<notin> ag_ref ` set (uow_aggregates (st_uow s))"
    using assms by (auto simp: uow_wf_def list_all_iff)
  moreover define w where "w = (st_uow s)\<lparr>uow_aggregates := uow_aggregates (st_uow s) @
      [\<lparr>ag_ref = length (uow_aggregates (st_uow s)), ag_identity = i, ag_events = es\<rparr>]\<rparr>"
  ultimately have "register i es s = (Inr (), s\<lparr>st_uow := w\<rparr>)"
    by (simp add: register_def sql_register_def list_ex_key)
  moreover have "uow_wf w" "waiting w = waiting (st_uow s) @ es"
    using assms by (auto simp: w_def waiting_eq uow_wf_def list_all_iff less_Suc_eq)
  ultimately show ?thesis by blast
qed

section \<open>Commit is atomic and complete\<close>

lemma insert_outbox_Inr:
  "insert_outbox r d = Inr d' \<longleftrightarrow> ob_id r \<notin> ob_id ` set (outbox_events d) \<and>
     d' = d\<lparr>outbox_events := outbox_events d @ [r]\<rparr>"
  by (auto simp: insert_outbox_def list_ex_key)

lemma persist_step:
  "persist_outbox_event E now e s =
     on_work (insert_outbox (outbox_row_of E (st_draw s) now
        (fst (event_subject e), Some (snd (event_subject e))) e)) (s\<lparr>st_draw := Suc (st_draw s)\<rparr>)"
  by (simp add: persist_outbox_event_def event_aggregate_eq)

lemma persist_all_Inr:
  "for_each es (persist_outbox_event E now) s = (Inr u, s') \<Longrightarrow>
     s' = s\<lparr>st_work := (st_work s)\<lparr>outbox_events := outbox_events (st_work s) @
            outbox_rows E (st_draw s) now es\<rparr>, st_draw := st_draw s + length es\<rparr>"
proof (induction es arbitrary: s)
  case (Cons e es)
  from Cons.prems obtain x s1 where "persist_outbox_event E now e s = (Inr x, s1)"
    and r: "for_each es (persist_outbox_event E now) s1 = (Inr u, s')" by (auto simp: thn_eq_Inr)
  then have s1: "s1 = s\<lparr>st_work := (st_work s)\<lparr>outbox_events := outbox_events (st_work s) @
      [outbox_row_of E (st_draw s) now (fst (event_subject e), Some (snd (event_subject e))) e]\<rparr>,
      st_draw := Suc (st_draw s)\<rparr>"
    by (auto simp: persist_step on_work_eq insert_outbox_Inr)
  show ?case using Cons.IH [OF r] by (simp add: s1)
qed simp

lemma persist_all_frame:
  "for_each es (persist_outbox_event E now) s = (r, s') \<Longrightarrow> \<exists>d k. s' = s\<lparr>st_work := d, st_draw := k\<rparr>"
proof (induction es arbitrary: s)
  case (Cons e es)
  let ?f = "insert_outbox (outbox_row_of E (st_draw s) now
        (fst (event_subject e), Some (snd (event_subject e))) e)"
  show ?case
  proof (cases "?f (st_work s)")
    case (Inl x)
    then have "persist_outbox_event E now e s = (Inl x, s\<lparr>st_draw := Suc (st_draw s)\<rparr>)"
      by (simp add: persist_step on_work_eq)
    then have "s' = s\<lparr>st_work := st_work s, st_draw := Suc (st_draw s)\<rparr>"
      using Cons.prems by (simp add: thn_Inl)
    then show ?thesis by blast
  next
    case (Inr d)
    then have "persist_outbox_event E now e s = (Inr (), s\<lparr>st_work := d, st_draw := Suc (st_draw s)\<rparr>)"
      by (simp add: persist_step on_work_eq)
    with Cons show ?thesis by (fastforce simp: thn_Inr)
  qed
next
  case Nil
  then show ?case by (intro exI [of _ "st_work s"] exI [of _ "st_draw s"]) simp
qed

lemma audit_repo_add_Inr:
  "audit_repo_add l d = Inr d' \<longleftrightarrow> al_id l \<notin> al_id ` set (audit_logs d) \<and>
     pred_option (\<lambda>u. has_user u d) (al_user_id l) \<and> d' = d\<lparr>audit_logs := audit_logs d @ [l]\<rparr>"
  by (auto simp: audit_repo_add_def list_ex_key)

lemma event_to_audit_cases:
  obtains "event_to_audit E i now e = Inr None" "\<not> audited e"
  | l where "event_to_audit E i now e = Inr (Some l)" "audited e" "al_id l = i"
      "al_user_id l = event_user e"
  by (cases "EVENT_TO_ACTION e")
    (auto simp: event_to_audit_def event_aggregate_eq audited_def audit_log_create_def)

lemma audit_step:
  "audit_event E now e s =
     (case audit_row_of E (st_draw s) now e of
        [] \<Rightarrow> (Inr (), s\<lparr>st_draw := Suc (st_draw s)\<rparr>)
      | l # _ \<Rightarrow> on_work (audit_repo_add l) (s\<lparr>st_draw := Suc (st_draw s)\<rparr>))"
  by (cases rule: event_to_audit_cases [of E "uuid4 E (st_draw s)" now e])
    (simp_all add: audit_event_def audit_row_of_def)

lemma audit_row_of_cases:
  "audit_row_of E k now e = [] \<or> (\<exists>l. audit_row_of E k now e = [l] \<and> al_id l = uuid4 E k \<and>
     al_user_id l = event_user e)"
  by (cases rule: event_to_audit_cases [of E "uuid4 E k" now e]) (simp_all add: audit_row_of_def)

lemma audit_all_Inr:
  "for_each es (audit_event E now) s = (Inr u, s') \<Longrightarrow>
     s' = s\<lparr>st_work := (st_work s)\<lparr>audit_logs := audit_logs (st_work s) @
            audit_rows E (st_draw s) now es\<rparr>, st_draw := st_draw s + length es\<rparr>"
proof (induction es arbitrary: s)
  case (Cons e es)
  from Cons.prems obtain x s1 where x: "audit_event E now e s = (Inr x, s1)"
    and r: "for_each es (audit_event E now) s1 = (Inr u, s')" by (auto simp: thn_eq_Inr)
  have s1: "s1 = s\<lparr>st_work := (st_work s)\<lparr>audit_logs := audit_logs (st_work s) @
      audit_row_of E (st_draw s) now e\<rparr>, st_draw := Suc (st_draw s)\<rparr>"
    using x audit_row_of_cases [of E "st_draw s" now e]
    by (auto simp: audit_step on_work_eq audit_repo_add_Inr)
  show ?case using Cons.IH [OF r] by (simp add: s1)
qed simp

lemma audit_all_frame:
  "for_each es (audit_event E now) s = (r, s') \<Longrightarrow> \<exists>d k. s' = s\<lparr>st_work := d, st_draw := k\<rparr>"
proof (induction es arbitrary: s)
  case (Cons e es)
  obtain x s1 where x: "audit_event E now e s = (x, s1)" by fastforce
  let ?k = "s\<lparr>st_draw := Suc (st_draw s)\<rparr>"
  have "s1 = ?k \<or> (\<exists>d. s1 = ?k\<lparr>st_work := d\<rparr>)"
    using x by (auto simp: audit_step on_work_def split: list.splits sum.splits)
  then have s1: "\<exists>d k. s1 = s\<lparr>st_work := d, st_draw := k\<rparr>"
  proof
    assume "s1 = ?k"
    then show ?thesis by (intro exI [of _ "st_work s"] exI [of _ "Suc (st_draw s)"]) simp
  next
    assume "\<exists>d. s1 = ?k\<lparr>st_work := d\<rparr>"
    then obtain d where "s1 = ?k\<lparr>st_work := d\<rparr>" ..
    then show ?thesis by (intro exI [of _ d] exI [of _ "Suc (st_draw s)"]) simp
  qed
  show ?case
  proof (cases x)
    case (Inl y)
    then show ?thesis using Cons.prems x s1 by (simp add: thn_Inl)
  next
    case (Inr y)
    then have "for_each es (audit_event E now) s1 = (r, s')" using Cons.prems x by (simp add: thn_Inr)
    from Cons.IH [OF this] s1 show ?thesis by fastforce
  qed
next
  case Nil
  then show ?case by (intro exI [of _ "st_work s"] exI [of _ "st_draw s"]) simp
qed

text \<open>What a successful commit makes visible.\<close>

definition with_events :: "env \<Rightarrow> nat \<Rightarrow> datetime \<Rightarrow> event list \<Rightarrow> db \<Rightarrow> db" where
  "with_events E k now es d =
     d\<lparr>outbox_events := outbox_events d @ outbox_rows E k now es,
       audit_logs := audit_logs d @ audit_rows E (k + length es) now es\<rparr>"

lemma commit_cases:
  "(\<exists>k. commit E now s = (Inr (), s\<lparr>st_committed := with_events E (st_draw s) now (waiting (st_uow s)) (st_work s),
        st_work := with_events E (st_draw s) now (waiting (st_uow s)) (st_work s),
        st_uow := empty_uow, st_draw := k\<rparr>)) \<or>
   (\<exists>e k. commit E now s = (Inl e, s\<lparr>st_work := st_committed s, st_uow := empty_uow, st_draw := k\<rparr>))"
proof -
  let ?es = "waiting (st_uow s)" and ?s = "s\<lparr>st_uow := empty_uow\<rparr>"
  let ?m = "thn (for_each ?es (persist_outbox_event E now)) (for_each ?es (audit_event E now)) ?s"
  have c: "commit E now s = (case ?m of
         (Inr _, s1) \<Rightarrow> (Inr (), s1\<lparr>st_committed := st_work s1\<rparr>)
       | (Inl e, s1) \<Rightarrow> (Inl e, s1\<lparr>st_work := st_committed s1\<rparr>))"
    by (simp add: commit_def bnd_def drain_uow_def waiting_def drain_def Let_def)
  obtain r1 s1 where p: "for_each ?es (persist_outbox_event E now) ?s = (r1, s1)" by fastforce
  show ?thesis
  proof (cases r1)
    case (Inl e)
    with p have "?m = (Inl e, s1)" by (simp add: thn_Inl)
    moreover obtain d k where "s1 = ?s\<lparr>st_work := d, st_draw := k\<rparr>" using persist_all_frame [OF p] by blast
    ultimately show ?thesis by (intro disjI2 exI [of _ e] exI [of _ k]) (simp add: c)
  next
    case (Inr u)
    note s1 = persist_all_Inr [OF p [unfolded Inr]]
    obtain r2 s2 where a: "for_each ?es (audit_event E now) s1 = (r2, s2)" by fastforce
    with p Inr have m: "?m = (r2, s2)" by (simp add: thn_Inr)
    show ?thesis
    proof (cases r2)
      case (Inl e)
      moreover obtain d k where "s2 = s1\<lparr>st_work := d, st_draw := k\<rparr>" using audit_all_frame [OF a] by blast
      ultimately show ?thesis by (intro disjI2 exI [of _ e] exI [of _ k]) (simp add: c m s1)
    next
      case (Inr v)
      from audit_all_Inr [OF a [unfolded Inr]] show ?thesis
        by (intro disjI1 exI [of _ "st_draw s + length ?es + length ?es"])
          (simp add: c m Inr s1 with_events_def)
    qed
  qed
qed

text \<open>C2. Commit is all or nothing. It either makes the transaction's changes visible together
  with one outbox row per waiting event and the audit entries of those events, or raises with the
  committed database unchanged and the transaction undone; in both cases nothing is left waiting.\<close>

theorem commit_atomic:
  "(let (r, s') = commit E now s in
    st_uow s' = empty_uow \<and> st_work s' = st_committed s' \<and>
    (case r of
       Inr _ \<Rightarrow> st_committed s' = with_events E (st_draw s) now (waiting (st_uow s)) (st_work s)
     | Inl _ \<Rightarrow> st_committed s' = st_committed s))"
  using commit_cases [of E now s] by (auto simp: Let_def)

text \<open>uuid4 does not repeat: the next n identifiers differ from each other and from those stored.\<close>

definition fresh_ids :: "env \<Rightarrow> nat \<Rightarrow> st \<Rightarrow> bool" where
  "fresh_ids E n s =
     (distinct (map (uuid4 E) [st_draw s..<st_draw s + n]) \<and>
      list_all (\<lambda>k. uuid4 E k \<notin> ob_id ` set (outbox_events (st_work s)) \<and>
                    uuid4 E k \<notin> al_id ` set (audit_logs (st_work s))) [st_draw s..<st_draw s + n])"

lemma map_upt_Cons: "map f [k..<k + Suc n] = f k # map f [Suc k..<Suc k + n]"
  by (simp add: upt_rec del: upt_Suc)

lemma distinct_draws:
  "distinct (map f [k..<k + length (e # es)]) \<Longrightarrow>
     f k \<notin> f ` {Suc k..<Suc k + length es} \<and> distinct (map f [Suc k..<Suc k + length es])"
  using map_upt_Cons [of f k "length es"] by (simp del: upt_Suc)

lemma draws_disjoint:
  "f ` {k..<k + length (e # es)} \<inter> C = {} \<Longrightarrow> f ` {Suc k..<Suc k + length es} \<inter> C = {}"
proof -
  have "f ` {Suc k..<Suc k + length es} \<subseteq> f ` {k..<k + length (e # es)}" by auto
  then show "f ` {k..<k + length (e # es)} \<inter> C = {} \<Longrightarrow> f ` {Suc k..<Suc k + length es} \<inter> C = {}"
    by blast
qed

lemma persist_all_succeeds:
  "distinct (map (uuid4 E) [st_draw s..<st_draw s + length es]) \<Longrightarrow>
   uuid4 E ` {st_draw s..<st_draw s + length es} \<inter> ob_id ` set (outbox_events (st_work s)) = {} \<Longrightarrow>
     \<exists>s'. for_each es (persist_outbox_event E now) s = (Inr (), s')"
proof (induction es arbitrary: s)
  case (Cons e es)
  let ?k = "st_draw s"
  let ?r = "outbox_row_of E ?k now (fst (event_subject e), Some (snd (event_subject e))) e"
  let ?s1 = "s\<lparr>st_work := (st_work s)\<lparr>outbox_events := outbox_events (st_work s) @ [?r]\<rparr>, st_draw := Suc ?k\<rparr>"
  have d: "uuid4 E ?k \<notin> uuid4 E ` {Suc ?k..<Suc ?k + length es}"
    "distinct (map (uuid4 E) [Suc ?k..<Suc ?k + length es])"
    using distinct_draws [OF Cons.prems(1)] by auto
  have "uuid4 E ?k \<in> uuid4 E ` {?k..<?k + length (e # es)}" by simp
  then have "ob_id ?r \<notin> ob_id ` set (outbox_events (st_work s))"
    using Cons.prems(2) unfolding outbox_row_of_def outbox_row.simps by blast
  then have "persist_outbox_event E now e s = (Inr (), ?s1)"
    by (simp add: persist_step on_work_eq insert_outbox_Inr)
  moreover have "uuid4 E ` {Suc ?k..<Suc ?k + length es} \<inter> ob_id ` set (outbox_events (st_work s)) = {}"
    using Cons.prems(2) by (rule draws_disjoint)
  then have "\<exists>s'. for_each es (persist_outbox_event E now) ?s1 = (Inr (), s')"
    using Cons.IH [of ?s1] d by (simp add: outbox_row_of_def)
  ultimately show ?case by (auto simp: thn_Inr)
qed simp

lemma audit_all_succeeds:
  "distinct (map (uuid4 E) [st_draw s..<st_draw s + length es]) \<Longrightarrow>
   uuid4 E ` {st_draw s..<st_draw s + length es} \<inter> al_id ` set (audit_logs (st_work s)) = {} \<Longrightarrow>
   list_all (\<lambda>e. pred_option (\<lambda>u. has_user u (st_work s)) (event_user e)) es \<Longrightarrow>
     \<exists>s'. for_each es (audit_event E now) s = (Inr (), s')"
proof (induction es arbitrary: s)
  case (Cons e es)
  let ?k = "st_draw s" and ?ls = "audit_row_of E (st_draw s) now e"
  let ?s1 = "s\<lparr>st_work := (st_work s)\<lparr>audit_logs := audit_logs (st_work s) @ ?ls\<rparr>, st_draw := Suc ?k\<rparr>"
  have d: "uuid4 E ?k \<notin> uuid4 E ` {Suc ?k..<Suc ?k + length es}"
    "distinct (map (uuid4 E) [Suc ?k..<Suc ?k + length es])"
    using distinct_draws [OF Cons.prems(1)] by auto
  have "uuid4 E ?k \<in> uuid4 E ` {?k..<?k + length (e # es)}" by simp
  then have n: "uuid4 E ?k \<notin> al_id ` set (audit_logs (st_work s))" using Cons.prems(2) by blast
  have l: "?ls = [] \<or> (\<exists>l. ?ls = [l] \<and> al_id l = uuid4 E ?k \<and> al_user_id l = event_user e)"
    by (rule audit_row_of_cases)
  then have "audit_event E now e s = (Inr (), ?s1)"
    using n Cons.prems(3) by (auto simp: audit_step on_work_eq audit_repo_add_Inr)
  moreover have "uuid4 E ` {Suc ?k..<Suc ?k + length es} \<inter> al_id ` set (audit_logs (st_work s)) = {}"
    using Cons.prems(2) by (rule draws_disjoint)
  then have "\<exists>s'. for_each es (audit_event E now) ?s1 = (Inr (), s')"
    using Cons.IH [of ?s1] d l Cons.prems(3) by auto
  ultimately show ?case by (auto simp: thn_Inr)
qed simp

lemma outbox_rows_ids: "map ob_id (outbox_rows E k now es) = map (uuid4 E) [k..<k + length es]"
proof (induction es arbitrary: k)
  case (Cons e es)
  then show ?case using map_upt_Cons [of "uuid4 E" k "length es"]
    by (simp add: outbox_row_of_def del: upt_Suc)
qed simp

lemma audit_rows_ids:
  "\<exists>ks. sorted ks \<and> distinct ks \<and> set ks \<subseteq> {k..<k + length es} \<and> map al_id (audit_rows E k now es) = map (uuid4 E) ks"
proof (induction es arbitrary: k)
  case (Cons e es)
  from Cons [of "Suc k"] obtain ks where ks: "sorted ks" "distinct ks" "set ks \<subseteq> {Suc k..<Suc k + length es}"
    "map al_id (audit_rows E (Suc k) now es) = map (uuid4 E) ks" by blast
  from audit_row_of_cases [of E k now e] show ?case
  proof
    assume "audit_row_of E k now e = []"
    with ks show ?thesis by (intro exI [of _ ks]) auto
  next
    assume "\<exists>l. audit_row_of E k now e = [l] \<and> al_id l = uuid4 E k \<and> al_user_id l = event_user e"
    with ks show ?thesis by (intro exI [of _ "k # ks"]) (auto simp: less_imp_le Suc_le_eq)
  qed
qed (simp add: exI [of _ "[]"])

lemma audit_rows_users:
  "l \<in> set (audit_rows E k now es) \<Longrightarrow> \<exists>e \<in> set es. al_user_id l = event_user e"
proof (induction es arbitrary: k)
  case (Cons e es)
  with audit_row_of_cases [of E k now e] show ?case by auto
qed simp

lemma fresh_ids_split:
  assumes "fresh_ids E (n + m) s"
  shows "distinct (map (uuid4 E) [st_draw s..<st_draw s + n])"
    and "uuid4 E ` {st_draw s..<st_draw s + n} \<inter> ob_id ` set (outbox_events (st_work s)) = {}"
    and "distinct (map (uuid4 E) [st_draw s + n..<st_draw s + n + m])"
    and "uuid4 E ` {st_draw s + n..<st_draw s + n + m} \<inter> al_id ` set (audit_logs (st_work s)) = {}"
proof -
  have "[st_draw s..<st_draw s + (n + m)] = [st_draw s..<st_draw s + n] @ [st_draw s + n..<st_draw s + n + m]"
    by (metis add.assoc le_add1 upt_add_eq_append)
  with assms show "distinct (map (uuid4 E) [st_draw s..<st_draw s + n])"
    "distinct (map (uuid4 E) [st_draw s + n..<st_draw s + n + m])" by (auto simp: fresh_ids_def)
  show "uuid4 E ` {st_draw s..<st_draw s + n} \<inter> ob_id ` set (outbox_events (st_work s)) = {}"
    "uuid4 E ` {st_draw s + n..<st_draw s + n + m} \<inter> al_id ` set (audit_logs (st_work s)) = {}"
    using assms by (auto simp: fresh_ids_def list_all_iff)
qed

lemma commit_succeeds:
  assumes "fresh_ids E (2 * length (waiting (st_uow s))) s"
    and "list_all (\<lambda>e. pred_option (\<lambda>u. has_user u (st_work s)) (event_user e)) (waiting (st_uow s))"
  shows "\<exists>k. commit E now s = (Inr (), s\<lparr>st_committed := with_events E (st_draw s) now (waiting (st_uow s)) (st_work s),
        st_work := with_events E (st_draw s) now (waiting (st_uow s)) (st_work s),
        st_uow := empty_uow, st_draw := k\<rparr>)"
proof -
  let ?es = "waiting (st_uow s)" and ?s = "s\<lparr>st_uow := empty_uow\<rparr>"
  note f = fresh_ids_split [of E "length ?es" "length ?es" s, folded mult_2, OF assms(1)]
  from persist_all_succeeds [of E ?s ?es now] f obtain s1 where
    p: "for_each ?es (persist_outbox_event E now) ?s = (Inr (), s1)" by auto
  note s1 = persist_all_Inr [OF p]
  from audit_all_succeeds [of E s1 ?es now] f assms(2) obtain s2 where
    "for_each ?es (audit_event E now) s1 = (Inr (), s2)" by (auto simp: s1)
  with p have "fst (commit E now s) = Inr ()"
    by (simp add: commit_def bnd_def drain_uow_def waiting_def drain_def Let_def thn_Inr)
  with commit_cases [of E now s] show ?thesis by fastforce
qed

lemma with_events_tables [simp]:
  "users (with_events E k now es d) = users d" "sessions (with_events E k now es d) = sessions d"
  "refresh_tokens (with_events E k now es d) = refresh_tokens d"
  "permissions (with_events E k now es d) = permissions d" "roles (with_events E k now es d) = roles d"
  "role_permissions (with_events E k now es d) = role_permissions d"
  "user_roles (with_events E k now es d) = user_roles d"
  "has_user u (with_events E k now es d) = has_user u d"
  "has_session u (with_events E k now es d) = has_session u d"
  "has_role u (with_events E k now es d) = has_role u d"
  "has_permission_row u (with_events E k now es d) = has_permission_row u d"
  by (simp_all add: with_events_def has_user_def has_session_def has_role_def has_permission_row_def)

lemma distinct_map_nth_subset:
  "distinct (map f xs) \<Longrightarrow> distinct ks \<Longrightarrow> set ks \<subseteq> set xs \<Longrightarrow> distinct (map f ks)"
  by (auto simp: distinct_map intro: inj_on_subset)

lemma with_events_ok:
  assumes "db_ok (st_work s)" and "fresh_ids E (2 * length es) s"
    and "list_all (\<lambda>e. pred_option (\<lambda>u. has_user u (st_work s)) (event_user e)) es"
  shows "db_ok (with_events E (st_draw s) now es (st_work s))"
proof -
  note f = fresh_ids_split [of E "length es" "length es" s, folded mult_2, OF assms(2)]
  let ?k = "st_draw s + length es"
  obtain ks where ks: "distinct ks" "set ks \<subseteq> {?k..<?k + length es}"
    "map al_id (audit_rows E ?k now es) = map (uuid4 E) ks" using audit_rows_ids by blast
  have da: "distinct (map (uuid4 E) ks)"
    using distinct_map_nth_subset [OF f(3) ks(1)] ks(2) by simp
  have na: "set (map (uuid4 E) ks) \<inter> al_id ` set (audit_logs (st_work s)) = {}"
    using f(4) ks(2) by auto
  have no: "set (map (uuid4 E) [st_draw s..<?k]) \<inter> ob_id ` set (outbox_events (st_work s)) = {}"
    using f(2) by simp
  have "pred_option (\<lambda>u. has_user u (st_work s)) (al_user_id l)"
    if "l \<in> set (audit_rows E ?k now es)" for l
    using audit_rows_users [OF that] assms(3) by (auto simp: list_all_iff)
  then have "logs_ok (with_events E (st_draw s) now es (st_work s))"
    using assms(1) da na no f(1) ks(3) outbox_rows_ids [of E "st_draw s" now es]
    by (auto simp: logs_ok_def db_ok_def list_all_iff with_events_def simp flip: set_map)
  then show ?thesis
    using assms(1) by (simp add: db_ok_def sessions_ok_def rbac_ok_def)
qed

section \<open>Evaluating reads\<close>

lemma bnd_query:
  "bnd (query q) k s = (case q (st_work s) of Inl e \<Rightarrow> (Inl e, s) | Inr x \<Rightarrow> k x s)"
  by (simp add: bnd_def split: sum.splits)

lemma bnd_lift: "bnd (lift r) k s = (case r of Inl e \<Rightarrow> (Inl e, s) | Inr x \<Rightarrow> k x s)"
  by (simp add: bnd_def split: sum.splits)

lemma bnd_on_cache:
  "bnd (on_cache f) k s = k (fst (f (st_cache s))) (s\<lparr>st_cache := snd (f (st_cache s))\<rparr>)"
  by (simp add: bnd_def on_cache_def case_prod_unfold Let_def)

lemma fresh_ids_later:
  assumes "fresh_ids E (n + m) s" and "st_draw s' = st_draw s + n"
    and "outbox_events (st_work s') = outbox_events (st_work s)" and "audit_logs (st_work s') = audit_logs (st_work s)"
  shows "fresh_ids E m s'"
proof -
  have "[st_draw s..<st_draw s + (n + m)] = [st_draw s..<st_draw s + n] @ [st_draw s + n..<st_draw s + n + m]"
    by (metis add.assoc le_add1 upt_add_eq_append)
  with assms show ?thesis by (simp add: fresh_ids_def)
qed

end
