(* ===== verification/Revocation.thy ===== *)
theory Revocation
  imports Session_Repo
begin

text \<open>
  What revoking sessions does to the sessions and refresh_tokens tables: writing a revoked session
  marks its row and exactly its tokens, so revoking a list of sessions is one bulk update
  (\<open>revoke_rows\<close>), after which none of them is found by its owner or by any of its tokens.
\<close>

definition revoke_rows :: "uuid set \<Rightarrow> db \<Rightarrow> db" where
  "revoke_rows I d =
     d\<lparr>sessions := update_where (\<lambda>r. sr_session_id r \<in> I) (\<lambda>r. r\<lparr>sr_is_revoked := True\<rparr>) (sessions d),
       refresh_tokens := update_where (\<lambda>t. tr_session_id t \<in> I) (\<lambda>t. t\<lparr>tr_is_revoked := True\<rparr>)
         (refresh_tokens d)\<rparr>"

lemma revoke_rows_comp: "revoke_rows I (revoke_rows J d) = revoke_rows (I \<union> J) d"
  by (auto simp: revoke_rows_def update_where_def intro!: db.equality map_cong)

lemma revoke_rows_empty: "revoke_rows {} d = d"
  by (simp add: revoke_rows_def update_where_def)

lemma revoke_rows_tables [simp]:
  "users (revoke_rows I d) = users d" "permissions (revoke_rows I d) = permissions d"
  "roles (revoke_rows I d) = roles d" "role_permissions (revoke_rows I d) = role_permissions d"
  "user_roles (revoke_rows I d) = user_roles d" "outbox_events (revoke_rows I d) = outbox_events d"
  "audit_logs (revoke_rows I d) = audit_logs d" "has_user u (revoke_rows I d) = has_user u d"
  by (simp_all add: revoke_rows_def has_user_def)

lemma upsert_tokens_present:
  "list_all (\<lambda>r. tr_id r \<in> tr_id ` set (refresh_tokens d)) rs \<Longrightarrow> \<exists>d'. upsert_tokens rs d = Inr d'"
proof (induction rs arbitrary: d)
  case (Cons r rs)
  let ?ts = "update_where (\<lambda>x. tr_id x = tr_id r)
      (\<lambda>x. x\<lparr>tr_is_revoked := tr_is_revoked r, tr_expires_at := tr_expires_at r\<rparr>) (refresh_tokens d)"
  have "tr_id ` set ?ts = tr_id ` set (refresh_tokens d)"
    by (simp add: map_update_where flip: set_map)
  with Cons show ?case by (simp add: upsert_token_def list_ex_key)
qed simp

lemma session_update_present:
  assumes ok: "db_ok d" and s: "session_acquire_by_session_id i d = Inr (Some s)"
    and i: "s_session_id s' = i" and t: "s_refresh_tokens s' = map f (s_refresh_tokens s)"
    and f: "\<And>t. rt_id (f t) = rt_id t \<and> rt_token_hash (f t) = rt_token_hash t \<and>
              rt_created_at (f t) = rt_created_at t"
  shows "session_update s' d = Inr (d\<lparr>
      sessions := update_where (\<lambda>r. sr_session_id r = i)
        (\<lambda>r. r\<lparr>sr_is_revoked := s_is_revoked s', sr_expires_at := s_expires_at s'\<rparr>) (sessions d),
      refresh_tokens := map (overlay (map (token_to_row i \<circ> f) (s_refresh_tokens s))) (refresh_tokens d)\<rparr>)"
proof -
  let ?rs = "map (token_to_row i \<circ> f) (s_refresh_tokens s)"
  let ?d = "d\<lparr>sessions := update_where (\<lambda>r. sr_session_id r = i)
        (\<lambda>r. r\<lparr>sr_is_revoked := s_is_revoked s', sr_expires_at := s_expires_at s'\<rparr>) (sessions d)\<rparr>"
  note tk = session_acquire_tokens [OF s]
  have ids: "map tr_id ?rs = map tr_id (session_tokens i d)"
    unfolding tk(1) [symmetric] by (simp add: f)
  then have "set (map tr_id ?rs) \<subseteq> tr_id ` set (refresh_tokens d)"
    by (auto simp: session_tokens_def simp del: map_map)
  then have present: "list_all (\<lambda>r. tr_id r \<in> tr_id ` set (refresh_tokens d)) ?rs"
    by (auto simp: list_all_iff)
  then obtain d' where u: "upsert_tokens ?rs ?d = Inr d'"
    using upsert_tokens_present [of ?d ?rs] by auto
  have dist: "distinct (map tr_id ?rs)"
    using ok unfolding ids by (simp add: db_ok_def sessions_ok_def session_tokens_def distinct_map_filter)
  have "filter (\<lambda>r. tr_id r \<notin> tr_id ` set (refresh_tokens d)) ?rs = []"
    using present by (simp add: filter_empty_conv list_all_iff del: set_map)
  with upsert_tokens_table [OF u dist] u i t show ?thesis by (simp add: session_update_def)
qed

lemma overlay_other: "tr_id x \<notin> tr_id ` set rs \<Longrightarrow> overlay rs x = x"
proof -
  assume "tr_id x \<notin> tr_id ` set rs"
  then have "find_row (\<lambda>r. tr_id r = tr_id x) rs = None"
    by (simp add: find_row_None_iff notin_image_iff)
  then show ?thesis by (simp add: overlay_def)
qed

lemma overlay_revokes:
  assumes ok: "db_ok d" and s: "session_acquire_by_session_id i d = Inr (Some s)"
  shows "map (overlay (map (token_to_row i \<circ> revoked) (s_refresh_tokens s))) (refresh_tokens d) =
     update_where (\<lambda>t. tr_session_id t \<in> {i}) (\<lambda>t. t\<lparr>tr_is_revoked := True\<rparr>) (refresh_tokens d)"
proof -
  let ?rs = "map (token_to_row i \<circ> revoked) (s_refresh_tokens s)"
  note tk = session_acquire_tokens [OF s]
  have dist: "distinct (map tr_id (refresh_tokens d))" using ok by (simp add: db_ok_def sessions_ok_def)
  have ids: "map tr_id ?rs = map tr_id (session_tokens i d)" unfolding tk(1) [symmetric] by simp
  have "overlay ?rs x = (if tr_session_id x \<in> {i} then x\<lparr>tr_is_revoked := True\<rparr> else x)"
    if x: "x \<in> set (refresh_tokens d)" for x
  proof (cases "tr_session_id x = i")
    case True
    with x have "x \<in> set (session_tokens i d)" by (simp add: session_tokens_def)
    then obtain t where t: "t \<in> set (s_refresh_tokens s)" "x = token_to_row i t"
      unfolding tk(1) [symmetric] by auto
    have "distinct (map tr_id ?rs)" unfolding ids
      using dist by (simp add: session_tokens_def distinct_map_filter)
    from find_row_unique [OF this, of "token_to_row i (revoked t)"] t
    have "find_row (\<lambda>r. tr_id r = tr_id x) ?rs = Some (token_to_row i (revoked t))" by simp
    with t True show ?thesis by (simp add: overlay_def token_to_row_def)
  next
    case False
    have "tr_id x \<notin> set (map tr_id (session_tokens i d))"
    proof
      assume "tr_id x \<in> set (map tr_id (session_tokens i d))"
      then obtain y where "y \<in> set (refresh_tokens d)" "tr_session_id y = i" "tr_id y = tr_id x"
        by (auto simp: session_tokens_def)
      with dist x False show False by (auto simp: distinct_map dest: inj_onD)
    qed
    then have "tr_id x \<notin> tr_id ` set ?rs" unfolding ids [symmetric] by (simp only: set_map not_False_eq_True)
    with False show ?thesis by (simp add: overlay_other)
  qed
  then show ?thesis by (simp add: update_where_def)
qed

lemma revoke_update:
  assumes ok: "db_ok d" and s: "session_acquire_by_session_id i d = Inr (Some s)"
  shows "session_update (revoke s) d = Inr (revoke_rows {i} d)"
proof -
  note tk = session_acquire_tokens [OF s]
  obtain r where r: "r \<in> set (sessions d)" "sr_session_id r = i" "s_expires_at s = sr_expires_at r"
    using s by (auto simp: session_acquire_Some dest!: find_row_Some_iff)
  have "sr_expires_at x = s_expires_at s" if "x \<in> set (sessions d)" "sr_session_id x = i" for x
    using ok r that by (auto simp: db_ok_def sessions_ok_def distinct_map dest: inj_onD)
  then have rows: "update_where (\<lambda>r. sr_session_id r = i)
        (\<lambda>r. r\<lparr>sr_is_revoked := True, sr_expires_at := s_expires_at s\<rparr>) (sessions d) =
      update_where (\<lambda>r. sr_session_id r \<in> {i}) (\<lambda>r. r\<lparr>sr_is_revoked := True\<rparr>) (sessions d)"
    unfolding update_where_def by (intro map_cong refl) (auto intro!: session_row.equality)
  have e: "s_expires_at (revoke s) = s_expires_at s" by (simp add: revoke_def)
  have i: "s_session_id (revoke s) = i" using tk(3) by simp
  have f: "\<And>t. rt_id (revoked t) = rt_id t \<and> rt_token_hash (revoked t) = rt_token_hash t \<and>
      rt_created_at (revoked t) = rt_created_at t" by simp
  note u = session_update_present [OF ok s i revoke_simps(4) f]
  show ?thesis unfolding u overlay_revokes [OF ok s] e revoke_simps(3) [THEN eqTrueI] rows revoke_rows_def ..
qed

lemma revoke_rows_ok: "db_ok d \<Longrightarrow> db_ok (revoke_rows I d)"
proof -
  assume d: "db_ok d"
  have h: "has_session j (revoke_rows I d) = has_session j d" for j
    by (simp add: has_session_def revoke_rows_def list_ex_update_where)
  have "sessions_ok (revoke_rows I d)"
    using d by (simp add: db_ok_def sessions_ok_def h)
      (simp add: revoke_rows_def map_update_where list_all_update_where)
  then show ?thesis
    using db_ok_sessions_change [OF d] by (simp add: revoke_rows_def)
qed

lemma session_tokens_other:
  "j \<notin> I \<Longrightarrow> session_tokens j (revoke_rows I d) = session_tokens j d"
  by (auto simp: session_tokens_def revoke_rows_def update_where_def filter_map comp_def
      intro!: map_idI cong: filter_cong)

lemma revoke_rows_acquire_other:
  assumes "j \<notin> I"
  shows "session_acquire_by_session_id j (revoke_rows I d) = session_acquire_by_session_id j d"
proof -
  have "find_row (\<lambda>r. sr_session_id r = j) (sessions (revoke_rows I d)) =
        find_row (\<lambda>r. sr_session_id r = j) (sessions d)"
    using assms by (auto simp: revoke_rows_def find_row_update_where map_option_case
        split: option.splits dest!: find_row_Some_iff)
  then show ?thesis
    unfolding session_acquire_by_session_id_def session_tokens_other [OF assms] by simp
qed

text \<open>The batch query of acquire_by_user_id reads each session as the single query does.\<close>

lemma rmap_map_pair:
  "rmap (\<lambda>t. rbind (f t) (\<lambda>x. Inr (g t, x))) xs = Inr ps \<Longrightarrow>
     rmap f (filter (\<lambda>t. g t = i) xs) = Inr (map snd (filter (\<lambda>p. fst p = i) ps))"
  by (induction xs arbitrary: ps) (auto simp: rbind_eq_Inr)

lemma rmap_eq_Inr: "rmap f xs = Inr ys \<longleftrightarrow> list_all2 (\<lambda>x y. f x = Inr y) xs ys"
  by (induction xs arbitrary: ys) (auto simp: rbind_eq_Inr list_all2_Cons1)

lemma acquire_by_user_each:
  assumes ok: "db_ok d" and q: "session_acquire_by_user_id u d = Inr ss"
  shows "list_all2 (\<lambda>r s. s_session_id s = sr_session_id r \<and>
             session_acquire_by_session_id (sr_session_id r) d = Inr (Some s))
           (filter (\<lambda>r. sr_user_id r = u \<and> \<not> sr_is_revoked r) (sessions d)) ss"
proof -
  let ?rows = "filter (\<lambda>r. sr_user_id r = u \<and> \<not> sr_is_revoked r) (sessions d)"
  show ?thesis
  proof (cases "?rows = []")
    case True
    with q show ?thesis by (simp add: session_acquire_by_user_id_def Let_def)
  next
    case False
    with q obtain g where g: "refresh_tokens_for (map sr_session_id ?rows) d = Inr g"
      and m: "list_all2 (\<lambda>r s. session_from_rows r (map snd (filter (\<lambda>p. fst p = sr_session_id r) g)) = Inr s)
        ?rows ss"
      by (auto simp: session_acquire_by_user_id_def Let_def rbind_eq_Inr rmap_eq_Inr)
    have one: "s_session_id s = sr_session_id r \<and> session_acquire_by_session_id (sr_session_id r) d = Inr (Some s)"
      if r: "r \<in> set ?rows" and
        s: "session_from_rows r (map snd (filter (\<lambda>p. fst p = sr_session_id r) g)) = Inr s" for r s
    proof -
      have "filter (\<lambda>t. tr_session_id t = sr_session_id r)
              (filter (\<lambda>t. tr_session_id t \<in> set (map sr_session_id ?rows)) (refresh_tokens d)) =
            session_tokens (sr_session_id r) d"
        using r by (auto simp: session_tokens_def intro!: filter_cong)
      with rmap_map_pair [OF g [unfolded refresh_tokens_for_def], of "sr_session_id r"]
      have "rmap refresh_token_from_row (session_tokens (sr_session_id r) d) =
            Inr (map snd (filter (\<lambda>p. fst p = sr_session_id r) g))" by simp
      moreover have "find_row (\<lambda>x. sr_session_id x = sr_session_id r) (sessions d) = Some r"
        using ok r by (intro find_row_unique) (auto simp: db_ok_def sessions_ok_def)
      ultimately show ?thesis
        using s by (simp add: session_acquire_by_session_id_def)
          (auto simp: session_from_rows_def rbind_eq_Inr)
    qed
    show ?thesis
      by (rule list.rel_mono_strong [OF m]) (use one in auto)
  qed
qed

section \<open>Revoked sessions are out of reach\<close>

definition live_sessions :: "user_id \<Rightarrow> db \<Rightarrow> uuid list" where
  "live_sessions u d = map sr_session_id (filter (\<lambda>r. sr_user_id r = u \<and> \<not> sr_is_revoked r) (sessions d))"

lemma acquire_by_user_ids:
  assumes "db_ok d" and "session_acquire_by_user_id u d = Inr ss"
  shows "map s_session_id ss = live_sessions u d"
  using acquire_by_user_each [OF assms] unfolding live_sessions_def
  by (rule list_all2_induct) auto

lemma live_sessions_revoked: "live_sessions u (revoke_rows (set (live_sessions u d)) d) = []"
  by (auto simp: live_sessions_def revoke_rows_def update_where_def filter_empty_conv)

lemma live_sessionsI:
  "r \<in> set (sessions d) \<Longrightarrow> \<not> sr_is_revoked r \<Longrightarrow> sr_session_id r \<in> set (live_sessions (sr_user_id r) d)"
  by (auto simp: live_sessions_def)

lemma acquire_by_token_Some:
  assumes "session_acquire_by_token_hash h d = Inr (Some s)"
  obtains t r ts where "find_row (\<lambda>t. tr_token_hash t = h \<and> \<not> tr_is_revoked t) (refresh_tokens d) = Some t"
    "find_row (\<lambda>r. sr_session_id r = tr_session_id t) (sessions d) = Some r" "\<not> sr_is_revoked r"
    "rmap refresh_token_from_row (session_tokens (tr_session_id t) d) = Inr ts"
    "session_from_rows r ts = Inr s"
  using assms by (auto simp: session_acquire_by_token_hash_def rbind_eq_Inr split: option.splits if_splits)

lemma acquire_by_token_live:
  assumes "session_acquire_by_token_hash h d = Inr (Some s)"
  shows "s_session_id s \<in> set (live_sessions (s_user_id s) d)"
proof -
  obtain t r ts where "find_row (\<lambda>t. tr_token_hash t = h \<and> \<not> tr_is_revoked t) (refresh_tokens d) = Some t"
    and r: "find_row (\<lambda>r. sr_session_id r = tr_session_id t) (sessions d) = Some r" "\<not> sr_is_revoked r"
    and "rmap refresh_token_from_row (session_tokens (tr_session_id t) d) = Inr ts"
    and s: "session_from_rows r ts = Inr s"
    by (rule acquire_by_token_Some [OF assms])
  have "s_session_id s = sr_session_id r" "s_user_id s = sr_user_id r"
    using s by (auto simp: session_from_rows_def rbind_eq_Inr UserID_eq)
  with r live_sessionsI [of r d] show ?thesis by (auto dest: find_row_Some_iff)
qed

lemma no_live_sessions:
  assumes "live_sessions u d = []"
  shows "session_acquire_by_user_id u d = Inr []"
    and "session_acquire_by_token_hash h d = Inr (Some s) \<Longrightarrow> s_user_id s \<noteq> u"
proof -
  show "session_acquire_by_user_id u d = Inr []"
    using assms by (simp add: session_acquire_by_user_id_def live_sessions_def)
  show "s_user_id s \<noteq> u" if "session_acquire_by_token_hash h d = Inr (Some s)"
    using acquire_by_token_live [OF that] assms by auto
qed

section \<open>Rotation in the tables\<close>

lemma acquire_by_token_session:
  assumes "session_acquire_by_token_hash h d = Inr (Some s)"
  shows "session_acquire_by_session_id (s_session_id s) d = Inr (Some s)" and "\<not> s_is_revoked s"
proof -
  obtain t r ts where "find_row (\<lambda>t. tr_token_hash t = h \<and> \<not> tr_is_revoked t) (refresh_tokens d) = Some t"
    and r: "find_row (\<lambda>r. sr_session_id r = tr_session_id t) (sessions d) = Some r" "\<not> sr_is_revoked r"
    and ts: "rmap refresh_token_from_row (session_tokens (tr_session_id t) d) = Inr ts"
    and s: "session_from_rows r ts = Inr s"
    by (rule acquire_by_token_Some [OF assms])
  have i: "sr_session_id r = tr_session_id t" using find_row_Some_iff [OF r(1)] by simp
  have f: "s_session_id s = sr_session_id r" "s_is_revoked s = sr_is_revoked r"
    using s by (auto simp: session_from_rows_def rbind_eq_Inr)
  show "\<not> s_is_revoked s" using f r by simp
  show "session_acquire_by_session_id (s_session_id s) d = Inr (Some s)"
    using r ts s by (simp add: f i session_acquire_by_session_id_def)
qed

lemma acquire_by_token_row:
  assumes "db_ok d" and x: "x \<in> set (refresh_tokens d)"
    and s: "session_acquire_by_session_id (tr_session_id x) d = Inr (Some s)"
  shows "session_acquire_by_token_hash (tr_token_hash x) d =
           (if tr_is_revoked x \<or> s_is_revoked s then Inr None else Inr (Some s))"
proof -
  have same: "y = x" if "y \<in> set (refresh_tokens d)" "tr_token_hash y = tr_token_hash x" for y
    using assms(1) x that by (auto simp: db_ok_def sessions_ok_def distinct_map dest: inj_onD)
  show ?thesis
  proof (cases "tr_is_revoked x")
    case True
    then have "find_row (\<lambda>t. tr_token_hash t = tr_token_hash x \<and> \<not> tr_is_revoked t) (refresh_tokens d) = None"
      using same by (auto simp: find_row_None_iff)
    with True show ?thesis by (simp add: session_acquire_by_token_hash_def)
  next
    case False
    then obtain y where y: "find_row (\<lambda>t. tr_token_hash t = tr_token_hash x \<and> \<not> tr_is_revoked t)
        (refresh_tokens d) = Some y"
      using x by (cases "find_row (\<lambda>t. tr_token_hash t = tr_token_hash x \<and> \<not> tr_is_revoked t) (refresh_tokens d)")
        (auto simp: find_row_None_iff)
    then have "y = x" using same find_row_Some_iff [OF y] by blast
    with y s False show ?thesis
      by (auto simp: session_acquire_by_token_hash_def session_acquire_by_session_id_def
          session_from_rows_def rbind_eq_Inr split: option.splits)
  qed
qed

lemma rotation_stored:
  assumes ok: "db_ok d" and acq: "session_acquire_by_token_hash h d = Inr (Some s)"
    and p: "find_refresh_token h s = Some p"
    and n: "rt_id n \<notin> tr_id ` set (refresh_tokens d)" "rt_token_hash n \<noteq> []" "\<not> rt_is_revoked n"
    and s': "s' = refresh now e (add_refresh_token n (revoke_token (rt_id p) s))"
    and u: "session_update s' d = Inr d'"
  shows "session_acquire_by_token_hash h d' = Inr None \<and>
         session_acquire_by_token_hash (rt_token_hash n) d' = Inr (Some (s'\<lparr>s_events := []\<rparr>))"
proof -
  let ?i = "s_session_id s" and ?f = "\<lambda>t. if rt_id t = rt_id p then revoked t else t"
  note s = acquire_by_token_session [OF acq]
  have ev: "session_evolves s s' ?f [n]"
    by (simp add: s' session_evolves_def refresh_def add_refresh_token_def revoke_token_def)
  have f: "rt_id (?f t) = rt_id t \<and> rt_token_hash (?f t) = rt_token_hash t \<and>
      rt_created_at (?f t) = rt_created_at t" for t by simp
  have nw: "rt_id t \<notin> tr_id ` set (refresh_tokens d) \<and> rt_token_hash t \<noteq> []" if "t \<in> set [n]" for t
    using that n by simp
  have "session_acquire_by_session_id ?i d' = Inr (Some (s'\<lparr>s_events := []\<rparr>))"
    using session_update_reads_back [OF ok s(1) ev f nw _ u] by simp
  note rb = this session_acquire_tokens(1) [OF this]
  have rows: "token_to_row ?i t \<in> set (refresh_tokens d')" if "t \<in> set (s_refresh_tokens s')" for t
  proof -
    have "token_to_row ?i t \<in> set (map (token_to_row ?i) (s_refresh_tokens (s'\<lparr>s_events := []\<rparr>)))"
      using that by simp
    then show ?thesis unfolding rb(2) by (simp add: session_tokens_def)
  qed
  have p': "p \<in> set (s_refresh_tokens s)" "rt_token_hash p = h"
    using find_refresh_token_Some [OF p] by auto
  have "revoked p \<in> set (s_refresh_tokens s')" "n \<in> set (s_refresh_tokens s')"
    using p'(1) ev by (auto simp: session_evolves_def)
  note rows = this [THEN rows]
  have r: "s_is_revoked (s'\<lparr>s_events := []\<rparr>) = s_is_revoked s"
    by (simp add: s' refresh_def add_refresh_token_def revoke_token_def)
  have ok': "db_ok d'" using ok u by (rule session_update_ok)
  show ?thesis
    using acquire_by_token_row [OF ok' rows(1)] acquire_by_token_row [OF ok' rows(2)] rb(1) r s(2) n(3) p'
    by simp
qed

lemma upsert_tokens_append:
  "upsert_tokens (rs @ qs) d = rbind (upsert_tokens rs d) (upsert_tokens qs)"
proof (induction rs arbitrary: d)
  case (Cons r rs)
  then show ?case by (cases "upsert_token r d") auto
qed simp

lemma session_update_append:
  assumes ok: "db_ok d" and s: "session_acquire_by_session_id i d = Inr (Some s)"
    and ev: "session_evolves s s' f [n]"
    and f: "\<And>t. rt_id (f t) = rt_id t \<and> rt_token_hash (f t) = rt_token_hash t \<and>
              rt_created_at (f t) = rt_created_at t"
    and n: "rt_id n \<notin> tr_id ` set (refresh_tokens d)" "rt_token_hash n \<notin> tr_token_hash ` set (refresh_tokens d)"
  shows "\<exists>d'. session_update s' d = Inr d'"
proof -
  let ?old = "s'\<lparr>s_refresh_tokens := map f (s_refresh_tokens s)\<rparr>"
  have i: "s_session_id s' = i" using ev session_acquire_tokens(3) [OF s] by (simp add: session_evolves_def)
  have t: "s_refresh_tokens s' = map f (s_refresh_tokens s) @ [n]" using ev by (simp add: session_evolves_def)
  obtain D where D: "session_update ?old d = Inr D" "has_session i D"
    "tr_id ` set (refresh_tokens D) = tr_id ` set (refresh_tokens d)"
    "tr_token_hash ` set (refresh_tokens D) = tr_token_hash ` set (refresh_tokens d)"
  proof (rule that)
    have "has_session i d"
      using s by (auto simp: session_acquire_Some has_session_iff dest!: find_row_Some_iff)
    then show "has_session i (d\<lparr>sessions := update_where (\<lambda>r. sr_session_id r = i)
        (\<lambda>r. r\<lparr>sr_is_revoked := s_is_revoked ?old, sr_expires_at := s_expires_at ?old\<rparr>) (sessions d),
        refresh_tokens := map (overlay (map (token_to_row i \<circ> f) (s_refresh_tokens s))) (refresh_tokens d)\<rparr>)"
      by (simp add: has_session_def list_ex_update_where)
    show "session_update ?old d = Inr (d\<lparr>sessions := update_where (\<lambda>r. sr_session_id r = i)
        (\<lambda>r. r\<lparr>sr_is_revoked := s_is_revoked ?old, sr_expires_at := s_expires_at ?old\<rparr>) (sessions d),
        refresh_tokens := map (overlay (map (token_to_row i \<circ> f) (s_refresh_tokens s))) (refresh_tokens d)\<rparr>)"
      by (rule session_update_present [OF ok s _ _ f]) (simp_all add: i)
  qed (simp_all add: image_image)
  have "session_update s' d = rbind (session_update ?old d) (upsert_tokens [token_to_row i n])"
    by (simp add: session_update_def i t upsert_tokens_append)
  also have "\<dots> = Inr (D\<lparr>refresh_tokens := refresh_tokens D @ [token_to_row i n]\<rparr>)"
    using n by (simp add: D upsert_token_def list_ex_key insert_token_def)
  finally show ?thesis by blast
qed

lemma upsert_tokens_frame: "upsert_tokens rs d = Inr d' \<Longrightarrow> d' = d\<lparr>refresh_tokens := refresh_tokens d'\<rparr>"
proof (induction rs arbitrary: d)
  case (Cons r rs)
  then obtain d1 where d1: "upsert_token r d = Inr d1" "upsert_tokens rs d1 = Inr d'" by (auto simp: rbind_eq_Inr)
  obtain ts where ts: "d1 = d\<lparr>refresh_tokens := ts\<rparr>" using upsert_token_table [OF d1(1)] by blast
  have "d' = d\<lparr>refresh_tokens := ts, refresh_tokens := refresh_tokens d'\<rparr>"
    using Cons.IH [OF d1(2)] unfolding ts .
  then show ?case by simp
qed simp

lemma session_update_frame:
  assumes "session_update s d = Inr d'"
  shows "users d' = users d" "outbox_events d' = outbox_events d" "audit_logs d' = audit_logs d" "has_user u d' = has_user u d"
proof -
  obtain ss ts where "d' = d\<lparr>sessions := ss, refresh_tokens := ts\<rparr>"
    using upsert_tokens_frame [OF assms [unfolded session_update_def]] by blast
  then show "users d' = users d" "outbox_events d' = outbox_events d" "audit_logs d' = audit_logs d" "has_user u d' = has_user u d"
    by simp_all
qed

lemma session_owner_exists:
  assumes "db_ok d" and "session_acquire_by_session_id i d = Inr (Some s)"
  shows "has_user (s_user_id s) d"
  using assms by (auto simp: session_acquire_Some db_ok_def sessions_ok_def list_all_iff dest!: find_row_Some_iff)

lemma presented_unrevoked:
  assumes "db_ok d" and a: "session_acquire_by_token_hash h d = Inr (Some old)"
    and p: "find_refresh_token h old = Some p"
  shows "\<not> rt_is_revoked p"
proof
  assume r: "rt_is_revoked p"
  note s = acquire_by_token_session [OF a]
  from find_refresh_token_Some [OF p] have m: "p \<in> set (s_refresh_tokens old)" "rt_token_hash p = h" by auto
  then have "token_to_row (s_session_id old) p \<in> set (session_tokens (s_session_id old) d)"
    unfolding session_acquire_tokens(1) [OF s(1), symmetric] by simp
  then have "token_to_row (s_session_id old) p \<in> set (refresh_tokens d)" by (simp add: session_tokens_def)
  from acquire_by_token_row [OF assms(1) this] s r a m(2) show False by simp
qed

end
