(* ===== verification/User_Service.thy ===== *)
theory User_Service
  imports Unit_Of_Work Revocation
begin

text \<open>
  UserService (application/user/services.py) over the repositories and the unit of work. Each
  method is an action on the request state \<open>st\<close>; a raised exception is the Inl outcome and leaves
  the state as it was reached. \<open>svc_\<close> marks the service's methods.
\<close>

definition MAX_FAILED_ATTEMPTS :: int where
  "MAX_FAILED_ATTEMPTS = 5"

definition LOCKOUT_DURATION_MINUTES :: int where
  "LOCKOUT_DURATION_MINUTES = 15"

definition SESSION_EXPIRE_SECONDS :: int where
  "SESSION_EXPIRE_SECONDS = 60 * 60 * 24 * 30"

definition REFRESH_TOKEN_EXPIRE_SECONDS :: int where
  "REFRESH_TOKEN_EXPIRE_SECONDS = 60 * 60 * 24 * 7"

text \<open>Python's truth value of an optional string.\<close>

fun truthy :: "string option \<Rightarrow> bool" where
  "truthy None = False"
| "truthy (Some s) = (s \<noteq> [])"

definition register_user :: "user \<Rightarrow> unit action" where
  "register_user u = register (''User'', u_id u) (u_events u)"

definition register_session :: "session \<Rightarrow> unit action" where
  "register_session s = register (''SessionAggregate'', s_session_id s) (s_events s)"

text \<open>\<open>await user_repo.update(user); uow.register(user)\<close>; the user answered has the new version.\<close>

definition save_user :: "env \<Rightarrow> user \<Rightarrow> user action" where
  "save_user E u =
     bnd (on_work_with (user_update E u)) (\<lambda>u'. thn (register_user u') (ret u'))"

definition save_session :: "session \<Rightarrow> unit action" where
  "save_session s = thn (on_work (session_update s)) (register_session s)"

definition svc_create ::
    "env \<Rightarrow> datetime \<Rightarrow> user_id \<Rightarrow> string \<Rightarrow> codepoints \<Rightarrow> string option option \<Rightarrow> string option \<Rightarrow> user action" where
  "svc_create E now user_id username password email verification_token =
     bnd (query (\<lambda>d. Inr (check_username_exists username d))) (\<lambda>username_exists.
     if username_exists then throw (UsernameAlreadyExistsError (Some username))
     else
       (let effective_email = (case email of None \<Rightarrow> None | Some m \<Rightarrow> m) in
        bnd (if truthy effective_email
             then query (\<lambda>d. Inr (check_email_exists effective_email d)) else ret False) (\<lambda>email_exists.
        if email_exists then throw (EmailAlreadyExistsError effective_email)
        else
          bnd (next_draw 1) (\<lambda>salt.
          bnd (lift (HashedPassword (bcrypt_hashpw E password salt))) (\<lambda>hashed.
          bnd (if truthy verification_token then ret (the verification_token)
               else bnd (next_draw 1) (\<lambda>k. ret (uuid_str (uuid4 E k)))) (\<lambda>token.
            (let u = user_create E now user_id username effective_email hashed token in
             thn (on_work (user_add E u)) (thn (register_user u) (ret u))))))))) "

definition build_session :: "env \<Rightarrow> nat \<Rightarrow> datetime \<Rightarrow> user \<Rightarrow> device_info \<Rightarrow> session \<times> string" where
  "build_session E k now u device_info =
     (let s = session_create E k now (u_id u) device_info SESSION_EXPIRE_SECONDS;
          raw_refresh_token = token_urlsafe E 32 (k + 1) in
      (add_refresh_token
         \<lparr>rt_token_hash = from_raw E raw_refresh_token, rt_id = uuid4 E (k + 2),
          rt_expires_at = now + seconds REFRESH_TOKEN_EXPIRE_SECONDS, rt_is_revoked = False,
          rt_created_at = now\<rparr> s,
       raw_refresh_token))"

definition find_login_user :: "env \<Rightarrow> string option \<Rightarrow> string option \<Rightarrow> user option action" where
  "find_login_user E username email =
     (if truthy username
      then bnd (lift (Username (the username))) (\<lambda>n. query (user_acquire_by_username E n))
      else if truthy email
      then bnd (lift (Email email)) (\<lambda>m. query (user_acquire_by_email E m))
      else ret None)"

text \<open>authenticate answers the user, if one was found, and the session with its raw token when
  the password was right.\<close>

definition svc_authenticate ::
    "env \<Rightarrow> datetime \<Rightarrow> codepoints \<Rightarrow> string option \<Rightarrow> string option \<Rightarrow> device_info option \<Rightarrow>
     (user option \<times> (session \<times> string) option) action" where
  "svc_authenticate E now password username email device_info =
     (if \<not> truthy username \<and> \<not> truthy email then ret (None, None)
      else
        bnd (find_login_user E username email) (\<lambda>found.
          case found of
            None \<Rightarrow> ret (None, None)
          | Some u \<Rightarrow>
              if user_is_locked u now then ret (Some u, None)
              else if is_deleted u then ret (Some u, None)
              else if \<not> bcrypt_checkpw E password (u_hashed_password u)
              then bnd (save_user E (record_failed_login_attempt now MAX_FAILED_ATTEMPTS
                          LOCKOUT_DURATION_MINUTES u)) (\<lambda>u'. ret (Some u', None))
              else
                bnd (save_user E (record_successful_login u)) (\<lambda>u'.
                bnd (next_draw 3) (\<lambda>k.
                  ret (Some u', Some (build_session E k now u'
                        (case device_info of None \<Rightarrow> DeviceInfo None None | Some x \<Rightarrow> x)))))))"

definition svc_persist_session :: "session \<Rightarrow> unit action" where
  "svc_persist_session s = thn (on_work (session_add s)) (register_session s)"

definition svc_start_session :: "env \<Rightarrow> datetime \<Rightarrow> user \<Rightarrow> device_info \<Rightarrow> (session \<times> string) action" where
  "svc_start_session E now u device_info =
     bnd (next_draw 3) (\<lambda>k.
       (let (s, raw) = build_session E k now u device_info in
        thn (svc_persist_session s) (ret (s, raw))))"

text \<open>What follows the first query of a refresh and of a reset.\<close>

definition refresh_found :: "env \<Rightarrow> datetime \<Rightarrow> bytes \<Rightarrow> session option \<Rightarrow> (session \<times> user \<times> string) action" where
  "refresh_found E now token_hash found =
     (case found of
        None \<Rightarrow> throw (InvalidCredentialsError None)
      | Some s \<Rightarrow>
          if session_is_expired s now then throw (InvalidCredentialsError None)
          else
            (case find_refresh_token token_hash s of
               None \<Rightarrow> throw (InvalidCredentialsError None)
             | Some presented \<Rightarrow>
                 if \<not> rt_is_valid presented now
                 then thn (save_session (revoke s)) (throw RefreshTokenReuseError)
                 else
                   bnd (query (user_acquire_by_id E (s_user_id s))) (\<lambda>owner.
                     case owner of
                       None \<Rightarrow> throw (InvalidCredentialsError None)
                     | Some u \<Rightarrow>
                         if is_deleted u then throw (InvalidCredentialsError None)
                         else if user_is_locked u now
                         then throw (AccountLockedError (Some (uuid_str (u_id u))))
                         else
                           bnd (next_draw 2) (\<lambda>k.
                             (let raw = token_urlsafe E 32 k;
                                  fresh = \<lparr>rt_token_hash = from_raw E raw, rt_id = uuid4 E (k + 1),
                                    rt_expires_at = now + seconds REFRESH_TOKEN_EXPIRE_SECONDS,
                                    rt_is_revoked = False, rt_created_at = now\<rparr>;
                                  s' = refresh now SESSION_EXPIRE_SECONDS
                                         (add_refresh_token fresh (revoke_token (rt_id presented) s)) in
                              thn (save_session s') (ret (s', u, raw)))))))"

definition svc_refresh_session :: "env \<Rightarrow> datetime \<Rightarrow> string \<Rightarrow> (session \<times> user \<times> string) action" where
  "svc_refresh_session E now refresh_token_str =
     (let token_hash = from_raw E refresh_token_str in
      bnd (query (session_acquire_by_token_hash token_hash)) (refresh_found E now token_hash))"

definition svc_revoke_session :: "uuid \<Rightarrow> user_id \<Rightarrow> session option action" where
  "svc_revoke_session session_id user_id =
     bnd (query (session_acquire_by_session_id session_id)) (\<lambda>found.
       case found of
         None \<Rightarrow> ret None
       | Some s \<Rightarrow>
           if s_user_id s = user_id
           then thn (save_session (revoke s)) (ret (Some (revoke s)))
           else ret None)"

definition svc_revoke_all_sessions :: "user_id \<Rightarrow> session list action" where
  "svc_revoke_all_sessions user_id =
     bnd (query (session_acquire_by_user_id user_id)) (\<lambda>ss.
       thn (for_each (map revoke ss) save_session) (ret (map revoke ss)))"

definition svc_get_user_sessions :: "user_id \<Rightarrow> session list action" where
  "svc_get_user_sessions user_id = query (session_acquire_by_user_id user_id)"

definition svc_update_session :: "session \<Rightarrow> unit action" where
  "svc_update_session s = save_session s"

definition svc_verify_email :: "env \<Rightarrow> datetime \<Rightarrow> string \<Rightarrow> user action" where
  "svc_verify_email E now token =
     bnd (query (user_acquire_by_verification_token E (from_raw E token))) (\<lambda>found.
       case found of
         None \<Rightarrow> throw (InvalidTokenError (Some ''Invalid or expired verification token''))
       | Some u \<Rightarrow>
           if \<not> verify_email E now u token
           then throw (InvalidTokenError (Some ''Invalid or expired verification token''))
           else save_user E (mark_email_verified now u))"

definition svc_request_password_reset :: "env \<Rightarrow> datetime \<Rightarrow> string option \<Rightarrow> user option action" where
  "svc_request_password_reset E now email =
     bnd (query (user_acquire_by_email E email)) (\<lambda>found.
       case found of
         None \<Rightarrow> ret None
       | Some u \<Rightarrow>
           bnd (next_draw 1) (\<lambda>k.
           bnd (save_user E (request_password_reset E k now 1 u)) (\<lambda>u'. ret (Some u'))))"

definition reset_found :: "env \<Rightarrow> datetime \<Rightarrow> string \<Rightarrow> codepoints \<Rightarrow> user option \<Rightarrow> user action" where
  "reset_found E now token new_password found =
     (case found of
        None \<Rightarrow> throw (InvalidTokenError (Some ''Invalid or expired password reset token''))
      | Some u \<Rightarrow>
          bnd (next_draw 1) (\<lambda>salt.
          bnd (lift (HashedPassword (bcrypt_hashpw E new_password salt))) (\<lambda>hashed.
          bnd (lift (reset_password E now token hashed u)) (\<lambda>changed.
          bnd (save_user E changed) (\<lambda>u'.
            thn (svc_revoke_all_sessions (u_id u)) (ret u'))))))"

definition svc_reset_password :: "env \<Rightarrow> datetime \<Rightarrow> string \<Rightarrow> codepoints \<Rightarrow> user action" where
  "svc_reset_password E now token new_password =
     bnd (query (user_acquire_by_reset_token E (from_raw E token))) (reset_found E now token new_password)"

definition svc_change_password :: "env \<Rightarrow> user \<Rightarrow> codepoints \<Rightarrow> codepoints \<Rightarrow> user action" where
  "svc_change_password E u old_password new_password =
     bnd (next_draw 1) (\<lambda>salt.
     bnd (lift (HashedPassword (bcrypt_hashpw E new_password salt))) (\<lambda>hashed.
     bnd (lift (change_password E old_password hashed u)) (\<lambda>changed.
     bnd (save_user E changed) (\<lambda>u'.
       thn (svc_revoke_all_sessions (u_id u)) (ret u')))))"

definition svc_delete_user :: "env \<Rightarrow> datetime \<Rightarrow> user_id \<Rightarrow> user action" where
  "svc_delete_user E now user_id =
     bnd (query (user_acquire_by_id E user_id)) (\<lambda>found.
       case found of
         None \<Rightarrow> throw (UserNotFoundError (Some (uuid_str user_id)))
       | Some u \<Rightarrow>
           if is_deleted u then ret u
           else thn (svc_revoke_all_sessions user_id) (save_user E (delete now u)))"

definition svc_get_user_by_id :: "env \<Rightarrow> user_id \<Rightarrow> user action" where
  "svc_get_user_by_id E user_id =
     bnd (query (user_acquire_by_id E user_id)) (\<lambda>found.
       case found of
         None \<Rightarrow> throw (UserNotFoundError (Some (uuid_str user_id)))
       | Some u \<Rightarrow> if is_deleted u then throw (UserIsDeletedError user_id) else ret u)"

text \<open>update_user: \<open>username\<close> and \<open>email\<close> are the optional value objects.\<close>

definition svc_update_user ::
    "env \<Rightarrow> datetime \<Rightarrow> user \<Rightarrow> string option \<Rightarrow> string option option \<Rightarrow> user action" where
  "svc_update_user E now u username email =
     (if is_deleted u then throw (UserIsDeletedError (u_id u))
      else
        bnd (case username of
               None \<Rightarrow> ret u
             | Some n \<Rightarrow>
                 if n = u_username u then ret u
                 else bnd (query (\<lambda>d. Inr (check_username_exists n d))) (\<lambda>x.
                   if x then throw (UsernameAlreadyExistsError (Some n)) else ret (update_username n u)))
          (\<lambda>u1.
        bnd (case email of
               None \<Rightarrow> ret u1
             | Some m \<Rightarrow>
                 if m = u_email u then ret u1
                 else bnd (query (\<lambda>d. Inr (check_email_exists m d))) (\<lambda>x.
                   if x then throw (EmailAlreadyExistsError m)
                   else bnd (next_draw 1) (\<lambda>k. ret (update_email E k now m u1))))
          (\<lambda>u2. save_user E u2)))"

section \<open>Saving users and sessions\<close>

lemma on_work_with_eq [act_simps]:
  "on_work_with f s = (Inr x, s') \<longleftrightarrow> (\<exists>d. f (st_work s) = Inr (x, d) \<and> s' = s\<lparr>st_work := d\<rparr>)"
  "on_work_with f s = (Inl e, s') \<longleftrightarrow> f (st_work s) = Inl e \<and> s' = s"
  by (auto simp: on_work_with_def split: sum.splits)

text \<open>What is waiting in the unit of work, and the freshness of its references.\<close>

definition uow_ok :: "st \<Rightarrow> bool" where
  "uow_ok s = uow_wf (st_uow s)"

abbreviation queued :: "st \<Rightarrow> event list" where
  "queued s \<equiv> waiting (st_uow s)"

lemma register_eq:
  "uow_ok s \<Longrightarrow> \<exists>w. register i es s = (Inr (), s\<lparr>st_uow := w\<rparr>) \<and> uow_wf w \<and> waiting w = queued s @ es"
  unfolding uow_ok_def by (rule register_run)

lemma save_user_Inr:
  assumes "uow_ok s" and "save_user E u s = (Inr u', s')"
  shows "\<exists>d w. user_update E u (st_work s) = Inr (u', d) \<and> s' = s\<lparr>st_work := d, st_uow := w\<rparr> \<and>
           uow_ok s' \<and> queued s' = queued s @ u_events u"
proof -
  from assms(2) obtain d where u: "user_update E u (st_work s) = Inr (u', d)"
    and r: "thn (register_user u') (ret u') (s\<lparr>st_work := d\<rparr>) = (Inr u', s')"
    by (auto simp: save_user_def bnd_eq_Inr on_work_with_eq thn_eq_Inr)
  have e: "u_events u' = u_events u" using user_update_result [OF u] by simp
  have "uow_ok (s\<lparr>st_work := d\<rparr>)" using assms(1) by (simp add: uow_ok_def)
  from register_eq [OF this, of "(''User'', u_id u')" "u_events u"] obtain w where
    "register_user u' (s\<lparr>st_work := d\<rparr>) = (Inr (), s\<lparr>st_work := d, st_uow := w\<rparr>)" "uow_wf w"
    "waiting w = queued s @ u_events u" unfolding register_user_def e by auto
  with r u show ?thesis by (auto simp: thn_Inr uow_ok_def)
qed

lemma save_user_Inl:
  assumes "uow_ok s" and "save_user E u s = (Inl e, s')"
  shows "user_update E u (st_work s) = Inl e \<and> s' = s"
  using assms by (auto simp: save_user_def bnd_eq_Inl on_work_with_eq thn_eq_Inl register_user_def
      register_def)

lemma save_session_Inr:
  assumes "uow_ok s" and "save_session x s = (Inr u, s')"
  shows "\<exists>d w. session_update x (st_work s) = Inr d \<and> s' = s\<lparr>st_work := d, st_uow := w\<rparr> \<and>
           uow_ok s' \<and> queued s' = queued s @ s_events x"
proof -
  from assms(2) obtain d where d: "session_update x (st_work s) = Inr d"
    and r: "register_session x (s\<lparr>st_work := d\<rparr>) = (Inr u, s')"
    by (auto simp: save_session_def thn_eq_Inr on_work_eq)
  have "uow_ok (s\<lparr>st_work := d\<rparr>)" using assms(1) by (simp add: uow_ok_def)
  from register_eq [OF this, of "(''SessionAggregate'', s_session_id x)" "s_events x"] r d
  show ?thesis unfolding register_session_def by (auto simp: uow_ok_def)
qed

lemma save_session_succeeds:
  assumes "uow_ok s" and "session_update x (st_work s) = Inr d"
  shows "\<exists>w. save_session x s = (Inr (), s\<lparr>st_work := d, st_uow := w\<rparr>) \<and> uow_wf w \<and>
           waiting w = queued s @ s_events x"
proof -
  have "uow_ok (s\<lparr>st_work := d\<rparr>)" using assms(1) by (simp add: uow_ok_def)
  from register_eq [OF this, of "(''SessionAggregate'', s_session_id x)" "s_events x"] assms(2)
  show ?thesis unfolding save_session_def register_session_def
    by (auto simp: thn_def bnd_def on_work_def)
qed

section \<open>Revoking every session of a user\<close>

lemma acquired_no_events: "session_acquire_by_session_id i d = Inr (Some x) \<Longrightarrow> s_events x = []"
  by (auto simp: session_acquire_Some)

lemma revoke_events: "s_events (revoke x) = s_events x @ [SessionRevokedEvent (s_session_id x) (s_user_id x)]"
  by (simp add: revoke_def record_event_def)

lemma save_all_revoked:
  assumes "uow_ok s" and "db_ok (st_work s)" and "distinct (map s_session_id ss)"
    and "list_all (\<lambda>x. session_acquire_by_session_id (s_session_id x) (st_work s) = Inr (Some x)) ss"
  shows "\<exists>w. for_each (map revoke ss) save_session s =
             (Inr (), s\<lparr>st_work := revoke_rows (s_session_id ` set ss) (st_work s), st_uow := w\<rparr>) \<and> uow_wf w \<and>
           waiting w = queued s @ map (\<lambda>x. SessionRevokedEvent (s_session_id x) (s_user_id x)) ss"
  using assms
proof (induction ss arbitrary: s)
  case Nil
  then show ?case by (intro exI [of _ "st_uow s"]) (simp add: revoke_rows_empty uow_ok_def)
next
  case (Cons x ss)
  let ?d = "revoke_rows {s_session_id x} (st_work s)"
  have x: "session_acquire_by_session_id (s_session_id x) (st_work s) = Inr (Some x)"
    using Cons.prems by simp
  obtain w where w: "save_session (revoke x) s = (Inr (), s\<lparr>st_work := ?d, st_uow := w\<rparr>)" "uow_wf w"
    "waiting w = queued s @ [SessionRevokedEvent (s_session_id x) (s_user_id x)]"
    using save_session_succeeds [OF Cons.prems(1) revoke_update [OF Cons.prems(2) x]]
    by (auto simp: revoke_events acquired_no_events [OF x])
  let ?s = "s\<lparr>st_work := ?d, st_uow := w\<rparr>"
  have "list_all (\<lambda>y. session_acquire_by_session_id (s_session_id y) (st_work ?s) = Inr (Some y)) ss"
    using Cons.prems(3,4) by (auto simp: list_all_iff revoke_rows_acquire_other notin_image_iff)
  from Cons.IH [OF _ _ _ this] Cons.prems(2,3) w(2) obtain w' where
    "for_each (map revoke ss) save_session ?s =
       (Inr (), ?s\<lparr>st_work := revoke_rows (s_session_id ` set ss) ?d, st_uow := w'\<rparr>)" "uow_wf w'"
    "waiting w' = waiting w @ map (\<lambda>x. SessionRevokedEvent (s_session_id x) (s_user_id x)) ss"
    by (auto simp: uow_ok_def revoke_rows_ok)
  then show ?case using w(1,3)
    by (intro exI [of _ w']) (simp add: thn_Inr revoke_rows_comp)
qed

lemma list_all2_right: "list_all2 (\<lambda>r x. P r x \<and> Q x) rs xs \<Longrightarrow> list_all Q xs"
  by (induction rule: list_all2_induct) auto

lemma revoke_all_run:
  assumes "uow_ok s" and ok: "db_ok (st_work s)"
    and q: "session_acquire_by_user_id i (st_work s) = Inr ss"
  shows "\<exists>w. svc_revoke_all_sessions i s =
             (Inr (map revoke ss), s\<lparr>st_work := revoke_rows (set (live_sessions i (st_work s))) (st_work s),
                 st_uow := w\<rparr>) \<and> uow_wf w \<and>
           waiting w = queued s @ map (\<lambda>x. SessionRevokedEvent (s_session_id x) (s_user_id x)) ss"
proof -
  note ids = acquire_by_user_ids [OF ok q]
  have "list_all (\<lambda>x. session_acquire_by_session_id (s_session_id x) (st_work s) = Inr (Some x)) ss"
    by (rule list_all2_right [where P = "\<lambda>r x. s_session_id x = sr_session_id r"],
        rule list.rel_mono_strong [OF acquire_by_user_each [OF ok q]]) simp
  moreover have "distinct (map s_session_id ss)"
    using ok unfolding ids live_sessions_def by (simp add: db_ok_def sessions_ok_def distinct_map_filter)
  moreover have "s_session_id ` set ss = set (live_sessions i (st_work s))"
    unfolding ids [symmetric] by simp
  ultimately show ?thesis
    using save_all_revoked [of s ss] assms
    by (fastforce simp: svc_revoke_all_sessions_def bnd_def thn_Inr)
qed

lemma revoke_all_Inr:
  assumes "uow_ok s" and "db_ok (st_work s)" and r: "svc_revoke_all_sessions i s = (Inr xs, s')"
  shows "\<exists>w. s' = s\<lparr>st_work := revoke_rows (set (live_sessions i (st_work s))) (st_work s), st_uow := w\<rparr> \<and>
           uow_ok s' \<and> queued s' = queued s @ map (\<lambda>x. SessionRevokedEvent (s_session_id x) (s_user_id x)) xs"
proof -
  from r obtain ss where "session_acquire_by_user_id i (st_work s) = Inr ss"
    by (auto simp: svc_revoke_all_sessions_def bnd_eq_Inr)
  from revoke_all_run [OF assms(1,2) this] obtain w where
    "svc_revoke_all_sessions i s =
       (Inr (map revoke ss), s\<lparr>st_work := revoke_rows (set (live_sessions i (st_work s))) (st_work s), st_uow := w\<rparr>)"
    "uow_wf w" "waiting w = queued s @ map (\<lambda>x. SessionRevokedEvent (s_session_id x) (s_user_id x)) ss"
    by blast
  with r show ?thesis by (intro exI [of _ w]) (auto simp: uow_ok_def comp_def)
qed

end
