(* ===== verification/Preserves.thy ===== *)
theory Preserves
  imports User_Service
begin

text \<open>
  Invariants of actions: \<open>preserves P m\<close> says that m keeps P whether it returns or raises. The
  rules in \<open>pres\<close> follow the combinators, so that the frame of a use case is read off its text.
  \<open>session_frame S\<close> is the invariant used most: neither the transaction nor the committed database
  has other session rows or refresh tokens than S.
\<close>

named_theorems pres \<open>actions that preserve a predicate\<close>

definition preserves :: "('s \<Rightarrow> bool) \<Rightarrow> ('s, 'e, 'a) act \<Rightarrow> bool" where
  "preserves P m = (\<forall>s. P s \<longrightarrow> P (snd (m s)))"

lemma preservesI: "(\<And>s r s'. P s \<Longrightarrow> m s = (r, s') \<Longrightarrow> P s') \<Longrightarrow> preserves P m"
  by (auto simp: preserves_def) (metis prod.collapse)

lemma preservesD: "preserves P m \<Longrightarrow> m s = (r, s') \<Longrightarrow> P s \<Longrightarrow> P s'"
  by (auto simp: preserves_def dest: spec [of _ s])

lemma preserves_pure [pres]:
  "preserves P (ret x)" "preserves P (throw e)" "preserves P (lift r)" "preserves P (reads f)"
  by (simp_all add: preserves_def)

lemma preserves_query [pres]: "preserves P (query q)"
  by (simp add: preserves_def)

lemma preserves_bnd [pres]:
  assumes "preserves P m" and "\<And>x. preserves P (k x)"
  shows "preserves P (bnd m k)"
proof (rule preservesI)
  fix s r s' assume P: "P s" and m: "bnd m k s = (r, s')"
  obtain o1 s1 where o: "m s = (o1, s1)" by fastforce
  have "P s1" using assms(1) o P by (rule preservesD)
  with m o assms(2) show "P s'" by (cases o1) (auto simp: bnd_def intro: preservesD)
qed

lemma preserves_thn [pres]: "preserves P m \<Longrightarrow> preserves P k \<Longrightarrow> preserves P (thn m k)"
  unfolding thn_def by (rule preserves_bnd)

lemma preserves_for_each [pres]: "(\<And>x. preserves P (f x)) \<Longrightarrow> preserves P (for_each xs f)"
  by (induction xs) (auto intro: pres)

lemma preserves_split [pres]:
  "(b \<Longrightarrow> preserves P m) \<Longrightarrow> (\<not> b \<Longrightarrow> preserves P k) \<Longrightarrow> preserves P (if b then m else k)"
  by simp

lemma preserves_option [pres]:
  "(x = None \<Longrightarrow> preserves P m) \<Longrightarrow> (\<And>y. x = Some y \<Longrightarrow> preserves P (k y)) \<Longrightarrow>
     preserves P (case x of None \<Rightarrow> m | Some y \<Rightarrow> k y)"
  by (cases x) auto

lemma preserves_prod [pres]:
  "(\<And>x y. z = (x, y) \<Longrightarrow> preserves P (k x y)) \<Longrightarrow> preserves P (case z of (x, y) \<Rightarrow> k x y)"
  by (cases z) auto

lemma preserves_let [pres]: "(\<And>x. x = y \<Longrightarrow> preserves P (k x)) \<Longrightarrow> preserves P (let x = y in k x)"
  by (simp add: Let_def)

lemma preserves_modify: "(\<And>s. P s \<Longrightarrow> P (g s)) \<Longrightarrow> preserves P (modify g)"
  by (simp add: preserves_def)

section \<open>The committed database\<close>

definition committed_is :: "db \<Rightarrow> st \<Rightarrow> bool" where
  "committed_is d s = (st_committed s = d)"

lemma committed_pres [pres]:
  "preserves (committed_is d) (on_work f)" "preserves (committed_is d) (on_work_with g)"
  "preserves (committed_is d) (next_draw n)" "preserves (committed_is d) (metric c l)"
  "preserves (committed_is d) (register i es)" "preserves (committed_is d) (on_cache h)"
  "preserves (committed_is d) (on_cache_may_fail h')"
  by (auto simp: preserves_def committed_is_def on_work_def on_work_with_def metric_def register_def
      on_cache_def on_cache_may_fail_def case_prod_unfold Let_def split: sum.splits)

lemma committed_save [pres]:
  "preserves (committed_is d) (save_user E u)" "preserves (committed_is d) (save_session x)"
  "preserves (committed_is d) (svc_persist_session x)"
  unfolding save_user_def save_session_def register_user_def register_session_def svc_persist_session_def
  by (intro pres)+

lemma committed_refresh [pres]: "preserves (committed_is d) (svc_refresh_session E now token)"
  unfolding svc_refresh_session_def refresh_found_def [abs_def] by (intro pres)

lemma committed_authenticate [pres]:
  "preserves (committed_is d) (svc_authenticate E now p n m i)"
  unfolding svc_authenticate_def find_login_user_def by (intro pres)

lemma committed_start [pres]: "preserves (committed_is d) (svc_start_session E now u i)"
  unfolding svc_start_session_def by (intro pres)

section \<open>Sessions and refresh tokens\<close>

definition session_tables :: "db \<Rightarrow> session_row list \<times> refresh_token_row list" where
  "session_tables d = (sessions d, refresh_tokens d)"

definition session_frame :: "session_row list \<times> refresh_token_row list \<Rightarrow> st \<Rightarrow> bool" where
  "session_frame S s = (session_tables (st_work s) = S \<and> session_tables (st_committed s) = S)"

lemma frame_pres [pres]:
  "preserves (session_frame S) (next_draw n)" "preserves (session_frame S) (metric c l)"
  "preserves (session_frame S) (register i es)" "preserves (session_frame S) (on_cache h)"
  "preserves (session_frame S) (on_cache_may_fail h')"
  by (auto simp: preserves_def session_frame_def metric_def register_def
      on_cache_def on_cache_may_fail_def case_prod_unfold Let_def split: sum.splits)

lemma frame_user_update [pres]: "preserves (session_frame S) (on_work_with (user_update E u))"
  by (auto simp: preserves_def session_frame_def session_tables_def on_work_with_def user_update_def
      Let_def split: sum.splits option.splits if_splits)

lemma frame_save_user [pres]: "preserves (session_frame S) (save_user E u)"
  unfolding save_user_def register_user_def by (intro pres)

lemma frame_commit [pres]: "preserves (session_frame S) (commit E now)"
proof (rule preservesI)
  fix s r s' assume "session_frame S s" "commit E now s = (r, s')"
  with commit_cases [of E now s] show "session_frame S s'"
    by (auto simp: session_frame_def session_tables_def)
qed

lemma frame_authenticate [pres]: "preserves (session_frame S) (svc_authenticate E now p n m i)"
  unfolding svc_authenticate_def find_login_user_def by (intro pres)

text \<open>A commit that raises leaves the committed database as it was.\<close>

lemma commit_Inl: "commit E now s = (Inl e, s') \<Longrightarrow> st_committed s' = st_committed s"
  using commit_cases [of E now s] by auto

lemma commit_Inr:
  "commit E now s = (Inr u, s') \<Longrightarrow> \<exists>k es. s' = s\<lparr>st_committed := with_events E (st_draw s) now es (st_work s),
     st_work := with_events E (st_draw s) now es (st_work s), st_uow := empty_uow, st_draw := k\<rparr>"
  using commit_cases [of E now s] by auto

lemma commit_empty:
  "waiting (st_uow s) = [] \<Longrightarrow> \<exists>k. commit E now s = (Inr (), s\<lparr>st_committed := st_work s, st_uow := empty_uow, st_draw := k\<rparr>)"
proof -
  assume "waiting (st_uow s) = []"
  then have "drain (st_uow s) = ([], empty_uow)" by (simp add: waiting_def drain_def)
  then show ?thesis
    by (intro exI [of _ "st_draw s"]) (simp add: commit_def bnd_def drain_uow_def thn_def)
qed

lemma with_events_queries [simp]:
  "session_acquire_by_token_hash h (with_events E k now es d) = session_acquire_by_token_hash h d"
  "session_acquire_by_session_id i (with_events E k now es d) = session_acquire_by_session_id i d"
  "session_acquire_by_user_id u (with_events E k now es d) = session_acquire_by_user_id u d"
  "user_acquire_by_id E' u (with_events E k now es d) = user_acquire_by_id E' u d"
  "live_sessions u (with_events E k now es d) = live_sessions u d"
  "session_tables (with_events E k now es d) = session_tables d"
  unfolding session_acquire_by_token_hash_def session_acquire_by_session_id_def session_tokens_def
    session_acquire_by_user_id_def refresh_tokens_for_def user_acquire_by_id_def with_events_tables
    live_sessions_def session_tables_def
  by (rule refl)+

lemma persist_Inr:
  assumes "svc_persist_session x s = (Inr u, s')"
  shows "\<exists>d w. session_add x (st_work s) = Inr d \<and> s' = s\<lparr>st_work := d, st_uow := w\<rparr>"
  using assms by (auto simp: svc_persist_session_def thn_eq_Inr on_work_eq register_session_def register_def)

text \<open>An action that, when it raises, leaves the committed sessions and tokens as they were.\<close>

named_theorems refusing \<open>actions that raise without writing sessions\<close>

definition refuses :: "session_row list \<times> refresh_token_row list \<Rightarrow> 'a action \<Rightarrow> bool" where
  "refuses S m = (\<forall>s e s'. session_frame S s \<longrightarrow> m s = (Inl e, s') \<longrightarrow> session_tables (st_committed s') = S)"

lemma refusesD:
  "refuses S m \<Longrightarrow> session_frame S s \<Longrightarrow> m s = (Inl e, s') \<Longrightarrow> session_tables (st_committed s') = S"
  by (simp add: refuses_def)

lemma refuses_preserves: "preserves (session_frame S) m \<Longrightarrow> refuses S m"
  by (auto simp: refuses_def session_frame_def dest: preservesD)

lemma refuses_bnd [refusing]:
  assumes "preserves (session_frame S) m" and "\<And>x. refuses S (k x)"
  shows "refuses S (bnd m k)"
  unfolding refuses_def
proof (intro allI impI)
  fix s e s' assume f: "session_frame S s" and "bnd m k s = (Inl e, s')"
  then consider "m s = (Inl e, s')" | x t where "m s = (Inr x, t)" "k x t = (Inl e, s')"
    by (auto simp: bnd_eq_Inl)
  then show "session_tables (st_committed s') = S"
  proof cases
    case 1
    from preservesD [OF assms(1) 1 f] show ?thesis by (simp add: session_frame_def)
  next
    case 2
    from preservesD [OF assms(1) 2(1) f] 2(2) assms(2) show ?thesis unfolding refuses_def by blast
  qed
qed

lemma refuses_thn [refusing]: "preserves (session_frame S) m \<Longrightarrow> refuses S k \<Longrightarrow> refuses S (thn m k)"
  unfolding thn_def by (rule refuses_bnd)

lemma refuses_splits [refusing]:
  "(b \<Longrightarrow> refuses S m) \<Longrightarrow> (\<not> b \<Longrightarrow> refuses S n) \<Longrightarrow> refuses S (if b then m else n)"
  "(o1 = None \<Longrightarrow> refuses S m) \<Longrightarrow> (\<And>y. o1 = Some y \<Longrightarrow> refuses S (f y)) \<Longrightarrow>
     refuses S (case o1 of None \<Rightarrow> m | Some y \<Rightarrow> f y)"
  "(b \<Longrightarrow> refuses S m) \<Longrightarrow> (\<not> b \<Longrightarrow> refuses S n) \<Longrightarrow> refuses S (case b of True \<Rightarrow> m | False \<Rightarrow> n)"
  "(\<And>x y. z = (x, y) \<Longrightarrow> refuses S (g x y)) \<Longrightarrow> refuses S (case z of (x, y) \<Rightarrow> g x y)"
  "(\<And>x. x = v \<Longrightarrow> refuses S (h x)) \<Longrightarrow> refuses S (let x = v in h x)"
  by (simp_all add: Let_def split: option.splits prod.splits bool.splits)

end
