(* ===== verification/Use_Cases.thy ===== *)
theory Use_Cases
  imports Preserves
begin

text \<open>
  The commands of application/user/commands: login, the second factor, refresh, password reset and
  change, email verification, registration, profile, deletion, two-factor management and session
  revocation. Each is an action on the request state with its input record; the limiters and the
  cache of the state are the in-memory ones. Outputs are records with the dataclass fields;
  commands that only report success answer the unit.
\<close>

definition rate_limiter_check :: "rate_limit_config \<Rightarrow> datetime \<Rightarrow> string \<Rightarrow> rate_limit_result action" where
  "rate_limiter_check cfg now key s =
     (let (r, l) = rate_check cfg now key (st_rate s) in (r, s\<lparr>st_rate := l\<rparr>))"

text \<open>\<open>limit = await rate_limiter.check(...)\<close> and the refusal, as the three commands keyed by
  address write it.\<close>

definition limit_by_ip :: "rate_limit_config \<Rightarrow> datetime \<Rightarrow> string \<Rightarrow> string option \<Rightarrow> unit action" where
  "limit_by_ip cfg now prefix ip_address =
     (if truthy ip_address
      then bnd (rate_limiter_check cfg now (prefix @ the ip_address)) (\<lambda>limit.
             if \<not> allowed limit
             then throw (TooManyLoginAttemptsError (retry_after_seconds limit now)) else ret ())
      else ret ())"

section \<open>Login\<close>

record login_input =
  li_password :: codepoints
  li_username :: "string option"
  li_email :: "string option"
  li_user_agent :: "string option"
  li_ip_address :: "string option"
  li_login_challenge :: "string option"

record login_output =
  lo_user_id :: uuid
  lo_session_id :: "string option"
  lo_refresh_token :: "string option"
  lo_requires_two_factor :: bool
  lo_challenge_token :: "string option"

definition attempt_key :: "login_input \<Rightarrow> string option" where
  "attempt_key data =
     (let identifier = (if truthy (li_username data) then li_username data else li_email data) in
      if \<not> truthy (li_ip_address data) \<or> \<not> truthy identifier then None
      else Some (the (li_ip_address data) @ ''|'' @ lower (the identifier)))"

definition login_guard :: "rate_limit_config \<Rightarrow> datetime \<Rightarrow> string option \<Rightarrow> unit action" where
  "login_guard cfg now key =
     (case key of
        None \<Rightarrow> ret ()
      | Some k \<Rightarrow>
          bnd (rate_limiter_check cfg now (''login:'' @ k)) (\<lambda>limit.
            if \<not> allowed limit
            then thn (metric ''rate_limited'' ''login'')
                   (throw (TooManyLoginAttemptsError (retry_after_seconds limit now)))
            else bnd (reads (\<lambda>s. attempts_is_locked cfg now k (st_attempts s))) (\<lambda>locked.
              if locked
              then thn (metric ''rate_limited'' ''login-lockout'') (throw (TooManyLoginAttemptsError None))
              else ret ())))"

definition note_failed_login :: "rate_limit_config \<Rightarrow> datetime \<Rightarrow> string option \<Rightarrow> unit action" where
  "note_failed_login cfg now key =
     (case key of
        None \<Rightarrow> ret ()
      | Some k \<Rightarrow> modify (\<lambda>s. s\<lparr>st_attempts := snd (record_failed_login cfg now k (st_attempts s))\<rparr>))"

definition clear_failed_logins :: "string option \<Rightarrow> unit action" where
  "clear_failed_logins key =
     (case key of
        None \<Rightarrow> ret ()
      | Some k \<Rightarrow> modify (\<lambda>s. s\<lparr>st_attempts := attempts_reset k (st_attempts s)\<rparr>))"

definition login_rejected :: "env \<Rightarrow> datetime \<Rightarrow> user \<Rightarrow> login_output action" where
  "login_rejected E now u =
     thn (commit E now)
       (if user_is_locked u now
        then thn (metric ''login_attempt'' ''locked'') (throw (AccountLockedError (Some (uuid_str (u_id u)))))
        else thn (metric ''login_attempt'' ''bad_password'') (throw (InvalidCredentialsError None)))"

definition login_challenged :: "env \<Rightarrow> datetime \<Rightarrow> login_input \<Rightarrow> device_info \<Rightarrow> user \<Rightarrow> login_output action" where
  "login_challenged E now data device_info u =
     thn (commit E now)
     (thn (metric ''login_attempt'' ''two_factor_required'')
     (bnd (next_draw 1) (\<lambda>k.
      bnd (on_cache (challenge_issue InMemoryCache E k now
             \<lparr>ch_user_id = u_id u, ch_device_info = device_info, ch_attempts = 0,
              ch_login_challenge = li_login_challenge data\<rparr>)) (\<lambda>token.
        ret \<lparr>lo_user_id = u_id u, lo_session_id = None, lo_refresh_token = None,
             lo_requires_two_factor = True, lo_challenge_token = Some token\<rparr>))))"

definition login_succeeded :: "env \<Rightarrow> datetime \<Rightarrow> user \<Rightarrow> session \<Rightarrow> string \<Rightarrow> login_output action" where
  "login_succeeded E now u sess refresh_token =
     thn (svc_persist_session sess)
     (thn (commit E now)
     (thn (metric ''login_attempt'' ''success'')
     (thn (metric ''session_created'' [])
       (ret \<lparr>lo_user_id = u_id u, lo_session_id = Some (uuid_str (s_session_id sess)),
             lo_refresh_token = Some refresh_token, lo_requires_two_factor = False,
             lo_challenge_token = None\<rparr>))))"

definition login :: "env \<Rightarrow> rate_limit_config \<Rightarrow> datetime \<Rightarrow> login_input \<Rightarrow> login_output action" where
  "login E cfg now data =
     (let key = attempt_key data;
          device_info = DeviceInfo (li_user_agent data) (li_ip_address data) in
      thn (login_guard cfg now key)
      (bnd (lift (PlainPassword E (li_password data))) (\<lambda>password.
       bnd (svc_authenticate E now password (li_username data) (li_email data) (Some device_info)) (\<lambda>r.
         case r of
           (None, _) \<Rightarrow>
             thn (note_failed_login cfg now key)
             (thn (metric ''login_attempt'' ''unknown_user'') (throw (InvalidCredentialsError None)))
         | (Some u, None) \<Rightarrow> thn (note_failed_login cfg now key) (login_rejected E now u)
         | (Some u, Some (sess, refresh_token)) \<Rightarrow>
             thn (clear_failed_logins key)
               (if has_two_factor u then login_challenged E now data device_info u
                else login_succeeded E now u sess refresh_token)))))"

section \<open>The second factor\<close>

record complete_two_factor_output =
  co_user_id :: uuid
  co_session_id :: string
  co_refresh_token :: string
  co_login_challenge :: "string option"

definition second_factor_refused ::
    "env \<Rightarrow> datetime \<Rightarrow> string \<Rightarrow> two_factor_challenge \<Rightarrow> complete_two_factor_output action" where
  "second_factor_refused E now token ch =
     thn (on_cache_may_fail (challenge_record_failure InMemoryCache E now token ch))
       (throw TwoFactorChallengeExpiredError)"

definition second_factor_accepted ::
    "env \<Rightarrow> datetime \<Rightarrow> string \<Rightarrow> string \<Rightarrow> two_factor_challenge \<Rightarrow> user \<Rightarrow> complete_two_factor_output action" where
  "second_factor_accepted E now token code ch u =
     thn (on_cache (\<lambda>c. ((), remember InMemoryCache E now (ch_user_id ch) code c)))
     (thn (on_cache (\<lambda>c. ((), challenge_discard InMemoryCache token c)))
     (bnd (svc_start_session E now u (ch_device_info ch)) (\<lambda>(sess, refresh_token).
      thn (commit E now)
        (ret \<lparr>co_user_id = u_id u, co_session_id = uuid_str (s_session_id sess),
              co_refresh_token = refresh_token, co_login_challenge = ch_login_challenge ch\<rparr>))))"

definition check_second_factor ::
    "env \<Rightarrow> datetime \<Rightarrow> string \<Rightarrow> string \<Rightarrow> two_factor_challenge \<Rightarrow> user \<Rightarrow> complete_two_factor_output action" where
  "check_second_factor E now token code ch u =
     bnd (on_cache (was_used InMemoryCache E now (ch_user_id ch) code)) (\<lambda>used.
       if used then second_factor_refused E now token ch
       else
         (case verify_two_factor E now u code of
            (False, _) \<Rightarrow> second_factor_refused E now token ch
          | (True, None) \<Rightarrow> second_factor_accepted E now token code ch u
          | (True, Some updated_user) \<Rightarrow>
              bnd (save_user E updated_user) (\<lambda>u'.
                second_factor_accepted E now token code ch u')))"

definition complete_two_factor ::
    "env \<Rightarrow> datetime \<Rightarrow> string \<Rightarrow> string \<Rightarrow> complete_two_factor_output action" where
  "complete_two_factor E now token code =
     bnd (on_cache_may_fail (challenge_read InMemoryCache E now token)) (\<lambda>ch.
     bnd (lift (UserID (ch_user_id ch))) (\<lambda>uid.
     bnd (query (user_acquire_by_id E uid)) (\<lambda>found.
       case found of
         None \<Rightarrow> thn (on_cache (\<lambda>c. ((), challenge_discard InMemoryCache token c)))
                   (throw TwoFactorChallengeExpiredError)
       | Some u \<Rightarrow>
           if is_deleted u \<or> user_is_locked u now
           then thn (on_cache (\<lambda>c. ((), challenge_discard InMemoryCache token c)))
                  (throw TwoFactorChallengeExpiredError)
           else check_second_factor E now token code ch u)))"

section \<open>Sessions and passwords\<close>

record refresh_token_output =
  ro_user_id :: uuid
  ro_session_id :: string
  ro_expires_at :: string
  ro_refresh_token :: string

definition refresh_token_use_case :: "env \<Rightarrow> datetime \<Rightarrow> string \<Rightarrow> refresh_token_output action" where
  "refresh_token_use_case E now token =
     bnd (svc_refresh_session E now token) (\<lambda>(sess, u, raw).
     thn (commit E now)
       (ret \<lparr>ro_user_id = u_id u, ro_session_id = uuid_str (s_session_id sess),
             ro_expires_at = isoformat E (s_expires_at sess), ro_refresh_token = raw\<rparr>))"

definition request_password_reset_use_case ::
    "env \<Rightarrow> rate_limit_config \<Rightarrow> datetime \<Rightarrow> string \<Rightarrow> string option \<Rightarrow> unit action" where
  "request_password_reset_use_case E cfg now email ip_address =
     thn (limit_by_ip cfg now ''password-reset-request:'' ip_address)
     (bnd (lift (Email (Some email))) (\<lambda>m.
      thn (svc_request_password_reset E now m) (commit E now)))"

definition reset_password_use_case ::
    "env \<Rightarrow> rate_limit_config \<Rightarrow> datetime \<Rightarrow> string \<Rightarrow> codepoints \<Rightarrow> string option \<Rightarrow> unit action" where
  "reset_password_use_case E cfg now token new_password ip_address =
     thn (limit_by_ip cfg now ''password-reset-confirm:'' ip_address)
     (bnd (lift (PlainPassword E new_password)) (\<lambda>p.
      thn (svc_reset_password E now token p) (commit E now)))"

definition change_password_use_case ::
    "env \<Rightarrow> datetime \<Rightarrow> uuid \<Rightarrow> codepoints \<Rightarrow> codepoints \<Rightarrow> unit action" where
  "change_password_use_case E now user_id old_password new_password =
     bnd (lift (UserID user_id)) (\<lambda>i.
     bnd (svc_get_user_by_id E i) (\<lambda>u.
     bnd (lift (PlainPassword E old_password)) (\<lambda>old.
     bnd (lift (PlainPassword E new_password)) (\<lambda>p.
       thn (svc_change_password E u old p) (commit E now)))))"

definition verify_email_use_case :: "env \<Rightarrow> datetime \<Rightarrow> string \<Rightarrow> unit action" where
  "verify_email_use_case E now token = thn (svc_verify_email E now token) (commit E now)"

section \<open>Accounts\<close>

record create_user_input =
  cu_username :: string
  cu_password :: codepoints
  cu_email :: "string option"
  cu_ip_address :: "string option"

definition create_user :: "env \<Rightarrow> rate_limit_config \<Rightarrow> datetime \<Rightarrow> create_user_input \<Rightarrow> uuid action" where
  "create_user E cfg now data =
     thn (limit_by_ip cfg now ''register:'' (cu_ip_address data))
     (bnd (next_draw 1) (\<lambda>k.
      bnd (lift (UserID (uuid4 E k))) (\<lambda>i.
      bnd (lift (Username (cu_username data))) (\<lambda>n.
      bnd (if truthy (cu_email data) then bnd (lift (Email (cu_email data))) (\<lambda>m. ret (Some m))
           else ret None) (\<lambda>m.
      bnd (lift (PlainPassword E (cu_password data))) (\<lambda>p.
      bnd (svc_create E now i n p m None) (\<lambda>u.
      thn (commit E now) (ret (u_id u)))))))))"

definition delete_me :: "env \<Rightarrow> datetime \<Rightarrow> uuid \<Rightarrow> unit action" where
  "delete_me E now user_id =
     bnd (lift (UserID user_id)) (\<lambda>i. thn (svc_delete_user E now i) (commit E now))"

record update_profile_output =
  uo_username :: string
  uo_email :: "string option"
  uo_is_email_verified :: bool
  uo_is_locked :: bool
  uo_has_two_factor :: bool

definition update_profile ::
    "env \<Rightarrow> datetime \<Rightarrow> uuid \<Rightarrow> string option \<Rightarrow> string option \<Rightarrow> update_profile_output action" where
  "update_profile E now user_id username email =
     bnd (lift (UserID user_id)) (\<lambda>i.
     bnd (svc_get_user_by_id E i) (\<lambda>u.
     bnd (if truthy username then bnd (lift (Username (the username))) (\<lambda>n. ret (Some n))
          else ret None) (\<lambda>n.
     bnd (if truthy email then bnd (lift (Email email)) (\<lambda>m. ret (Some m)) else ret None) (\<lambda>m.
     bnd (svc_update_user E now u n m) (\<lambda>updated.
     thn (commit E now)
       (ret \<lparr>uo_username = u_username updated, uo_email = u_email updated,
             uo_is_email_verified = is_verified (u_email_verification updated),
             uo_is_locked = user_is_locked updated now,
             uo_has_two_factor = has_two_factor updated\<rparr>))))))"

section \<open>Two-factor management\<close>

record enable_2fa_output =
  eo_secret :: string
  eo_backup_codes :: "string list"
  eo_provisioning_uri :: string

definition confirm_2fa :: "env \<Rightarrow> datetime \<Rightarrow> uuid \<Rightarrow> string \<Rightarrow> unit action" where
  "confirm_2fa E now user_id code =
     bnd (lift (UserID user_id)) (\<lambda>i.
     bnd (svc_get_user_by_id E i) (\<lambda>u.
     bnd (lift (confirm_two_factor E now code u)) (\<lambda>confirmed.
       thn (svc_update_user E now confirmed None None) (commit E now))))"

definition enable_2fa :: "env \<Rightarrow> datetime \<Rightarrow> uuid \<Rightarrow> enable_2fa_output action" where
  "enable_2fa E now user_id =
     bnd (lift (UserID user_id)) (\<lambda>i.
     bnd (svc_get_user_by_id E i) (\<lambda>u.
       if has_two_factor u then throw TwoFactorAlreadyEnabledError
       else
         bnd (next_draw (Suc BACKUP_CODE_COUNT)) (\<lambda>k.
           (let (pending, backup_codes) = begin_two_factor_enrolment E k u in
            thn (svc_update_user E now pending None None)
            (thn (commit E now)
              (case u_two_factor_secret pending of
                 None \<Rightarrow> throw TwoFactorNotEnrolledError
               | Some t \<Rightarrow>
                   ret \<lparr>eo_secret = secret t, eo_backup_codes = backup_codes,
                        eo_provisioning_uri =
                          totp_provisioning_uri E (secret t) (u_username u)\<rparr>))))))"

definition disable_2fa :: "env \<Rightarrow> datetime \<Rightarrow> uuid \<Rightarrow> codepoints \<Rightarrow> unit action" where
  "disable_2fa E now user_id current_password =
     bnd (lift (UserID user_id)) (\<lambda>i.
     bnd (svc_get_user_by_id E i) (\<lambda>u.
     bnd (lift (PlainPassword E current_password)) (\<lambda>p.
       if \<not> verify_password E u p
       then throw (InvalidCredentialsError (Some ''Invalid current password''))
       else thn (svc_update_user E now (disable_two_factor u) None None) (commit E now))))"

text \<open>Verify2FA updates the user without registering it.\<close>

definition verify_2fa :: "env \<Rightarrow> datetime \<Rightarrow> uuid \<Rightarrow> string \<Rightarrow> bool action" where
  "verify_2fa E now user_id code =
     bnd (lift (UserID user_id)) (\<lambda>i.
     bnd (query (user_acquire_by_id E i)) (\<lambda>found.
       case found of
         None \<Rightarrow> ret False
       | Some u \<Rightarrow>
           (case verify_two_factor E now u code of
              (success, None) \<Rightarrow> ret success
            | (success, Some updated) \<Rightarrow>
                thn (on_work_with (user_update E updated)) (thn (commit E now) (ret success)))))"

section \<open>Session management\<close>

definition revoke_session_use_case :: "env \<Rightarrow> datetime \<Rightarrow> uuid \<Rightarrow> string \<Rightarrow> unit action" where
  "revoke_session_use_case E now user_id session_id =
     bnd (lift (case uuid_parse session_id of
                  None \<Rightarrow> Inl (ValueError ''badly formed hexadecimal UUID string'')
                | Some i \<Rightarrow> Inr i)) (\<lambda>sid.
     bnd (lift (UserID user_id)) (\<lambda>i.
     bnd (svc_revoke_session sid i) (\<lambda>found.
       case found of None \<Rightarrow> ret () | Some _ \<Rightarrow> commit E now)))"

text \<open>RevokeAllSessions up to its commit; the calls to the authorization server that follow it are
  added in the theory of the HTTP interface.\<close>

definition revoke_all_sessions_local :: "env \<Rightarrow> datetime \<Rightarrow> uuid \<Rightarrow> unit action" where
  "revoke_all_sessions_local E now user_id =
     bnd (lift (UserID user_id)) (\<lambda>i. thn (svc_revoke_all_sessions i) (commit E now))"

end
