(* ===== verification/Rbac_Repo.thy ===== *)
theory Rbac_Repo
  imports Database
begin

text \<open>
  The role, permission and assignment repositories
  (infrastructure/db/sqlalchemy/repositories/rbac.py). Operations that insert permissions draw
  identifiers from uuid4 and answer how many they drew.
\<close>

section \<open>Permissions\<close>

definition permission_from_row :: "permission_row \<Rightarrow> app_error + permission" where
  "permission_from_row r = Permission (pr_name r) (pr_description r)"

definition permission_acquire_by_name :: "string \<Rightarrow> db \<Rightarrow> app_error + permission option" where
  "permission_acquire_by_name name d =
     (case find_row (\<lambda>r. pr_name r = name) (permissions d) of
        None \<Rightarrow> Inr None
      | Some r \<Rightarrow> rbind (permission_from_row r) (\<lambda>p. Inr (Some p)))"

definition permission_get_all :: "db \<Rightarrow> app_error + permission list" where
  "permission_get_all d = rmap permission_from_row (permissions d)"

definition insert_permission :: "permission_row \<Rightarrow> db \<Rightarrow> app_error + db" where
  "insert_permission r d =
     (if list_ex (\<lambda>x. pr_id x = pr_id r) (permissions d) then Inl (IntegrityError ''pk_permissions'')
      else if list_ex (\<lambda>x. pr_name x = pr_name r) (permissions d)
      then Inl (IntegrityError ''uq_permissions_name'')
      else Inr (d\<lparr>permissions := permissions d @ [r]\<rparr>))"

definition permission_add :: "env \<Rightarrow> nat \<Rightarrow> permission \<Rightarrow> db \<Rightarrow> app_error + db" where
  "permission_add E draw p d =
     insert_permission \<lparr>pr_id = uuid4 E draw, pr_name = p_name p, pr_description = p_description p\<rparr> d"

section \<open>Roles\<close>

text \<open>_get_role_permissions: permissions JOIN role_permissions.\<close>

definition role_permission_rows :: "uuid \<Rightarrow> db \<Rightarrow> permission_row list" where
  "role_permission_rows i d =
     concat (map (\<lambda>p. map (\<lambda>_. p)
       (filter (\<lambda>x. rp_role_id x = i \<and> rp_permission_id x = pr_id p) (role_permissions d))) (permissions d))"

definition get_role_permissions :: "uuid \<Rightarrow> db \<Rightarrow> app_error + permission list" where
  "get_role_permissions i d = rmap permission_from_row (role_permission_rows i d)"

definition role_from_row :: "db \<Rightarrow> role_row \<Rightarrow> app_error + role" where
  "role_from_row d r =
     rbind (get_role_permissions (rr_id r) d) (\<lambda>ps.
     rbind (RoleID (rr_id r)) (\<lambda>i.
     rbind (RoleName (rr_name r)) (\<lambda>n.
       Inr \<lparr>r_role_id = i, r_name = n, r_description = rr_description r, r_permissions = ps,
            r_events = []\<rparr>)))"

definition role_acquire_by_id :: "role_id \<Rightarrow> db \<Rightarrow> app_error + role option" where
  "role_acquire_by_id i d =
     (case find_row (\<lambda>r. rr_id r = i) (roles d) of
        None \<Rightarrow> Inr None
      | Some r \<Rightarrow> rbind (role_from_row d r) (\<lambda>x. Inr (Some x)))"

definition role_acquire_by_name :: "string \<Rightarrow> db \<Rightarrow> app_error + role option" where
  "role_acquire_by_name name d =
     (case find_row (\<lambda>r. rr_name r = name) (roles d) of
        None \<Rightarrow> Inr None
      | Some r \<Rightarrow> rbind (role_from_row d r) (\<lambda>x. Inr (Some x)))"

definition role_get_all :: "db \<Rightarrow> app_error + role list" where
  "role_get_all d = rmap (role_from_row d) (roles d)"

definition insert_role_permission :: "uuid \<Rightarrow> uuid \<Rightarrow> db \<Rightarrow> app_error + db" where
  "insert_role_permission i p d =
     (let x = \<lparr>rp_role_id = i, rp_permission_id = p\<rparr> in
      if x \<in> set (role_permissions d) then Inl (IntegrityError ''pk_role_permissions'')
      else if \<not> has_role i d then Inl (IntegrityError ''fk_role_permissions_role_id_roles'')
      else if \<not> has_permission_row p d
      then Inl (IntegrityError ''fk_role_permissions_permission_id_permissions'')
      else Inr (d\<lparr>role_permissions := role_permissions d @ [x]\<rparr>))"

text \<open>The identifier of the permission with a name, inserting it when it is missing; the loop
  body shared by \<open>add\<close> and \<open>update\<close>. The second component counts the identifiers drawn.\<close>

definition ensure_permission :: "env \<Rightarrow> nat \<Rightarrow> permission \<Rightarrow> db \<Rightarrow> app_error + (uuid \<times> nat \<times> db)" where
  "ensure_permission E draw p d =
     (case find_row (\<lambda>r. pr_name r = p_name p) (permissions d) of
        Some r \<Rightarrow> Inr (pr_id r, draw, d)
      | None \<Rightarrow> rbind (permission_add E draw p d) (\<lambda>d'. Inr (uuid4 E draw, Suc draw, d')))"

fun role_add_permissions :: "env \<Rightarrow> nat \<Rightarrow> uuid \<Rightarrow> permission list \<Rightarrow> db \<Rightarrow> app_error + (nat \<times> db)" where
  "role_add_permissions E draw i [] d = Inr (draw, d)"
| "role_add_permissions E draw i (p # ps) d =
     rbind (ensure_permission E draw p d) (\<lambda>(pid, k, d1).
     rbind (insert_role_permission i pid d1) (\<lambda>d2. role_add_permissions E k i ps d2))"

definition role_add :: "env \<Rightarrow> nat \<Rightarrow> role \<Rightarrow> db \<Rightarrow> app_error + (nat \<times> db)" where
  "role_add E draw r d =
     (if has_role (r_role_id r) d then Inl (IntegrityError ''pk_roles'')
      else if list_ex (\<lambda>x. rr_name x = r_name r) (roles d) then Inl (IntegrityError ''uq_roles_name'')
      else role_add_permissions E draw (r_role_id r) (r_permissions r)
             (d\<lparr>roles := roles d @ [\<lparr>rr_id = r_role_id r, rr_name = r_name r,
                rr_description = r_description r\<rparr>]\<rparr>))"

fun ensure_permissions :: "env \<Rightarrow> nat \<Rightarrow> permission list \<Rightarrow> db \<Rightarrow> app_error + (uuid list \<times> nat \<times> db)" where
  "ensure_permissions E draw [] d = Inr ([], draw, d)"
| "ensure_permissions E draw (p # ps) d =
     rbind (ensure_permission E draw p d) (\<lambda>(pid, k, d1).
     rbind (ensure_permissions E k ps d1) (\<lambda>(pids, k', d2). Inr (pid # pids, k', d2)))"

fun insert_role_permissions :: "uuid \<Rightarrow> uuid list \<Rightarrow> db \<Rightarrow> app_error + db" where
  "insert_role_permissions i [] d = Inr d"
| "insert_role_permissions i (p # ps) d =
     rbind (insert_role_permission i p d) (insert_role_permissions i ps)"

definition role_permission_ids :: "uuid \<Rightarrow> db \<Rightarrow> uuid list" where
  "role_permission_ids i d = map rp_permission_id (filter (\<lambda>x. rp_role_id x = i) (role_permissions d))"

definition role_repo_update :: "env \<Rightarrow> nat \<Rightarrow> role \<Rightarrow> db \<Rightarrow> app_error + (nat \<times> db)" where
  "role_repo_update E draw r d =
     (let i = r_role_id r in
      if has_role i d \<and> list_ex (\<lambda>x. rr_name x = r_name r \<and> rr_id x \<noteq> i) (roles d)
      then Inl (IntegrityError ''uq_roles_name'')
      else
        (let d0 = d\<lparr>roles := update_where (\<lambda>x. rr_id x = i)
               (\<lambda>x. x\<lparr>rr_name := r_name r, rr_description := r_description r\<rparr>) (roles d)\<rparr>;
             current_ids = role_permission_ids i d0 in
         rbind (ensure_permissions E draw (r_permissions r) d0) (\<lambda>(desired_ids, k, d1).
           (let d2 = d1\<lparr>role_permissions := delete_where
                  (\<lambda>x. rp_role_id x = i \<and> rp_permission_id x \<in> set current_ids - set desired_ids)
                  (role_permissions d1)\<rparr> in
            rbind (insert_role_permissions i
                     (filter (\<lambda>p. p \<notin> set current_ids) (remdups desired_ids)) d2)
              (\<lambda>d3. Inr (k, d3))))))"

definition role_repo_delete :: "role_id \<Rightarrow> db \<Rightarrow> db" where
  "role_repo_delete i d =
     d\<lparr>role_permissions := delete_where (\<lambda>x. rp_role_id x = i) (role_permissions d),
       user_roles := delete_where (\<lambda>x. urr_role_id x = i) (user_roles d),
       roles := delete_where (\<lambda>x. rr_id x = i) (roles d)\<rparr>"

section \<open>Assignments\<close>

definition user_role_from_row :: "user_role_row \<Rightarrow> app_error + user_role" where
  "user_role_from_row r =
     rbind (UserID (urr_user_id r)) (\<lambda>u.
     rbind (RoleID (urr_role_id r)) (\<lambda>i.
     rbind (case urr_assigned_by r of
              None \<Rightarrow> Inr None | Some b \<Rightarrow> rbind (UserID b) (\<lambda>b. Inr (Some b))) (\<lambda>by.
       Inr \<lparr>ur_user_id = u, ur_role_id = i, ur_assigned_at = urr_assigned_at r,
            ur_assigned_by = by\<rparr>)))"

definition user_role_acquire_by_user_id :: "user_id \<Rightarrow> db \<Rightarrow> app_error + user_role list" where
  "user_role_acquire_by_user_id u d =
     rmap user_role_from_row (filter (\<lambda>r. urr_user_id r = u) (user_roles d))"

definition user_role_acquire :: "user_id \<Rightarrow> role_id \<Rightarrow> db \<Rightarrow> app_error + user_role option" where
  "user_role_acquire u i d =
     (case find_row (\<lambda>r. urr_user_id r = u \<and> urr_role_id r = i) (user_roles d) of
        None \<Rightarrow> Inr None
      | Some r \<Rightarrow> rbind (user_role_from_row r) (\<lambda>x. Inr (Some x)))"

definition user_role_add :: "user_role \<Rightarrow> db \<Rightarrow> app_error + db" where
  "user_role_add x d =
     (if list_ex (\<lambda>r. urr_user_id r = ur_user_id x \<and> urr_role_id r = ur_role_id x) (user_roles d)
      then Inl (IntegrityError ''pk_user_roles'')
      else if \<not> has_user (ur_user_id x) d then Inl (IntegrityError ''fk_user_roles_user_id_users'')
      else if \<not> has_role (ur_role_id x) d then Inl (IntegrityError ''fk_user_roles_role_id_roles'')
      else if \<not> pred_option (\<lambda>b. has_user b d) (ur_assigned_by x)
      then Inl (IntegrityError ''fk_user_roles_assigned_by_users'')
      else Inr (d\<lparr>user_roles := user_roles d @ [\<lparr>urr_user_id = ur_user_id x,
             urr_role_id = ur_role_id x, urr_assigned_at = ur_assigned_at x,
             urr_assigned_by = ur_assigned_by x\<rparr>]\<rparr>))"

definition user_role_delete :: "user_id \<Rightarrow> role_id \<Rightarrow> db \<Rightarrow> db" where
  "user_role_delete u i d =
     d\<lparr>user_roles := delete_where (\<lambda>r. urr_user_id r = u \<and> urr_role_id r = i) (user_roles d)\<rparr>"

definition user_role_delete_by_user_id :: "user_id \<Rightarrow> db \<Rightarrow> db" where
  "user_role_delete_by_user_id u d =
     d\<lparr>user_roles := delete_where (\<lambda>r. urr_user_id r = u) (user_roles d)\<rparr>"

text \<open>What the tables grant: a user holds a permission when a role assigned to the user has it.\<close>

definition grants :: "db \<Rightarrow> user_id \<Rightarrow> string \<Rightarrow> bool" where
  "grants d u name =
     list_ex (\<lambda>a. urr_user_id a = u \<and>
       list_ex (\<lambda>x. rp_role_id x = urr_role_id a \<and>
         list_ex (\<lambda>p. pr_id p = rp_permission_id x \<and> pr_name p = name) (permissions d))
       (role_permissions d)) (user_roles d)"

section \<open>Lemmas\<close>

lemma permission_from_row_value:
  "permission_from_row r = Inr p \<Longrightarrow> p = \<lparr>p_name = pr_name r, p_description = pr_description r\<rparr>"
  by (auto simp: permission_from_row_def Permission_def split: if_splits)

lemma set_role_permission_rows:
  "set (role_permission_rows i d) =
     {p \<in> set (permissions d). \<exists>x \<in> set (role_permissions d). rp_role_id x = i \<and> rp_permission_id x = pr_id p}"
  by (auto simp: role_permission_rows_def)

lemma rmap_permission_names:
  "rmap permission_from_row rows = Inr ps \<Longrightarrow> map p_name ps = map pr_name rows"
  by (induction rows arbitrary: ps) (auto simp: rbind_eq_Inr dest!: permission_from_row_value)

lemma role_from_row_names:
  "role_from_row d r = Inr x \<Longrightarrow> perm_names x = pr_name ` set (role_permission_rows (rr_id r) d)"
  by (auto simp: role_from_row_def rbind_eq_Inr get_role_permissions_def perm_names_def
      dest!: rmap_permission_names arg_cong [where f = set])

text \<open>Writes keep the constraints.\<close>

lemma insert_permission_ok: "db_ok d \<Longrightarrow> insert_permission r d = Inr d' \<Longrightarrow> db_ok d'"
  by (auto simp: insert_permission_def list_ex_key db_ok_def sessions_ok_def rbac_ok_def logs_ok_def
      has_permission_row_iff list_all_iff split: if_splits)

lemma insert_role_permission_ok: "db_ok d \<Longrightarrow> insert_role_permission i p d = Inr d' \<Longrightarrow> db_ok d'"
  by (auto simp: insert_role_permission_def Let_def db_ok_def sessions_ok_def rbac_ok_def logs_ok_def
      split: if_splits)

lemma ensure_permission_ok: "db_ok d \<Longrightarrow> ensure_permission E k p d = Inr (i, k', d') \<Longrightarrow> db_ok d'"
  by (auto simp: ensure_permission_def rbind_eq_Inr permission_add_def insert_permission_ok
      split: option.splits)

lemma ensure_permissions_ok: "db_ok d \<Longrightarrow> ensure_permissions E k ps d = Inr (is, k', d') \<Longrightarrow> db_ok d'"
  by (induction ps arbitrary: k d "is" k') (auto simp: rbind_eq_Inr dest: ensure_permission_ok)

lemma insert_role_permissions_ok: "db_ok d \<Longrightarrow> insert_role_permissions i ps d = Inr d' \<Longrightarrow> db_ok d'"
  by (induction ps arbitrary: d) (auto simp: rbind_eq_Inr dest: insert_role_permission_ok)

lemma role_add_permissions_ok: "db_ok d \<Longrightarrow> role_add_permissions E k i ps d = Inr (k', d') \<Longrightarrow> db_ok d'"
proof (induction ps arbitrary: k d)
  case (Cons p ps)
  from Cons.prems(2) obtain pid k1 d1 d2 where "ensure_permission E k p d = Inr (pid, k1, d1)"
    "insert_role_permission i pid d1 = Inr d2" and r: "role_add_permissions E k1 i ps d2 = Inr (k', d')"
    by (auto simp: rbind_eq_Inr)
  then have "db_ok d2"
    using Cons.prems(1) by (blast intro: ensure_permission_ok insert_role_permission_ok)
  then show ?case using r by (rule Cons.IH)
qed simp

lemma role_row_added_ok:
  "db_ok d \<Longrightarrow> \<not> has_role (rr_id r) d \<Longrightarrow> rr_name r \<notin> rr_name ` set (roles d) \<Longrightarrow>
     db_ok (d\<lparr>roles := roles d @ [r]\<rparr>)"
  by (auto simp: db_ok_def sessions_ok_def rbac_ok_def logs_ok_def has_role_iff list_all_iff)

lemma role_add_ok:
  assumes "db_ok d" and "role_add E k r d = Inr (k', d')"
  shows "db_ok d'"
proof -
  let ?r = "\<lparr>rr_id = r_role_id r, rr_name = r_name r, rr_description = r_description r\<rparr>"
  from assms(2) have "\<not> has_role (rr_id ?r) d" "rr_name ?r \<notin> rr_name ` set (roles d)"
    and u: "role_add_permissions E k (r_role_id r) (r_permissions r) (d\<lparr>roles := roles d @ [?r]\<rparr>) = Inr (k', d')"
    by (auto simp: role_add_def list_ex_key split: if_splits)
  from role_add_permissions_ok [OF role_row_added_ok [OF assms(1) this(1,2)] u] show ?thesis .
qed

lemma delete_role_permissions_ok:
  "db_ok d \<Longrightarrow> db_ok (d\<lparr>role_permissions := delete_where P (role_permissions d)\<rparr>)"
  by (auto simp: db_ok_def sessions_ok_def rbac_ok_def logs_ok_def list_all_iff set_delete_where)
    (simp add: delete_where_def)

lemma delete_user_roles_ok:
  "db_ok d \<Longrightarrow> db_ok (d\<lparr>user_roles := delete_where P (user_roles d)\<rparr>)"
  by (auto simp: db_ok_def sessions_ok_def rbac_ok_def logs_ok_def list_all_iff set_delete_where
      distinct_map_delete_where)

lemma user_role_add_Inr:
  "user_role_add x d = Inr d' \<longleftrightarrow>
     (ur_user_id x, ur_role_id x) \<notin> (\<lambda>r. (urr_user_id r, urr_role_id r)) ` set (user_roles d) \<and>
     has_user (ur_user_id x) d \<and> has_role (ur_role_id x) d \<and>
     pred_option (\<lambda>b. has_user b d) (ur_assigned_by x) \<and>
     d' = d\<lparr>user_roles := user_roles d @ [\<lparr>urr_user_id = ur_user_id x, urr_role_id = ur_role_id x,
            urr_assigned_at = ur_assigned_at x, urr_assigned_by = ur_assigned_by x\<rparr>]\<rparr>"
  by (auto simp: user_role_add_def list_ex_iff notin_image_iff)

lemma user_role_add_ok: "db_ok d \<Longrightarrow> user_role_add x d = Inr d' \<Longrightarrow> db_ok d'"
  by (simp add: user_role_add_Inr db_ok_def sessions_ok_def rbac_ok_def logs_ok_def)

lemma has_role_deleted: "has_role j (role_repo_delete i d) \<longleftrightarrow> has_role j d \<and> j \<noteq> i"
  by (auto simp: role_repo_delete_def has_role_iff set_delete_where)

lemma role_repo_delete_tables [simp]:
  "users (role_repo_delete i d) = users d" "sessions (role_repo_delete i d) = sessions d"
  "refresh_tokens (role_repo_delete i d) = refresh_tokens d"
  "permissions (role_repo_delete i d) = permissions d" "audit_logs (role_repo_delete i d) = audit_logs d"
  "outbox_events (role_repo_delete i d) = outbox_events d"
  "roles (role_repo_delete i d) = delete_where (\<lambda>x. rr_id x = i) (roles d)"
  "user_roles (role_repo_delete i d) = delete_where (\<lambda>x. urr_role_id x = i) (user_roles d)"
  "role_permissions (role_repo_delete i d) = delete_where (\<lambda>x. rp_role_id x = i) (role_permissions d)"
  "has_user u (role_repo_delete i d) = has_user u d" "has_session u (role_repo_delete i d) = has_session u d"
  "has_permission_row u (role_repo_delete i d) = has_permission_row u d"
  by (simp_all add: role_repo_delete_def has_user_def has_session_def has_permission_row_def)

lemma role_repo_delete_ok:
  assumes "db_ok d"
  shows "db_ok (role_repo_delete i d)"
proof -
  have "rbac_ok (role_repo_delete i d)"
    using assms by (simp add: db_ok_def rbac_ok_def list_all_iff set_delete_where has_role_deleted
        distinct_map_delete_where) (simp add: delete_where_def)
  then show ?thesis using assms by (simp add: db_ok_def sessions_ok_def logs_ok_def)
qed

lemma role_renamed_ok:
  assumes d: "db_ok d" and n: "\<not> (has_role i d \<and> list_ex (\<lambda>x. rr_name x = n \<and> rr_id x \<noteq> i) (roles d))"
  shows "db_ok (d\<lparr>roles := update_where (\<lambda>x. rr_id x = i)
           (\<lambda>x. x\<lparr>rr_name := n, rr_description := ds\<rparr>) (roles d)\<rparr>)" (is "db_ok (d\<lparr>roles := ?rs\<rparr>)")
proof -
  have ids: "map rr_id ?rs = map rr_id (roles d)" by (simp add: map_update_where)
  have h: "has_role j (d\<lparr>roles := ?rs\<rparr>) = has_role j d" for j
    by (simp add: has_role_def list_ex_update_where)
  have "distinct (map rr_name ?rs)"
  proof (cases "has_role i d")
    case False
    then have "?rs = roles d" by (intro update_where_id) (auto simp: has_role_iff)
    then show ?thesis using d by (simp add: db_ok_def rbac_ok_def)
  next
    case True
    with n have other: "\<forall>x \<in> set (roles d). rr_name x = n \<longrightarrow> rr_id x = i" by (auto simp: list_ex_iff)
    have "distinct (map rr_id (roles d))" "distinct (map rr_name (roles d))"
      using d by (auto simp: db_ok_def rbac_ok_def)
    with other show ?thesis
      by (induction "roles d") (auto simp: update_where_def inj_on_def distinct_map)
  qed
  with d ids h show ?thesis
    by (simp add: db_ok_def sessions_ok_def rbac_ok_def logs_ok_def)
qed

lemma role_repo_update_ok:
  assumes "db_ok d" and "role_repo_update E k r d = Inr (k', d')"
  shows "db_ok d'"
proof -
  let ?d0 = "d\<lparr>roles := update_where (\<lambda>x. rr_id x = r_role_id r)
               (\<lambda>x. x\<lparr>rr_name := r_name r, rr_description := r_description r\<rparr>) (roles d)\<rparr>"
  from assms(2) obtain ids k1 d1 P ps where
    n: "\<not> (has_role (r_role_id r) d \<and> list_ex (\<lambda>x. rr_name x = r_name r \<and> rr_id x \<noteq> r_role_id r) (roles d))"
    and e: "ensure_permissions E k (r_permissions r) ?d0 = Inr (ids, k1, d1)"
    and i: "insert_role_permissions (r_role_id r) ps
         (d1\<lparr>role_permissions := delete_where P (role_permissions d1)\<rparr>) = Inr d'"
    by (auto simp: role_repo_update_def Let_def rbind_eq_Inr split: if_splits)
  from ensure_permissions_ok [OF role_renamed_ok [OF assms(1) n] e] have "db_ok d1" .
  from insert_role_permissions_ok [OF delete_role_permissions_ok [OF this] i] show ?thesis .
qed

section \<open>What the tables grant\<close>

lemma role_grants_iff:
  "name \<in> pr_name ` set (role_permission_rows i d) \<longleftrightarrow>
     (\<exists>x \<in> set (role_permissions d). rp_role_id x = i \<and>
        (\<exists>p \<in> set (permissions d). pr_id p = rp_permission_id x \<and> pr_name p = name))" (is "?l = ?r")
proof
  assume ?l
  then obtain p where p: "p \<in> set (role_permission_rows i d)" "pr_name p = name" by auto
  then obtain x where "p \<in> set (permissions d)" "x \<in> set (role_permissions d)" "rp_role_id x = i"
    "rp_permission_id x = pr_id p" by (auto simp: set_role_permission_rows)
  with p(2) show ?r by (intro bexI [of _ x]) auto
next
  assume ?r
  then obtain x p where "x \<in> set (role_permissions d)" "rp_role_id x = i" "p \<in> set (permissions d)"
    "pr_id p = rp_permission_id x" "pr_name p = name" by auto
  then have "p \<in> set (role_permission_rows i d)" "pr_name p = name"
    by (auto simp: set_role_permission_rows)
  then show ?l by auto
qed

lemma grants_iff:
  "grants d u name \<longleftrightarrow>
     (\<exists>a \<in> set (user_roles d). urr_user_id a = u \<and> name \<in> pr_name ` set (role_permission_rows (urr_role_id a) d))"
  by (simp add: grants_def list_ex_iff role_grants_iff)

text \<open>Deleting a role takes away exactly the permissions that came from it: afterwards a user
  holds a permission exactly when some other role assigned to the user has it; no assignment of
  the role and no permission link of it remains, and the schema's constraints still hold.\<close>

theorem role_delete_revokes:
  assumes "db_ok d"
  shows "db_ok (role_repo_delete i d) \<and>
         (\<forall>a \<in> set (user_roles (role_repo_delete i d)). urr_role_id a \<noteq> i) \<and>
         (\<forall>x \<in> set (role_permissions (role_repo_delete i d)). rp_role_id x \<noteq> i) \<and>
         (grants (role_repo_delete i d) u name \<longleftrightarrow>
            (\<exists>a \<in> set (user_roles d). urr_user_id a = u \<and> urr_role_id a \<noteq> i \<and>
               name \<in> pr_name ` set (role_permission_rows (urr_role_id a) d)))"
proof -
  have r: "set (role_permission_rows j (role_repo_delete i d)) = set (role_permission_rows j d)"
    if "j \<noteq> i" for j
    using that by (auto simp: set_role_permission_rows set_delete_where)
  have "grants (role_repo_delete i d) u name \<longleftrightarrow>
      (\<exists>a \<in> set (user_roles d). urr_user_id a = u \<and> urr_role_id a \<noteq> i \<and>
         name \<in> pr_name ` set (role_permission_rows (urr_role_id a) d))"
    unfolding grants_iff by (auto simp: set_delete_where r)
  then show ?thesis using role_repo_delete_ok [OF assms] by (simp add: set_delete_where)
qed

text \<open>A database with one user who holds the permission x through the role 5.\<close>

definition rbac_sample :: db where
  "rbac_sample = empty_db\<lparr>
     users := [user_row.make 1 0 ''alice'' None [1] None False None None 0 None False None None None
                 None None None False None None None],
     permissions := [\<lparr>pr_id = 9, pr_name = ''x'', pr_description = None\<rparr>],
     roles := [\<lparr>rr_id = 5, rr_name = ''ops'', rr_description = None\<rparr>],
     role_permissions := [\<lparr>rp_role_id = 5, rp_permission_id = 9\<rparr>],
     user_roles := [\<lparr>urr_user_id = 1, urr_role_id = 5, urr_assigned_at = 0, urr_assigned_by = None\<rparr>]\<rparr>"

lemma rbac_sample_ok: "db_ok rbac_sample"
  by (simp add: rbac_sample_def empty_db_def db_ok_def users_ok_def sessions_ok_def rbac_ok_def
      logs_ok_def has_user_def has_role_def has_permission_row_def user_row.make_def some_values_def)

theorem role_delete_revokes_witness:
  "grants rbac_sample 1 ''x'' \<and> \<not> grants (role_repo_delete 5 rbac_sample) 1 ''x''"
  using role_delete_revokes [OF rbac_sample_ok, of 5 1 "''x''"]
  by (simp add: rbac_sample_def grants_def)

end
