(* ===== verification/Readers.thy ===== *)
theory Readers
  imports Rbac_Repo User_Repo Session_Repo "HOL-Library.AList" "HOL-Library.List_Lexorder" "HOL-Library.Char_ord"
begin

text \<open>
  The read side: the SQL readers (infrastructure/db/sqlalchemy/repositories/readers.py) and the
  queries built on them (application/user/queries). The role reader answers from one joined query
  grouped in Python; the equivalence with the tables' own meaning (\<open>grants\<close>) is proved here.
\<close>

record user_read_dto =
  ud_user_id :: uuid
  ud_username :: string
  ud_email :: "string option"
  ud_is_email_verified :: bool
  ud_is_locked :: bool
  ud_has_two_factor :: bool

record session_read_dto =
  sd_session_id :: uuid
  sd_created_at :: datetime
  sd_expires_at :: datetime
  sd_is_revoked :: bool
  sd_device_info :: device_info

record role_read_dto =
  rd_role_id :: uuid
  rd_name :: string
  rd_description :: "string option"
  rd_permissions :: "string list"

definition user_reader_get_by_id :: "datetime \<Rightarrow> user_id \<Rightarrow> db \<Rightarrow> user_read_dto option" where
  "user_reader_get_by_id now i d =
     (case find_row (\<lambda>r. c_id r = i) (users d) of
        None \<Rightarrow> None
      | Some r \<Rightarrow>
          (let lock_info = lock_create\<lparr>is_locked := c_is_locked r, lock_until := c_lock_until r\<rparr> in
           Some \<lparr>ud_user_id = c_id r, ud_username = c_username r, ud_email = c_email r,
                 ud_is_email_verified = c_is_email_verified r,
                 ud_is_locked = is_locked_out lock_info now,
                 ud_has_two_factor = ((case c_two_factor_secret r of None \<Rightarrow> False | Some b \<Rightarrow> b \<noteq> [])
                    \<and> c_two_factor_enabled_at r \<noteq> None)\<rparr>))"

definition session_reader_get_by_user_id :: "user_id \<Rightarrow> db \<Rightarrow> session_read_dto list" where
  "session_reader_get_by_user_id i d =
     map (\<lambda>r. \<lparr>sd_session_id = sr_session_id r, sd_created_at = sr_created_at r,
               sd_expires_at = sr_expires_at r, sd_is_revoked = sr_is_revoked r,
               sd_device_info = device_info_from_row r\<rparr>)
       (filter (\<lambda>r. sr_user_id r = i \<and> \<not> sr_is_revoked r) (sessions d))"

section \<open>The joined role query\<close>

text \<open>A row of the query: role and permission name, None where the outer joins find nothing.\<close>

type_synonym role_query_row = "role_row \<times> string option"

definition permission_names_of :: "uuid \<Rightarrow> db \<Rightarrow> string option list" where
  "permission_names_of i d =
     (let links = filter (\<lambda>x. rp_role_id x = i) (role_permissions d) in
      if links = [] then [None]
      else concat (map (\<lambda>x.
        (let found = filter (\<lambda>p. pr_id p = rp_permission_id x) (permissions d) in
         if found = [] then [None] else map (\<lambda>p. Some (pr_name p)) found)) links))"

definition query_rows :: "role_row list \<Rightarrow> db \<Rightarrow> role_query_row list" where
  "query_rows source d =
     concat (map (\<lambda>r. map (\<lambda>n. (r, n)) (permission_names_of (rr_id r) d)) (sort_key rr_name source))"

text \<open>The grouping loop: a dict from role id to the DTO under construction, in insertion order.\<close>

definition group_row :: "(uuid \<times> role_read_dto) list \<Rightarrow> role_query_row \<Rightarrow> (uuid \<times> role_read_dto) list" where
  "group_row acc row =
     (let (r, name) = row;
          old = (case map_of acc (rr_id r) of
                   Some dto \<Rightarrow> dto
                 | None \<Rightarrow> \<lparr>rd_role_id = rr_id r, rd_name = rr_name r,
                            rd_description = rr_description r, rd_permissions = []\<rparr>) in
      AList.update (rr_id r)
        (case name of None \<Rightarrow> old | Some n \<Rightarrow> old\<lparr>rd_permissions := rd_permissions old @ [n]\<rparr>) acc)"

definition roles_with_permissions :: "role_row list \<Rightarrow> db \<Rightarrow> role_read_dto list" where
  "roles_with_permissions source d = map snd (foldl group_row [] (query_rows source d))"

definition role_reader_get_user_roles :: "user_id \<Rightarrow> db \<Rightarrow> role_read_dto list" where
  "role_reader_get_user_roles u d =
     roles_with_permissions
       (concat (map (\<lambda>r. map (\<lambda>_. r)
          (filter (\<lambda>a. urr_role_id a = rr_id r \<and> urr_user_id a = u) (user_roles d))) (roles d))) d"

definition role_reader_get_all_roles :: "db \<Rightarrow> role_read_dto list" where
  "role_reader_get_all_roles d = roles_with_permissions (roles d) d"

section \<open>Queries\<close>

record get_me_output =
  gm_user_id :: string
  gm_username :: string
  gm_email :: "string option"
  gm_is_email_verified :: bool
  gm_is_locked :: bool
  gm_has_two_factor :: bool

definition get_me :: "datetime \<Rightarrow> uuid \<Rightarrow> db \<Rightarrow> app_error + get_me_output" where
  "get_me now user_id d =
     rbind (UserID user_id) (\<lambda>i.
       case user_reader_get_by_id now i d of
         None \<Rightarrow> Inl (UserNotFoundError (Some (uuid_str user_id)))
       | Some dto \<Rightarrow>
           Inr \<lparr>gm_user_id = uuid_str (ud_user_id dto), gm_username = ud_username dto,
                gm_email = ud_email dto, gm_is_email_verified = ud_is_email_verified dto,
                gm_is_locked = ud_is_locked dto, gm_has_two_factor = ud_has_two_factor dto\<rparr>)"

record consent_claims =
  cc_id_token :: payload
  cc_access_token :: payload

definition SCOPE_PROFILE :: string where
  "SCOPE_PROFILE = ''profile''"

definition SCOPE_EMAIL :: string where
  "SCOPE_EMAIL = ''email''"

definition build_consent_claims ::
    "datetime \<Rightarrow> uuid option \<Rightarrow> string option \<Rightarrow> string list \<Rightarrow> db \<Rightarrow> app_error + consent_claims" where
  "build_consent_claims now user_id session_id granted_scopes d =
     (let access_token = (case session_id of None \<Rightarrow> []
                          | Some s \<Rightarrow> if s = [] then [] else [(''session_id'', JStr s)]) in
      case user_id of
        None \<Rightarrow> Inr \<lparr>cc_id_token = [], cc_access_token = access_token\<rparr>
      | Some u \<Rightarrow>
          rbind (UserID u) (\<lambda>i.
            case user_reader_get_by_id now i d of
              None \<Rightarrow> Inr \<lparr>cc_id_token = [], cc_access_token = access_token\<rparr>
            | Some dto \<Rightarrow>
                Inr \<lparr>cc_id_token =
                       (if SCOPE_PROFILE \<in> set granted_scopes
                        then [(''preferred_username'', JStr (ud_username dto))] else []) @
                       (if SCOPE_EMAIL \<in> set granted_scopes
                        then [(''email'', jopt JStr (ud_email dto)),
                              (''email_verified'', JBool (ud_is_email_verified dto))] else []),
                     cc_access_token = access_token\<rparr>))"

record sessions_page =
  sp_sessions :: "session_read_dto list"
  sp_total :: nat
  sp_limit :: int
  sp_offset :: int
  sp_has_more :: bool

text \<open>xs[a:b] with possibly negative bounds.\<close>

definition py_bound :: "int \<Rightarrow> nat \<Rightarrow> nat" where
  "py_bound i n = (if i < 0 then nat (max 0 (i + int n)) else nat i)"

definition py_slice :: "int \<Rightarrow> int \<Rightarrow> 'a list \<Rightarrow> 'a list" where
  "py_slice a b xs = drop (py_bound a (length xs)) (take (py_bound b (length xs)) xs)"

definition get_user_sessions :: "uuid \<Rightarrow> int \<Rightarrow> int \<Rightarrow> db \<Rightarrow> app_error + sessions_page" where
  "get_user_sessions user_id limit offset d =
     rbind (UserID user_id) (\<lambda>i.
       (let all_sessions = session_reader_get_by_user_id i d; total = length all_sessions in
        Inr \<lparr>sp_sessions = py_slice offset (offset + limit) all_sessions, sp_total = total,
             sp_limit = limit, sp_offset = offset, sp_has_more = (offset + limit < int total)\<rparr>))"

definition get_user_roles :: "uuid \<Rightarrow> db \<Rightarrow> app_error + role_read_dto list" where
  "get_user_roles user_id d = rbind (UserID user_id) (\<lambda>i. Inr (role_reader_get_user_roles i d))"

definition check_permission :: "uuid \<Rightarrow> string \<Rightarrow> db \<Rightarrow> app_error + bool" where
  "check_permission user_id permission d =
     rbind (UserID user_id) (\<lambda>i.
       Inr (list_ex (\<lambda>r. permission \<in> set (rd_permissions r)) (role_reader_get_user_roles i d)))"

definition get_all_roles :: "db \<Rightarrow> role_read_dto list" where
  "get_all_roles d = role_reader_get_all_roles d"

section \<open>The grouped query answers what the tables grant\<close>

definition group_names :: "(uuid \<times> role_read_dto) list \<Rightarrow> uuid \<Rightarrow> string set" where
  "group_names acc i = (case map_of acc i of None \<Rightarrow> {} | Some dto \<Rightarrow> set (rd_permissions dto))"

lemma group_names_Nil [simp]: "group_names [] i = {}"
  by (simp add: group_names_def)

lemma group_row_distinct: "distinct (map fst acc) \<Longrightarrow> distinct (map fst (group_row acc row))"
  by (simp add: group_row_def Let_def distinct_update split: prod.splits)

lemma group_row_names:
  "group_names (group_row acc (r, n)) i =
     group_names acc i \<union> (if i = rr_id r then set_option n else {})"
  by (auto simp: group_row_def group_names_def Let_def update_conv' split: option.splits)

lemma foldl_group_distinct: "distinct (map fst acc) \<Longrightarrow> distinct (map fst (foldl group_row acc rows))"
  by (induction rows arbitrary: acc) (auto simp: group_row_distinct)

lemma foldl_group_names:
  "group_names (foldl group_row acc rows) i =
     group_names acc i \<union> {n. \<exists>r. (r, Some n) \<in> set rows \<and> rr_id r = i}"
proof (induction rows arbitrary: acc)
  case (Cons row rows)
  obtain r n where row: "row = (r, n)" by (cases row)
  show ?case unfolding foldl_Cons Cons.IH row group_row_names by (cases n) auto
qed simp

lemma grouped_permissions:
  "distinct (map fst acc) \<Longrightarrow>
     (\<Union>dto \<in> snd ` set acc. set (rd_permissions dto)) = (\<Union>i. group_names acc i)"
proof (intro set_eqI iffI)
  fix n assume d: "distinct (map fst acc)" and "n \<in> (\<Union>dto \<in> snd ` set acc. set (rd_permissions dto))"
  then obtain i dto where "(i, dto) \<in> set acc" "n \<in> set (rd_permissions dto)" by force
  with d show "n \<in> (\<Union>i. group_names acc i)" by (auto simp: group_names_def intro!: exI [of _ i])
next
  fix n assume "n \<in> (\<Union>i. group_names acc i)"
  then obtain i dto where "map_of acc i = Some dto" "n \<in> set (rd_permissions dto)"
    by (auto simp: group_names_def split: option.splits)
  then show "n \<in> (\<Union>dto \<in> snd ` set acc. set (rd_permissions dto))"
    by (metis UN_I image_eqI map_of_SomeD snd_conv)
qed

lemma permission_names_of_Some:
  "Some n \<in> set (permission_names_of i d) \<longleftrightarrow> n \<in> pr_name ` set (role_permission_rows i d)"
  unfolding role_grants_iff
  by (auto simp: permission_names_of_def Let_def filter_empty_conv split: if_splits)

lemma roles_with_permissions_names:
  "(\<exists>dto \<in> set (roles_with_permissions source d). n \<in> set (rd_permissions dto)) \<longleftrightarrow>
     (\<exists>r \<in> set source. n \<in> pr_name ` set (role_permission_rows (rr_id r) d))"
proof -
  let ?g = "foldl group_row [] (query_rows source d)"
  have "(\<exists>dto \<in> set (roles_with_permissions source d). n \<in> set (rd_permissions dto)) \<longleftrightarrow>
      n \<in> (\<Union>dto \<in> snd ` set ?g. set (rd_permissions dto))"
    by (auto simp: roles_with_permissions_def)
  also have "\<dots> \<longleftrightarrow> n \<in> (\<Union>i. group_names ?g i)"
    using grouped_permissions [OF foldl_group_distinct, of "[]"] by simp
  also have "\<dots> \<longleftrightarrow> (\<exists>r. (r, Some n) \<in> set (query_rows source d))"
    by (auto simp: foldl_group_names)
  also have "\<dots> \<longleftrightarrow> (\<exists>r \<in> set source. Some n \<in> set (permission_names_of (rr_id r) d))"
    by (auto simp: query_rows_def)
  finally show ?thesis by (simp add: permission_names_of_Some)
qed

lemma reader_grants:
  assumes "db_ok d"
  shows "(\<exists>dto \<in> set (role_reader_get_user_roles u d). n \<in> set (rd_permissions dto)) \<longleftrightarrow> grants d u n"
proof -
  have "(\<exists>r \<in> set (roles d). (\<exists>a \<in> set (user_roles d). urr_role_id a = rr_id r \<and> urr_user_id a = u) \<and>
        n \<in> pr_name ` set (role_permission_rows (rr_id r) d)) \<longleftrightarrow> grants d u n" (is "?l = _")
  proof
    assume ?l
    then show "grants d u n" unfolding grants_iff by metis
  next
    assume "grants d u n"
    then obtain a where a: "a \<in> set (user_roles d)" "urr_user_id a = u"
      "n \<in> pr_name ` set (role_permission_rows (urr_role_id a) d)" unfolding grants_iff by blast
    then have "has_role (urr_role_id a) d"
      using assms by (auto simp: db_ok_def rbac_ok_def list_all_iff)
    with a show ?l by (auto simp: has_role_iff)
  qed
  then show ?thesis
    unfolding role_reader_get_user_roles_def roles_with_permissions_names by auto
qed

text \<open>C28. The permission check used on every admin request, one joined query grouped in Python,
  answers true exactly when some role assigned to the user is linked to a permission of that name:
  the single query is equivalent to walking the assignment, link and permission tables.\<close>

theorem check_permission_exact:
  assumes "db_ok d" and "u \<noteq> NIL_UUID"
  shows "check_permission u name d = Inr (grants d u name)"
  using assms reader_grants [OF assms(1)]
  by (simp add: check_permission_def UserID_def list_ex_iff)

theorem check_permission_exact_witness:
  "check_permission 1 ''x'' rbac_sample = Inr True"
  using check_permission_exact [OF rbac_sample_ok, of 1 "''x''"]
  by (simp add: NIL_UUID_def rbac_sample_def grants_def)

text \<open>The claims disclosed at consent contain the username only if the profile scope was
  granted and the address and its verification flag only if the email scope was, and nothing else
  about the user; the session identifier goes to the access token only.\<close>

theorem consent_discloses_granted_only:
  assumes "build_consent_claims now uid sid scopes d = Inr c"
  shows "fst ` set (cc_id_token c) \<subseteq>
           (if ''profile'' \<in> set scopes then {''preferred_username''} else {}) \<union>
           (if ''email'' \<in> set scopes then {''email'', ''email_verified''} else {}) \<and>
         fst ` set (cc_access_token c) \<subseteq> {''session_id''} \<and>
         ((uid = None \<or> find_row (\<lambda>r. Some (c_id r) = uid) (users d) = None) \<longrightarrow> cc_id_token c = [])"
  using assms
  by (auto simp: build_consent_claims_def Let_def rbind_eq_Inr UserID_eq SCOPE_PROFILE_def
      SCOPE_EMAIL_def user_reader_get_by_id_def split: option.splits if_splits)

theorem consent_discloses_granted_only_witness:
  "\<exists>c. build_consent_claims 0 (Some 1) (Some ''s'') [''openid''] sample_db = Inr c \<and> cc_id_token c = []"
  using consent_discloses_granted_only [of 0 "Some 1" "Some ''s''" "[''openid'']" sample_db]
  by (simp add: build_consent_claims_def UserID_def NIL_UUID_def sample_db_def SCOPE_PROFILE_def
      SCOPE_EMAIL_def user_reader_get_by_id_def find_row_Cons sample_user_version Let_def)

text \<open>Paging through a user's unrevoked sessions with a positive limit: the page at offset k
  times limit is exactly the k-th chunk of the list, so successive pages yield every session once
  and in order, and a page says there is more exactly when sessions remain after it.\<close>

theorem session_pages_partition:
  assumes "u \<noteq> NIL_UUID" and "0 < limit"
  shows "\<exists>p. get_user_sessions u (int limit) (int (k * limit)) d = Inr p \<and>
           sp_sessions p = take limit (drop (k * limit) (session_reader_get_by_user_id u d)) \<and>
           (sp_has_more p \<longleftrightarrow> drop (Suc k * limit) (session_reader_get_by_user_id u d) \<noteq> [])"
proof -
  have "py_slice (int (k * limit)) (int (k * limit) + int limit) xs = take limit (drop (k * limit) xs)"
    for xs :: "session_read_dto list"
    by (simp add: py_slice_def py_bound_def nat_add_distrib take_drop nat_mult_distrib add.commute
        flip: of_nat_mult of_nat_add)
  then show ?thesis using assms
    by (simp add: get_user_sessions_def UserID_def Let_def not_le add.commute
        flip: of_nat_mult of_nat_add)
qed

theorem session_pages_partition_witness:
  "\<exists>p. get_user_sessions 1 (int 20) (int (0 * 20)) sample_db = Inr p \<and> sp_sessions p = []"
  using session_pages_partition [of 1 20 0 sample_db]
  by (auto simp: NIL_UUID_def sample_db_def empty_db_def session_reader_get_by_user_id_def)

end
