(* ===== verification/Hydra_Client.thy ===== *)
theory Hydra_Client
  imports User_Service
begin

text \<open>
  The admin client of the authorization server (infrastructure/hydra/client.py, schemas.py) and the
  commands on OAuth clients built on it (application/hydra_clients).

  The server is outside the repository. What it answers to a call may depend on everything it was
  asked before, so it is an argument of type \<open>http_call list \<Rightarrow> http_call \<Rightarrow> app_error + http_reply\<close>:
  the answer to a call after a history of calls, or the transport's exception. The state of the
  client's actions is that history. The JSON codec of pydantic is the rest of the record \<open>hydra\<close>;
  the before-validators the schemas declare are passed to it.
\<close>

section \<open>Calls and replies\<close>

datatype http_body = NoBody | JsonBody payload | FormBody "(string \<times> string) list"

datatype http_call =
    HttpGet string "(string \<times> string) list"
  | HttpPut string "(string \<times> string) list" http_body
  | HttpPost string http_body
  | HttpDelete string "(string \<times> string) list"

record http_reply =
  hr_status :: int
  hr_text :: string

type_synonym wire = "http_call list"
type_synonym 'a hydra_action = "(wire, app_error, 'a) act"

section \<open>Schemas\<close>

record hydra_client_ref =
  cr_client_id :: string
  cr_client_name :: string

record login_request =
  lq_challenge :: string
  lq_client :: hydra_client_ref
  lq_requested_scope :: "string list"
  lq_requested_access_token_audience :: "string list"
  lq_skip :: bool
  lq_subject :: "string option"
  lq_session_id :: "string option"

record consent_request =
  cq_challenge :: string
  cq_client :: hydra_client_ref
  cq_requested_scope :: "string list"
  cq_requested_access_token_audience :: "string list"
  cq_login_challenge :: "string option"
  cq_login_session_id :: "string option"
  cq_skip :: bool
  cq_context :: payload

record logout_request =
  gq_challenge :: string
  gq_subject :: "string option"
  gq_sid :: "string option"
  gq_rp_initiated :: bool

record introspection =
  in_active :: bool
  in_token_use :: "string option"
  in_sub :: "string option"
  in_client_id :: "string option"
  in_scope :: string
  in_aud :: "string list"
  in_exp :: "int option"
  in_iat :: "int option"
  in_token_type :: "string option"
  in_ext :: payload

record hydra_client =
  hc_client_id :: string
  hc_client_name :: string
  hc_client_secret :: "string option"
  hc_client_uri :: "string option"
  hc_redirect_uris :: "string list"
  hc_grant_types :: "string list"
  hc_response_types :: "string list"
  hc_scope :: "string list"
  hc_token_endpoint_auth_method :: string
  hc_created_at :: "string option"

record client_create =
  nc_client_name :: string
  nc_redirect_uris :: "string list"
  nc_grant_types :: "string list"
  nc_response_types :: "string list"
  nc_scope :: "string list"
  nc_token_endpoint_auth_method :: string
  nc_client_uri :: "string option"
  nc_client_id :: "string option"
  nc_client_secret :: "string option"

text \<open>A null \<open>context\<close> counts as the empty one; a scope string is split at whitespace.\<close>

definition coerce_null_context :: "payload option \<Rightarrow> payload" where
  "coerce_null_context v = (case v of None \<Rightarrow> [] | Some c \<Rightarrow> c)"

definition split_scope :: "json \<Rightarrow> json" where
  "split_scope v = (case v of JStr s \<Rightarrow> JList (map JStr (split_ws s)) | _ \<Rightarrow> v)"

record hydra =
  hy_server :: "wire \<Rightarrow> http_call \<Rightarrow> app_error + http_reply"
  hy_login_request :: "string \<Rightarrow> app_error + login_request"
  hy_consent_request :: "(payload option \<Rightarrow> payload) \<Rightarrow> string \<Rightarrow> app_error + consent_request"
  hy_logout_request :: "string \<Rightarrow> app_error + logout_request"
  hy_redirect :: "string \<Rightarrow> app_error + string"
  hy_introspection :: "string \<Rightarrow> app_error + introspection"
  hy_client :: "(json \<Rightarrow> json) \<Rightarrow> string \<Rightarrow> app_error + hydra_client"
  hy_clients :: "(json \<Rightarrow> json) \<Rightarrow> string \<Rightarrow> app_error + hydra_client list"

section \<open>The client\<close>

definition send :: "hydra \<Rightarrow> http_call \<Rightarrow> http_reply hydra_action" where
  "send H call log = (hy_server H log call, log @ [call])"

definition raise_for_status :: "(int \<Rightarrow> string \<Rightarrow> app_error) \<Rightarrow> http_reply \<Rightarrow> app_error + unit" where
  "raise_for_status not_found_error response =
     (if hr_status response < 400 then Inr ()
      else if hr_status response = 404 then Inl (not_found_error (hr_status response) (hr_text response))
      else if hr_status response = 410 then Inl (HydraChallengeGoneError (hr_status response) (hr_text response))
      else Inl (HydraAdminError (hr_status response) (hr_text response)))"

definition raise_client_status :: "http_reply \<Rightarrow> app_error + unit" where
  "raise_client_status response =
     (case raise_for_status HydraClientNotFoundError response of
        Inl (HydraClientNotFoundError n m) \<Rightarrow> Inl (ProviderClientNotFoundError m)
      | r \<Rightarrow> r)"

text \<open>The shape of every call: send, check the status, validate the body.\<close>

definition ask :: "hydra \<Rightarrow> http_call \<Rightarrow> (http_reply \<Rightarrow> app_error + unit) \<Rightarrow> (string \<Rightarrow> app_error + 'a) \<Rightarrow> 'a hydra_action" where
  "ask H call check validate =
     bnd (send H call) (\<lambda>response. thn (lift (check response)) (lift (validate (hr_text response))))"

abbreviation challenge_status :: "http_reply \<Rightarrow> app_error + unit" where
  "challenge_status \<equiv> raise_for_status HydraChallengeNotFoundError"

abbreviation admin_status :: "http_reply \<Rightarrow> app_error + unit" where
  "admin_status \<equiv> raise_for_status HydraAdminError"

definition get_login_request :: "hydra \<Rightarrow> string \<Rightarrow> login_request hydra_action" where
  "get_login_request H login_challenge =
     ask H (HttpGet ''/admin/oauth2/auth/requests/login'' [(''login_challenge'', login_challenge)])
       challenge_status (hy_login_request H)"

definition accept_login_body ::
    "string \<Rightarrow> bool \<Rightarrow> int \<Rightarrow> string option \<Rightarrow> string list option \<Rightarrow> payload option \<Rightarrow> payload" where
  "accept_login_body subject keep remember_for acr amr context =
     [(''subject'', JStr subject), (''remember'', JBool keep), (''remember_for'', JInt remember_for)] @
     (if truthy acr then [(''acr'', JStr (the acr))] else []) @
     (case amr of None \<Rightarrow> [] | Some l \<Rightarrow> if l = [] then [] else [(''amr'', JList (map JStr l))]) @
     (case context of None \<Rightarrow> [] | Some c \<Rightarrow> [(''context'', JObj c)])"

definition accept_login_request ::
    "hydra \<Rightarrow> string \<Rightarrow> string \<Rightarrow> bool \<Rightarrow> int \<Rightarrow> string option \<Rightarrow> string list option \<Rightarrow> payload option \<Rightarrow> string hydra_action" where
  "accept_login_request H login_challenge subject keep remember_for acr amr context =
     ask H (HttpPut ''/admin/oauth2/auth/requests/login/accept'' [(''login_challenge'', login_challenge)]
         (JsonBody (accept_login_body subject keep remember_for acr amr context)))
       challenge_status (hy_redirect H)"

definition reject_login_request :: "hydra \<Rightarrow> string \<Rightarrow> string \<Rightarrow> string \<Rightarrow> string hydra_action" where
  "reject_login_request H login_challenge err error_description =
     ask H (HttpPut ''/admin/oauth2/auth/requests/login/reject'' [(''login_challenge'', login_challenge)]
         (JsonBody [(''error'', JStr err), (''error_description'', JStr error_description)]))
       challenge_status (hy_redirect H)"

definition get_consent_request :: "hydra \<Rightarrow> string \<Rightarrow> consent_request hydra_action" where
  "get_consent_request H consent_challenge =
     ask H (HttpGet ''/admin/oauth2/auth/requests/consent'' [(''consent_challenge'', consent_challenge)])
       challenge_status (hy_consent_request H coerce_null_context)"

definition accept_consent_body ::
    "string list \<Rightarrow> string list option \<Rightarrow> bool \<Rightarrow> int \<Rightarrow> payload option \<Rightarrow> payload option \<Rightarrow> payload" where
  "accept_consent_body grant_scope audience keep remember_for id_token_claims access_token_claims =
     (let given = (\<lambda>c. case c of None \<Rightarrow> [] | Some p \<Rightarrow> p) in
      [(''grant_scope'', JList (map JStr grant_scope)), (''remember'', JBool keep), (''remember_for'', JInt remember_for)] @
      (case audience of None \<Rightarrow> [] | Some l \<Rightarrow> [(''grant_access_token_audience'', JList (map JStr l))]) @
      (if given id_token_claims \<noteq> [] \<or> given access_token_claims \<noteq> []
       then [(''session'', JObj [(''id_token'', JObj (given id_token_claims)), (''access_token'', JObj (given access_token_claims))])]
       else []))"

definition accept_consent_request ::
    "hydra \<Rightarrow> string \<Rightarrow> string list \<Rightarrow> string list option \<Rightarrow> bool \<Rightarrow> int \<Rightarrow> payload option \<Rightarrow> payload option \<Rightarrow> string hydra_action" where
  "accept_consent_request H consent_challenge grant_scope audience keep remember_for id_token_claims access_token_claims =
     ask H (HttpPut ''/admin/oauth2/auth/requests/consent/accept'' [(''consent_challenge'', consent_challenge)]
         (JsonBody (accept_consent_body grant_scope audience keep remember_for id_token_claims access_token_claims)))
       challenge_status (hy_redirect H)"

definition reject_consent_request :: "hydra \<Rightarrow> string \<Rightarrow> string \<Rightarrow> string \<Rightarrow> string hydra_action" where
  "reject_consent_request H consent_challenge err error_description =
     ask H (HttpPut ''/admin/oauth2/auth/requests/consent/reject'' [(''consent_challenge'', consent_challenge)]
         (JsonBody [(''error'', JStr err), (''error_description'', JStr error_description)]))
       challenge_status (hy_redirect H)"

definition get_logout_request :: "hydra \<Rightarrow> string \<Rightarrow> logout_request hydra_action" where
  "get_logout_request H logout_challenge =
     ask H (HttpGet ''/admin/oauth2/auth/requests/logout'' [(''logout_challenge'', logout_challenge)])
       challenge_status (hy_logout_request H)"

definition accept_logout_request :: "hydra \<Rightarrow> string \<Rightarrow> string hydra_action" where
  "accept_logout_request H logout_challenge =
     ask H (HttpPut ''/admin/oauth2/auth/requests/logout/accept'' [(''logout_challenge'', logout_challenge)] NoBody)
       challenge_status (hy_redirect H)"

definition reject_logout_request :: "hydra \<Rightarrow> string \<Rightarrow> unit hydra_action" where
  "reject_logout_request H logout_challenge =
     ask H (HttpPut ''/admin/oauth2/auth/requests/logout/reject'' [(''logout_challenge'', logout_challenge)] NoBody)
       challenge_status (\<lambda>_. Inr ())"

text \<open>Revocation: a subject the server does not know is not an error.\<close>

definition known_or_gone :: "http_reply \<Rightarrow> app_error + unit" where
  "known_or_gone response = (if hr_status response = 404 then Inr () else admin_status response)"

definition revoke_login_sessions :: "hydra \<Rightarrow> string \<Rightarrow> unit hydra_action" where
  "revoke_login_sessions H subject =
     ask H (HttpDelete ''/admin/oauth2/auth/sessions/login'' [(''subject'', subject)]) known_or_gone (\<lambda>_. Inr ())"

definition revoke_consent_sessions :: "hydra \<Rightarrow> string \<Rightarrow> unit hydra_action" where
  "revoke_consent_sessions H subject =
     ask H (HttpDelete ''/admin/oauth2/auth/sessions/consent'' [(''subject'', subject)]) known_or_gone (\<lambda>_. Inr ())"

definition introspect_token :: "hydra \<Rightarrow> string \<Rightarrow> string option \<Rightarrow> introspection hydra_action" where
  "introspect_token H token scope =
     ask H (HttpPost ''/admin/oauth2/introspect''
         (FormBody ([(''token'', token), (''token_type_hint'', ''access_token'')] @
            (if truthy scope then [(''scope'', the scope)] else []))))
       admin_status (hy_introspection H)"

fun join_words :: "string list \<Rightarrow> string" where
  "join_words [] = []"
| "join_words [w] = w"
| "join_words (w # ws) = w @ '' '' @ join_words ws"

definition client_to_wire :: "client_create \<Rightarrow> payload" where
  "client_to_wire data =
     [(''client_name'', JStr (nc_client_name data)),
      (''redirect_uris'', JList (map JStr (nc_redirect_uris data))),
      (''grant_types'', JList (map JStr (nc_grant_types data))),
      (''response_types'', JList (map JStr (nc_response_types data))),
      (''scope'', JStr (join_words (nc_scope data))),
      (''token_endpoint_auth_method'', JStr (nc_token_endpoint_auth_method data))] @
     (if truthy (nc_client_uri data) then [(''client_uri'', JStr (the (nc_client_uri data)))] else []) @
     (if truthy (nc_client_id data) then [(''client_id'', JStr (the (nc_client_id data)))] else []) @
     (if truthy (nc_client_secret data) then [(''client_secret'', JStr (the (nc_client_secret data)))] else [])"

definition hydra_create_client :: "hydra \<Rightarrow> client_create \<Rightarrow> hydra_client hydra_action" where
  "hydra_create_client H data =
     ask H (HttpPost ''/admin/clients'' (JsonBody (client_to_wire data))) admin_status (hy_client H split_scope)"

definition hydra_get_client :: "hydra \<Rightarrow> string \<Rightarrow> hydra_client option hydra_action" where
  "hydra_get_client H client_id =
     bnd (send H (HttpGet (''/admin/clients/'' @ client_id) [])) (\<lambda>response.
       if hr_status response = 404 then ret None
       else thn (lift (raise_for_status HydraClientNotFoundError response))
              (bnd (lift (hy_client H split_scope (hr_text response))) (\<lambda>c. ret (Some c))))"

definition hydra_list_clients :: "hydra \<Rightarrow> int \<Rightarrow> hydra_client list hydra_action" where
  "hydra_list_clients H page_size =
     ask H (HttpGet ''/admin/clients'' [(''page_size'', int_str page_size)]) admin_status (hy_clients H split_scope)"

definition hydra_delete_client :: "hydra \<Rightarrow> string \<Rightarrow> unit hydra_action" where
  "hydra_delete_client H client_id =
     ask H (HttpDelete (''/admin/clients/'' @ client_id) []) raise_client_status (\<lambda>_. Inr ())"

definition hydra_rotate_client_secret :: "hydra \<Rightarrow> string \<Rightarrow> hydra_client hydra_action" where
  "hydra_rotate_client_secret H client_id =
     ask H (HttpPost (''/admin/clients/'' @ client_id @ ''/secrets/rotate'') NoBody) raise_client_status (hy_client H split_scope)"

section \<open>Commands and queries on OAuth clients\<close>

record create_oauth_client_input =
  oi_client_name :: string
  oi_redirect_uris :: "string list"
  oi_grant_types :: "string list"
  oi_scopes :: "string list"
  oi_is_confidential :: bool
  oi_client_uri :: "string option"

record create_oauth_client_output =
  oo_client_id :: string
  oo_client_secret :: "string option"
  oo_client_name :: string
  oo_redirect_uris :: "string list"
  oo_grant_types :: "string list"
  oo_scopes :: "string list"
  oo_is_confidential :: bool

record client_dto =
  cd_client_id :: string
  cd_client_name :: string
  cd_client_uri :: "string option"
  cd_redirect_uris :: "string list"
  cd_grant_types :: "string list"
  cd_scopes :: "string list"
  cd_is_confidential :: bool

definition create_oauth_client :: "hydra \<Rightarrow> create_oauth_client_input \<Rightarrow> create_oauth_client_output hydra_action" where
  "create_oauth_client H data =
     bnd (hydra_create_client H
       \<lparr>nc_client_name = oi_client_name data, nc_redirect_uris = oi_redirect_uris data,
        nc_grant_types = oi_grant_types data,
        nc_response_types = (if ''authorization_code'' \<in> set (oi_grant_types data) then [''code''] else []),
        nc_scope = oi_scopes data,
        nc_token_endpoint_auth_method = (if oi_is_confidential data then ''client_secret_basic'' else ''none''),
        nc_client_uri = oi_client_uri data, nc_client_id = None, nc_client_secret = None\<rparr>) (\<lambda>client.
     ret \<lparr>oo_client_id = hc_client_id client, oo_client_secret = hc_client_secret client,
          oo_client_name = hc_client_name client, oo_redirect_uris = hc_redirect_uris client,
          oo_grant_types = hc_grant_types client, oo_scopes = hc_scope client,
          oo_is_confidential = (hc_token_endpoint_auth_method client \<noteq> ''none'')\<rparr>)"

definition list_oauth_clients :: "hydra \<Rightarrow> client_dto list hydra_action" where
  "list_oauth_clients H =
     bnd (hydra_list_clients H 100) (\<lambda>clients.
     ret (map (\<lambda>c. \<lparr>cd_client_id = hc_client_id c, cd_client_name = hc_client_name c, cd_client_uri = hc_client_uri c,
            cd_redirect_uris = hc_redirect_uris c, cd_grant_types = hc_grant_types c, cd_scopes = hc_scope c,
            cd_is_confidential = (hc_token_endpoint_auth_method c \<noteq> ''none'')\<rparr>) clients))"

text \<open>\<open>except ProviderClientNotFoundError as e: raise OAuthClientNotFoundError(client_id) from e\<close>\<close>

definition or_client_not_found :: "string \<Rightarrow> 'a hydra_action \<Rightarrow> 'a hydra_action" where
  "or_client_not_found client_id m log =
     (case m log of
        (Inl (ProviderClientNotFoundError x), log') \<Rightarrow> (Inl (OAuthClientNotFoundError client_id), log')
      | r \<Rightarrow> r)"

definition delete_oauth_client :: "hydra \<Rightarrow> string \<Rightarrow> unit hydra_action" where
  "delete_oauth_client H client_id = or_client_not_found client_id (hydra_delete_client H client_id)"

definition rotate_client_secret :: "hydra \<Rightarrow> string \<Rightarrow> (string \<times> string option) hydra_action" where
  "rotate_client_secret H client_id =
     bnd (or_client_not_found client_id (hydra_rotate_client_secret H client_id)) (\<lambda>client.
     ret (hc_client_id client, hc_client_secret client))"

section \<open>What the client asks\<close>

lemma ask_log: "snd (ask H call check validate log) = log @ [call]"
  by (simp add: ask_def bnd_def send_def thn_def split: sum.splits)

lemma ask_cases:
  "ask H call check validate log = (case hy_server H log call of
      Inl e \<Rightarrow> Inl e
    | Inr response \<Rightarrow> rbind (check response) (\<lambda>_. validate (hr_text response)), log @ [call])"
  by (auto simp: ask_def bnd_def send_def thn_def split: sum.splits)

lemma raise_client_status_cases:
  "raise_client_status r = (if hr_status r < 400 then Inr () else if hr_status r = 404 then Inl (ProviderClientNotFoundError (hr_text r))
     else if hr_status r = 410 then Inl (HydraChallengeGoneError (hr_status r) (hr_text r))
     else Inl (HydraAdminError (hr_status r) (hr_text r)))"
  by (simp add: raise_client_status_def raise_for_status_def)

text \<open>A command on an unknown client fails with the application's own error, and only that status
  does; deleting what exists succeeds.\<close>

lemma delete_oauth_client_outcome:
  assumes "hy_server H log (HttpDelete (''/admin/clients/'' @ i) []) = Inr r"
  shows "fst (delete_oauth_client H i log) = (if hr_status r < 400 then Inr () else if hr_status r = 404 then Inl (OAuthClientNotFoundError i)
     else if hr_status r = 410 then Inl (HydraChallengeGoneError 410 (hr_text r)) else Inl (HydraAdminError (hr_status r) (hr_text r)))"
  using assms by (simp add: delete_oauth_client_def or_client_not_found_def hydra_delete_client_def ask_cases raise_client_status_cases)

lemma split_ws_word: "w \<noteq> [] \<Longrightarrow> list_all (\<lambda>c. \<not> is_space c) w \<Longrightarrow> split_ws w = [w]"
  by (cases w) (auto simp: list_all_iff takeWhile_eq_all_conv dropWhile_eq_Nil_conv [THEN iffD2])

lemma split_ws_word_space:
  assumes "w \<noteq> []" and "list_all (\<lambda>c. \<not> is_space c) w" and "is_space b"
  shows "split_ws (w @ b # s) = w # split_ws s"
proof -
  obtain c cs where w: "w = c # cs" using assms(1) by (cases w) auto
  have t: "takeWhile (\<lambda>x. \<not> is_space x) (cs @ b # s) = cs" "dropWhile (\<lambda>x. \<not> is_space x) (cs @ b # s) = b # s"
    using assms(2,3) w by (simp_all add: list_all_iff takeWhile_append2 dropWhile_append2)
  show ?thesis using assms(2,3) w t by simp
qed

text \<open>The scopes a client is created with come back from the wire: what \<open>client_to_wire\<close> joins with
  spaces, the schema's validator splits again.\<close>

theorem scope_roundtrip:
  assumes "list_all (\<lambda>w. w \<noteq> [] \<and> list_all (\<lambda>c. \<not> is_space c) w) (nc_scope data)"
  shows "split_scope (the (map_of (client_to_wire data) ''scope'')) = JList (map JStr (nc_scope data))"
proof -
  have b: "is_space (CHR '' '')" by code_simp
  have "list_all (\<lambda>w. w \<noteq> [] \<and> list_all (\<lambda>c. \<not> is_space c) w) ws \<Longrightarrow> split_ws (join_words ws) = ws" for ws
    by (induction ws rule: join_words.induct) (simp_all add: split_ws_word split_ws_word_space b)
  from this [OF assms] show ?thesis by (simp add: client_to_wire_def split_scope_def)
qed

end
