(* ===== verification/Http_Edge.thy ===== *)
theory Http_Edge
  imports Use_Cases Readers Hydra_Client
begin

text \<open>
  The edge of the HTTP service (presentation/http): whose address a request counts against, the
  redirect to HTTPS, bearer authentication by introspection with its cache, the guards, the
  exception handlers, and the registration endpoint with its idempotency key.

  The authorization server is outside the repository: \<open>ix_introspect\<close> is its answer at an instant,
  \<open>ix_dump\<close> and \<open>ix_validate\<close> the JSON codec of pydantic for the answer, \<open>ix_token_ok\<close> the check
  litestar's Token makes of its dates. Whether a peer lies in a configured proxy network is an
  argument.
\<close>

section \<open>The client's address\<close>

definition UNKNOWN_CLIENT :: string where
  "UNKNOWN_CLIENT = ''unknown''"

definition first_forwarded :: "string \<Rightarrow> string option" where
  "first_forwarded header = find_row (\<lambda>c. c \<noteq> []) (map strip (split_on (CHR '','') header))"

definition client_ip :: "(string \<Rightarrow> bool) \<Rightarrow> string option \<Rightarrow> string option \<Rightarrow> string option" where
  "client_ip is_trusted peer forwarded =
     (case peer of
        None \<Rightarrow> None
      | Some p \<Rightarrow>
          if is_trusted p \<and> truthy forwarded
          then (case first_forwarded (the forwarded) of None \<Rightarrow> Some p | Some c \<Rightarrow> Some c)
          else Some p)"

definition client_ip_or_unknown :: "(string \<Rightarrow> bool) \<Rightarrow> string option \<Rightarrow> string option \<Rightarrow> string" where
  "client_ip_or_unknown is_trusted peer forwarded =
     (let c = client_ip is_trusted peer forwarded in if truthy c then the c else UNKNOWN_CLIENT)"

section \<open>The redirect to HTTPS\<close>

definition PROBE_PATH :: string where
  "PROBE_PATH = ''/health''"

definition normalise_host :: "string \<Rightarrow> string" where
  "normalise_host host =
     (let h = lower (strip host) in
      if take 1 h = ''['' \<and> CHR '']'' \<in> set h then takeWhile (\<lambda>c. c \<noteq> CHR '']'') h @ '']''
      else takeWhile (\<lambda>c. c \<noteq> CHR '':'') h)"

record redirect_config =
  rc_enabled :: bool
  rc_public_host :: "string option"
  rc_allowed_hosts :: "string list"

text \<open>__init__: an empty PUBLIC_HOST counts as unset.\<close>

definition redirect_settings :: "bool \<Rightarrow> string option \<Rightarrow> string \<Rightarrow> redirect_config" where
  "redirect_settings enabled public_host allowed_hosts =
     \<lparr>rc_enabled = enabled, rc_public_host = (if truthy public_host then public_host else None),
      rc_allowed_hosts = map normalise_host (filter (\<lambda>e. strip e \<noteq> []) (split_on (CHR '','') allowed_hosts))\<rparr>"

definition redirect_host :: "redirect_config \<Rightarrow> string \<Rightarrow> string option" where
  "redirect_host cfg request_host =
     (if truthy (rc_public_host cfg) then rc_public_host cfg
      else (let host = normalise_host request_host in if host \<in> set (rc_allowed_hosts cfg) then Some host else None))"

datatype edge_reply = PassOn | RedirectTo string | BadRequest string

definition https_redirect ::
    "redirect_config \<Rightarrow> string \<Rightarrow> string option \<Rightarrow> string option \<Rightarrow> string \<Rightarrow> edge_reply" where
  "https_redirect cfg path forwarded_proto host query_string =
     (if \<not> rc_enabled cfg then PassOn
      else if path = PROBE_PATH \<or> take 8 path = PROBE_PATH @ ''/'' then PassOn
      else if (case forwarded_proto of None \<Rightarrow> ''http'' | Some p \<Rightarrow> p) \<noteq> ''https'' then
        (case redirect_host cfg (case host of None \<Rightarrow> '''' | Some h \<Rightarrow> h) of
           None \<Rightarrow> BadRequest ''Unrecognised host''
         | Some h \<Rightarrow> RedirectTo (''https://'' @ h @ path @ (if query_string = [] then [] else ''?'' @ query_string)))
      else PassOn)"

section \<open>Bearer authentication\<close>

record introspector =
  ix_introspect :: "datetime \<Rightarrow> string \<Rightarrow> app_error + introspection"
  ix_dump :: "introspection \<Rightarrow> string"
  ix_validate :: "string \<Rightarrow> introspection option"
  ix_token_ok :: "datetime \<Rightarrow> datetime \<Rightarrow> datetime \<Rightarrow> bool"

record hydra_config =
  hg_login_remember_seconds :: int
  hg_consent_remember_seconds :: int
  hg_ttl :: int
  hg_negative_ttl :: int

datatype http_error = NotAuthorized string | PermissionDenied string | HTTPException int string | ImproperlyConfigured | Raised app_error

record user_security =
  us_user_id :: uuid
  us_scopes :: "string list"

record token =
  tk_sub :: string
  tk_exp :: datetime
  tk_iat :: datetime
  tk_scopes :: string
  tk_session_id :: string
  tk_client_id :: string

definition introspection_cache_key :: "env \<Rightarrow> string \<Rightarrow> string" where
  "introspection_cache_key E tok = ''hydra:introspect:'' @ hex (from_raw E tok)"

definition retrieve_user :: "token \<Rightarrow> http_error + user_security" where
  "retrieve_user t =
     (case uuid_parse (tk_sub t) of
        None \<Rightarrow> Inl (NotAuthorized ''Token subject is not a user'')
      | Some i \<Rightarrow> Inr \<lparr>us_user_id = i, us_scopes = split_ws (tk_scopes t)\<rparr>)"

definition accept_introspection :: "introspector \<Rightarrow> datetime \<Rightarrow> introspection \<Rightarrow> http_error + (user_security \<times> token)" where
  "accept_introspection H now i =
     (if \<not> in_active i \<or> \<not> truthy (in_sub i) then Inl (NotAuthorized '''')
      else if in_token_use i \<noteq> None \<and> in_token_use i \<noteq> Some ''access_token'' then Inl (NotAuthorized '''')
      else
        (let ex = (case in_exp i of Some e \<Rightarrow> if e \<noteq> 0 then seconds e else now + minutes 5 | None \<Rightarrow> now + minutes 5);
             ia = (case in_iat i of Some e \<Rightarrow> if e \<noteq> 0 then seconds e else now | None \<Rightarrow> now);
             tok = \<lparr>tk_sub = the (in_sub i), tk_exp = ex, tk_iat = ia, tk_scopes = in_scope i,
                    tk_session_id = (case map_of (in_ext i) ''session_id'' of Some (JStr s) \<Rightarrow> s | _ \<Rightarrow> ''''),
                    tk_client_id = (case in_client_id i of None \<Rightarrow> '''' | Some c \<Rightarrow> c)\<rparr> in
         if \<not> ix_token_ok H ex ia now then Inl ImproperlyConfigured
         else rbind (retrieve_user tok) (\<lambda>u. Inr (u, tok))))"

definition authenticate_token ::
    "env \<Rightarrow> introspector \<Rightarrow> hydra_config \<Rightarrow> datetime \<Rightarrow> string \<Rightarrow> mem_cache \<Rightarrow>
     (http_error + (user_security \<times> token)) \<times> mem_cache" where
  "authenticate_token E H cfg now tok c =
     (let key = introspection_cache_key E tok; (cached, c1) = mem_get now key c in
      case cached of
        Some s \<Rightarrow>
          (case ix_validate H s of
             None \<Rightarrow> (Inl (NotAuthorized ''''), c1)
           | Some i \<Rightarrow> (accept_introspection H now i, c1))
      | None \<Rightarrow>
          (case ix_introspect H now tok of
             Inl e \<Rightarrow> (Inl (Raised e), c1)
           | Inr i \<Rightarrow>
               (accept_introspection H now i,
                mem_set now key (ix_dump H i) (Some (if in_active i then hg_ttl cfg else hg_negative_ttl cfg)) c1)))"

section \<open>Guards and exception handlers\<close>

definition ADMIN_PERMISSION :: string where
  "ADMIN_PERMISSION = ''admin''"

definition require_admin :: "user_security \<Rightarrow> db \<Rightarrow> http_error + unit" where
  "require_admin user d =
     (case check_permission (us_user_id user) ADMIN_PERMISSION d of
        Inl e \<Rightarrow> Inl (Raised e)
      | Inr is_admin \<Rightarrow> if \<not> is_admin then Inl (PermissionDenied ''Admin permission required'') else Inr ())"

definition require_scope :: "string \<Rightarrow> user_security \<Rightarrow> http_error + unit" where
  "require_scope scope user =
     (if scope \<notin> set (us_scopes user) then Inl (PermissionDenied (''OAuth scope '' @ quoted scope @ '' required''))
      else Inr ())"

text \<open>\<open>exc.__class__.__name__\<close>.\<close>

primrec class_name :: "app_error \<Rightarrow> string" where
  "class_name (EmptyEmailError x) = ''EmptyEmailError''"
| "class_name (InvalidEmailFormatError x) = ''InvalidEmailFormatError''"
| "class_name (EmptyUsernameError x) = ''EmptyUsernameError''"
| "class_name (TooLongUsernameError x) = ''TooLongUsernameError''"
| "class_name (WrongUsernameFormatError x) = ''WrongUsernameFormatError''"
| "class_name (EmptyPasswordError x) = ''EmptyPasswordError''"
| "class_name (PasswordTooShortError x) = ''PasswordTooShortError''"
| "class_name (PasswordTooLongError x) = ''PasswordTooLongError''"
| "class_name (PasswordTooWeakError x) = ''PasswordTooWeakError''"
| "class_name WrongTokenHashError = ''WrongTokenHashError''"
| "class_name (WrongRoleIDError x) = ''WrongRoleIDError''"
| "class_name (WrongUserIDError x) = ''WrongUserIDError''"
| "class_name (WrongRoleNameError x) = ''WrongRoleNameError''"
| "class_name (WrongPermissionNameError x) = ''WrongPermissionNameError''"
| "class_name (UserIsDeletedError x) = ''UserIsDeletedError''"
| "class_name (UsernameAlreadyExistsError x) = ''UsernameAlreadyExistsError''"
| "class_name (EmailAlreadyExistsError x) = ''EmailAlreadyExistsError''"
| "class_name (InvalidCredentialsError x) = ''InvalidCredentialsError''"
| "class_name (UserNotFoundError x) = ''UserNotFoundError''"
| "class_name (InvalidTokenError x) = ''InvalidTokenError''"
| "class_name (AccountLockedError x) = ''AccountLockedError''"
| "class_name EmailNotVerifiedError = ''EmailNotVerifiedError''"
| "class_name PasswordResetExpiredError = ''PasswordResetExpiredError''"
| "class_name (PermissionDeniedError x) = ''PermissionDeniedError''"
| "class_name (RoleNotFoundError x) = ''RoleNotFoundError''"
| "class_name (RoleAlreadyExistsError x) = ''RoleAlreadyExistsError''"
| "class_name TwoFactorAlreadyEnabledError = ''TwoFactorAlreadyEnabledError''"
| "class_name TwoFactorNotEnrolledError = ''TwoFactorNotEnrolledError''"
| "class_name (ConcurrentModificationError x) = ''ConcurrentModificationError''"
| "class_name RefreshTokenReuseError = ''RefreshTokenReuseError''"
| "class_name (ConfigurationError x) = ''ConfigurationError''"
| "class_name (TooManyLoginAttemptsError x) = ''TooManyLoginAttemptsError''"
| "class_name (OAuthClientNotFoundError x) = ''OAuthClientNotFoundError''"
| "class_name TwoFactorChallengeExpiredError = ''TwoFactorChallengeExpiredError''"
| "class_name SecretDecryptionError = ''SecretDecryptionError''"
| "class_name (ValueError x) = ''ValueError''"
| "class_name UnicodeEncodeError = ''UnicodeEncodeError''"
| "class_name (IntegrityError x) = ''IntegrityError''"
| "class_name (ProviderClientNotFoundError x) = ''ProviderClientNotFoundError''"
| "class_name (HydraAdminError x y) = ''HydraAdminError''"
| "class_name (HydraChallengeNotFoundError x y) = ''HydraChallengeNotFoundError''"
| "class_name (HydraChallengeGoneError x y) = ''HydraChallengeGoneError''"
| "class_name (HydraClientNotFoundError x y) = ''HydraClientNotFoundError''"
| "class_name (TransportError x) = ''TransportError''"

record response =
  rs_status :: "int option"
  rs_error :: string
  rs_detail :: string
  rs_headers :: "(string \<times> string) list"

definition app_exception_handler :: "app_error \<Rightarrow> response" where
  "app_exception_handler exc =
     \<lparr>rs_status = status exc, rs_error = class_name exc, rs_detail = detail exc,
      rs_headers = (case exc of TooManyLoginAttemptsError (Some n) \<Rightarrow> [(''Retry-After'', int_str n)] | _ \<Rightarrow> [])\<rparr>"

definition domain_exception_handler :: "app_error \<Rightarrow> response" where
  "domain_exception_handler exc =
     \<lparr>rs_status = status exc, rs_error = class_name exc, rs_detail = detail exc, rs_headers = []\<rparr>"

text \<open>The attribute \<open>status_code\<close> of the errors of the Hydra adapter.\<close>

definition hydra_status_code :: "app_error \<Rightarrow> int option" where
  "hydra_status_code exc =
     (case exc of
        HydraAdminError n m \<Rightarrow> Some n
      | HydraChallengeNotFoundError n m \<Rightarrow> Some n
      | HydraChallengeGoneError n m \<Rightarrow> Some n
      | HydraClientNotFoundError n m \<Rightarrow> Some n
      | _ \<Rightarrow> None)"

definition hydra_admin_error_handler :: "app_error \<Rightarrow> response" where
  "hydra_admin_error_handler exc =
     \<lparr>rs_status = map_option (\<lambda>n. if 400 \<le> n \<and> n < 500 then n else 502) (hydra_status_code exc),
      rs_error = class_name exc, rs_detail = detail exc, rs_headers = []\<rparr>"

section \<open>Registration\<close>

record register_request =
  rq_username :: string
  rq_password :: codepoints
  rq_email :: "string option"
  rq_peer :: "string option"
  rq_forwarded :: "string option"
  rq_idempotency_key :: "string option"

text \<open>The JSON codec of the stored response is an argument.\<close>

definition cached_user_id :: "payload option \<Rightarrow> string option" where
  "cached_user_id cached =
     (case cached of None \<Rightarrow> None
      | Some p \<Rightarrow> (case map_of p ''user_id'' of Some (JStr s) \<Rightarrow> Some s | _ \<Rightarrow> None))"

definition register_endpoint ::
    "env \<Rightarrow> (payload \<Rightarrow> string) \<Rightarrow> (string \<Rightarrow> app_error + payload) \<Rightarrow> (string \<Rightarrow> bool) \<Rightarrow> rate_limit_config \<Rightarrow>
     datetime \<Rightarrow> register_request \<Rightarrow> uuid action" where
  "register_endpoint E dump validate is_trusted cfg now rq =
     (let client_host = client_ip_or_unknown is_trusted (rq_peer rq) (rq_forwarded rq);
          key = rq_idempotency_key rq in
      bnd (if truthy key
           then bnd (on_cache_may_fail (get_cached_response InMemoryCache validate now ''register'' client_host (the key)))
                  (\<lambda>cached. ret (cached_user_id cached))
           else ret None) (\<lambda>cached.
      case cached of
        Some s \<Rightarrow> lift (case uuid_parse s of None \<Rightarrow> Inl (ValueError ''badly formed hexadecimal UUID string'') | Some i \<Rightarrow> Inr i)
      | None \<Rightarrow>
          bnd (create_user E cfg now \<lparr>cu_username = rq_username rq, cu_password = rq_password rq,
                 cu_email = rq_email rq, cu_ip_address = client_ip is_trusted (rq_peer rq) (rq_forwarded rq)\<rparr>) (\<lambda>user_id.
          thn (do_if (truthy key)
                 (on_cache (\<lambda>c. ((), cache_response InMemoryCache dump now ''register'' client_host (the key)
                    [(''user_id'', juuid user_id)] c))))
              (ret user_id))))"

section \<open>Where a request can be sent\<close>

text \<open>The redirect to HTTPS is not an open redirect: for every request, whatever its Host header
  says, the answer redirects only to the pinned public host or to an allow-listed host, always to
  the path and query that were asked for; probe paths are never redirected.\<close>

theorem redirect_stays_home:
  "case https_redirect cfg path proto host query_string of
     RedirectTo url \<Rightarrow>
       rc_enabled cfg \<and> proto \<noteq> Some ''https'' \<and> path \<noteq> PROBE_PATH \<and>
       (\<exists>h. url = ''https://'' @ h @ path @ (if query_string = [] then [] else ''?'' @ query_string) \<and>
          (if truthy (rc_public_host cfg) then rc_public_host cfg = Some h else h \<in> set (rc_allowed_hosts cfg)))
   | BadRequest m \<Rightarrow> rc_enabled cfg \<and> \<not> truthy (rc_public_host cfg) \<and>
       normalise_host (case host of None \<Rightarrow> '''' | Some x \<Rightarrow> x) \<notin> set (rc_allowed_hosts cfg)
   | PassOn \<Rightarrow> (if rc_enabled cfg then proto = Some ''https'' \<or> path = PROBE_PATH \<or> take 8 path = ''/health/'' else True)"
  by (auto simp: https_redirect_def redirect_host_def PROBE_PATH_def Let_def split: option.splits if_splits)

text \<open>A peer that is not a trusted proxy is counted under its own address, whatever it forwards.\<close>

lemma untrusted_header_ignored: "\<not> is_trusted p \<Longrightarrow> client_ip is_trusted (Some p) h = Some p"
  by (simp add: client_ip_def)

text \<open>Behind a trusted proxy the first entry of the header decides, and the client writes it.\<close>

lemma forwarded_entry_decides:
  "is_trusted p \<Longrightarrow> first_forwarded h = Some c \<Longrightarrow> client_ip is_trusted (Some p) (Some h) = Some c"
  by (cases h) (auto simp: client_ip_def first_forwarded_def strip_def strip_by_def find_row_def)

text \<open>The parts of an idempotency key are joined without escaping.\<close>

lemma idempotency_key_ambiguous:
  "cache_key e ''fe80::1'' ''2:k'' = cache_key e ''fe80::1:2'' ''k''"
  by (simp add: cache_key_def)

section \<open>How long a revoked token is accepted\<close>

text \<open>A sequence of authenticated requests over one cache, with the outcome of each.\<close>

fun auth_trace ::
    "env \<Rightarrow> introspector \<Rightarrow> hydra_config \<Rightarrow> (datetime \<times> string) list \<Rightarrow> mem_cache \<Rightarrow>
     (datetime \<times> string \<times> (http_error + (user_security \<times> token))) list" where
  "auth_trace E H cfg [] c = []"
| "auth_trace E H cfg ((now, tok) # rest) c =
     (let (r, c1) = authenticate_token E H cfg now tok c in (now, tok, r) # auth_trace E H cfg rest c1)"

text \<open>Every cached answer was given by the server, and expires with its time to live.\<close>

definition answers_kept :: "env \<Rightarrow> introspector \<Rightarrow> hydra_config \<Rightarrow> string set \<Rightarrow> datetime \<Rightarrow> mem_cache \<Rightarrow> bool" where
  "answers_kept E H cfg T t c =
     (\<forall>tok \<in> T. \<forall>v e. c (introspection_cache_key E tok) = Some (v, e) \<longrightarrow>
        (\<exists>t' i. t' \<le> t \<and> ix_introspect H t' tok = Inr i \<and> v = ix_dump H i \<and>
           e = Some (t' + seconds (if in_active i then hg_ttl cfg else hg_negative_ttl cfg))))"

text \<open>The documented round trip of pydantic: an answer of the server, dumped, validates to itself.\<close>

definition introspection_codec_law :: "introspector \<Rightarrow> bool" where
  "introspection_codec_law H =
     (\<forall>t k i. ix_introspect H t k = Inr i \<longrightarrow> ix_validate H (ix_dump H i) = Some i)"

text \<open>What an accepted answer says.\<close>

definition grants_access :: "introspection \<Rightarrow> bool" where
  "grants_access i = (in_active i \<and> truthy (in_sub i) \<and> (in_token_use i = None \<or> in_token_use i = Some ''access_token''))"

lemma accepted_grants: "accept_introspection H now i = Inr r \<Longrightarrow> grants_access i"
  by (auto simp: accept_introspection_def grants_access_def split: if_splits)

lemma mem_get_cases:
  "mem_get now k c = (v, c1) \<Longrightarrow> (c1 = c \<or> c1 = c(k := None)) \<and>
     (case v of None \<Rightarrow> True | Some s \<Rightarrow> \<exists>e. c k = Some (s, e) \<and> (case e of None \<Rightarrow> True | Some x \<Rightarrow> now < x))"
  by (auto simp: mem_get_def split: option.splits prod.splits if_splits)

lemma kept_forget: "answers_kept E H cfg T t c \<Longrightarrow> answers_kept E H cfg T t (c(k := None))"
  by (auto simp: answers_kept_def)

lemma kept_later: "answers_kept E H cfg T t c \<Longrightarrow> t \<le> t' \<Longrightarrow> answers_kept E H cfg T t' c"
  unfolding answers_kept_def by (meson order_trans)

lemma kept_set:
  assumes "answers_kept E H cfg T now c" and "inj_on (introspection_cache_key E) T" and "tok \<in> T"
    and "ix_introspect H now tok = Inr i" and "0 < hg_ttl cfg" and "0 < hg_negative_ttl cfg"
  shows "answers_kept E H cfg T now (mem_set now (introspection_cache_key E tok) (ix_dump H i)
     (Some (if in_active i then hg_ttl cfg else hg_negative_ttl cfg)) c)"
  unfolding answers_kept_def
proof (intro ballI allI impI)
  fix x v e assume x: "x \<in> T" and m: "mem_set now (introspection_cache_key E tok) (ix_dump H i)
     (Some (if in_active i then hg_ttl cfg else hg_negative_ttl cfg)) c (introspection_cache_key E x) = Some (v, e)"
  show "\<exists>t' j. t' \<le> now \<and> ix_introspect H t' x = Inr j \<and> v = ix_dump H j \<and>
     e = Some (t' + seconds (if in_active j then hg_ttl cfg else hg_negative_ttl cfg))"
  proof (cases "x = tok")
    case True
    with m assms(4-6) show ?thesis by (intro exI [of _ now] exI [of _ i]) (auto simp: mem_set_def Let_def split: if_splits)
  next
    case False
    with x assms(2,3) have "introspection_cache_key E x \<noteq> introspection_cache_key E tok" by (auto dest: inj_onD)
    with m assms(1) x show ?thesis by (simp add: mem_set_def Let_def answers_kept_def)
  qed
qed

lemma authenticate_step:
  assumes k: "answers_kept E H cfg T now c" and inj: "inj_on (introspection_cache_key E) T" and T: "tok \<in> T"
    and ttl: "0 < hg_ttl cfg" "0 < hg_negative_ttl cfg"
    and codec: "introspection_codec_law H"
    and a: "authenticate_token E H cfg now tok c = (r, c')"
  shows "answers_kept E H cfg T now c'"
    and "r = Inr x \<Longrightarrow> \<exists>t' i. t' \<le> now \<and> now < t' + seconds (hg_ttl cfg) \<and> ix_introspect H t' tok = Inr i \<and> grants_access i"
proof -
  let ?k = "introspection_cache_key E tok"
  obtain v c1 where g: "mem_get now ?k c = (v, c1)" by force
  note gc = mem_get_cases [OF g]
  have k1: "answers_kept E H cfg T now c1" using gc k kept_forget by auto
  have "answers_kept E H cfg T now c' \<and>
      (r = Inr x \<longrightarrow> (\<exists>t' i. t' \<le> now \<and> now < t' + seconds (hg_ttl cfg) \<and> ix_introspect H t' tok = Inr i \<and> grants_access i))"
  proof (cases v)
    case (Some s)
    then obtain e where e: "c ?k = Some (s, e)" "case e of None \<Rightarrow> True | Some y \<Rightarrow> now < y" using gc by auto
    with k T obtain t' i where i: "t' \<le> now" "ix_introspect H t' tok = Inr i" "s = ix_dump H i"
      "e = Some (t' + seconds (if in_active i then hg_ttl cfg else hg_negative_ttl cfg))"
      unfolding answers_kept_def by blast
    from a g Some i(3) codec i(2) have r: "r = accept_introspection H now i" "c' = c1"
      by (simp_all add: authenticate_token_def introspection_codec_law_def)
    have "grants_access i \<Longrightarrow> now < t' + seconds (hg_ttl cfg)" using e(2) i(4) by (simp add: grants_access_def)
    with k1 r i(1,2) accepted_grants show ?thesis by metis
  next
    case None
    show ?thesis
    proof (cases "ix_introspect H now tok")
      case (Inl e)
      with a g None k1 show ?thesis by (auto simp: authenticate_token_def)
    next
      case (Inr i)
      with a g None have r: "r = accept_introspection H now i" "c' = mem_set now ?k (ix_dump H i)
          (Some (if in_active i then hg_ttl cfg else hg_negative_ttl cfg)) c1"
        by (simp_all add: authenticate_token_def)
      from kept_set [OF k1 inj T Inr ttl] r(2) have "answers_kept E H cfg T now c'" by simp
      moreover have "now < now + seconds (hg_ttl cfg)" using ttl by simp
      ultimately show ?thesis using r(1) Inr accepted_grants by (metis order_refl)
    qed
  qed
  then show "answers_kept E H cfg T now c'"
    "r = Inr x \<Longrightarrow> \<exists>t' i. t' \<le> now \<and> now < t' + seconds (hg_ttl cfg) \<and> ix_introspect H t' tok = Inr i \<and> grants_access i"
    by blast+
qed

text \<open>C32. A bearer token is accepted only on the word of the authorization server, and on a recent
  one: in every sequence of requests over the shared cache, an accepted request at t had its token
  reported active, with a subject and not as a refresh token, at some instant less than the cache's
  time to live before t. A token revoked at the server is therefore refused after that time.\<close>

theorem revoked_token_window:
  assumes "sorted (map fst reqs)" and "inj_on (introspection_cache_key E) (snd ` set reqs)"
    and "0 < hg_ttl cfg" and "0 < hg_negative_ttl cfg" 
    and "introspection_codec_law H"
    and "(t, tok, Inr x) \<in> set (auth_trace E H cfg reqs Map.empty)"
  shows "\<exists>t' i. t' \<le> t \<and> t < t' + seconds (hg_ttl cfg) \<and> ix_introspect H t' tok = Inr i \<and> grants_access i"
proof -
  have "sorted (map fst qs) \<Longrightarrow> snd ` set qs \<subseteq> snd ` set reqs \<Longrightarrow> (\<And>q. q \<in> set qs \<Longrightarrow> t0 \<le> fst q) \<Longrightarrow>
      answers_kept E H cfg (snd ` set reqs) t0 c \<Longrightarrow> (t, tok, Inr x) \<in> set (auth_trace E H cfg qs c) \<Longrightarrow> ?thesis" for qs t0 c
  proof (induction qs arbitrary: t0 c)
    case (Cons q qs)
    obtain now k where q: "q = (now, k)" by force
    obtain r c' where a: "authenticate_token E H cfg now k c = (r, c')" by force
    have k: "answers_kept E H cfg (snd ` set reqs) now c" using kept_later [OF Cons.prems(4)] Cons.prems(3) [of q] q by simp
    have T: "k \<in> snd ` set reqs" using Cons.prems(2) q by auto
    note st = authenticate_step [OF k assms(2) T assms(3,4,5) a]
    show ?case
    proof (cases "(t, tok, Inr x) = (now, k, r)")
      case True
      then show ?thesis using st(2) [of x] by simp
    next
      case False
      then have "(t, tok, Inr x) \<in> set (auth_trace E H cfg qs c')" using Cons.prems(5) q a by auto
      from Cons.IH [OF _ _ _ st(1) this] Cons.prems(1,2) q show ?thesis by auto
    qed
  qed simp
  from this [of reqs "fst (hd reqs)" Map.empty] assms(1,6) show ?thesis
    by (cases reqs) (auto simp: answers_kept_def)
qed

definition demo_introspection :: introspection where
  "demo_introspection = \<lparr>in_active = True, in_token_use = Some ''access_token'', in_sub = Some (uuid_str 7), in_client_id = None,
     in_scope = ''openid profile'', in_aud = [], in_exp = None, in_iat = None, in_token_type = None, in_ext = []\<rparr>"

text \<open>A server that stops vouching for the token at the tenth second.\<close>

definition demo_introspector :: introspector where
  "demo_introspector = \<lparr>ix_introspect = (\<lambda>t tok. Inr (demo_introspection\<lparr>in_active := t < seconds 10\<rparr>)),
     ix_dump = (\<lambda>i. if in_active i then ''1'' else ''0''),
     ix_validate = (\<lambda>s. Some (demo_introspection\<lparr>in_active := (s = ''1'')\<rparr>)), ix_token_ok = (\<lambda>_ _ _. True)\<rparr>"

theorem revoked_token_window_witness:
  "\<exists>t' i. t' \<le> seconds 20 \<and> seconds 20 < t' + seconds 30 \<and> ix_introspect demo_introspector t' ''tok'' = Inr i \<and> grants_access i"
proof -
  let ?cfg = "\<lparr>hg_login_remember_seconds = 3600, hg_consent_remember_seconds = 2592000, hg_ttl = 30, hg_negative_ttl = 10\<rparr>"
  let ?u = "\<lparr>us_user_id = 7, us_scopes = [''openid'', ''profile'']\<rparr>"
  let ?t = "\<lparr>tk_sub = uuid_str 7, tk_exp = seconds 20 + minutes 5, tk_iat = seconds 20, tk_scopes = ''openid profile'',
      tk_session_id = '''', tk_client_id = ''''\<rparr>"
  have p: "uuid_parse (uuid_str 7) = Some 7" "split_ws ''openid profile'' = [''openid'', ''profile'']" "uuid_str 7 \<noteq> []" by code_simp+
  then have "(seconds 20, ''tok'', Inr (?u, ?t)) \<in>
      set (auth_trace sample_env demo_introspector ?cfg [(seconds 9, ''tok''), (seconds 20, ''tok'')] Map.empty)"
    by (simp add: authenticate_token_def mem_get_def mem_set_def demo_introspector_def accept_introspection_def demo_introspection_def
        retrieve_user_def)
  from revoked_token_window [OF _ _ _ _ _ this] show ?thesis
    by (auto simp: demo_introspector_def demo_introspection_def introspection_codec_law_def)
qed
end
