(* ===== verification/Middleware.thy ===== *)
theory Middleware
  imports Http_Edge
begin

text \<open>
  What wraps every response (presentation/http/middleware/security_headers.py, request_id.py,
  cors.py) and the readiness probe (presentation/http/controllers/health.py). A message of the ASGI
  protocol is its type and its headers; the probes' own outcomes, a timeout included, are arguments
  where the dependency is outside the repository.
\<close>

section \<open>Response headers\<close>

record asgi_message =
  am_type :: string
  am_headers :: "(string \<times> string) list"

definition single_quoted :: "string \<Rightarrow> string" where
  "single_quoted s = CHR 0x27 # s @ [CHR 0x27]"

definition CONTENT_SECURITY_POLICY :: string where
  "CONTENT_SECURITY_POLICY =
     ''default-src '' @ single_quoted ''self'' @ ''; frame-ancestors '' @ single_quoted ''none'' @
     ''; form-action '' @ single_quoted ''self'' @ ''; base-uri '' @ single_quoted ''self'' @
     ''; object-src '' @ single_quoted ''none'' @ ''; img-src '' @ single_quoted ''self'' @
     '' data:; style-src '' @ single_quoted ''self'' @ '' '' @ single_quoted ''unsafe-inline''"

definition BASE_HEADERS :: "(string \<times> string) list" where
  "BASE_HEADERS =
     [(''x-frame-options'', ''DENY''), (''x-content-type-options'', ''nosniff''), (''referrer-policy'', ''no-referrer''),
      (''cross-origin-opener-policy'', ''same-origin''),
      (''permissions-policy'', ''geolocation=(), microphone=(), camera=()''),
      (''content-security-policy'', CONTENT_SECURITY_POLICY)]"

definition HSTS_HEADER :: string where
  "HSTS_HEADER = ''max-age=63072000; includeSubDomains''"

definition has_header :: "string \<Rightarrow> asgi_message \<Rightarrow> bool" where
  "has_header name m = list_ex (\<lambda>h. fst h = name) (am_headers m)"

definition set_default_header :: "string \<times> string \<Rightarrow> asgi_message \<Rightarrow> asgi_message" where
  "set_default_header h m = (if has_header (fst h) m then m else m\<lparr>am_headers := am_headers m @ [h]\<rparr>)"

definition send_with_headers :: "bool \<Rightarrow> asgi_message \<Rightarrow> asgi_message" where
  "send_with_headers hsts m =
     (if am_type m = ''http.response.start''
      then fold set_default_header (BASE_HEADERS @ (if hsts then [(''strict-transport-security'', HSTS_HEADER)] else [])) m
      else m)"

section \<open>Request identifiers\<close>

text \<open>dict(scope['headers']): the last of several values.\<close>

definition request_id_of :: "env \<Rightarrow> nat \<Rightarrow> (string \<times> string) list \<Rightarrow> string" where
  "request_id_of E draw headers =
     (case map_of (rev headers) ''x-request-id'' of Some v \<Rightarrow> v | None \<Rightarrow> uuid_str (uuid4 E draw))"

definition with_request_id :: "string \<Rightarrow> (string \<times> string) list \<Rightarrow> (string \<times> string) list" where
  "with_request_id request_id headers = headers @ [(''x-request-id'', request_id)]"

definition send_with_request_id :: "string \<Rightarrow> asgi_message \<Rightarrow> asgi_message" where
  "send_with_request_id request_id m =
     (if am_type m = ''http.response.start'' then m\<lparr>am_headers := with_request_id request_id (am_headers m)\<rparr> else m)"

section \<open>Cross-origin requests\<close>

record cors_config =
  co_allow_origins :: "string list"
  co_allow_methods :: "string list"
  co_allow_headers :: "string list"
  co_allow_credentials :: bool
  co_max_age :: int

definition cors_for :: "string list \<Rightarrow> cors_config" where
  "cors_for origins =
     \<lparr>co_allow_origins = origins, co_allow_methods = [''GET'', ''POST'', ''PUT'', ''PATCH'', ''DELETE'', ''OPTIONS''],
      co_allow_headers = [''*''], co_allow_credentials = True, co_max_age = 3600\<rparr>"

definition cors_default :: cors_config where
  "cors_default = cors_for [''http://localhost:3000'', ''http://localhost:8080'']"

definition cors_production :: "string list option \<Rightarrow> app_error + cors_config" where
  "cors_production allowed_origins =
     (case allowed_origins of
        Some (o1 # os) \<Rightarrow> Inr (cors_for (o1 # os))
      | _ \<Rightarrow> Inl (ValueError ''ALLOWED_ORIGINS must be set to a comma-separated list of origins in production''))"

text \<open>get_litestar: which one, from the variable ALLOWED_ORIGINS.\<close>

definition app_cors :: "bool \<Rightarrow> string option \<Rightarrow> app_error + cors_config" where
  "app_cors production origins =
     (if production then cors_production (if truthy origins then Some (split_on (CHR '','') (the origins)) else None)
      else Inr cors_default)"

section \<open>Readiness\<close>

record dependency_status =
  dp_name :: string
  dp_ok :: bool
  dp_detail :: "string option"

text \<open>_check: a probe that raises, a timeout included, is the name of the exception's class.\<close>

definition check_dependency :: "string \<Rightarrow> string option \<Rightarrow> dependency_status" where
  "check_dependency name raised =
     (case raised of
        Some exc \<Rightarrow> \<lparr>dp_name = name, dp_ok = False, dp_detail = Some exc\<rparr>
      | None \<Rightarrow> \<lparr>dp_name = name, dp_ok = True, dp_detail = None\<rparr>)"

definition CHECK_TIMEOUT_SECONDS_INT :: int where
  "CHECK_TIMEOUT_SECONDS_INT = 3"

definition check_cache :: "'c cache_ops \<Rightarrow> datetime \<Rightarrow> 'c \<Rightarrow> string option \<times> 'c" where
  "check_cache ops now c =
     (let c1 = c_set ops now ''health:ready'' ''ok'' (Some CHECK_TIMEOUT_SECONDS_INT) c;
          (v, c2) = c_get ops now ''health:ready'' c1 in
      (if v \<noteq> Some ''ok'' then Some ''RuntimeError'' else None, c2))"

record readiness =
  rn_status :: string
  rn_dependencies :: "dependency_status list"
  rn_status_code :: int

definition ready :: "'c cache_ops \<Rightarrow> datetime \<Rightarrow> string option \<Rightarrow> string option \<Rightarrow> 'c \<Rightarrow> readiness \<times> 'c" where
  "ready ops now database hydra c =
     (let (cache, c1) = check_cache ops now c;
          dependencies = [check_dependency ''postgres'' database, check_dependency ''cache'' cache, check_dependency ''hydra'' hydra];
          all_ok = list_all dp_ok dependencies in
      (\<lparr>rn_status = (if all_ok then ''ready'' else ''not ready''), rn_dependencies = dependencies,
        rn_status_code = (if all_ok then 200 else 503)\<rparr>, c1))"

section \<open>Lemmas\<close>

lemma set_default_keeps: "set (am_headers m) \<subseteq> set (am_headers (set_default_header h m))"
  by (auto simp: set_default_header_def)

lemma fold_default_keeps: "set (am_headers m) \<subseteq> set (am_headers (fold set_default_header hs m))"
  by (induction hs arbitrary: m) (auto dest: subsetD [OF set_default_keeps])

lemma fold_default_sets: "h \<in> set hs \<Longrightarrow> has_header (fst h) (fold set_default_header hs m)"
proof (induction hs arbitrary: m)
  case (Cons x hs)
  have "has_header (fst x) (set_default_header x m)" by (simp add: set_default_header_def has_header_def)
  then have "has_header (fst x) (fold set_default_header hs (set_default_header x m))"
    using fold_default_keeps [of "set_default_header x m" hs] by (auto simp: has_header_def list_ex_iff)
  with Cons show ?case by auto
qed simp

text \<open>Every response starts with all the security headers, and keeps what the handler set.\<close>

lemma responses_hardened:
  assumes "am_type m = ''http.response.start''"
  shows "h \<in> set BASE_HEADERS \<Longrightarrow> has_header (fst h) (send_with_headers hsts m)"
    "has_header ''strict-transport-security'' (send_with_headers True m)"
    "set (am_headers m) \<subseteq> set (am_headers (send_with_headers hsts m))"
proof -
  show "h \<in> set BASE_HEADERS \<Longrightarrow> has_header (fst h) (send_with_headers hsts m)"
    using assms by (simp add: send_with_headers_def fold_default_sets del: fold_append)
  show "has_header ''strict-transport-security'' (send_with_headers True m)"
    using assms fold_default_sets [of "(''strict-transport-security'', HSTS_HEADER)" "BASE_HEADERS @ [(''strict-transport-security'', HSTS_HEADER)]" m]
    by (simp add: send_with_headers_def del: fold_append)
  show "set (am_headers m) \<subseteq> set (am_headers (send_with_headers hsts m))"
    using assms fold_default_keeps by (simp add: send_with_headers_def del: fold_append)
qed

text \<open>The probe of a cache that keeps its contract passes, so readiness turns on the others.\<close>

lemma ready_iff:
  assumes "cache_store ops"
  shows "rn_status_code (fst (ready ops now database hydra c)) = (if database = None \<and> hydra = None then 200 else 503)"
proof -
  have "fst (check_cache ops now c) = None"
    using cache_store.set_visible [OF assms, of CHECK_TIMEOUT_SECONDS_INT now now "''health:ready''" "''ok''" c]
    by (simp add: check_cache_def visible_def CHECK_TIMEOUT_SECONDS_INT_def case_prod_unfold Let_def)
  then show ?thesis by (auto simp: ready_def case_prod_unfold Let_def check_dependency_def split: option.splits)
qed

text \<open>A production service never falls back to permissive origins.\<close>

lemma production_origins: "app_cors True origins = Inr c \<Longrightarrow> truthy origins \<and> co_allow_origins c = split_on (CHR '','') (the origins)"
  by (auto simp: app_cors_def cors_production_def cors_for_def split: if_splits list.splits option.splits)

end
