(* ===== verification/Outbox.thy ===== *)
theory Outbox
  imports Unit_Of_Work "HOL-Library.Product_Lexorder"
begin

text \<open>
  The transactional outbox after the commit: the outbox repository
  (infrastructure/db/sqlalchemy/repositories/outbox.py), the publisher
  (infrastructure/queue/event_publisher.py) and the worker (infrastructure/queue/outbox_worker.py).

  The broker, the mail server and the template engine are outside the repository: a \<open>broker\<close> is
  what one call to them can observe (which handles are closed, how each call ends), a \<open>mailer\<close>
  renders and sends. A failing call is the text of its exception. A batch is one database
  transaction: the rows a worker claimed are locked (\<open>FOR UPDATE SKIP LOCKED\<close>) until it ends.
\<close>

section \<open>The repository\<close>

definition OUTBOX_MAX_ATTEMPTS :: nat where
  "OUTBOX_MAX_ATTEMPTS = 8"

definition BACKOFF_CAP_SECONDS :: int where
  "BACKOFF_CAP_SECONDS = 300"

definition backoff_delay :: "nat \<Rightarrow> duration" where
  "backoff_delay attempts = seconds (min (push_bit attempts 1) BACKOFF_CAP_SECONDS)"

definition outbox_due :: "datetime \<Rightarrow> outbox_row \<Rightarrow> bool" where
  "outbox_due now r =
     (ob_processed_at r = None \<and> ob_failed_at r = None \<and>
      (case ob_next_attempt_at r of None \<Rightarrow> True | Some t \<Rightarrow> t \<le> now))"

text \<open>get_unprocessed: rows locked by another transaction are skipped, the limit counts the
  rows that are left.\<close>

definition get_unprocessed :: "datetime \<Rightarrow> uuid list \<Rightarrow> nat \<Rightarrow> db \<Rightarrow> outbox_row list" where
  "get_unprocessed now locked limit d =
     take limit (sort_key (\<lambda>r. (ob_created_at r, ob_id r))
       (filter (\<lambda>r. outbox_due now r \<and> ob_id r \<notin> set locked) (outbox_events d)))"

text \<open>What mark_processed does to one row object.\<close>

definition mark_event :: "datetime \<Rightarrow> outbox_row \<Rightarrow> outbox_row" where
  "mark_event now r =
     r\<lparr>ob_payload := filter (\<lambda>(k, v). k \<notin> set (case ob_sensitive_keys r of None \<Rightarrow> [] | Some ks \<Rightarrow> ks)) (ob_payload r),
       ob_sensitive_keys := None, ob_processed_at := Some now, ob_last_error := None\<rparr>"

definition mark_processed :: "datetime \<Rightarrow> outbox_row list \<Rightarrow> db \<Rightarrow> db" where
  "mark_processed now events d =
     d\<lparr>outbox_events := update_where (\<lambda>r. ob_id r \<in> set (map ob_id events)) (mark_event now) (outbox_events d)\<rparr>"

definition reschedule_event :: "datetime \<Rightarrow> string \<Rightarrow> outbox_row \<Rightarrow> outbox_row" where
  "reschedule_event now error r =
     (let n = ob_attempts r + 1; r1 = r\<lparr>ob_attempts := n, ob_last_error := Some (take 2000 error)\<rparr> in
      if n \<ge> OUTBOX_MAX_ATTEMPTS then r1\<lparr>ob_failed_at := Some now, ob_next_attempt_at := None\<rparr>
      else r1\<lparr>ob_next_attempt_at := Some (now + backoff_delay n)\<rparr>)"

definition reschedule :: "datetime \<Rightarrow> uuid \<Rightarrow> string \<Rightarrow> db \<Rightarrow> db" where
  "reschedule now i error d =
     d\<lparr>outbox_events := update_where (\<lambda>r. ob_id r = i) (reschedule_event now error) (outbox_events d)\<rparr>"

definition list_failed :: "nat \<Rightarrow> db \<Rightarrow> outbox_row list" where
  "list_failed limit d =
     take limit (sort_key (\<lambda>r. - the (ob_failed_at r)) (filter (\<lambda>r. ob_failed_at r \<noteq> None) (outbox_events d)))"

definition replay :: "uuid list \<Rightarrow> db \<Rightarrow> nat \<times> db" where
  "replay ids d =
     (let P = (\<lambda>r. ob_id r \<in> set ids \<and> ob_failed_at r \<noteq> None) in
      (count_where P (outbox_events d),
       d\<lparr>outbox_events := update_where P
          (\<lambda>r. r\<lparr>ob_failed_at := None, ob_attempts := 0, ob_next_attempt_at := None, ob_last_error := None\<rparr>)
          (outbox_events d)\<rparr>))"

definition delete_processed_older_than :: "datetime \<Rightarrow> db \<Rightarrow> nat \<times> db" where
  "delete_processed_older_than before d =
     (let P = (\<lambda>r. case ob_processed_at r of None \<Rightarrow> False | Some t \<Rightarrow> t < before) in
      (count_where P (outbox_events d), d\<lparr>outbox_events := delete_where P (outbox_events d)\<rparr>))"

section \<open>The publisher\<close>

definition EXCHANGE_NAME :: string where
  "EXCHANGE_NAME = ''domain_events''"

definition REDACTED :: string where
  "REDACTED = ''[redacted]''"

record message =
  ms_body :: json
  ms_message_id :: string
  ms_routing_key :: string

text \<open>Connections and channels are handles; an exchange object is bound to the channel it was
  declared on.\<close>

record broker =
  br_conn_closed :: "nat \<Rightarrow> bool"
  br_chan_closed :: "nat \<Rightarrow> bool"
  br_connect :: "string + nat"
  br_channel :: "nat \<Rightarrow> string + nat"
  br_declare :: "nat \<Rightarrow> string \<Rightarrow> string + unit"
  br_publish :: "nat \<Rightarrow> message \<Rightarrow> string option"

record publisher =
  pb_connection :: "nat option"
  pb_channel :: "nat option"
  pb_exchange :: "nat option"

record publish_failure =
  pf_event_id :: uuid
  pf_error :: string

definition handle_usable :: "(nat \<Rightarrow> bool) \<Rightarrow> nat option \<Rightarrow> bool" where
  "handle_usable closed h = (case h of None \<Rightarrow> False | Some x \<Rightarrow> \<not> closed x)"

definition get_connection :: "broker \<Rightarrow> (publisher, string, nat) act" where
  "get_connection B p =
     (case pb_connection p of
        Some c \<Rightarrow> if br_conn_closed B c
          then (case br_connect B of Inl e \<Rightarrow> (Inl e, p) | Inr h \<Rightarrow> (Inr h, p\<lparr>pb_connection := Some h\<rparr>))
          else (Inr c, p)
      | None \<Rightarrow> (case br_connect B of Inl e \<Rightarrow> (Inl e, p) | Inr h \<Rightarrow> (Inr h, p\<lparr>pb_connection := Some h\<rparr>)))"

text \<open>_get_exchange: the tail opens a channel and declares the exchange on it.\<close>

definition open_exchange :: "broker \<Rightarrow> (publisher, string, nat) act" where
  "open_exchange B =
     bnd (get_connection B) (\<lambda>c.
     bnd (lift (br_channel B c)) (\<lambda>ch.
     thn (modify (\<lambda>p. p\<lparr>pb_channel := Some ch\<rparr>))
    (thn (lift (br_declare B ch EXCHANGE_NAME))
    (thn (modify (\<lambda>p. p\<lparr>pb_exchange := Some ch\<rparr>)) (ret ch)))))"

definition get_exchange :: "broker \<Rightarrow> (publisher, string, nat) act" where
  "get_exchange B p =
     (case pb_exchange p of
        None \<Rightarrow> open_exchange B p
      | Some x \<Rightarrow> if handle_usable (br_chan_closed B) (pb_channel p) then (Inr x, p) else open_exchange B p)"

text \<open>close: the result is the publisher left behind and the handles that were closed.\<close>

definition publisher_close :: "broker \<Rightarrow> publisher \<Rightarrow> nat list \<times> nat list \<times> publisher" where
  "publisher_close B p =
     (if handle_usable (br_chan_closed B) (pb_channel p) then [the (pb_channel p)] else [],
      if handle_usable (br_conn_closed B) (pb_connection p) then [the (pb_connection p)] else [],
      \<lparr>pb_connection = None, pb_channel = None, pb_exchange = None\<rparr>)"

definition redact :: "string list \<Rightarrow> payload \<Rightarrow> payload" where
  "redact keys p = map (\<lambda>(k, v). if k \<in> set keys then (k, JStr REDACTED) else (k, v)) p"

definition wire_payload :: "env \<Rightarrow> outbox_row \<Rightarrow> json" where
  "wire_payload E r = JObj
     [(''event_type'', JStr (ob_event_type r)), (''event_id'', juuid (ob_id r)),
      (''aggregate_type'', JStr (ob_aggregate_type r)), (''aggregate_id'', jopt juuid (ob_aggregate_id r)),
      (''payload'', JObj (redact (case ob_sensitive_keys r of None \<Rightarrow> [] | Some ks \<Rightarrow> ks) (ob_payload r))),
      (''created_at'', JStr (isoformat E (ob_created_at r)))]"

definition event_message :: "env \<Rightarrow> outbox_row \<Rightarrow> message" where
  "event_message E r =
     \<lparr>ms_body = wire_payload E r, ms_message_id = uuid_str (ob_id r), ms_routing_key = ob_event_type r\<rparr>"

definition publish_event :: "env \<Rightarrow> broker \<Rightarrow> outbox_row \<Rightarrow> (publisher, string, unit) act" where
  "publish_event E B r =
     bnd (get_exchange B) (\<lambda>x.
       case br_publish B x (event_message E r) of None \<Rightarrow> ret () | Some e \<Rightarrow> throw e)"

text \<open>publish_outbox: one broker observation per event.\<close>

fun publish_outbox :: "env \<Rightarrow> (nat \<Rightarrow> broker) \<Rightarrow> outbox_row list \<Rightarrow> publisher \<Rightarrow> publish_failure list \<times> publisher" where
  "publish_outbox E B [] p = ([], p)"
| "publish_outbox E B (r # rs) p =
     (let (out, p1) = publish_event E (B 0) r p;
          (failures, p2) = publish_outbox E (\<lambda>n. B (Suc n)) rs p1 in
      (case out of Inl e \<Rightarrow> (\<lparr>pf_event_id = ob_id r, pf_error = e\<rparr> # failures, p2) | Inr _ \<Rightarrow> (failures, p2)))"

section \<open>The worker\<close>

record email =
  em_to :: string
  em_subject :: string
  em_body :: string

record mailer =
  ml_app_base_url :: string
  ml_render :: "string \<Rightarrow> string \<Rightarrow> nat \<Rightarrow> string"
  ml_send :: "email \<Rightarrow> string option"

definition EMAIL_TEMPLATES :: "(string \<times> (string \<times> string \<times> string \<times> nat)) list" where
  "EMAIL_TEMPLATES =
     [(''EmailVerificationRequestedEvent'', (''verification_token'', ''verify.html'', ''Verify your email'', 24)),
      (''PasswordResetRequestedEvent'', (''reset_token'', ''reset_password.html'', ''Reset your password'', 1))]"

definition EMAIL_PATHS :: "(string \<times> string) list" where
  "EMAIL_PATHS =
     [(''EmailVerificationRequestedEvent'', ''/v1/auth/verify-email''),
      (''PasswordResetRequestedEvent'', ''/v1/auth/reset-password'')]"

text \<open>_send_email: the message handed to the sender, or None when the payload is unusable.\<close>

definition build_email :: "mailer \<Rightarrow> outbox_row \<Rightarrow> email option" where
  "build_email M r =
     (case map_of EMAIL_TEMPLATES (ob_event_type r) of
        None \<Rightarrow> None
      | Some (token_key, template_name, subject, expires_in_hours) \<Rightarrow>
          (case (map_of (ob_payload r) ''email'', map_of (ob_payload r) token_key) of
             (Some (JStr recipient), Some (JStr token)) \<Rightarrow>
               if recipient = [] then None else
                 (let url = ml_app_base_url M @ the (map_of EMAIL_PATHS (ob_event_type r)) @ ''?token='' @ token in
                  Some \<lparr>em_to = recipient, em_subject = subject,
                        em_body = ml_render M template_name url expires_in_hours\<rparr>)
           | _ \<Rightarrow> None))"

text \<open>_send_emails: a sender that raises is logged and skipped, so the outcome is the list of
  emails the sender accepted.\<close>

definition send_emails :: "mailer option \<Rightarrow> outbox_row list \<Rightarrow> email list" where
  "send_emails M events =
     (case M of
        None \<Rightarrow> []
      | Some ml \<Rightarrow> filter (\<lambda>m. ml_send ml m = None) (List.map_filter (build_email ml) events))"

definition failed_ids :: "publish_failure list \<Rightarrow> uuid list" where
  "failed_ids failures = map pf_event_id failures"

definition error_of :: "publish_failure list \<Rightarrow> uuid \<Rightarrow> string" where
  "error_of failures i = the (map_of (rev (map (\<lambda>f. (pf_event_id f, pf_error f)) failures)) i)"

definition published_events :: "publish_failure list \<Rightarrow> outbox_row list \<Rightarrow> outbox_row list" where
  "published_events failures events = filter (\<lambda>r. ob_id r \<notin> set (failed_ids failures)) events"

text \<open>What a batch writes: the published rows are marked, each failed one is rescheduled.\<close>

definition settle_batch :: "datetime \<Rightarrow> publish_failure list \<Rightarrow> outbox_row list \<Rightarrow> db \<Rightarrow> db" where
  "settle_batch now failures events d =
     fold (\<lambda>r. reschedule now (ob_id r) (error_of failures (ob_id r)))
       (filter (\<lambda>r. ob_id r \<in> set (failed_ids failures)) events)
       (mark_processed now (published_events failures events) d)"

text \<open>_process_batch. \<open>commit_ok\<close> tells whether the transaction commits; when it does not, the
  exception leaves the method, the rows stay as they were and the messages are out.\<close>

definition process_batch ::
    "env \<Rightarrow> mailer option \<Rightarrow> nat \<Rightarrow> (nat \<Rightarrow> broker) \<Rightarrow> bool \<Rightarrow> datetime \<Rightarrow> uuid list \<Rightarrow> publisher \<Rightarrow> db
       \<Rightarrow> bool \<times> email list \<times> publisher \<times> db" where
  "process_batch E M batch_size B commit_ok now locked p d =
     (let events = get_unprocessed now locked batch_size d in
      if events = [] then (commit_ok, [], p, d) else
        (let (failures, p1) = publish_outbox E B events p;
             emails = send_emails M (published_events failures events) in
         if commit_ok then (True, emails, p1, settle_batch now failures events d)
         else (False, emails, p1, d)))"

text \<open>start: the counter of consecutive failures and the wait after each batch, in units of the
  poll interval. A \<open>poll\<close> is what one iteration meets; the worker stops after the last one.\<close>

definition worker_backoff :: "nat \<Rightarrow> int" where
  "worker_backoff consecutive_failures = min (push_bit consecutive_failures 1) 30"

record poll =
  po_broker :: "nat \<Rightarrow> broker"
  po_commit_ok :: bool
  po_now :: datetime
  po_locked :: "uuid list"

record worker =
  wk_publisher :: publisher
  wk_failures :: nat
  wk_delays :: "int list"
  wk_emails :: "email list"

definition worker_step :: "env \<Rightarrow> mailer option \<Rightarrow> nat \<Rightarrow> poll \<Rightarrow> worker \<times> db \<Rightarrow> worker \<times> db" where
  "worker_step E M batch_size q wd =
     (let (ok, emails, p, d) = process_batch E M batch_size (po_broker q) (po_commit_ok q) (po_now q) (po_locked q)
            (wk_publisher (fst wd)) (snd wd);
          n = (if ok then 0 else wk_failures (fst wd) + 1) in
      (\<lparr>wk_publisher = p, wk_failures = n, wk_delays = wk_delays (fst wd) @ [worker_backoff n],
        wk_emails = wk_emails (fst wd) @ emails\<rparr>, d))"

definition worker_loop :: "env \<Rightarrow> mailer option \<Rightarrow> nat \<Rightarrow> poll list \<Rightarrow> worker \<times> db \<Rightarrow> worker \<times> db" where
  "worker_loop E M batch_size polls wd = fold (worker_step E M batch_size) polls wd"

section \<open>What one batch does\<close>

text \<open>The effect of a batch on a claimed row.\<close>

definition settle_row :: "datetime \<Rightarrow> publish_failure list \<Rightarrow> outbox_row \<Rightarrow> outbox_row" where
  "settle_row now failures r =
     (if ob_id r \<in> set (failed_ids failures) then reschedule_event now (error_of failures (ob_id r)) r
      else mark_event now r)"

definition claimed_ids :: "datetime \<Rightarrow> uuid list \<Rightarrow> nat \<Rightarrow> db \<Rightarrow> uuid list" where
  "claimed_ids now locked limit d = map ob_id (get_unprocessed now locked limit d)"

lemma event_fields [simp]:
  "ob_id (mark_event now r) = ob_id r" "ob_id (reschedule_event now e r) = ob_id r"
  "ob_id (settle_row now fs r) = ob_id r"
  by (simp_all add: mark_event_def reschedule_event_def settle_row_def Let_def)

lemma set_get_unprocessed:
  "r \<in> set (get_unprocessed now locked limit d) \<Longrightarrow> r \<in> set (outbox_events d) \<and> outbox_due now r \<and> ob_id r \<notin> set locked"
  unfolding get_unprocessed_def by (drule in_set_takeD) auto

lemma distinct_claimed:
  assumes "distinct (map ob_id (outbox_events d))"
  shows "distinct (claimed_ids now locked limit d)"
proof -
  let ?f = "filter (\<lambda>r. outbox_due now r \<and> ob_id r \<notin> set locked) (outbox_events d)"
  have "distinct (map ob_id ?f)" using assms by (rule distinct_map_filter)
  then have "distinct (map ob_id (sort_key (\<lambda>r. (ob_created_at r, ob_id r)) ?f))"
    by (simp add: distinct_map)
  then show ?thesis by (simp add: claimed_ids_def get_unprocessed_def take_map [symmetric])
qed

lemma fold_reschedule:
  assumes "distinct (map ob_id ys)"
  shows "fold (\<lambda>r. reschedule now (ob_id r) (err (ob_id r))) ys d =
     d\<lparr>outbox_events := update_where (\<lambda>r. ob_id r \<in> ob_id ` set ys) (\<lambda>r. reschedule_event now (err (ob_id r)) r) (outbox_events d)\<rparr>"
  using assms
proof (induction ys arbitrary: d)
  case Nil
  then show ?case by (simp add: update_where_def)
next
  case (Cons y ys)
  then show ?case
    by (auto simp: reschedule_def update_where_def o_def intro!: arg_cong [of _ _ "\<lambda>x. d\<lparr>outbox_events := x\<rparr>"] map_cong)
qed

lemma settle_batch_rows:
  assumes "distinct (map ob_id events)"
  shows "settle_batch now fs events d =
     d\<lparr>outbox_events := update_where (\<lambda>r. ob_id r \<in> ob_id ` set events) (settle_row now fs) (outbox_events d)\<rparr>"
proof -
  let ?ys = "filter (\<lambda>r. ob_id r \<in> set (failed_ids fs)) events"
  have "distinct (map ob_id ?ys)" using assms by (rule distinct_map_filter)
  note f = fold_reschedule [OF this, of now "error_of fs"]
  have y: "ob_id r \<in> ob_id ` set ?ys \<longleftrightarrow> ob_id r \<in> ob_id ` set events \<and> ob_id r \<in> set (failed_ids fs)" for r
    by auto
  have p: "ob_id r \<in> set (map ob_id (published_events fs events)) \<longleftrightarrow> ob_id r \<in> ob_id ` set events \<and> ob_id r \<notin> set (failed_ids fs)" for r
    by (auto simp: published_events_def)
  show ?thesis
    unfolding settle_batch_def f y
    by (simp add: mark_processed_def update_where_def settle_row_def p o_def del: set_map)
qed

lemma publish_failures_ids: "set (failed_ids (fst (publish_outbox E B rs p))) \<subseteq> ob_id ` set rs"
proof (induction rs arbitrary: B p)
  case (Cons r rs)
  obtain out p1 where o: "publish_event E (B 0) r p = (out, p1)" by force
  from Cons [of "\<lambda>n. B (Suc n)" p1] show ?case
    by (auto simp: failed_ids_def Let_def o image_subset_iff split: prod.splits sum.splits)
qed (simp add: failed_ids_def)

lemma process_batch_rows:
  assumes "distinct (map ob_id (outbox_events d))"
  shows "process_batch E M n B True now locked p d =
     (let events = get_unprocessed now locked n d; (fs, p') = publish_outbox E B events p in
      (True, send_emails M (published_events fs events), p',
       d\<lparr>outbox_events := update_where (\<lambda>r. ob_id r \<in> set (claimed_ids now locked n d)) (settle_row now fs) (outbox_events d)\<rparr>))"
  using settle_batch_rows [of "get_unprocessed now locked n d" now] distinct_claimed [OF assms, of now locked n]
  by (auto simp: process_batch_def Let_def claimed_ids_def update_where_def send_emails_def map_filter_simps published_events_def
      split: prod.splits option.splits)

text \<open>A row that is not among the failures was accepted by the broker.\<close>

lemma publish_event_accepted:
  "publish_event E B r p = (Inr (), p') \<Longrightarrow> \<exists>x. br_publish B x (event_message E r) = None"
  by (auto simp: publish_event_def bnd_eq_Inr split: option.splits)

lemma published_accepted:
  assumes "distinct (map ob_id rs)" and "r \<in> set (published_events (fst (publish_outbox E B rs p)) rs)"
  shows "\<exists>n x. br_publish (B n) x (event_message E r) = None"
  using assms
proof (induction rs arbitrary: B p)
  case Nil
  then show ?case by (simp add: published_events_def)
next
  case (Cons y ys)
  obtain out p1 where o: "publish_event E (B 0) y p = (out, p1)" by force
  let ?fs = "fst (publish_outbox E (\<lambda>n. B (Suc n)) ys p1)"
  show ?case
  proof (cases "r = y")
    case True
    with Cons.prems o have "out = Inr ()"
      by (cases out) (auto simp: published_events_def failed_ids_def Let_def split: prod.splits)
    with publish_event_accepted o True show ?thesis by blast
  next
    case False
    with Cons.prems o have "r \<in> set (published_events ?fs ys)"
      by (auto simp: published_events_def failed_ids_def Let_def split: prod.splits sum.splits if_split_asm)
    with Cons.IH Cons.prems(1) show ?thesis by fastforce
  qed
qed

section \<open>The delivery of an event, abstractly\<close>

datatype delivery = Waiting nat | Delivered | Dead

definition delivery_of :: "outbox_row \<Rightarrow> delivery" where
  "delivery_of r =
     (if ob_processed_at r \<noteq> None then Delivered else if ob_failed_at r \<noteq> None then Dead
      else Waiting (ob_attempts r))"

definition deliveries :: "db \<Rightarrow> (uuid \<rightharpoonup> delivery)" where
  "deliveries d i = map_option delivery_of (find_row (\<lambda>r. ob_id r = i) (outbox_events d))"

fun failed_once :: "delivery \<Rightarrow> delivery" where
  "failed_once (Waiting n) = (if n + 1 < OUTBOX_MAX_ATTEMPTS then Waiting (n + 1) else Dead)"
| "failed_once x = x"

text \<open>The contract: of the claimed events, the accepted ones are delivered and every other one
  has used one more attempt; nothing else changes.\<close>

definition spec_batch :: "uuid set \<Rightarrow> uuid set \<Rightarrow> (uuid \<rightharpoonup> delivery) \<Rightarrow> (uuid \<rightharpoonup> delivery)" where
  "spec_batch claimed accepted m i =
     (if i \<in> accepted then Some Delivered else if i \<in> claimed then map_option failed_once (m i) else m i)"

definition spec_replay :: "uuid set \<Rightarrow> (uuid \<rightharpoonup> delivery) \<Rightarrow> (uuid \<rightharpoonup> delivery)" where
  "spec_replay ids m i = (if i \<in> ids \<and> m i = Some Dead then Some (Waiting 0) else m i)"

lemma find_claimed:
  assumes "distinct (map ob_id (outbox_events d))" and "i \<in> set (claimed_ids now locked n d)"
  shows "\<exists>r. find_row (\<lambda>r. ob_id r = i) (outbox_events d) = Some r \<and> outbox_due now r"
proof -
  obtain r where "r \<in> set (get_unprocessed now locked n d)" "ob_id r = i"
    using assms(2) by (auto simp: claimed_ids_def)
  with set_get_unprocessed find_row_unique [OF assms(1), of r] show ?thesis by blast
qed

lemma settle_delivery:
  "outbox_due now r \<Longrightarrow> delivery_of (settle_row now fs r) =
     (if ob_id r \<in> set (failed_ids fs) then failed_once (delivery_of r) else Delivered)"
  by (auto simp: outbox_due_def delivery_of_def settle_row_def reschedule_event_def mark_event_def Let_def)

text \<open>C19. The relay refines its contract: seen as the delivery state of each event, a batch of the
  worker delivers exactly the claimed events the broker accepted and counts one failed attempt,
  up to the dead letter at the eighth, for the other claimed ones; every claimed event was
  waiting, and no other event changes.\<close>

theorem batch_refines:
  assumes "distinct (map ob_id (outbox_events d))"
  shows "let events = get_unprocessed now locked n d;
             fs = fst (publish_outbox E B events p);
             accepted = set (map ob_id (published_events fs events));
             (ok, mails, p', d') = process_batch E M n B True now locked p d in
         deliveries d' = spec_batch (set (map ob_id events)) accepted (deliveries d) \<and>
         (\<forall>i \<in> set (map ob_id events). \<exists>k. deliveries d i = Some (Waiting k))"
proof -
  let ?ev = "get_unprocessed now locked n d"
  obtain fs p' where fs: "publish_outbox E B ?ev p = (fs, p')" by force
  let ?d = "d\<lparr>outbox_events := update_where (\<lambda>r. ob_id r \<in> set (claimed_ids now locked n d)) (settle_row now fs) (outbox_events d)\<rparr>"
  have w: "\<exists>k. deliveries d i = Some (Waiting k)" if "i \<in> set (claimed_ids now locked n d)" for i
    using find_claimed [OF assms that] by (auto simp: deliveries_def delivery_of_def outbox_due_def simp del: map_option_eq_Some)
  have a: "i \<in> set (map ob_id (published_events fs ?ev)) \<longleftrightarrow>
      i \<in> set (claimed_ids now locked n d) \<and> i \<notin> set (failed_ids fs)" for i
    by (auto simp: published_events_def claimed_ids_def)
  have "deliveries ?d i = spec_batch (set (claimed_ids now locked n d)) (set (map ob_id (published_events fs ?ev))) (deliveries d) i" for i
  proof (cases "i \<in> set (claimed_ids now locked n d)")
    case True
    from find_claimed [OF assms True] obtain r where
      r: "find_row (\<lambda>r. ob_id r = i) (outbox_events d) = Some r" "outbox_due now r" by blast
    then have "ob_id r = i" by (blast dest: find_row_Some_iff)
    with r True show ?thesis
      by (simp add: deliveries_def find_row_update_where settle_delivery spec_batch_def a del: set_map)
  next
    case False
    then show ?thesis
      by (auto simp: deliveries_def find_row_update_where spec_batch_def a option.map_comp
          dest: find_row_Some_iff intro!: option.map_cong simp del: set_map)
  qed
  with w show ?thesis
    by (auto simp: process_batch_rows [OF assms] fs Let_def claimed_ids_def)
qed

section \<open>A concrete outbox\<close>

definition demo_outbox :: db where
  "demo_outbox = empty_db\<lparr>outbox_events :=
     [outbox_row_of sample_env 1 0 (''user'', Some 7) (PasswordResetRequestedEvent 7 ''al@ex.org'' ''tok''),
      outbox_row_of sample_env 2 5 (''user'', Some 7) (UserDeletedEvent 7)]\<rparr>"

definition demo_broker :: "bool \<Rightarrow> broker" where
  "demo_broker ok =
     \<lparr>br_conn_closed = (\<lambda>_. False), br_chan_closed = (\<lambda>_. False), br_connect = Inr 1, br_channel = (\<lambda>_. Inr 2),
      br_declare = (\<lambda>_ _. Inr ()), br_publish = (\<lambda>_ m. if ok \<or> ms_routing_key m \<noteq> ''UserDeletedEvent'' then None else Some ''nack'')\<rparr>"

definition idle_publisher :: publisher where
  "idle_publisher = \<lparr>pb_connection = None, pb_channel = None, pb_exchange = None\<rparr>"

definition demo_mailer :: mailer where
  "demo_mailer = \<lparr>ml_app_base_url = ''https://ex.org'', ml_render = (\<lambda>_ url _. url), ml_send = (\<lambda>_. Some ''refused'')\<rparr>"

lemma demo_outbox_ids: "map ob_id (outbox_events demo_outbox) = [uuid4 sample_env 1, uuid4 sample_env 2]"
  by (simp add: demo_outbox_def outbox_row_of_def)

lemma demo_outbox_distinct: "distinct (map ob_id (outbox_events demo_outbox))"
  unfolding demo_outbox_ids by code_simp

lemma demo_outbox_claim: "get_unprocessed 9 [] 10 demo_outbox = outbox_events demo_outbox"
  by (simp add: get_unprocessed_def demo_outbox_def outbox_row_of_def outbox_due_def)

lemma demo_outbox_publish:
  "fst (publish_outbox sample_env (\<lambda>_. demo_broker True) (outbox_events demo_outbox) idle_publisher) = []"
  "map pf_event_id (fst (publish_outbox sample_env (\<lambda>_. demo_broker False) (outbox_events demo_outbox) idle_publisher)) = [uuid4 sample_env 2]"
  by (simp_all add: demo_outbox_def publish_event_def demo_broker_def idle_publisher_def get_exchange_def open_exchange_def
      get_connection_def handle_usable_def bnd_def thn_def event_message_def outbox_row_of_def)

lemma demo_deliveries:
  "deliveries demo_outbox 2 = Some (Waiting 0)" "deliveries demo_outbox 3 = Some (Waiting 0)"
  by (simp_all add: deliveries_def demo_outbox_def outbox_row_of_def delivery_of_def table_simps)

theorem batch_refines_witness:
  "let d' = snd (snd (snd (process_batch sample_env None 10 (\<lambda>_. demo_broker False) True 9 [] idle_publisher demo_outbox))) in
   deliveries d' 2 = Some Delivered \<and> deliveries d' 3 = Some (Waiting 1)"
proof -
  let ?fs = "fst (publish_outbox sample_env (\<lambda>_. demo_broker False) (outbox_events demo_outbox) idle_publisher)"
  let ?d = "snd (snd (snd (process_batch sample_env None 10 (\<lambda>_. demo_broker False) True 9 [] idle_publisher demo_outbox)))"
  have ids: "failed_ids ?fs = [3]" "map ob_id (outbox_events demo_outbox) = [2, 3]"
    using demo_outbox_publish(2) demo_outbox_ids by (simp_all add: failed_ids_def)
  have acc: "map ob_id (published_events ?fs (outbox_events demo_outbox)) = [2]"
    using ids by (simp add: published_events_def demo_outbox_def outbox_row_of_def)
  have "deliveries ?d = spec_batch (set [2, 3]) (set [2]) (deliveries demo_outbox)"
    using batch_refines [OF demo_outbox_distinct, of 9 "[]" 10 sample_env "\<lambda>_. demo_broker False" idle_publisher None]
    unfolding Let_def demo_outbox_claim acc ids by (simp add: case_prod_beta)
  then show ?thesis by (simp add: Let_def spec_batch_def demo_deliveries OUTBOX_MAX_ATTEMPTS_def)
qed

text \<open>An event counts as delivered only when the broker took it: a row that a poll leaves
  processed was processed before, or the broker accepted its message during the poll; a poll whose
  transaction fails changes no row.\<close>

theorem delivered_was_accepted:
  assumes "distinct (map ob_id (outbox_events d))" and "process_batch E M n B ok now locked p d = (b, mails, p', d')"
    and "r' \<in> set (outbox_events d')" and "ob_processed_at r' \<noteq> None"
  shows "r' \<in> set (outbox_events d) \<or>
     (ok \<and> (\<exists>r \<in> set (outbox_events d). ob_id r = ob_id r' \<and> (\<exists>k x. br_publish (B k) x (event_message E r) = None)))"
proof (cases "ok \<and> r' \<notin> set (outbox_events d)")
  case True
  obtain fs p1 where fs: "publish_outbox E B (get_unprocessed now locked n d) p = (fs, p1)" by force
  have "d' = d\<lparr>outbox_events := update_where (\<lambda>r. ob_id r \<in> set (claimed_ids now locked n d)) (settle_row now fs) (outbox_events d)\<rparr>"
    using assms(2) True by (simp add: process_batch_rows [OF assms(1)] fs Let_def)
  with assms(3) True obtain r where r: "r \<in> set (outbox_events d)" "r' = settle_row now fs r" "ob_id r \<in> set (claimed_ids now locked n d)"
    by (auto simp: set_update_where split: if_splits)
  then obtain r0 where "r0 \<in> set (get_unprocessed now locked n d)" "ob_id r0 = ob_id r" by (auto simp: claimed_ids_def)
  with r(1) assms(1) set_get_unprocessed have c: "r \<in> set (get_unprocessed now locked n d)" "outbox_due now r"
    by (metis find_row_unique option.inject)+
  then have "ob_id r \<notin> set (failed_ids fs)"
    using assms(4) r(2) by (auto simp: settle_row_def reschedule_event_def Let_def outbox_due_def split: if_splits)
  with c fs have "r \<in> set (published_events (fst (publish_outbox E B (get_unprocessed now locked n d) p)) (get_unprocessed now locked n d))"
    by (simp add: published_events_def)
  from published_accepted [OF _ this] distinct_claimed [OF assms(1)] r True show ?thesis
    by (auto simp: claimed_ids_def)
next
  case False
  then show ?thesis
    using assms(2,3) by (auto simp: process_batch_def Let_def split: if_splits prod.splits)
qed

theorem delivered_was_accepted_witness:
  "\<exists>d' r'. process_batch sample_env None 10 (\<lambda>_. demo_broker False) True 9 [] idle_publisher demo_outbox =
       (True, [], snd (publish_outbox sample_env (\<lambda>_. demo_broker False) (outbox_events demo_outbox) idle_publisher), d') \<and>
     r' \<in> set (outbox_events d') \<and> ob_processed_at r' = Some 9 \<and>
     (\<exists>r \<in> set (outbox_events demo_outbox). ob_id r = ob_id r' \<and> (\<exists>k x. br_publish (demo_broker False) x (event_message sample_env r) = None))"
proof -
  let ?fs = "fst (publish_outbox sample_env (\<lambda>_. demo_broker False) (outbox_events demo_outbox) idle_publisher)"
  let ?d = "demo_outbox\<lparr>outbox_events := update_where (\<lambda>r. ob_id r \<in> set (claimed_ids 9 [] 10 demo_outbox)) (settle_row 9 ?fs) (outbox_events demo_outbox)\<rparr>"
  let ?r = "outbox_row_of sample_env 1 0 (''user'', Some 7) (PasswordResetRequestedEvent 7 ''al@ex.org'' ''tok'')"
  have ids: "failed_ids ?fs = [3]" using demo_outbox_publish(2) by (simp add: failed_ids_def)
  have run: "process_batch sample_env None 10 (\<lambda>_. demo_broker False) True 9 [] idle_publisher demo_outbox =
      (True, [], snd (publish_outbox sample_env (\<lambda>_. demo_broker False) (outbox_events demo_outbox) idle_publisher), ?d)"
    by (simp add: process_batch_rows [OF demo_outbox_distinct] Let_def demo_outbox_claim send_emails_def split: prod.splits)
  have i: "ob_id ?r = 2" by (simp add: outbox_row_of_def)
  have "?r \<in> set (outbox_events demo_outbox)" by (simp add: demo_outbox_def)
  moreover have "ob_id ?r \<in> set (claimed_ids 9 [] 10 demo_outbox)"
    using calculation by (auto simp: claimed_ids_def demo_outbox_claim)
  ultimately have m: "settle_row 9 ?fs ?r \<in> set (outbox_events ?d)" by (auto simp: set_update_where)
  have pr: "ob_processed_at (settle_row 9 ?fs ?r) = Some 9" using ids i by (simp add: settle_row_def mark_event_def)
  have "ob_processed_at x = None" if "x \<in> set (outbox_events demo_outbox)" for x
    using that by (auto simp: demo_outbox_def outbox_row_of_def)
  with pr have "settle_row 9 ?fs ?r \<notin> set (outbox_events demo_outbox)" by fastforce
  with delivered_was_accepted [OF demo_outbox_distinct run m] pr m run show ?thesis by blast
qed

end
