(* ===== verification/Maintenance.thy ===== *)
theory Maintenance
  imports Outbox
begin

text \<open>
  The janitor (infrastructure/maintenance/worker.py) and the reads of the audit repository
  (infrastructure/db/sqlalchemy/repositories/audit.py). A job is a statement on the database that
  answers how many rows it touched; \<open>db_fails\<close> names the jobs whose transaction the database
  refuses for a reason of its own.
\<close>

record maintenance_config =
  mc_interval_seconds :: int
  mc_session_grace_days :: int
  mc_outbox_retention_days :: int
  mc_audit_retention_days :: int
  mc_deleted_user_retention_days :: int
  mc_dry_run :: bool

definition default_maintenance :: maintenance_config where
  "default_maintenance =
     \<lparr>mc_interval_seconds = 3600, mc_session_grace_days = 7, mc_outbox_retention_days = 7,
      mc_audit_retention_days = 365, mc_deleted_user_retention_days = 30, mc_dry_run = False\<rparr>"

section \<open>The jobs\<close>

definition purge_expired_sessions :: "maintenance_config \<Rightarrow> datetime \<Rightarrow> db \<Rightarrow> app_error + (nat \<times> db)" where
  "purge_expired_sessions cfg now d =
     (let cutoff = now - days (mc_session_grace_days cfg) in
      Inr (count_where (\<lambda>r. sr_expires_at r < cutoff) (sessions d),
           delete_sessions (\<lambda>r. sr_expires_at r < cutoff) d))"

definition prune_outbox :: "maintenance_config \<Rightarrow> datetime \<Rightarrow> db \<Rightarrow> app_error + (nat \<times> db)" where
  "prune_outbox cfg now d =
     Inr (delete_processed_older_than (now - days (mc_outbox_retention_days cfg)) d)"

definition prune_audit_log :: "maintenance_config \<Rightarrow> datetime \<Rightarrow> db \<Rightarrow> app_error + (nat \<times> db)" where
  "prune_audit_log cfg now d =
     (let cutoff = now - days (mc_audit_retention_days cfg) in
      Inr (count_where (\<lambda>l. al_timestamp l < cutoff) (audit_logs d),
           d\<lparr>audit_logs := delete_where (\<lambda>l. al_timestamp l < cutoff) (audit_logs d)\<rparr>))"

definition deleted_placeholder :: "uuid \<Rightarrow> string" where
  "deleted_placeholder i = ''deleted_'' @ remove_sub ''-'' (uuid_str i)"

definition anonymise_row :: "user_row \<Rightarrow> user_row" where
  "anonymise_row r =
     r\<lparr>c_username := deleted_placeholder (c_id r), c_email := None, c_hashed_password := [],
       c_two_factor_secret := None, c_two_factor_backup_codes := None,
       c_email_verification_token_hash := None, c_password_reset_token_hash := None\<rparr>"

definition to_anonymise :: "datetime \<Rightarrow> user_row \<Rightarrow> bool" where
  "to_anonymise cutoff r =
     (case c_deleted_at r of None \<Rightarrow> False | Some t \<Rightarrow> t < cutoff \<and> c_email r \<noteq> None)"

definition anonymise_deleted_users :: "maintenance_config \<Rightarrow> datetime \<Rightarrow> db \<Rightarrow> app_error + (nat \<times> db)" where
  "anonymise_deleted_users cfg now d =
     (let P = to_anonymise (now - days (mc_deleted_user_retention_days cfg));
          us = update_where P anonymise_row (users d) in
      if distinct (map c_username us) then Inr (count_where P (users d), d\<lparr>users := us\<rparr>)
      else Inl (IntegrityError ''uq_users_username''))"

definition jobs :: "(string \<times> (maintenance_config \<Rightarrow> datetime \<Rightarrow> db \<Rightarrow> app_error + (nat \<times> db))) list" where
  "jobs =
     [(''expired_sessions'', purge_expired_sessions), (''processed_outbox'', prune_outbox),
      (''old_audit_entries'', prune_audit_log), (''deleted_users'', anonymise_deleted_users)]"

text \<open>One job in its own transaction: -1 is a job that raised.\<close>

definition run_job ::
    "(string \<Rightarrow> bool) \<Rightarrow> maintenance_config \<Rightarrow> datetime \<Rightarrow>
     string \<times> (maintenance_config \<Rightarrow> datetime \<Rightarrow> db \<Rightarrow> app_error + (nat \<times> db)) \<Rightarrow>
     (string \<times> int) list \<times> db \<Rightarrow> (string \<times> int) list \<times> db" where
  "run_job db_fails cfg now job acc =
     (case job of (name, run) \<Rightarrow> case acc of (results, d) \<Rightarrow>
        if db_fails name then (results @ [(name, - 1)], d)
        else (case run cfg now d of
                Inl e \<Rightarrow> (results @ [(name, - 1)], d)
              | Inr (n, d') \<Rightarrow> (results @ [(name, int n)], if mc_dry_run cfg then d else d')))"

definition run_once :: "(string \<Rightarrow> bool) \<Rightarrow> maintenance_config \<Rightarrow> datetime \<Rightarrow> db \<Rightarrow> (string \<times> int) list \<times> db" where
  "run_once db_fails cfg now d = fold (run_job db_fails cfg now) jobs ([], d)"

text \<open>MaintenanceWorker.start: a run, then a wait for the interval or for the stop signal. A tick is what one
  turn of the loop meets: the time, the jobs whose transaction fails, and whether the signal has come
  when the wait ends. The answer lists the results of the runs.\<close>

record tick =
  ti_now :: datetime
  ti_fails :: "string \<Rightarrow> bool"
  ti_stopping :: bool

fun maintenance_start :: "maintenance_config \<Rightarrow> tick list \<Rightarrow> db \<Rightarrow> (string \<times> int) list list \<times> db" where
  "maintenance_start cfg [] d = ([], d)"
| "maintenance_start cfg (t # ts) d =
     (let (r, d1) = run_once (ti_fails t) cfg (ti_now t) d in
      if ti_stopping t then ([r], d1)
      else (let (rs, d2) = maintenance_start cfg ts d1 in (r # rs, d2)))"

section \<open>Reads of the audit log\<close>

definition audit_get_by_user_id :: "uuid \<Rightarrow> nat \<Rightarrow> db \<Rightarrow> audit_log list" where
  "audit_get_by_user_id user_id limit d =
     take limit (sort_key (\<lambda>l. - al_timestamp l) (filter (\<lambda>l. al_user_id l = Some user_id) (audit_logs d)))"

definition audit_get_by_entity :: "string \<Rightarrow> uuid \<Rightarrow> nat \<Rightarrow> db \<Rightarrow> audit_log list" where
  "audit_get_by_entity entity_type entity_id limit d =
     take limit (sort_key (\<lambda>l. - al_timestamp l)
       (filter (\<lambda>l. al_entity_type l = entity_type \<and> al_entity_id l = Some entity_id) (audit_logs d)))"

section \<open>Placeholders\<close>

lemma uuid_hex_inj: "uuid_hex a = uuid_hex b \<Longrightarrow> a = b"
proof -
  assume "uuid_hex a = uuid_hex b"
  then have "hex_digits 0 (hexn 32 (unat a)) = hex_digits 0 (hexn 32 (unat b))" by (simp add: uuid_hex_def)
  then have "unat a mod 16 ^ 32 = unat b mod 16 ^ 32" by (simp only: hex_digits_hexn) simp
  moreover have "unat x < 16 ^ 32" for x :: uuid using unsigned_less [of x, where 'a = nat] by simp
  ultimately have "unat a = unat b" by (metis mod_less)
  then show "a = b" by (simp add: unsigned_word_eqI)
qed

lemma placeholder_inj: "deleted_placeholder a = deleted_placeholder b \<longleftrightarrow> a = b"
  by (auto simp: deleted_placeholder_def uuid_str_undash dest: uuid_hex_inj)

lemma placeholder_length: "length (deleted_placeholder a) = 40"
  by (simp add: deleted_placeholder_def uuid_str_undash uuid_hex_def)

text \<open>A stored name is one a user can have, or the placeholder of the row itself.\<close>

definition names_ok :: "db \<Rightarrow> bool" where
  "names_ok d = list_all (\<lambda>r. length (c_username r) \<le> MAX_USERNAME_LENGTH \<or> c_username r = deleted_placeholder (c_id r)) (users d)"

lemma placeholder_owner:
  "names_ok d \<Longrightarrow> r \<in> set (users d) \<Longrightarrow> c_username r = deleted_placeholder i \<Longrightarrow> c_id r = i"
  using placeholder_length [of i] by (auto simp: names_ok_def list_all_iff MAX_USERNAME_LENGTH_def placeholder_inj)

lemma anonymised_distinct:
  assumes "users_ok us" and "\<And>r i. r \<in> set us \<Longrightarrow> c_username r = deleted_placeholder i \<Longrightarrow> c_id r = i"
  shows "distinct (map c_username (update_where P anonymise_row us))"
proof -
  have ids: "inj_on c_id (set us)" and names: "inj_on c_username (set us)" and "distinct us"
    using assms(1) by (auto simp: users_ok_def distinct_map)
  have eq: "x = y" if "x \<in> set us" "y \<in> set us"
      "c_username (if P x then anonymise_row x else x) = c_username (if P y then anonymise_row y else y)" for x y
  proof -
    have "c_id x = c_id y \<or> c_username x = c_username y"
      using that(3) assms(2) [OF that(1), of "c_id y"] assms(2) [OF that(2), of "c_id x"]
      by (auto simp: anonymise_row_def placeholder_inj split: if_splits)
    with ids names that(1,2) show ?thesis by (auto dest: inj_onD)
  qed
  have "distinct (map (\<lambda>r. c_username (if P r then anonymise_row r else r)) us)"
    using \<open>distinct us\<close> eq by (auto simp: distinct_map inj_on_def)
  then show ?thesis by (simp add: update_where_def comp_def)
qed

section \<open>One run\<close>

lemma anonymise_Inr:
  assumes "db_ok d" and "names_ok d"
  shows "anonymise_deleted_users cfg now d =
     (let P = to_anonymise (now - days (mc_deleted_user_retention_days cfg)) in
      Inr (count_where P (users d), d\<lparr>users := update_where P anonymise_row (users d)\<rparr>))"
  using anonymised_distinct [OF db_ok_users [OF assms(1)] placeholder_owner [OF assms(2)]]
  by (simp add: anonymise_deleted_users_def Let_def)

lemma some_emails_anonymised:
  "set (some_values c_email (update_where P anonymise_row us)) \<subseteq> set (some_values c_email us) \<and>
   (distinct (some_values c_email us) \<longrightarrow> distinct (some_values c_email (update_where P anonymise_row us)))"
  by (induction us) (auto simp: update_where_def some_values_Cons anonymise_row_def split: option.splits)

lemma anonymised_ok:
  assumes "db_ok d" and "names_ok d"
  shows "db_ok (d\<lparr>users := update_where P anonymise_row (users d)\<rparr>)" "names_ok (d\<lparr>users := update_where P anonymise_row (users d)\<rparr>)"
proof -
  let ?us = "update_where P anonymise_row (users d)"
  have ids: "map c_id ?us = map c_id (users d)" by (simp add: map_update_where anonymise_row_def)
  have "users_ok ?us"
    using ids anonymised_distinct [OF db_ok_users [OF assms(1)] placeholder_owner [OF assms(2)], of P]
      some_emails_anonymised [of P "users d"] db_ok_users [OF assms(1)] by (simp add: users_ok_def)
  moreover have "has_user i (d\<lparr>users := ?us\<rparr>) = has_user i d" for i
    using has_user_cong [of "d\<lparr>users := ?us\<rparr>" d] ids by simp
  ultimately show "db_ok (d\<lparr>users := ?us\<rparr>)"
    using assms(1) by (simp add: db_ok_def sessions_ok_def rbac_ok_def logs_ok_def)
  show "names_ok (d\<lparr>users := ?us\<rparr>)"
    using assms(2) by (auto simp: names_ok_def list_all_iff set_update_where anonymise_row_def split: if_splits)
qed

lemma logs_pruned_ok:
  "db_ok d \<Longrightarrow> db_ok (d\<lparr>outbox_events := delete_where P (outbox_events d)\<rparr>)"
  "db_ok d \<Longrightarrow> db_ok (d\<lparr>audit_logs := delete_where Q (audit_logs d)\<rparr>)"
  by (auto simp: db_ok_def sessions_ok_def rbac_ok_def logs_ok_def list_all_iff set_delete_where distinct_map_delete_where)

lemma names_ok_other [simp]:
  "names_ok (d\<lparr>outbox_events := x\<rparr>) = names_ok d" "names_ok (d\<lparr>audit_logs := y\<rparr>) = names_ok d"
  "names_ok (delete_sessions P d) = names_ok d"
  by (simp_all add: names_ok_def delete_sessions_def Let_def)

text \<open>What the database is after each job.\<close>

definition swept :: "(string \<Rightarrow> bool) \<Rightarrow> maintenance_config \<Rightarrow> datetime \<Rightarrow> db \<Rightarrow> db" where
  "swept db_fails cfg now d =
     (let d1 = (if db_fails ''expired_sessions'' then d
                else delete_sessions (\<lambda>r. sr_expires_at r < now - days (mc_session_grace_days cfg)) d);
          d2 = (if db_fails ''processed_outbox'' then d1
                else d1\<lparr>outbox_events := delete_where
                  (\<lambda>r. case ob_processed_at r of None \<Rightarrow> False | Some t \<Rightarrow> t < now - days (mc_outbox_retention_days cfg)) (outbox_events d1)\<rparr>);
          d3 = (if db_fails ''old_audit_entries'' then d2
                else d2\<lparr>audit_logs := delete_where (\<lambda>l. al_timestamp l < now - days (mc_audit_retention_days cfg)) (audit_logs d2)\<rparr>) in
      if db_fails ''deleted_users'' then d3
      else d3\<lparr>users := update_where (to_anonymise (now - days (mc_deleted_user_retention_days cfg))) anonymise_row (users d3)\<rparr>)"

lemma dry_job: "mc_dry_run cfg \<Longrightarrow> snd (run_job db_fails cfg now job acc) = snd acc"
  by (cases job; cases acc) (auto simp: run_job_def split: sum.splits)

lemma run_once_swept:
  assumes "db_ok d" and "names_ok d"
  shows "snd (run_once db_fails cfg now d) = (if mc_dry_run cfg then d else swept db_fails cfg now d)"
proof (cases "mc_dry_run cfg")
  case True
  then show ?thesis
    by (simp add: run_once_def jobs_def dry_job)
next
  case False
  let ?d1 = "if db_fails ''expired_sessions'' then d
     else delete_sessions (\<lambda>r. sr_expires_at r < now - days (mc_session_grace_days cfg)) d"
  let ?d2 = "if db_fails ''processed_outbox'' then ?d1
     else ?d1\<lparr>outbox_events := delete_where
        (\<lambda>r. case ob_processed_at r of None \<Rightarrow> False | Some t \<Rightarrow> t < now - days (mc_outbox_retention_days cfg)) (outbox_events ?d1)\<rparr>"
  let ?d3 = "if db_fails ''old_audit_entries'' then ?d2
     else ?d2\<lparr>audit_logs := delete_where (\<lambda>l. al_timestamp l < now - days (mc_audit_retention_days cfg)) (audit_logs ?d2)\<rparr>"
  have ok: "db_ok ?d3" "names_ok ?d3" using assms by (auto simp: delete_sessions_ok logs_pruned_ok)
  have st: "run_job db_fails cfg now (n, f) (rs, e) = (rs @ [(n, if db_fails n then - 1 else int k)], if db_fails n then e else e')"
    if "f cfg now e = Inr (k, e')" for n f rs e k e'
    using that False by (simp add: run_job_def)
  show ?thesis
    using False anonymise_Inr [OF ok, of cfg now]
    unfolding run_once_def jobs_def swept_def Let_def
    by (simp add: st purge_expired_sessions_def prune_outbox_def prune_audit_log_def delete_processed_older_than_def Let_def del: if_split)
qed

text \<open>C40. Maintenance removes only what its retention allows: after a run, whichever of its jobs
  fail, the constraints of the schema hold, the accounts are the same accounts, and every session,
  outbox row and audit entry that is gone, and every account that was changed, was older than the
  configured retention; undelivered and dead outbox rows all stay. A dry run changes nothing.\<close>

theorem maintenance_retains:
  assumes "db_ok d" and "names_ok d"
  shows "let d' = snd (run_once db_fails cfg now d) in
     db_ok d' \<and> map c_id (users d') = map c_id (users d) \<and> (mc_dry_run cfg \<longrightarrow> d' = d) \<and>
     (\<forall>x \<in> set (sessions d). x \<in> set (sessions d') \<or> sr_expires_at x < now - days (mc_session_grace_days cfg)) \<and>
     (\<forall>r \<in> set (outbox_events d). r \<in> set (outbox_events d') \<or>
        (\<exists>t. ob_processed_at r = Some t \<and> t < now - days (mc_outbox_retention_days cfg))) \<and>
     (\<forall>l \<in> set (audit_logs d). l \<in> set (audit_logs d') \<or> al_timestamp l < now - days (mc_audit_retention_days cfg)) \<and>
     (\<forall>u \<in> set (users d). u \<in> set (users d') \<or>
        (\<exists>t. c_deleted_at u = Some t \<and> t < now - days (mc_deleted_user_retention_days cfg)))"
proof (cases "mc_dry_run cfg")
  case True
  with assms show ?thesis by (simp add: run_once_swept [OF assms])
next
  case False
  let ?d' = "swept db_fails cfg now d"
  have "db_ok ?d'"
    using assms by (simp add: swept_def Let_def delete_sessions_ok logs_pruned_ok anonymised_ok)
  moreover have "map c_id (users ?d') = map c_id (users d)"
    by (simp add: swept_def Let_def delete_sessions_def map_update_where anonymise_row_def)
  moreover have "x \<in> set (sessions ?d') \<or> sr_expires_at x < now - days (mc_session_grace_days cfg)" if "x \<in> set (sessions d)" for x
    using that by (auto simp: swept_def Let_def delete_sessions_def set_delete_where)
  moreover have "r \<in> set (outbox_events ?d') \<or> (\<exists>t. ob_processed_at r = Some t \<and> t < now - days (mc_outbox_retention_days cfg))"
    if "r \<in> set (outbox_events d)" for r
    using that by (auto simp: swept_def Let_def delete_sessions_def set_delete_where split: option.splits)
  moreover have "l \<in> set (audit_logs ?d') \<or> al_timestamp l < now - days (mc_audit_retention_days cfg)" if "l \<in> set (audit_logs d)" for l
    using that by (auto simp: swept_def Let_def delete_sessions_def set_delete_where)
  moreover have "u \<in> set (users ?d') \<or> (\<exists>t. c_deleted_at u = Some t \<and> t < now - days (mc_deleted_user_retention_days cfg))"
    if "u \<in> set (users d)" for u
    using that by (force simp: swept_def Let_def delete_sessions_def set_update_where to_anonymise_def split: option.splits)
  ultimately show ?thesis using False by (simp add: run_once_swept [OF assms])
qed

lemma swept_tables:
  "sessions (swept f cfg now d) = (if f ''expired_sessions'' then sessions d
     else delete_where (\<lambda>r. sr_expires_at r < now - days (mc_session_grace_days cfg)) (sessions d))"
  "refresh_tokens (swept f cfg now d) = (if f ''expired_sessions'' then refresh_tokens d
     else delete_where (\<lambda>t. tr_session_id t \<in>
       set (map sr_session_id (filter (\<lambda>r. sr_expires_at r < now - days (mc_session_grace_days cfg)) (sessions d)))) (refresh_tokens d))"
  "outbox_events (swept f cfg now d) = (if f ''processed_outbox'' then outbox_events d
     else delete_where (\<lambda>r. case ob_processed_at r of None \<Rightarrow> False | Some t \<Rightarrow> t < now - days (mc_outbox_retention_days cfg)) (outbox_events d))"
  "audit_logs (swept f cfg now d) = (if f ''old_audit_entries'' then audit_logs d
     else delete_where (\<lambda>l. al_timestamp l < now - days (mc_audit_retention_days cfg)) (audit_logs d))"
  "users (swept f cfg now d) = (if f ''deleted_users'' then users d
     else update_where (to_anonymise (now - days (mc_deleted_user_retention_days cfg))) anonymise_row (users d))"
  "permissions (swept f cfg now d) = permissions d" "roles (swept f cfg now d) = roles d"
  "role_permissions (swept f cfg now d) = role_permissions d" "user_roles (swept f cfg now d) = user_roles d"
  "db.more (swept f cfg now d) = db.more d"
  by (simp_all add: swept_def Let_def delete_sessions_def)

lemma filter_deleted: "filter P (delete_where P xs) = []" "delete_where (\<lambda>x. False) ys = ys"
  by (simp_all add: delete_where_def)

lemma not_anonymised_twice: "\<not> to_anonymise t (anonymise_row r)"
  by (simp add: to_anonymise_def anonymise_row_def split: option.splits)

lemma anonymise_twice:
  "update_where (to_anonymise t) anonymise_row (update_where (to_anonymise t) anonymise_row us) =
     update_where (to_anonymise t) anonymise_row us"
  by (rule update_where_id) (auto simp: set_update_where not_anonymised_twice split: if_splits)

text \<open>Every job is idempotent: repeating a run at the same time, as after a run that died
  halfway, changes nothing more.\<close>

theorem maintenance_idempotent:
  assumes "db_ok d" and "names_ok d"
  shows "snd (run_once db_fails cfg now (snd (run_once db_fails cfg now d))) = snd (run_once db_fails cfg now d)"
proof (cases "mc_dry_run cfg")
  case True
  then show ?thesis by (simp add: run_once_swept [OF assms])
next
  case False
  have ok: "db_ok (swept db_fails cfg now d)" "names_ok (swept db_fails cfg now d)"
    using assms by (simp_all add: swept_def Let_def delete_sessions_ok logs_pruned_ok anonymised_ok)
  have "swept db_fails cfg now (swept db_fails cfg now d) = swept db_fails cfg now d"
    by (rule db.equality) (simp_all add: swept_tables delete_where_idem anonymise_twice filter_deleted)
  with False show ?thesis by (simp add: run_once_swept [OF assms] run_once_swept [OF ok])
qed

section \<open>Run after run\<close>

lemma swept_ok:
  "db_ok d \<Longrightarrow> names_ok d \<Longrightarrow> db_ok (swept f cfg now d)" "db_ok d \<Longrightarrow> names_ok d \<Longrightarrow> names_ok (swept f cfg now d)"
  by (simp_all add: swept_def Let_def delete_sessions_ok logs_pruned_ok anonymised_ok)

text \<open>What is due for a job at the time now is done.\<close>

definition clean_as_of :: "maintenance_config \<Rightarrow> datetime \<Rightarrow> string \<Rightarrow> db \<Rightarrow> bool" where
  "clean_as_of cfg now job d =
     (if job = ''expired_sessions'' then list_all (\<lambda>x. now - days (mc_session_grace_days cfg) \<le> sr_expires_at x) (sessions d)
      else if job = ''processed_outbox''
      then list_all (\<lambda>r. case ob_processed_at r of None \<Rightarrow> True | Some t \<Rightarrow> now - days (mc_outbox_retention_days cfg) \<le> t) (outbox_events d)
      else if job = ''old_audit_entries'' then list_all (\<lambda>l. now - days (mc_audit_retention_days cfg) \<le> al_timestamp l) (audit_logs d)
      else list_all (\<lambda>u. \<not> to_anonymise (now - days (mc_deleted_user_retention_days cfg)) u) (users d))"

lemma list_all_pruned: "list_all P xs \<Longrightarrow> list_all P (delete_where Q xs)"
  by (auto simp: list_all_iff set_delete_where)

lemma list_all_anonymised:
  "list_all (\<lambda>u. \<not> to_anonymise t u) us \<Longrightarrow> list_all (\<lambda>u. \<not> to_anonymise t u) (update_where Q anonymise_row us)"
  "list_all (\<lambda>u. \<not> to_anonymise t u) (update_where (to_anonymise t) anonymise_row us)"
  by (auto simp: list_all_iff set_update_where not_anonymised_twice)

lemma clean_kept: "clean_as_of cfg now job d \<Longrightarrow> clean_as_of cfg now job (swept f cfg now' d)"
  unfolding clean_as_of_def swept_tables by (simp add: list_all_pruned list_all_anonymised(1) split: if_split_asm)

lemma clean_swept:
  assumes "\<not> f job" and "job \<in> fst ` set jobs"
  shows "clean_as_of cfg now job (swept f cfg now d)"
proof -
  have "job = ''expired_sessions'' \<or> job = ''processed_outbox'' \<or> job = ''old_audit_entries'' \<or> job = ''deleted_users''"
    using assms(2) by (auto simp: jobs_def)
  then show ?thesis
  proof (elim disjE)
    assume "job = ''expired_sessions''"
    with assms(1) show ?thesis by (simp add: clean_as_of_def swept_tables list_all_iff set_delete_where)
  next
    assume "job = ''processed_outbox''"
    with assms(1) show ?thesis by (simp add: clean_as_of_def swept_tables list_all_iff set_delete_where split: option.splits)
  next
    assume "job = ''old_audit_entries''"
    with assms(1) show ?thesis by (simp add: clean_as_of_def swept_tables list_all_iff set_delete_where)
  next
    assume "job = ''deleted_users''"
    with assms(1) show ?thesis by (simp add: clean_as_of_def swept_tables list_all_anonymised(2))
  qed
qed

lemma clean_loop:
  "db_ok d \<Longrightarrow> names_ok d \<Longrightarrow> \<not> mc_dry_run cfg \<Longrightarrow> clean_as_of cfg now job d \<Longrightarrow>
     clean_as_of cfg now job (snd (maintenance_start cfg ts d))"
  by (induction ts arbitrary: d) (auto simp: Let_def case_prod_unfold run_once_swept swept_ok clean_kept)

text \<open>The janitor catches up. However often its jobs failed before, once a job has run without a failure
  nothing it is responsible for and that was due at that run is left, and nothing of it comes back
  in later runs; the other jobs do not wait for one that fails.\<close>

theorem maintenance_catches_up:
  assumes "db_ok d" and "names_ok d" and "\<not> mc_dry_run cfg" and "list_all (\<lambda>t. \<not> ti_stopping t) before"
    and "\<not> ti_fails t job" and "job \<in> fst ` set jobs"
  shows "clean_as_of cfg (ti_now t) job (snd (maintenance_start cfg (before @ t # after) d))"
  using assms
proof (induction before arbitrary: d)
  case Nil
  have "clean_as_of cfg (ti_now t) job (swept (ti_fails t) cfg (ti_now t) d)" using clean_swept Nil by blast
  with Nil clean_loop [OF swept_ok [OF Nil(1,2)]] show ?case by (simp add: Let_def case_prod_unfold run_once_swept)
next
  case (Cons b before)
  then show ?case by (simp add: Let_def case_prod_unfold run_once_swept swept_ok)
qed

text \<open>An anonymised account cannot be read any more: its placeholder name is longer than any
  user name, so loading the account raises instead of answering that it is deleted.\<close>

theorem anonymised_account_unreadable:
  assumes "db_ok d" and "names_ok d" and "\<not> mc_dry_run cfg" and "\<not> db_fails ''deleted_users''" and "r \<in> set (users d)"
    and "to_anonymise (now - days (mc_deleted_user_retention_days cfg)) r" and "c_id r \<noteq> NIL_UUID"
  shows "user_acquire_by_id E (c_id r) (snd (run_once db_fails cfg now d)) = Inl (TooLongUsernameError (deleted_placeholder (c_id r)))"
proof -
  let ?d = "swept db_fails cfg now d"
  have us: "users ?d = update_where (to_anonymise (now - days (mc_deleted_user_retention_days cfg))) anonymise_row (users d)"
    using assms(4) by (simp add: swept_def Let_def delete_sessions_def)
  have "find_row (\<lambda>x. c_id x = c_id r) (users d) = Some r" by (rule find_by_id [OF db_ok_users [OF assms(1)] assms(5)])
  then have "find_row (\<lambda>x. c_id x = c_id r) (users ?d) = Some (anonymise_row r)"
    using assms(6) by (simp add: us find_row_update_where anonymise_row_def)
  moreover have "row_to_user E (anonymise_row r) = Inl (TooLongUsernameError (deleted_placeholder (c_id r)))"
    using assms(7) placeholder_length [of "c_id r"]
    by (simp add: row_to_user_def row_reset_token_def row_two_factor_def anonymise_row_def UserID_def Username_def MAX_USERNAME_LENGTH_def)
  ultimately show ?thesis
    using assms(3) by (simp add: run_once_swept [OF assms(1,2)] user_acquire_by_id_def load_user_def)
qed

text \<open>A deleted account without an address is never anonymised: the job only selects accounts
  that still have one, so the name of such an account is never released.\<close>

theorem addressless_account_kept:
  assumes "db_ok d" and "names_ok d" and "r \<in> set (users d)" and "c_email r = None"
  shows "r \<in> set (users (snd (run_once db_fails cfg now d)))"
proof -
  have "\<not> to_anonymise t r" for t using assms(4) by (simp add: to_anonymise_def split: option.splits)
  with assms(3) show ?thesis
    by (force simp: run_once_swept [OF assms(1,2)] swept_def Let_def delete_sessions_def set_update_where)
qed

section \<open>A concrete run\<close>

definition demo_row :: "uuid \<Rightarrow> string \<Rightarrow> string option \<Rightarrow> user_row" where
  "demo_row i n m = user_row.make i 0 n m [1] (Some 0) False None None 0 None False None None None None None None False None None None"

definition demo_old_db :: db where
  "demo_old_db = empty_db\<lparr>users := [demo_row 1 ''alice'' (Some ''al@ex.org''), demo_row 2 ''bob'' None]\<rparr>"

lemma demo_old_ok: "db_ok demo_old_db" "names_ok demo_old_db"
  by (simp_all add: demo_old_db_def demo_row_def user_row.make_def empty_db_def db_ok_def users_ok_def sessions_ok_def rbac_ok_def
      logs_ok_def some_values_Cons names_ok_def MAX_USERNAME_LENGTH_def)

theorem maintenance_retains_witness:
  "map c_id (users (snd (run_once (\<lambda>_. False) default_maintenance (days 31) demo_old_db))) = [1, 2]"
  using maintenance_retains [OF demo_old_ok, of "\<lambda>_. False" default_maintenance "days 31"]
  by (simp add: Let_def demo_old_db_def demo_row_def user_row.make_def)

theorem maintenance_idempotent_witness:
  "snd (run_once (\<lambda>_. False) default_maintenance (days 31) (snd (run_once (\<lambda>_. False) default_maintenance (days 31) demo_old_db))) =
   snd (run_once (\<lambda>_. False) default_maintenance (days 31) demo_old_db)"
  by (rule maintenance_idempotent [OF demo_old_ok])

theorem anonymised_account_unreadable_witness:
  "user_acquire_by_id sample_env 1 (snd (run_once (\<lambda>_. False) default_maintenance (days 31) demo_old_db)) =
     Inl (TooLongUsernameError ''deleted_00000000000000000000000000000001'')"
proof -
  have "deleted_placeholder 1 = ''deleted_00000000000000000000000000000001''" by code_simp
  then show ?thesis
    using anonymised_account_unreadable [OF demo_old_ok, of default_maintenance "\<lambda>_. False" "demo_row 1 ''alice'' (Some ''al@ex.org'')" "days 31" sample_env]
    by (simp add: default_maintenance_def demo_old_db_def demo_row_def user_row.make_def to_anonymise_def NIL_UUID_def)
qed

theorem addressless_account_kept_witness:
  "demo_row 2 ''bob'' None \<in> set (users (snd (run_once (\<lambda>_. False) default_maintenance (days 3650) demo_old_db)))"
  by (rule addressless_account_kept [OF demo_old_ok]) (simp_all add: demo_old_db_def demo_row_def user_row.make_def)

theorem maintenance_catches_up_witness:
  "clean_as_of default_maintenance (days 31) ''deleted_users''
     (snd (maintenance_start default_maintenance
       ([\<lparr>ti_now = days 31, ti_fails = (\<lambda>_. True), ti_stopping = False\<rparr>] @ \<lparr>ti_now = days 31, ti_fails = (\<lambda>_. False), ti_stopping = True\<rparr> # [])
       demo_old_db))"
  using maintenance_catches_up [OF demo_old_ok, of default_maintenance "[\<lparr>ti_now = days 31, ti_fails = (\<lambda>_. True), ti_stopping = False\<rparr>]"
      "\<lparr>ti_now = days 31, ti_fails = (\<lambda>_. False), ti_stopping = True\<rparr>" "''deleted_users''" "[]"]
  by (simp add: default_maintenance_def jobs_def)

end
