(* ===== verification/Settings.thy ===== *)
theory Settings
  imports Redis Middleware Maintenance
begin

text \<open>
  The configuration of the service: infrastructure/settings.py, which reads the environment once and
  refuses to start on a bad one, and the \<open>from_environ\<close> of every part it loads
  (db/sqlalchemy/config.py, cache/config.py, security/rate_limiter.py, hydra/config.py,
  queue/config.py, email/config.py, observability/config.py) with maintenance/config.py. The
  environment is a map; \<open>float\<close> is an argument, as decimal fractions are only passed on.
\<close>

type_synonym environ = "string \<rightharpoonup> string"

definition getenv :: "environ \<Rightarrow> string \<Rightarrow> string \<Rightarrow> string" where
  "getenv env name fallback = (case env name of None \<Rightarrow> fallback | Some v \<Rightarrow> v)"

definition getenv_int :: "environ \<Rightarrow> string \<Rightarrow> string \<Rightarrow> app_error + int" where
  "getenv_int env name fallback = py_int (getenv env name fallback)"

definition getenv_flag :: "environ \<Rightarrow> string \<Rightarrow> string \<Rightarrow> bool" where
  "getenv_flag env name fallback = (lower (getenv env name fallback) = ''true'')"

text \<open>\<open>{backend!r}\<close>\<close>

definition repr_char :: "char \<Rightarrow> char \<Rightarrow> string" where
  "repr_char q c =
     (if c = q \<or> c = CHR 0x5C then [CHR 0x5C, c]
      else if c = CHR 0x09 then [CHR 0x5C, CHR ''t''] else if c = CHR 0x0A then [CHR 0x5C, CHR ''n'']
      else if c = CHR 0x0D then [CHR 0x5C, CHR ''r'']
      else if code_of c < 32 \<or> (127 \<le> code_of c \<and> code_of c < 161) \<or> code_of c = 173
      then [CHR 0x5C, CHR ''x''] @ hexn 2 (code_of c) else [c])"

definition py_repr :: "string \<Rightarrow> string" where
  "py_repr s =
     (let q = (if CHR 0x27 \<in> set s \<and> CHR 0x22 \<notin> set s then CHR 0x22 else CHR 0x27) in
      q # concat (map (repr_char q) s) @ [q])"

section \<open>The parts\<close>

record database_config =
  dc_host :: string
  dc_port :: int
  dc_database :: string
  dc_user :: string
  dc_password :: string
  dc_echo :: bool
  dc_pool_size :: int
  dc_max_overflow :: int
  dc_pool_timeout :: int
  dc_pool_recycle_seconds :: int
  dc_statement_timeout_ms :: int
  dc_application_name :: string

definition database_from_environ :: "environ \<Rightarrow> app_error + database_config" where
  "database_from_environ env =
     rbind (getenv_int env ''POSTGRES_PORT'' ''5432'') (\<lambda>port.
     rbind (getenv_int env ''POSTGRES_POOL_SIZE'' ''10'') (\<lambda>pool_size.
     rbind (getenv_int env ''POSTGRES_MAX_OVERFLOW'' ''10'') (\<lambda>max_overflow.
     rbind (getenv_int env ''POSTGRES_POOL_TIMEOUT'' ''30'') (\<lambda>pool_timeout.
     rbind (getenv_int env ''POSTGRES_POOL_RECYCLE_SECONDS'' ''1800'') (\<lambda>recycle.
     rbind (getenv_int env ''POSTGRES_STATEMENT_TIMEOUT_MS'' ''30000'') (\<lambda>timeout.
       Inr \<lparr>dc_host = getenv env ''POSTGRES_HOST'' ''localhost'', dc_port = port,
            dc_database = getenv env ''POSTGRES_DB'' ''preprod'', dc_user = getenv env ''POSTGRES_USER'' [],
            dc_password = getenv env ''POSTGRES_PASSWORD'' [], dc_echo = getenv_flag env ''POSTGRES_ECHO'' ''false'',
            dc_pool_size = pool_size, dc_max_overflow = max_overflow, dc_pool_timeout = pool_timeout,
            dc_pool_recycle_seconds = recycle, dc_statement_timeout_ms = timeout,
            dc_application_name = getenv env ''POSTGRES_APPLICATION_NAME'' ''backend-template''\<rparr>))))))"

definition backend_from_environ :: "environ \<Rightarrow> string \<Rightarrow> app_error + string" where
  "backend_from_environ env name =
     (let backend = getenv env name ''memory'' in
      if backend \<notin> {''memory'', ''redis''}
      then Inl (ConfigurationError (name @ '' must be '' @ single_quoted ''memory'' @ '' or '' @ single_quoted ''redis'' @ '', got '' @ py_repr backend))
      else Inr backend)"

record cache_config =
  cc_backend :: string
  cc_redis_url :: string

definition cache_from_environ :: "environ \<Rightarrow> app_error + cache_config" where
  "cache_from_environ env =
     rbind (backend_from_environ env ''CACHE_BACKEND'') (\<lambda>backend.
       Inr \<lparr>cc_backend = backend, cc_redis_url = getenv env ''REDIS_URL'' ''redis://localhost:6379/0''\<rparr>)"

record rate_limit_settings =
  rl_backend :: string
  rl_redis_url :: string
  rl_limits :: rate_limit_config

definition rate_limit_from_environ :: "environ \<Rightarrow> app_error + rate_limit_settings" where
  "rate_limit_from_environ env =
     rbind (backend_from_environ env ''RATE_LIMIT_BACKEND'') (\<lambda>backend.
     rbind (getenv_int env ''RATE_LIMIT_MAX_REQUESTS'' ''100'') (\<lambda>requests.
     rbind (getenv_int env ''RATE_LIMIT_WINDOW_SECONDS'' ''60'') (\<lambda>window.
     rbind (getenv_int env ''RATE_LIMIT_LOGIN_ATTEMPTS'' ''5'') (\<lambda>attempts.
     rbind (getenv_int env ''RATE_LIMIT_LOCKOUT_SECONDS'' ''900'') (\<lambda>lockout.
     rbind (getenv_int env ''RATE_LIMIT_CLEANUP_INTERVAL_SECONDS'' ''300'') (\<lambda>cleanup.
     rbind (getenv_int env ''RATE_LIMIT_MAX_KEYS'' ''10000'') (\<lambda>keys.
       Inr \<lparr>rl_backend = backend, rl_redis_url = getenv env ''REDIS_URL'' ''redis://localhost:6379/0'',
            rl_limits = \<lparr>max_requests = requests, window_seconds = window, max_login_attempts = attempts,
              lockout_seconds = lockout, cleanup_interval_seconds = cleanup, max_keys = keys\<rparr>\<rparr>)))))))"

record 'f hydra_settings =
  hs_admin_url :: string
  hs_public_url :: string
  hs_config :: hydra_config
  hs_request_timeout_seconds :: 'f

definition hydra_from_environ :: "(string \<Rightarrow> app_error + 'f) \<Rightarrow> environ \<Rightarrow> app_error + 'f hydra_settings" where
  "hydra_from_environ py_float env =
     (if getenv env ''ENV'' ''development'' = ''production'' \<and> \<not> truthy (env ''HYDRA_ADMIN_URL'')
      then Inl (ConfigurationError ''HYDRA_ADMIN_URL must be set in production'')
      else if getenv env ''ENV'' ''development'' = ''production'' \<and> \<not> truthy (env ''HYDRA_PUBLIC_URL'')
      then Inl (ConfigurationError ''HYDRA_PUBLIC_URL must be set in production'')
      else
        rbind (getenv_int env ''HYDRA_LOGIN_REMEMBER_SECONDS'' ''3600'') (\<lambda>login.
        rbind (getenv_int env ''HYDRA_CONSENT_REMEMBER_SECONDS'' (int_str (60 * 60 * 24 * 30))) (\<lambda>consent.
        rbind (getenv_int env ''HYDRA_INTROSPECTION_CACHE_TTL_SECONDS'' ''30'') (\<lambda>ttl.
        rbind (getenv_int env ''HYDRA_INTROSPECTION_NEGATIVE_CACHE_TTL_SECONDS'' ''10'') (\<lambda>negative.
        rbind (py_float (getenv env ''HYDRA_REQUEST_TIMEOUT_SECONDS'' ''5.0'')) (\<lambda>timeout.
          Inr \<lparr>hs_admin_url = getenv env ''HYDRA_ADMIN_URL'' ''http://localhost:4445'',
               hs_public_url = getenv env ''HYDRA_PUBLIC_URL'' ''http://localhost:4444'',
               hs_config = \<lparr>hg_login_remember_seconds = login, hg_consent_remember_seconds = consent, hg_ttl = ttl,
                 hg_negative_ttl = negative\<rparr>,
               hs_request_timeout_seconds = timeout\<rparr>))))))"

record rabbitmq_config =
  mq_host :: string
  mq_port :: int
  mq_user :: string
  mq_password :: string
  mq_virtualhost :: string

definition rabbitmq_from_environ :: "environ \<Rightarrow> app_error + rabbitmq_config" where
  "rabbitmq_from_environ env =
     rbind (getenv_int env ''RABBITMQ_PORT'' ''5672'') (\<lambda>port.
       Inr \<lparr>mq_host = getenv env ''RABBITMQ_HOST'' ''localhost'', mq_port = port, mq_user = getenv env ''RABBITMQ_USER'' ''guest'',
            mq_password = getenv env ''RABBITMQ_PASSWORD'' ''guest'', mq_virtualhost = getenv env ''RABBITMQ_VIRTUALHOST'' ''/''\<rparr>)"

definition rabbitmq_url :: "rabbitmq_config \<Rightarrow> string" where
  "rabbitmq_url c =
     ''amqp://'' @ mq_user c @ '':'' @ mq_password c @ ''@'' @ mq_host c @ '':'' @ int_str (mq_port c) @ mq_virtualhost c"

record email_config =
  ec_host :: string
  ec_port :: int
  ec_username :: string
  ec_password :: string
  ec_use_tls :: bool
  ec_from_addr :: string
  ec_app_base_url :: string

definition email_from_environ :: "environ \<Rightarrow> app_error + email_config" where
  "email_from_environ env =
     rbind (getenv_int env ''SMTP_PORT'' ''587'') (\<lambda>port.
       Inr \<lparr>ec_host = getenv env ''SMTP_HOST'' ''localhost'', ec_port = port, ec_username = getenv env ''SMTP_USERNAME'' [],
            ec_password = getenv env ''SMTP_PASSWORD'' [], ec_use_tls = getenv_flag env ''SMTP_USE_TLS'' ''true'',
            ec_from_addr = getenv env ''SMTP_FROM_ADDR'' ''noreply@example.com'',
            ec_app_base_url = getenv env ''APP_BASE_URL'' ''http://localhost:8000''\<rparr>)"

record observability_config =
  oc_enabled :: bool
  oc_service_name :: string
  oc_service_version :: string
  oc_otlp_endpoint :: "string option"

definition observability_from_environ :: "environ \<Rightarrow> observability_config" where
  "observability_from_environ env =
     \<lparr>oc_enabled = getenv_flag env ''OTEL_ENABLED'' ''false'', oc_service_name = getenv env ''OTEL_SERVICE_NAME'' ''backend-template'',
      oc_service_version = getenv env ''OTEL_SERVICE_VERSION'' ''1.0.0'',
      oc_otlp_endpoint = (let v = env ''OTEL_EXPORTER_OTLP_ENDPOINT'' in if truthy v then v else None)\<rparr>"

definition maintenance_from_environ :: "environ \<Rightarrow> app_error + maintenance_config" where
  "maintenance_from_environ env =
     rbind (getenv_int env ''MAINTENANCE_INTERVAL_SECONDS'' ''3600'') (\<lambda>interval.
     rbind (getenv_int env ''MAINTENANCE_SESSION_GRACE_DAYS'' ''7'') (\<lambda>grace.
     rbind (getenv_int env ''MAINTENANCE_OUTBOX_RETENTION_DAYS'' ''7'') (\<lambda>outbox.
     rbind (getenv_int env ''MAINTENANCE_AUDIT_RETENTION_DAYS'' ''365'') (\<lambda>audit.
     rbind (getenv_int env ''MAINTENANCE_DELETED_USER_DAYS'' ''30'') (\<lambda>deleted.
       Inr \<lparr>mc_interval_seconds = interval, mc_session_grace_days = grace, mc_outbox_retention_days = outbox,
            mc_audit_retention_days = audit, mc_deleted_user_retention_days = deleted,
            mc_dry_run = getenv_flag env ''MAINTENANCE_DRY_RUN'' ''false''\<rparr>)))))"

section \<open>The whole\<close>

definition MIN_SECRET_LENGTH :: nat where
  "MIN_SECRET_LENGTH = 32"

definition PLACEHOLDER :: string where
  "PLACEHOLDER = ''change-me''"

definition IN_MEMORY_CACHE_MESSAGE :: string where
  "IN_MEMORY_CACHE_MESSAGE = ''CACHE_BACKEND must be \"redis\" outside development. The in-memory cache is per-process, which silently breaks pending 2FA challenges and introspection caching across replicas''"

definition IN_MEMORY_LIMITER_MESSAGE :: string where
  "IN_MEMORY_LIMITER_MESSAGE = ''RATE_LIMIT_BACKEND must be \"redis\" outside development. A per-process limiter multiplies every configured limit by the number of replicas''"

record 'f settings =
  se_environment :: string
  se_app_secret_key :: string
  se_secret_encryption_key :: string
  se_database :: database_config
  se_cache :: cache_config
  se_rate_limit :: rate_limit_settings
  se_hydra :: "'f hydra_settings"
  se_rabbitmq :: rabbitmq_config
  se_email :: email_config
  se_observability :: observability_config

definition is_production :: "'f settings \<Rightarrow> bool" where
  "is_production s = (lower (se_environment s) \<noteq> ''development'')"

definition settings_fail :: "string \<Rightarrow> app_error + unit" where
  "settings_fail message = Inl (ConfigurationError (message @ ''. Generate secrets with: openssl rand -hex 32''))"

definition require_secret :: "string \<Rightarrow> string \<Rightarrow> app_error + unit" where
  "require_secret name value =
     (if value = [] then settings_fail (name @ '' must be set'')
      else if has_sub PLACEHOLDER value then settings_fail (name @ '' is still the placeholder from .env.dist'')
      else if length value < MIN_SECRET_LENGTH then settings_fail (name @ '' must be at least '' @ int_str (int MIN_SECRET_LENGTH) @ '' characters'')
      else Inr ())"

definition settings_validate :: "'f settings \<Rightarrow> app_error + unit" where
  "settings_validate s =
     (if \<not> is_production s then Inr ()
      else
        rbind (require_secret ''APP_SECRET_KEY'' (se_app_secret_key s)) (\<lambda>_.
        rbind (require_secret ''SECRET_ENCRYPTION_KEY'' (se_secret_encryption_key s)) (\<lambda>_.
          if dc_user (se_database s) = [] \<or> dc_password (se_database s) = []
          then settings_fail ''POSTGRES_USER and POSTGRES_PASSWORD must be set''
          else if cc_backend (se_cache s) \<noteq> ''redis'' then settings_fail IN_MEMORY_CACHE_MESSAGE
          else if rl_backend (se_rate_limit s) \<noteq> ''redis'' then settings_fail IN_MEMORY_LIMITER_MESSAGE
          else Inr ())))"

definition settings_load :: "(string \<Rightarrow> app_error + 'f) \<Rightarrow> environ \<Rightarrow> app_error + 'f settings" where
  "settings_load py_float env =
     rbind (database_from_environ env) (\<lambda>database.
     rbind (cache_from_environ env) (\<lambda>cache.
     rbind (rate_limit_from_environ env) (\<lambda>rate_limit.
     rbind (hydra_from_environ py_float env) (\<lambda>hydra.
     rbind (rabbitmq_from_environ env) (\<lambda>rabbitmq.
     rbind (email_from_environ env) (\<lambda>email.
       (let s = \<lparr>se_environment = getenv env ''ENV'' ''production'', se_app_secret_key = getenv env ''APP_SECRET_KEY'' [],
                 se_secret_encryption_key = getenv env ''SECRET_ENCRYPTION_KEY'' [], se_database = database, se_cache = cache,
                 se_rate_limit = rate_limit, se_hydra = hydra, se_rabbitmq = rabbitmq, se_email = email,
                 se_observability = observability_from_environ env\<rparr> in
        rbind (settings_validate s) (\<lambda>_. Inr s))))))))"

section \<open>What a loaded configuration is\<close>

lemma loaded_in_production:
  assumes "settings_load py_float env = Inr s" and "\<not> (\<exists>v. env ''ENV'' = Some v \<and> lower v = ''development'')"
  shows "is_production s" "settings_validate s = Inr ()"
proof -
  have e: "se_environment s = getenv env ''ENV'' ''production''" and v: "settings_validate s = Inr ()"
    using assms(1) by (auto simp: settings_load_def rbind_eq_Inr Let_def)
  have "lower ''production'' \<noteq> ''development''" by code_simp
  then show "is_production s" using assms(2) by (auto simp: is_production_def e getenv_def split: option.splits)
  show "settings_validate s = Inr ()" by (rule v)
qed

text \<open>With ENV unset the settings are those of production, but the Hydra part takes the service to be
  in development and falls back to an administration interface on the local host.\<close>

lemma unset_env_local_hydra:
  assumes "settings_load py_float env = Inr s" and "env ''ENV'' = None" and "env ''HYDRA_ADMIN_URL'' = None"
  shows "is_production s \<and> hs_admin_url (se_hydra s) = ''http://localhost:4445''"
proof -
  have e: "se_environment s = ''production''" and h: "hydra_from_environ py_float env = Inr (se_hydra s)"
    using assms(1,2) by (auto simp: settings_load_def rbind_eq_Inr Let_def getenv_def)
  have "hydra_from_environ py_float env = Inr x \<Longrightarrow> hs_admin_url x = ''http://localhost:4445''" for x
    using assms(3) by (auto simp: hydra_from_environ_def rbind_eq_Inr getenv_def split: if_splits)
  moreover have "lower ''production'' \<noteq> ''development''" by code_simp
  ultimately show ?thesis using e h by (simp add: is_production_def)
qed

section \<open>An environment\<close>

definition demo_environ :: environ where
  "demo_environ = map_of [(''APP_SECRET_KEY'', replicate 32 (CHR ''a'')), (''SECRET_ENCRYPTION_KEY'', replicate 32 (CHR ''b'')),
     (''POSTGRES_USER'', ''app''), (''POSTGRES_PASSWORD'', ''pw''), (''CACHE_BACKEND'', ''redis''), (''RATE_LIMIT_BACKEND'', ''redis'')]"

lemma demo_settings: "\<exists>s :: unit settings. settings_load (\<lambda>_. Inr ()) demo_environ = Inr s"
proof -
  have i: "py_int ''5432'' = Inr 5432" "py_int ''10'' = Inr 10" "py_int ''30'' = Inr 30" "py_int ''1800'' = Inr 1800" "py_int ''30000'' = Inr 30000"
    "py_int ''100'' = Inr 100" "py_int ''60'' = Inr 60" "py_int ''5'' = Inr 5" "py_int ''900'' = Inr 900" "py_int ''300'' = Inr 300"
    "py_int ''10000'' = Inr 10000" "py_int ''3600'' = Inr 3600" "py_int ''5672'' = Inr 5672" "py_int ''587'' = Inr 587"
    by (simp_all add: py_int_def strip_def strip_by_def is_space_def is_digit_def in_range_def Let_def)
  note g = getenv_int_def getenv_def demo_environ_def i py_int_str
  have parts: "\<exists>d. database_from_environ demo_environ = Inr d \<and> dc_user d = ''app'' \<and> dc_password d = ''pw''"
    "\<exists>c. cache_from_environ demo_environ = Inr c \<and> cc_backend c = ''redis''"
    "\<exists>l. rate_limit_from_environ demo_environ = Inr l \<and> rl_backend l = ''redis''"
    "\<exists>h. hydra_from_environ (\<lambda>_. Inr ()) demo_environ = Inr h" "\<exists>q. rabbitmq_from_environ demo_environ = Inr q"
    "\<exists>m. email_from_environ demo_environ = Inr m"
    by (simp_all add: database_from_environ_def cache_from_environ_def rate_limit_from_environ_def backend_from_environ_def
        hydra_from_environ_def rabbitmq_from_environ_def email_from_environ_def g)
  have k: "require_secret n (replicate 32 c) = Inr ()" if "c \<noteq> CHR ''h''" for n c
  proof -
    have sub: "CHR ''h'' \<in> set t" if "has_sub PLACEHOLDER t" for t
      using that by (induction t) (auto simp: PLACEHOLDER_def dest!: arg_cong [where f = set] dest: in_set_takeD)
    from sub [of "replicate 32 c"] that show ?thesis by (auto simp: require_secret_def MIN_SECRET_LENGTH_def)
  qed
  have e: "getenv demo_environ ''APP_SECRET_KEY'' [] = replicate 32 (CHR ''a'')" "getenv demo_environ ''SECRET_ENCRYPTION_KEY'' [] = replicate 32 (CHR ''b'')"
    by (simp_all add: getenv_def demo_environ_def)
  have v: "settings_validate t = Inr ()" if "se_app_secret_key t = replicate 32 (CHR ''a'')" "se_secret_encryption_key t = replicate 32 (CHR ''b'')"
      "dc_user (se_database t) \<noteq> []" "dc_password (se_database t) \<noteq> []" "cc_backend (se_cache t) = ''redis''"
      "rl_backend (se_rate_limit t) = ''redis''" for t :: "unit settings"
    using that by (simp add: settings_validate_def k)
  from parts show ?thesis by (auto simp: settings_load_def v e Let_def)
qed

end
