(* ===== verification/Wiring.thy ===== *)
theory Wiring
  imports Settings
begin

text \<open>
  The container of infrastructure/di.py: what each constructor takes, which factory provides which
  type in which scope, what the context of the entry point supplies, and what the handlers, the
  guards and the start-up code ask the container for. An object of scope APP lives as long as the
  process, one of scope REQUEST as long as a request. Types are named as the annotations name them.
\<close>

section \<open>Constructors\<close>

text \<open>The types of the constructor parameters of each class that is registered.\<close>

definition IdempotencyStore_init :: "string list" where
  "IdempotencyStore_init = [''CacheInterface'']"

definition SMTPSender_init :: "string list" where
  "SMTPSender_init = [''EmailConfig'']"

definition build_sa_session_factory_takes :: "string list" where
  "build_sa_session_factory_takes = [''AsyncEngine'']"

definition SQLAlchemyUserRepo_init :: "string list" where
  "SQLAlchemyUserRepo_init = [''AsyncSession'', ''SecretCipherInterface'']"

definition SQLAlchemySessionRepo_init :: "string list" where
  "SQLAlchemySessionRepo_init = [''AsyncSession'']"

definition SQLAlchemyPermissionRepo_init :: "string list" where
  "SQLAlchemyPermissionRepo_init = [''AsyncSession'']"

definition SQLAlchemyRoleRepo_init :: "string list" where
  "SQLAlchemyRoleRepo_init = [''AsyncSession'']"

definition SQLAlchemyUserRoleRepo_init :: "string list" where
  "SQLAlchemyUserRoleRepo_init = [''AsyncSession'']"

definition SQLAlchemyAuditLogRepo_init :: "string list" where
  "SQLAlchemyAuditLogRepo_init = [''AsyncSession'']"

definition SQLAlchemyUserReader_init :: "string list" where
  "SQLAlchemyUserReader_init = [''AsyncSession'']"

definition SQLAlchemySessionReader_init :: "string list" where
  "SQLAlchemySessionReader_init = [''AsyncSession'']"

definition SQLAlchemyRoleReader_init :: "string list" where
  "SQLAlchemyRoleReader_init = [''AsyncSession'']"

definition UserService_init :: "string list" where
  "UserService_init = [''UserRepositoryInterface'', ''SessionRepositoryInterface'', ''CryptInterface'', ''UnitOfWorkInterface'']"

definition RBACService_init :: "string list" where
  "RBACService_init = [''UserRepositoryInterface'', ''RoleRepositoryInterface'', ''PermissionRepositoryInterface'', ''UserRoleRepositoryInterface'', ''UnitOfWorkInterface'']"

definition CreateOAuthClientUseCase_init :: "string list" where
  "CreateOAuthClientUseCase_init = [''HydraAdminClientInterface'']"

definition ListOAuthClientsUseCase_init :: "string list" where
  "ListOAuthClientsUseCase_init = [''HydraAdminClientInterface'']"

definition DeleteOAuthClientUseCase_init :: "string list" where
  "DeleteOAuthClientUseCase_init = [''HydraAdminClientInterface'']"

definition RotateClientSecretUseCase_init :: "string list" where
  "RotateClientSecretUseCase_init = [''HydraAdminClientInterface'']"

definition CachedTwoFactorChallengeStore_init :: "string list" where
  "CachedTwoFactorChallengeStore_init = [''CacheInterface'']"

definition UsedCodeRegistry_init :: "string list" where
  "UsedCodeRegistry_init = [''CacheInterface'']"

definition CreateUserUseCase_init :: "string list" where
  "CreateUserUseCase_init = [''UserService'', ''UnitOfWorkInterface'', ''UUIDGeneratorInterface'', ''RateLimiterInterface'']"

definition CompleteTwoFactorUseCase_init :: "string list" where
  "CompleteTwoFactorUseCase_init = [''UserService'', ''UserRepositoryInterface'', ''TwoFactorInterface'', ''TwoFactorChallengeStore'', ''UsedCodeRegistry'', ''UnitOfWorkInterface'']"

definition LoginUseCase_init :: "string list" where
  "LoginUseCase_init = [''UserService'', ''RateLimiterInterface'', ''LoginAttemptLimiterInterface'', ''TwoFactorChallengeStore'', ''MetricsInterface'', ''UnitOfWorkInterface'']"

definition RefreshTokenUseCase_init :: "string list" where
  "RefreshTokenUseCase_init = [''UserService'', ''UnitOfWorkInterface'']"

definition GetMeUseCase_init :: "string list" where
  "GetMeUseCase_init = [''UserReader'']"

definition BuildConsentClaimsUseCase_init :: "string list" where
  "BuildConsentClaimsUseCase_init = [''UserReader'']"

definition UpdateProfileUseCase_init :: "string list" where
  "UpdateProfileUseCase_init = [''UserService'', ''UnitOfWorkInterface'']"

definition ChangePasswordUseCase_init :: "string list" where
  "ChangePasswordUseCase_init = [''UserService'', ''UnitOfWorkInterface'']"

definition DeleteMeUseCase_init :: "string list" where
  "DeleteMeUseCase_init = [''UserService'', ''UnitOfWorkInterface'']"

definition Enable2FAUseCase_init :: "string list" where
  "Enable2FAUseCase_init = [''UserService'', ''TwoFactorInterface'', ''UnitOfWorkInterface'']"

definition Confirm2FAUseCase_init :: "string list" where
  "Confirm2FAUseCase_init = [''UserService'', ''TwoFactorInterface'', ''UnitOfWorkInterface'']"

definition Disable2FAUseCase_init :: "string list" where
  "Disable2FAUseCase_init = [''UserService'', ''CryptInterface'', ''UnitOfWorkInterface'']"

definition Verify2FAUseCase_init :: "string list" where
  "Verify2FAUseCase_init = [''UserRepositoryInterface'', ''TwoFactorInterface'', ''UnitOfWorkInterface'']"

definition VerifyEmailUseCase_init :: "string list" where
  "VerifyEmailUseCase_init = [''UserService'', ''UnitOfWorkInterface'']"

definition RequestPasswordResetUseCase_init :: "string list" where
  "RequestPasswordResetUseCase_init = [''UserService'', ''UnitOfWorkInterface'', ''RateLimiterInterface'']"

definition ResetPasswordUseCase_init :: "string list" where
  "ResetPasswordUseCase_init = [''UserService'', ''UnitOfWorkInterface'', ''RateLimiterInterface'']"

definition RevokeSessionUseCase_init :: "string list" where
  "RevokeSessionUseCase_init = [''UserService'', ''UnitOfWorkInterface'']"

definition RevokeAllSessionsUseCase_init :: "string list" where
  "RevokeAllSessionsUseCase_init = [''UserService'', ''HydraAdminClientInterface'', ''UnitOfWorkInterface'']"

definition GetUserSessionsUseCase_init :: "string list" where
  "GetUserSessionsUseCase_init = [''SessionReader'']"

definition AssignRoleUseCase_init :: "string list" where
  "AssignRoleUseCase_init = [''RBACService'', ''UnitOfWorkInterface'']"

definition RevokeRoleUseCase_init :: "string list" where
  "RevokeRoleUseCase_init = [''RBACService'', ''UnitOfWorkInterface'']"

definition GetUserRolesUseCase_init :: "string list" where
  "GetUserRolesUseCase_init = [''RoleReader'']"

definition CheckPermissionUseCase_init :: "string list" where
  "CheckPermissionUseCase_init = [''RoleReader'']"

definition CreateRoleUseCase_init :: "string list" where
  "CreateRoleUseCase_init = [''RBACService'', ''UnitOfWorkInterface'']"

definition DeleteRoleUseCase_init :: "string list" where
  "DeleteRoleUseCase_init = [''RBACService'', ''UnitOfWorkInterface'']"

definition GetAllRolesUseCase_init :: "string list" where
  "GetAllRolesUseCase_init = [''RoleReader'']"

definition AddPermissionToRoleUseCase_init :: "string list" where
  "AddPermissionToRoleUseCase_init = [''RBACService'', ''UnitOfWorkInterface'']"

definition RemovePermissionFromRoleUseCase_init :: "string list" where
  "RemovePermissionFromRoleUseCase_init = [''RBACService'', ''UnitOfWorkInterface'']"

definition ListPermissionsUseCase_init :: "string list" where
  "ListPermissionsUseCase_init = [''RBACService'']"

definition AuditEventHandler_init :: "string list" where
  "AuditEventHandler_init = [''AuditRepositoryInterface'']"

definition HydraAdminClient_init :: "string list" where
  "HydraAdminClient_init = [''httpx.AsyncClient'', ''HydraConfig'']"

section \<open>Factories\<close>

datatype scope = APP | REQUEST

record factory =
  fa_provides :: string
  fa_requires :: "string list"
  fa_scope :: scope

definition provide :: "string \<Rightarrow> string list \<Rightarrow> scope \<Rightarrow> factory" where
  "provide t requires sc = \<lparr>fa_provides = t, fa_requires = requires, fa_scope = sc\<rparr>"

text \<open>AppProvider.\<open>__init__\<close>, and below it the methods marked @provide.\<close>

definition registered :: "factory list" where
  "registered =
     [provide ''CryptInterface'' [] APP,
      provide ''TwoFactorInterface'' [] APP,
      provide ''IdempotencyStore'' IdempotencyStore_init APP,
      provide ''EmailSenderInterface'' SMTPSender_init APP,
      provide ''async_sessionmaker[AsyncSession]'' build_sa_session_factory_takes APP,
      provide ''UserRepositoryInterface'' SQLAlchemyUserRepo_init REQUEST,
      provide ''SessionRepositoryInterface'' SQLAlchemySessionRepo_init REQUEST,
      provide ''PermissionRepositoryInterface'' SQLAlchemyPermissionRepo_init REQUEST,
      provide ''RoleRepositoryInterface'' SQLAlchemyRoleRepo_init REQUEST,
      provide ''UserRoleRepositoryInterface'' SQLAlchemyUserRoleRepo_init REQUEST,
      provide ''AuditRepositoryInterface'' SQLAlchemyAuditLogRepo_init REQUEST,
      provide ''UserReader'' SQLAlchemyUserReader_init REQUEST,
      provide ''SessionReader'' SQLAlchemySessionReader_init REQUEST,
      provide ''RoleReader'' SQLAlchemyRoleReader_init REQUEST,
      provide ''UserService'' UserService_init REQUEST,
      provide ''RBACService'' RBACService_init REQUEST,
      provide ''CreateOAuthClientUseCase'' CreateOAuthClientUseCase_init REQUEST,
      provide ''ListOAuthClientsUseCase'' ListOAuthClientsUseCase_init REQUEST,
      provide ''DeleteOAuthClientUseCase'' DeleteOAuthClientUseCase_init REQUEST,
      provide ''RotateClientSecretUseCase'' RotateClientSecretUseCase_init REQUEST,
      provide ''TwoFactorChallengeStore'' CachedTwoFactorChallengeStore_init REQUEST,
      provide ''UsedCodeRegistry'' UsedCodeRegistry_init REQUEST,
      provide ''MetricsInterface'' [] APP,
      provide ''CreateUserUseCase'' CreateUserUseCase_init REQUEST,
      provide ''CompleteTwoFactorUseCase'' CompleteTwoFactorUseCase_init REQUEST,
      provide ''LoginUseCase'' LoginUseCase_init REQUEST,
      provide ''RefreshTokenUseCase'' RefreshTokenUseCase_init REQUEST,
      provide ''GetMeUseCase'' GetMeUseCase_init REQUEST,
      provide ''BuildConsentClaimsUseCase'' BuildConsentClaimsUseCase_init REQUEST,
      provide ''UpdateProfileUseCase'' UpdateProfileUseCase_init REQUEST,
      provide ''ChangePasswordUseCase'' ChangePasswordUseCase_init REQUEST,
      provide ''DeleteMeUseCase'' DeleteMeUseCase_init REQUEST,
      provide ''Enable2FAUseCase'' Enable2FAUseCase_init REQUEST,
      provide ''Confirm2FAUseCase'' Confirm2FAUseCase_init REQUEST,
      provide ''Disable2FAUseCase'' Disable2FAUseCase_init REQUEST,
      provide ''Verify2FAUseCase'' Verify2FAUseCase_init REQUEST,
      provide ''VerifyEmailUseCase'' VerifyEmailUseCase_init REQUEST,
      provide ''RequestPasswordResetUseCase'' RequestPasswordResetUseCase_init REQUEST,
      provide ''ResetPasswordUseCase'' ResetPasswordUseCase_init REQUEST,
      provide ''RevokeSessionUseCase'' RevokeSessionUseCase_init REQUEST,
      provide ''RevokeAllSessionsUseCase'' RevokeAllSessionsUseCase_init REQUEST,
      provide ''GetUserSessionsUseCase'' GetUserSessionsUseCase_init REQUEST,
      provide ''AssignRoleUseCase'' AssignRoleUseCase_init REQUEST,
      provide ''RevokeRoleUseCase'' RevokeRoleUseCase_init REQUEST,
      provide ''GetUserRolesUseCase'' GetUserRolesUseCase_init REQUEST,
      provide ''CheckPermissionUseCase'' CheckPermissionUseCase_init REQUEST,
      provide ''CreateRoleUseCase'' CreateRoleUseCase_init REQUEST,
      provide ''DeleteRoleUseCase'' DeleteRoleUseCase_init REQUEST,
      provide ''GetAllRolesUseCase'' GetAllRolesUseCase_init REQUEST,
      provide ''AddPermissionToRoleUseCase'' AddPermissionToRoleUseCase_init REQUEST,
      provide ''RemovePermissionFromRoleUseCase'' RemovePermissionFromRoleUseCase_init REQUEST,
      provide ''ListPermissionsUseCase'' ListPermissionsUseCase_init REQUEST]"

definition provided_methods :: "factory list" where
  "provided_methods =
     [provide ''UUIDGeneratorInterface'' [] APP,
      provide ''SecretCipherInterface'' [] APP,
      provide ''redis.Redis'' [''RateLimitConfig''] APP,
      provide ''RateLimiterInterface'' [''RateLimitConfig'', ''redis.Redis''] APP,
      provide ''LoginAttemptLimiterInterface'' [''RateLimitConfig'', ''redis.Redis''] APP,
      provide ''CacheInterface'' [''CacheConfig'', ''redis.Redis''] APP,
      provide ''httpx.AsyncClient'' [''HydraConfig''] APP,
      provide ''HydraAdminClient'' HydraAdminClient_init APP,
      provide ''HydraAdminClientInterface'' [''HydraAdminClient''] APP,
      provide ''AsyncEngine'' [''SQLAlchemyConfig''] APP,
      provide ''AsyncSession'' [''async_sessionmaker[AsyncSession]''] REQUEST,
      provide ''UnitOfWorkInterface'' [''AsyncSession'', ''AuditEventHandler''] REQUEST,
      provide ''AuditEventHandler'' AuditEventHandler_init REQUEST]"

definition app_provider :: "factory list" where
  "app_provider = registered @ provided_methods"

text \<open>The context of make_async_container, the same in presentation/http/app.py and presentation/amqp/app.py.\<close>

definition http_context :: "string list" where
  "http_context = [''HydraConfig'', ''RabbitMQConfig'', ''SQLAlchemyConfig'', ''EmailConfig'', ''RateLimitConfig'', ''CacheConfig'']"

definition amqp_context :: "string list" where
  "amqp_context = [''HydraConfig'', ''RabbitMQConfig'', ''SQLAlchemyConfig'', ''EmailConfig'', ''RateLimitConfig'', ''CacheConfig'']"

text \<open>What the parameters FromDishka of the handlers and the calls of container.get ask for.\<close>

definition user_handlers_inject :: "string list" where
  "user_handlers_inject =
     [''CreateUserUseCase'', ''IdempotencyStore'', ''LoginUseCase'', ''GetMeUseCase'', ''UpdateProfileUseCase'', ''DeleteMeUseCase'',
      ''ChangePasswordUseCase'']"

definition auth_handlers_inject :: "string list" where
  "auth_handlers_inject =
     [''RefreshTokenUseCase'', ''CompleteTwoFactorUseCase'', ''VerifyEmailUseCase'', ''RequestPasswordResetUseCase'',
      ''ResetPasswordUseCase'', ''Enable2FAUseCase'', ''Confirm2FAUseCase'', ''Disable2FAUseCase'', ''Verify2FAUseCase'']"

definition session_handlers_inject :: "string list" where
  "session_handlers_inject = [''GetUserSessionsUseCase'', ''RevokeSessionUseCase'', ''RevokeAllSessionsUseCase'']"

definition bridge_handlers_inject :: "string list" where
  "bridge_handlers_inject =
     [''HydraAdminClient'', ''LoginUseCase'', ''CompleteTwoFactorUseCase'', ''RateLimiterInterface'', ''HydraConfig'',
      ''BuildConsentClaimsUseCase'']"

definition role_handlers_inject :: "string list" where
  "role_handlers_inject =
     [''CreateRoleUseCase'', ''DeleteRoleUseCase'', ''GetAllRolesUseCase'', ''AssignRoleUseCase'', ''RevokeRoleUseCase'',
      ''GetUserRolesUseCase'', ''AddPermissionToRoleUseCase'', ''RemovePermissionFromRoleUseCase'', ''ListPermissionsUseCase'']"

definition admin_handlers_inject :: "string list" where
  "admin_handlers_inject =
     [''CreateOAuthClientUseCase'', ''ListOAuthClientsUseCase'', ''DeleteOAuthClientUseCase'', ''RotateClientSecretUseCase'']"

definition health_handlers_inject :: "string list" where
  "health_handlers_inject = [''AsyncEngine'', ''CacheInterface'', ''httpx.AsyncClient'', ''HydraConfig'']"

definition guards_get :: "string list" where
  "guards_get = [''CheckPermissionUseCase'']"

definition security_gets :: "string list" where
  "security_gets = [''HydraAdminClient'', ''CacheInterface'', ''HydraConfig'']"

definition asked_for :: "string list" where
  "asked_for =
     user_handlers_inject @ auth_handlers_inject @ session_handlers_inject @ bridge_handlers_inject @ role_handlers_inject @
     admin_handlers_inject @ health_handlers_inject @ guards_get @ security_gets"

section \<open>What a container can build\<close>

text \<open>An object is only handed objects that live at least as long as itself.\<close>

fun outlives :: "scope \<Rightarrow> scope \<Rightarrow> bool" where
  "outlives APP _ = True"
| "outlives REQUEST sc = (sc = REQUEST)"

inductive constructible :: "string list \<Rightarrow> factory list \<Rightarrow> scope \<Rightarrow> string \<Rightarrow> bool" for ctx fs where
  given: "t \<in> set ctx \<Longrightarrow> constructible ctx fs sc t"
| built: "f \<in> set fs \<Longrightarrow> outlives (fa_scope f) sc \<Longrightarrow> (\<And>r. r \<in> set (fa_requires f) \<Longrightarrow> constructible ctx fs (fa_scope f) r) \<Longrightarrow>
    constructible ctx fs sc (fa_provides f)"

text \<open>What a component is built from, directly and indirectly.\<close>

inductive needs :: "factory list \<Rightarrow> string \<Rightarrow> string \<Rightarrow> bool" for fs where
  direct: "f \<in> set fs \<Longrightarrow> r \<in> set (fa_requires f) \<Longrightarrow> needs fs (fa_provides f) r"
| further: "needs fs a b \<Longrightarrow> needs fs b c \<Longrightarrow> needs fs a c"

lemma outlives_trans: "outlives a b \<Longrightarrow> outlives b c \<Longrightarrow> outlives a c"
  by (cases a; cases b) auto

lemma constructible_longer: "constructible ctx fs sc t \<Longrightarrow> outlives sc sc' \<Longrightarrow> constructible ctx fs sc' t"
  by (induction rule: constructible.induct) (auto intro: constructible.intros outlives_trans)

lemma factory_constructible:
  assumes "list_all (\<lambda>f. list_all (constructible ctx fs (fa_scope f)) (fa_requires f)) fs"
  shows "list_all (\<lambda>f. constructible ctx fs (fa_scope f) (fa_provides f)) fs"
  using assms by (auto simp: list_all_iff intro!: constructible.built elim: outlives.elims) (metis outlives.simps scope.exhaust)

text \<open>A container that is complete and in which each type has one source.\<close>

locale container =
  fixes ctx :: "string list" and fs :: "factory list"
  assumes one_provider: "distinct (map fa_provides fs)"
    and context_apart: "list_all (\<lambda>f. fa_provides f \<notin> set ctx) fs"
    and complete: "list_all (\<lambda>f. list_all (constructible ctx fs (fa_scope f)) (fa_requires f)) fs"
begin

lemma all_constructible: "list_all (\<lambda>f. constructible ctx fs (fa_scope f) (fa_provides f)) fs"
  using complete by (rule factory_constructible)

lemma same_provider: "f \<in> set fs \<Longrightarrow> g \<in> set fs \<Longrightarrow> fa_provides f = fa_provides g \<Longrightarrow> f = g"
  using one_provider by (auto simp: distinct_map dest: inj_onD)

text \<open>What an object of the process is built from lives as long as the process.\<close>

lemma needs_outlives:
  "needs fs a r \<Longrightarrow> f \<in> set fs \<Longrightarrow> fa_provides f = a \<Longrightarrow>
     r \<in> set ctx \<or> (\<exists>g \<in> set fs. fa_provides g = r \<and> outlives (fa_scope g) (fa_scope f))"
proof (induction arbitrary: f rule: needs.induct)
  case (direct h r)
  then have "f = h" using same_provider by blast
  with direct have "constructible ctx fs (fa_scope f) r" using complete by (auto simp: list_all_iff)
  then show ?case by cases auto
next
  case (further a b c)
  from further.IH(1) [OF further.prems] show ?case
  proof
    assume b: "b \<in> set ctx"
    from further.hyps(2) have "b \<in> fa_provides ` set fs" by induction auto
    with b context_apart show ?thesis by (auto simp: list_all_iff)
  next
    assume "\<exists>g \<in> set fs. fa_provides g = b \<and> outlives (fa_scope g) (fa_scope f)"
    then obtain g where g: "g \<in> set fs" "fa_provides g = b" "outlives (fa_scope g) (fa_scope f)" by blast
    from further.IH(2) [OF g(1,2)] g(3) show ?thesis by (blast intro: outlives_trans)
  qed
qed

end

lemma constructibleI:
  assumes "provide t rs a \<in> set fs" and "outlives a sc" and "list_all (constructible ctx fs a) rs"
  shows "constructible ctx fs sc t"
  using constructible.built [OF assms(1), of sc ctx] assms(2,3) by (auto simp: provide_def list_all_iff)

lemmas constructor_defs = 
  IdempotencyStore_init_def SMTPSender_init_def build_sa_session_factory_takes_def SQLAlchemyUserRepo_init_def
  SQLAlchemySessionRepo_init_def SQLAlchemyPermissionRepo_init_def SQLAlchemyRoleRepo_init_def SQLAlchemyUserRoleRepo_init_def
  SQLAlchemyAuditLogRepo_init_def SQLAlchemyUserReader_init_def SQLAlchemySessionReader_init_def SQLAlchemyRoleReader_init_def
  UserService_init_def RBACService_init_def CreateOAuthClientUseCase_init_def ListOAuthClientsUseCase_init_def
  DeleteOAuthClientUseCase_init_def RotateClientSecretUseCase_init_def CachedTwoFactorChallengeStore_init_def UsedCodeRegistry_init_def
  CreateUserUseCase_init_def CompleteTwoFactorUseCase_init_def LoginUseCase_init_def RefreshTokenUseCase_init_def
  GetMeUseCase_init_def BuildConsentClaimsUseCase_init_def UpdateProfileUseCase_init_def ChangePasswordUseCase_init_def
  DeleteMeUseCase_init_def Enable2FAUseCase_init_def Confirm2FAUseCase_init_def Disable2FAUseCase_init_def
  Verify2FAUseCase_init_def VerifyEmailUseCase_init_def RequestPasswordResetUseCase_init_def ResetPasswordUseCase_init_def
  RevokeSessionUseCase_init_def RevokeAllSessionsUseCase_init_def GetUserSessionsUseCase_init_def AssignRoleUseCase_init_def
  RevokeRoleUseCase_init_def GetUserRolesUseCase_init_def CheckPermissionUseCase_init_def CreateRoleUseCase_init_def
  DeleteRoleUseCase_init_def GetAllRolesUseCase_init_def AddPermissionToRoleUseCase_init_def RemovePermissionFromRoleUseCase_init_def
  ListPermissionsUseCase_init_def AuditEventHandler_init_def HydraAdminClient_init_def

lemmas provider_defs = app_provider_def registered_def provided_methods_def constructor_defs

definition buildable :: "scope \<Rightarrow> string \<Rightarrow> bool" where
  "buildable = constructible http_context app_provider"

lemma buildableI: "provide t rs a \<in> set app_provider \<Longrightarrow> outlives a sc \<Longrightarrow> list_all (buildable a) rs \<Longrightarrow> buildable sc t"
  unfolding buildable_def by (rule constructibleI)

lemma context_buildable [simp]:
  "buildable sc ''HydraConfig''" "buildable sc ''SQLAlchemyConfig''" "buildable sc ''EmailConfig''" "buildable sc ''RateLimitConfig''" "buildable sc ''CacheConfig''"
  by (auto intro!: constructible.given simp: http_context_def buildable_def)

lemma leaf_buildable [simp]:
  "buildable sc ''CryptInterface''" "buildable sc ''TwoFactorInterface''" "buildable sc ''MetricsInterface''"
  "buildable sc ''UUIDGeneratorInterface''" "buildable sc ''SecretCipherInterface''" 
  by (auto intro!: buildableI [where a = APP and rs = "[]"] simp: provider_defs provide_def)

lemma clients_buildable [simp]:
  "buildable sc ''redis.Redis''"
  "buildable sc ''httpx.AsyncClient''"
  "buildable sc ''AsyncEngine''"
proof -
  show "buildable sc ''redis.Redis''" by (rule buildableI [of _ "[''RateLimitConfig'']" APP]) (simp_all add: provider_defs provide_def)
  show "buildable sc ''httpx.AsyncClient''" by (rule buildableI [of _ "[''HydraConfig'']" APP]) (simp_all add: provider_defs provide_def)
  show "buildable sc ''AsyncEngine''" by (rule buildableI [of _ "[''SQLAlchemyConfig'']" APP]) (simp_all add: provider_defs provide_def)
qed

lemma shared_buildable [simp]:
  "buildable sc ''RateLimiterInterface''"
  "buildable sc ''LoginAttemptLimiterInterface''"
  "buildable sc ''CacheInterface''"
  "buildable sc ''HydraAdminClient''"
  "buildable sc ''async_sessionmaker[AsyncSession]''"
proof -
  show "buildable sc ''RateLimiterInterface''" by (rule buildableI [of _ "[''RateLimitConfig'', ''redis.Redis'']" APP]) (simp_all add: provider_defs provide_def)
  show "buildable sc ''LoginAttemptLimiterInterface''" by (rule buildableI [of _ "[''RateLimitConfig'', ''redis.Redis'']" APP]) (simp_all add: provider_defs provide_def)
  show "buildable sc ''CacheInterface''" by (rule buildableI [of _ "[''CacheConfig'', ''redis.Redis'']" APP]) (simp_all add: provider_defs provide_def)
  show "buildable sc ''HydraAdminClient''" by (rule buildableI [of _ "[''httpx.AsyncClient'', ''HydraConfig'']" APP]) (simp_all add: provider_defs provide_def)
  show "buildable sc ''async_sessionmaker[AsyncSession]''" by (rule buildableI [of _ "[''AsyncEngine'']" APP]) (simp_all add: provider_defs provide_def)
qed

lemma session_buildable [simp]:
  "buildable sc ''HydraAdminClientInterface''"
  "buildable REQUEST ''AsyncSession''"
  "buildable REQUEST ''TwoFactorChallengeStore''"
  "buildable REQUEST ''UsedCodeRegistry''"
proof -
  show "buildable sc ''HydraAdminClientInterface''" by (rule buildableI [of _ "[''HydraAdminClient'']" APP]) (simp_all add: provider_defs provide_def)
  show "buildable REQUEST ''AsyncSession''" by (rule buildableI [of _ "[''async_sessionmaker[AsyncSession]'']" REQUEST]) (simp_all add: provider_defs provide_def)
  show "buildable REQUEST ''TwoFactorChallengeStore''" by (rule buildableI [of _ "[''CacheInterface'']" REQUEST]) (simp_all add: provider_defs provide_def)
  show "buildable REQUEST ''UsedCodeRegistry''" by (rule buildableI [of _ "[''CacheInterface'']" REQUEST]) (simp_all add: provider_defs provide_def)
qed

lemma repositories_buildable [simp]:
  "buildable REQUEST ''UserRepositoryInterface''"
  "buildable REQUEST ''SessionRepositoryInterface''"
  "buildable REQUEST ''PermissionRepositoryInterface''"
  "buildable REQUEST ''RoleRepositoryInterface''"
  "buildable REQUEST ''UserRoleRepositoryInterface''"
  "buildable REQUEST ''AuditRepositoryInterface''"
  "buildable REQUEST ''UserReader''"
  "buildable REQUEST ''SessionReader''"
  "buildable REQUEST ''RoleReader''"
proof -
  show "buildable REQUEST ''UserRepositoryInterface''" by (rule buildableI [of _ "[''AsyncSession'', ''SecretCipherInterface'']" REQUEST]) (simp_all add: provider_defs provide_def)
  show "buildable REQUEST ''SessionRepositoryInterface''" by (rule buildableI [of _ "[''AsyncSession'']" REQUEST]) (simp_all add: provider_defs provide_def)
  show "buildable REQUEST ''PermissionRepositoryInterface''" by (rule buildableI [of _ "[''AsyncSession'']" REQUEST]) (simp_all add: provider_defs provide_def)
  show "buildable REQUEST ''RoleRepositoryInterface''" by (rule buildableI [of _ "[''AsyncSession'']" REQUEST]) (simp_all add: provider_defs provide_def)
  show "buildable REQUEST ''UserRoleRepositoryInterface''" by (rule buildableI [of _ "[''AsyncSession'']" REQUEST]) (simp_all add: provider_defs provide_def)
  show "buildable REQUEST ''AuditRepositoryInterface''" by (rule buildableI [of _ "[''AsyncSession'']" REQUEST]) (simp_all add: provider_defs provide_def)
  show "buildable REQUEST ''UserReader''" by (rule buildableI [of _ "[''AsyncSession'']" REQUEST]) (simp_all add: provider_defs provide_def)
  show "buildable REQUEST ''SessionReader''" by (rule buildableI [of _ "[''AsyncSession'']" REQUEST]) (simp_all add: provider_defs provide_def)
  show "buildable REQUEST ''RoleReader''" by (rule buildableI [of _ "[''AsyncSession'']" REQUEST]) (simp_all add: provider_defs provide_def)
qed

lemma audit_buildable [simp]:
  "buildable REQUEST ''AuditEventHandler''"
proof -
  show "buildable REQUEST ''AuditEventHandler''" by (rule buildableI [of _ "[''AuditRepositoryInterface'']" REQUEST]) (simp_all add: provider_defs provide_def)
qed

lemma uow_buildable [simp]:
  "buildable REQUEST ''UnitOfWorkInterface''"
proof -
  show "buildable REQUEST ''UnitOfWorkInterface''" by (rule buildableI [of _ "[''AsyncSession'', ''AuditEventHandler'']" REQUEST]) (simp_all add: provider_defs provide_def)
qed

lemma services_buildable [simp]:
  "buildable REQUEST ''UserService''"
  "buildable REQUEST ''RBACService''"
proof -
  show "buildable REQUEST ''UserService''" by (rule buildableI [of _ "[''UserRepositoryInterface'', ''SessionRepositoryInterface'', ''CryptInterface'', ''UnitOfWorkInterface'']" REQUEST]) (simp_all add: provider_defs provide_def)
  show "buildable REQUEST ''RBACService''" by (rule buildableI [of _ "[''UserRepositoryInterface'', ''RoleRepositoryInterface'', ''PermissionRepositoryInterface'', ''UserRoleRepositoryInterface'', ''UnitOfWorkInterface'']" REQUEST]) (simp_all add: provider_defs provide_def)
qed

lemma requirements_buildable: "list_all (\<lambda>f. list_all (buildable (fa_scope f)) (fa_requires f)) app_provider"
  by (simp add: provider_defs provide_def)

lemma providers_distinct: "distinct (map fa_provides app_provider)"
  by (simp add: provider_defs provide_def)

lemma context_no_factory: "list_all (\<lambda>f. fa_provides f \<notin> set http_context) app_provider"
  by (simp add: provider_defs provide_def http_context_def)

interpretation app_container: container http_context app_provider
  using providers_distinct context_no_factory requirements_buildable by unfold_locales (simp_all add: buildable_def)

lemmas asked_for_defs = asked_for_def user_handlers_inject_def auth_handlers_inject_def session_handlers_inject_def
  bridge_handlers_inject_def role_handlers_inject_def admin_handlers_inject_def health_handlers_inject_def guards_get_def security_gets_def

lemma factories_buildable: "list_all (\<lambda>f. buildable (fa_scope f) (fa_provides f)) app_provider"
  using app_container.all_constructible by (simp add: buildable_def)

lemma asked_for_buildable: "list_all (buildable REQUEST) asked_for"
proof -
  have "buildable REQUEST ''IdempotencyStore''"
    by (rule buildableI [of _ "[''CacheInterface'']" APP]) (simp_all add: provider_defs provide_def)
  with factories_buildable show ?thesis by (simp add: asked_for_defs provider_defs provide_def)
qed

text \<open>C22. The container can build everything it is asked for. Every registered factory finds a source for each of its
  parameters that lives at least as long as what it builds, no type has two sources, and each type a
  handler, a guard or the authentication asks for can be built within a request; the AMQP
  process has the same context.\<close>

theorem container_complete:
  "distinct (map fa_provides app_provider) \<and>
   list_all (\<lambda>f. constructible http_context app_provider (fa_scope f) (fa_provides f)) app_provider \<and>
   list_all (constructible http_context app_provider REQUEST) asked_for \<and> amqp_context = http_context"
proof (intro conjI)
  show "list_all (constructible http_context app_provider REQUEST) asked_for"
    using asked_for_buildable by (simp add: buildable_def)
  show "amqp_context = http_context" by (simp add: amqp_context_def http_context_def)
qed (rule providers_distinct app_container.all_constructible)+

text \<open>No object shared between requests holds a request's transaction: whatever a component of scope APP is
  built from, directly or through others, is neither the database session, nor the unit of work,
  nor a repository.\<close>

theorem shared_components_stateless:
  assumes "f \<in> set app_provider" and "fa_scope f = APP" and "needs app_provider (fa_provides f) r"
  shows "r \<notin> {''AsyncSession'', ''UnitOfWorkInterface'', ''UserRepositoryInterface'', ''SessionRepositoryInterface'', ''RoleRepositoryInterface'',
     ''PermissionRepositoryInterface'', ''UserRoleRepositoryInterface'', ''AuditRepositoryInterface'', ''UserService'', ''RBACService''}" (is "r \<notin> ?T")
proof -
  have g: "list_all (\<lambda>g. fa_provides g \<notin> ?T) (filter (\<lambda>g. fa_scope g = APP) app_provider)"
    by (simp add: provider_defs provide_def)
  have c: "list_all (\<lambda>t. t \<notin> ?T) http_context" by (simp add: http_context_def)
  from app_container.needs_outlives [OF assms(3,1) refl] show ?thesis
  proof
    assume "r \<in> set http_context"
    with c show ?thesis unfolding list_all_iff by (rule bspec)
  next
    assume "\<exists>g \<in> set app_provider. fa_provides g = r \<and> outlives (fa_scope g) (fa_scope f)"
    then obtain h where h: "h \<in> set app_provider" "fa_provides h = r" "outlives (fa_scope h) APP" unfolding assms(2) by blast
    then have "h \<in> set (filter (\<lambda>g. fa_scope g = APP) app_provider)" by (cases "fa_scope h") simp_all
    then have "fa_provides h \<notin> ?T" by (rule bspec [OF g [unfolded list_all_iff]])
    then show ?thesis unfolding h(2) .
  qed
qed

lemma direct_needs: "provide t rs sc \<in> set fs \<Longrightarrow> r \<in> set rs \<Longrightarrow> needs fs t r"
  using needs.direct [of "provide t rs sc" fs r] by (simp add: provide_def)

theorem shared_components_stateless_witness:
  "needs app_provider ''IdempotencyStore'' ''redis.Redis'' \<and>
   ''redis.Redis'' \<notin> {''AsyncSession'', ''UnitOfWorkInterface'', ''UserRepositoryInterface'', ''SessionRepositoryInterface'', ''RoleRepositoryInterface'',
     ''PermissionRepositoryInterface'', ''UserRoleRepositoryInterface'', ''AuditRepositoryInterface'', ''UserService'', ''RBACService''}"
proof -
  let ?f = "provide ''IdempotencyStore'' [''CacheInterface''] APP"
  have f: "?f \<in> set app_provider" "provide ''CacheInterface'' [''CacheConfig'', ''redis.Redis''] APP \<in> set app_provider"
    by (simp_all add: provider_defs provide_def)
  from direct_needs [OF f(1)] direct_needs [OF f(2)] have n: "needs app_provider ''IdempotencyStore'' ''redis.Redis''"
    by (auto intro: needs.further)
  have p: "fa_provides ?f = ''IdempotencyStore''" "fa_scope ?f = APP" by (simp_all add: provide_def)
  have "needs app_provider (fa_provides ?f) ''redis.Redis''" unfolding p(1) by (rule n)
  from shared_components_stateless [OF f(1) p(2) this] n show ?thesis by (intro conjI)
qed

section \<open>The stores behind the limiters and the cache\<close>

datatype limiter_choice = InMemoryRateLimiter rate_limit_config | RedisRateLimiter int int

datatype attempts_choice = InMemoryLoginAttemptLimiter rate_limit_config | RedisLoginAttemptLimiter int int

datatype cache_choice = MemoryBackend | RedisBackend

definition rate_limiter :: "rate_limit_settings \<Rightarrow> limiter_choice" where
  "rate_limiter config =
     (if rl_backend config = ''redis''
      then RedisRateLimiter (max_requests (rl_limits config)) (window_seconds (rl_limits config))
      else InMemoryRateLimiter (rl_limits config))"

definition login_attempt_limiter :: "rate_limit_settings \<Rightarrow> attempts_choice" where
  "login_attempt_limiter config =
     (if rl_backend config = ''redis''
      then RedisLoginAttemptLimiter (max_login_attempts (rl_limits config)) (lockout_seconds (rl_limits config))
      else InMemoryLoginAttemptLimiter (rl_limits config))"

definition cache_backend :: "cache_config \<Rightarrow> cache_choice" where
  "cache_backend config = (if cc_backend config = ''redis'' then RedisBackend else MemoryBackend)"

text \<open>C36. A service that starts outside development has two secrets of at least 32 characters, neither
  of them the placeholder, has database credentials, and shares its state with the other replicas: the
  container it builds counts requests and failed logins and keeps its cache in Redis, under the
  limits read from the environment. Outside development is every value of ENV but that word, an
  unset one included.\<close>

theorem loaded_settings_safe:
  assumes "settings_load py_float env = Inr s" and "\<not> (\<exists>v. env ''ENV'' = Some v \<and> lower v = ''development'')"
  shows "list_all (\<lambda>k. 32 \<le> length k \<and> \<not> has_sub PLACEHOLDER k) [se_app_secret_key s, se_secret_encryption_key s] \<and>
     dc_user (se_database s) \<noteq> [] \<and> dc_password (se_database s) \<noteq> [] \<and>
     (\<exists>c. rate_limit_from_environ env = Inr c \<and> cache_backend (se_cache s) = RedisBackend \<and>
        rate_limiter (se_rate_limit s) = RedisRateLimiter (max_requests (rl_limits c)) (window_seconds (rl_limits c)) \<and>
        login_attempt_limiter (se_rate_limit s) = RedisLoginAttemptLimiter (max_login_attempts (rl_limits c)) (lockout_seconds (rl_limits c)))"
proof -
  have "rate_limit_from_environ env = Inr (se_rate_limit s)"
    using assms(1) by (auto simp: settings_load_def rbind_eq_Inr Let_def)
  with loaded_in_production [OF assms] show ?thesis
    by (auto simp: settings_validate_def require_secret_def settings_fail_def MIN_SECRET_LENGTH_def rbind_eq_Inr
        cache_backend_def rate_limiter_def login_attempt_limiter_def split: if_splits)
qed

theorem loaded_settings_safe_witness:
  "\<exists>s :: unit settings. settings_load (\<lambda>_. Inr ()) demo_environ = Inr s \<and> dc_user (se_database s) \<noteq> [] \<and> cache_backend (se_cache s) = RedisBackend"
proof -
  obtain s :: "unit settings" where s: "settings_load (\<lambda>_. Inr ()) demo_environ = Inr s" using demo_settings by blast
  have "demo_environ ''ENV'' = None" by (simp add: demo_environ_def)
  with loaded_settings_safe [OF s] s show ?thesis by auto
qed

end
