(* ===== verification/Observability.thy ===== *)
theory Observability
  imports Settings
begin

text \<open>
  What the service says about itself: the log formatter and the set-up of logging
  (infrastructure/observability/logging.py), the choice of a trace exporter (tracing.py), the mail
  handed to the SMTP library (infrastructure/email/sender.py) and the liveness endpoints
  (presentation/http/controllers/health.py). Rendering a traceback, an instant and a float is left to
  the standard library: the record carries the rendered text.
\<close>

section \<open>Log lines\<close>

datatype py_value =
    PNone
  | PStr string
  | PBool bool
  | PInt int
  | PFloat string
  | PObject string

text \<open>The attributes \<open>logging.LogRecord\<close> sets itself, with those the formatter adds.\<close>

definition LOG_RESERVED :: "string list" where
  "LOG_RESERVED =
     [''name'', ''msg'', ''args'', ''levelname'', ''levelno'', ''pathname'', ''filename'', ''module'', ''exc_info'', ''exc_text'',
      ''stack_info'', ''lineno'', ''funcName'', ''created'', ''msecs'', ''relativeCreated'', ''thread'', ''threadName'',
      ''processName'', ''process'', ''taskName'', ''message'', ''asctime'']"

definition as_json :: "py_value \<Rightarrow> py_value" where
  "as_json v = (case v of PObject s \<Rightarrow> PStr s | _ \<Rightarrow> v)"

record log_record =
  lr_created :: string
  lr_levelname :: string
  lr_name :: string
  lr_message :: string
  lr_exception :: "string option"
  lr_vars :: "(string \<times> py_value) list"

definition extra_fields :: "log_record \<Rightarrow> (string \<times> py_value) list" where
  "extra_fields r = map (\<lambda>(k, v). (k, as_json v)) (filter (\<lambda>(k, v). k \<notin> set LOG_RESERVED) (lr_vars r))"

text \<open>\<open>d[k] = v\<close> and \<open>d.update\<close> on a dict with its insertion order.\<close>

fun dict_set :: "string \<Rightarrow> 'v \<Rightarrow> (string \<times> 'v) list \<Rightarrow> (string \<times> 'v) list" where
  "dict_set k v [] = [(k, v)]"
| "dict_set k v ((k', v') # d) = (if k = k' then (k, v) # d else (k', v') # dict_set k v d)"

definition dict_update :: "(string \<times> 'v) list \<Rightarrow> (string \<times> 'v) list \<Rightarrow> (string \<times> 'v) list" where
  "dict_update d kvs = fold (\<lambda>(k, v). dict_set k v) kvs d"

text \<open>\<open>format(n, '032x')\<close> and its like: lower-case hexadecimal, zero-padded to a width.\<close>

fun hex_str :: "nat \<Rightarrow> string" where
  "hex_str n = (if n < 16 then [hexdigit n] else hex_str (n div 16) @ [hexdigit (n mod 16)])"

declare hex_str.simps [simp del]

definition hex_pad :: "nat \<Rightarrow> nat \<Rightarrow> string" where
  "hex_pad w n = replicate (w - length (hex_str n)) (CHR ''0'') @ hex_str n"

record span_context =
  sp_is_valid :: bool
  sp_trace_id :: nat
  sp_span_id :: nat

definition log_payload :: "string \<Rightarrow> span_context \<Rightarrow> log_record \<Rightarrow> (string \<times> py_value) list" where
  "log_payload request_id span r =
     [(''timestamp'', PStr (lr_created r)), (''level'', PStr (lr_levelname r)), (''logger'', PStr (lr_name r)),
      (''message'', PStr (lr_message r))] @
     (if request_id \<noteq> [] then [(''request_id'', PStr request_id)] else []) @
     (if sp_is_valid span
      then [(''trace_id'', PStr (hex_pad 32 (sp_trace_id span))), (''span_id'', PStr (hex_pad 16 (sp_span_id span)))] else []) @
     (case lr_exception r of None \<Rightarrow> [] | Some e \<Rightarrow> [(''exception'', PStr e)])"

text \<open>The object JsonFormatter.format hands to json.dumps.\<close>

definition json_format :: "string \<Rightarrow> span_context \<Rightarrow> log_record \<Rightarrow> (string \<times> py_value) list" where
  "json_format request_id span r = dict_update (log_payload request_id span r) (extra_fields r)"

lemma map_of_dict_set: "map_of (dict_set k v d) = (map_of d)(k \<mapsto> v)"
  by (induction d) (auto simp: fun_eq_iff)

lemma keys_dict_set: "map fst (dict_set k v d) = (if k \<in> set (map fst d) then map fst d else map fst d @ [k])"
proof (induction d)
  case (Cons x d)
  then show ?case by (cases x) simp
qed simp

lemma map_of_dict_update: "distinct (map fst kvs) \<Longrightarrow> map_of (dict_update d kvs) = map_of d ++ map_of kvs"
proof (induction kvs arbitrary: d)
  case (Cons x kvs)
  then have "fst x \<notin> dom (map_of kvs)" by (simp add: dom_map_of_conv_image_fst)
  with Cons show ?case
    by (cases x) (auto simp: dict_update_def map_of_dict_set fun_eq_iff map_add_def split: option.splits)
qed (simp add: dict_update_def)

lemma distinct_dict_update: "distinct (map fst d) \<Longrightarrow> distinct (map fst (dict_update d kvs))"
  by (induction kvs arbitrary: d) (auto simp: dict_update_def keys_dict_set split: if_splits)

lemma log_payload_distinct: "distinct (map fst (log_payload request_id span r))"
  by (auto simp: log_payload_def split: option.splits if_splits)

lemma extra_fields_distinct: "distinct (map fst (lr_vars r)) \<Longrightarrow> distinct (map fst (extra_fields r))"
  by (induction "lr_vars r" arbitrary: r) (auto simp: extra_fields_def distinct_map_filter comp_def case_prod_unfold)

lemma extra_fields_map:
  "map_of (extra_fields r) k = (if k \<in> set LOG_RESERVED then None else map_option as_json (map_of (lr_vars r) k))"
proof -
  have "map_of (map (\<lambda>(k, v). (k, as_json v)) (filter (\<lambda>(k, v). k \<notin> R) vs)) k =
      (if k \<in> R then None else map_option as_json (map_of vs k))" for R vs
    by (induction vs) auto
  then show ?thesis by (simp add: extra_fields_def)
qed

text \<open>A log line is a JSON object with no key twice that always has the timestamp, level, logger and message fields;
  each field given as extra is in it, as a JSON value and in place of a field of the same name,
  and every other field says what the record, the request and the span say. What the logging module
  itself keeps on the record stays out.\<close>

theorem log_line_fields:
  assumes "distinct (map fst (lr_vars r))"
  shows "distinct (map fst (json_format request_id span r)) \<and>
     map_of (json_format request_id span r) k =
       (case map_of (lr_vars r) k of
          Some v \<Rightarrow> if k \<in> set LOG_RESERVED then map_of (log_payload request_id span r) k else Some (as_json v)
        | None \<Rightarrow> map_of (log_payload request_id span r) k) \<and>
     {''timestamp'', ''level'', ''logger'', ''message''} \<subseteq> fst ` set (json_format request_id span r)"
proof (intro conjI)
  let ?p = "log_payload request_id span r" and ?x = "extra_fields r"
  have m: "map_of (json_format request_id span r) = map_of ?p ++ map_of ?x"
    unfolding json_format_def by (rule map_of_dict_update [OF extra_fields_distinct [OF assms]])
  show "distinct (map fst (json_format request_id span r))"
    unfolding json_format_def by (rule distinct_dict_update [OF log_payload_distinct])
  show "map_of (json_format request_id span r) k =
       (case map_of (lr_vars r) k of
          Some v \<Rightarrow> if k \<in> set LOG_RESERVED then map_of ?p k else Some (as_json v)
        | None \<Rightarrow> map_of ?p k)"
    unfolding m by (simp add: extra_fields_map map_add_def split: option.splits)
  have "dom (map_of ?p) \<subseteq> dom (map_of (json_format request_id span r))" unfolding m by auto
  then show "{''timestamp'', ''level'', ''logger'', ''message''} \<subseteq> fst ` set (json_format request_id span r)"
    by (simp add: dom_map_of_conv_image_fst log_payload_def)
qed

section \<open>Setting up logging and tracing\<close>

datatype log_formatter = JsonFormatter | PlainFormatter | ForeignFormatter nat

record logging_state =
  lg_handlers :: "log_formatter list"
  lg_level :: string
  lg_levels :: "string \<Rightarrow> string option"

definition LEVEL_NAMES :: "string list" where
  "LEVEL_NAMES = [''CRITICAL'', ''FATAL'', ''ERROR'', ''WARN'', ''WARNING'', ''INFO'', ''DEBUG'', ''NOTSET'']"

text \<open>str.upper() on ASCII; a level name has no other letters.\<close>

definition upper_char :: "char \<Rightarrow> char" where
  "upper_char c = (if is_lower c then char_of (code_of c - 32) else c)"

definition configure_logging :: "environ \<Rightarrow> logging_state \<Rightarrow> (app_error + unit) \<times> logging_state" where
  "configure_logging env g =
     (let level = map upper_char (getenv env ''LOG_LEVEL'' ''INFO'');
          use_json = (lower (getenv env ''LOG_FORMAT'' ''json'') = ''json'');
          g1 = g\<lparr>lg_handlers := [if use_json then JsonFormatter else PlainFormatter]\<rparr> in
      if level \<notin> set LEVEL_NAMES then (Inl (ValueError (''Unknown level: '' @ level)), g1)
      else (Inr (), g1\<lparr>lg_level := level,
        lg_levels := (lg_levels g1)(''httpx'' \<mapsto> ''WARNING'', ''aio_pika'' \<mapsto> ''WARNING'', ''aiormq'' \<mapsto> ''WARNING'')\<rparr>))"

text \<open>Repeated set-up changes nothing and leaves one handler.\<close>

lemma configure_logging_idempotent:
  "configure_logging env g = (r, g') \<Longrightarrow> configure_logging env g' = (r, g') \<and> length (lg_handlers g') = 1"
  by (auto simp: configure_logging_def Let_def split: if_splits)

datatype span_exporter = OTLPSpanExporter string | ConsoleSpanExporter

record tracer_provider =
  tp_service_name :: string
  tp_service_version :: string
  tp_exporter :: span_exporter

definition setup_tracing :: "observability_config \<Rightarrow> tracer_provider option" where
  "setup_tracing config =
     (if \<not> oc_enabled config then None
      else Some \<lparr>tp_service_name = oc_service_name config, tp_service_version = oc_service_version config,
        tp_exporter = (case oc_otlp_endpoint config of
            None \<Rightarrow> ConsoleSpanExporter
          | Some e \<Rightarrow> if e = [] then ConsoleSpanExporter else OTLPSpanExporter e)\<rparr>)"

section \<open>Mail\<close>

record email_message =
  em_from :: string
  em_to :: string
  em_subject :: string
  em_plain :: string
  em_html :: string

text \<open>The call of aiosmtplib.send: with TLS from the start, or with none at all.\<close>

record smtp_call =
  sm_message :: email_message
  sm_hostname :: string
  sm_port :: int
  sm_username :: "string option"
  sm_password :: "string option"
  sm_use_tls :: bool
  sm_start_tls :: "bool option"

definition none_if_empty :: "string \<Rightarrow> string option" where
  "none_if_empty s = (if s = [] then None else Some s)"

definition smtp_send :: "email_config \<Rightarrow> string \<Rightarrow> string \<Rightarrow> string \<Rightarrow> smtp_call" where
  "smtp_send config to subject body =
     \<lparr>sm_message = \<lparr>em_from = ec_from_addr config, em_to = to, em_subject = subject, em_plain = body, em_html = body\<rparr>,
      sm_hostname = ec_host config, sm_port = ec_port config,
      sm_username = none_if_empty (ec_username config), sm_password = none_if_empty (ec_password config),
      sm_use_tls = ec_use_tls config, sm_start_tls = (if ec_use_tls config then None else Some False)\<rparr>"

section \<open>Liveness\<close>

record liveness =
  lv_status :: string
  lv_request_id :: string

definition live :: "string \<Rightarrow> liveness" where
  "live request_id = \<lparr>lv_status = ''alive'', lv_request_id = (if request_id = [] then ''unknown'' else request_id)\<rparr>"

text \<open>The path /health answers as /health/live does.\<close>

definition health :: "string \<Rightarrow> liveness" where
  "health request_id = \<lparr>lv_status = ''alive'', lv_request_id = (if request_id = [] then ''unknown'' else request_id)\<rparr>"

lemma health_live: "health request_id = live request_id"
  by (simp add: health_def live_def)

definition demo_record :: log_record where
  "demo_record =
     \<lparr>lr_created = ''2024-01-01T00:00:00+00:00'', lr_levelname = ''INFO'', lr_name = ''infrastructure.maintenance'', lr_message = ''started'',
      lr_exception = None, lr_vars = [(''name'', PStr ''infrastructure.maintenance''), (''dry_run'', PBool True)]\<rparr>"

theorem log_line_fields_witness:
  "map_of (json_format ''r1'' \<lparr>sp_is_valid = False, sp_trace_id = 0, sp_span_id = 0\<rparr> demo_record) ''dry_run'' = Some (PBool True)"
  using log_line_fields [of demo_record "''r1''" "\<lparr>sp_is_valid = False, sp_trace_id = 0, sp_span_id = 0\<rparr>" "''dry_run''"]
  by (simp add: demo_record_def LOG_RESERVED_def as_json_def)

end
