(* ===== verification/Consumers.thy ===== *)
theory Consumers
  imports Outbox Redis
begin

text \<open>
  The AMQP side of the program: the schemas of presentation/amqp/schemas and the consumers of
  presentation/amqp/consumers/user.py, fed by the messages the outbox publisher sends. The broker's
  matching of a routing key against a binding key and the coercions of pydantic for a string and a
  datetime belong to libraries and are parameters; what is assumed of them is \<open>amqp_law\<close>. A message
  that does not fit its schema never reaches the handler, which is the answer None.
\<close>

section \<open>Library functions\<close>

record amqp =
  am_matches :: "string \<Rightarrow> string \<Rightarrow> bool"
  am_str :: "json \<Rightarrow> string option"
  am_datetime :: "json \<Rightarrow> datetime option"

text \<open>A binding key with no wildcard matches itself only; a JSON string is a valid str, and what
  isoformat printed is read back.\<close>

definition amqp_law :: "env \<Rightarrow> amqp \<Rightarrow> bool" where
  "amqp_law E A =
     ((\<forall>b k. CHR ''*'' \<notin> set b \<longrightarrow> CHR ''#'' \<notin> set b \<longrightarrow> am_matches A b k = (b = k)) \<and>
      (\<forall>s. am_str A (JStr s) = Some s) \<and> (\<forall>t. am_datetime A (JStr (isoformat E t)) = Some t))"

section \<open>Schemas\<close>

text \<open>Reading a model's fields: a required field, one of type \<open>str | None\<close>, one with a default, and \<open>list[str]\<close>.\<close>

definition field :: "(json \<Rightarrow> 'a option) \<Rightarrow> string \<Rightarrow> payload \<Rightarrow> 'a option" where
  "field f k p = Option.bind (map_of p k) f"

definition str_or_none :: "amqp \<Rightarrow> json \<Rightarrow> string option option" where
  "str_or_none A j = (if j = JNull then Some None else map_option Some (am_str A j))"

definition field_default :: "(json \<Rightarrow> 'a option) \<Rightarrow> 'a \<Rightarrow> string \<Rightarrow> payload \<Rightarrow> 'a option" where
  "field_default f d k p = (case map_of p k of None \<Rightarrow> Some d | Some j \<Rightarrow> f j)"

fun all_some :: "'a option list \<Rightarrow> 'a list option" where
  "all_some [] = Some []"
| "all_some (x # xs) = Option.bind x (\<lambda>y. map_option ((#) y) (all_some xs))"

definition str_list :: "amqp \<Rightarrow> json \<Rightarrow> string list option" where
  "str_list A j = (case j of JList js \<Rightarrow> all_some (map (am_str A) js) | _ \<Rightarrow> None)"

definition object_of :: "json \<Rightarrow> payload option" where
  "object_of j = (case j of JObj p \<Rightarrow> Some p | _ \<Rightarrow> None)"

record 'p event_data =
  ed_event_type :: string
  ed_event_id :: string
  ed_aggregate_type :: string
  ed_aggregate_id :: "string option"
  ed_created_at :: datetime
  ed_payload :: 'p

definition EventData :: "amqp \<Rightarrow> (payload \<Rightarrow> 'p option) \<Rightarrow> json \<Rightarrow> 'p event_data option" where
  "EventData A schema j =
     Option.bind (object_of j) (\<lambda>p.
     Option.bind (field (am_str A) ''event_type'' p) (\<lambda>event_type.
     Option.bind (field (am_str A) ''event_id'' p) (\<lambda>event_id.
     Option.bind (field (am_str A) ''aggregate_type'' p) (\<lambda>aggregate_type.
     Option.bind (field (str_or_none A) ''aggregate_id'' p) (\<lambda>aggregate_id.
     Option.bind (field (am_datetime A) ''created_at'' p) (\<lambda>created_at.
     Option.bind (Option.bind (field object_of ''payload'' p) schema) (\<lambda>payload.
       Some \<lparr>ed_event_type = event_type, ed_event_id = event_id, ed_aggregate_type = aggregate_type,
             ed_aggregate_id = aggregate_id, ed_created_at = created_at, ed_payload = payload\<rparr>)))))))"

record user_created =
  uc_user_id :: string
  uc_username :: string
  uc_email :: "string option"

definition UserCreatedEventSchema :: "amqp \<Rightarrow> payload \<Rightarrow> user_created option" where
  "UserCreatedEventSchema A p =
     Option.bind (field (am_str A) ''user_id'' p) (\<lambda>user_id.
     Option.bind (field (am_str A) ''username'' p) (\<lambda>username.
     Option.bind (field_default (str_or_none A) None ''email'' p) (\<lambda>email.
       Some \<lparr>uc_user_id = user_id, uc_username = username, uc_email = email\<rparr>)))"

record user_authenticated =
  ua_user_id :: string
  ua_username :: string

definition UserAuthenticatedEventSchema :: "amqp \<Rightarrow> payload \<Rightarrow> user_authenticated option" where
  "UserAuthenticatedEventSchema A p =
     Option.bind (field (am_str A) ''user_id'' p) (\<lambda>user_id.
     Option.bind (field (am_str A) ''username'' p) (\<lambda>username.
       Some \<lparr>ua_user_id = user_id, ua_username = username\<rparr>))"

record user_profile_updated =
  up_user_id :: string
  up_updated_fields :: "string list"

definition UserProfileUpdatedEventSchema :: "amqp \<Rightarrow> payload \<Rightarrow> user_profile_updated option" where
  "UserProfileUpdatedEventSchema A p =
     Option.bind (field (am_str A) ''user_id'' p) (\<lambda>user_id.
     Option.bind (field (str_list A) ''updated_fields'' p) (\<lambda>updated_fields.
       Some \<lparr>up_user_id = user_id, up_updated_fields = updated_fields\<rparr>))"

record user_deleted =
  ud_user_id :: string

definition UserDeletedEventSchema :: "amqp \<Rightarrow> payload \<Rightarrow> user_deleted option" where
  "UserDeletedEventSchema A p = map_option (\<lambda>user_id. \<lparr>ud_user_id = user_id\<rparr>) (field (am_str A) ''user_id'' p)"

section \<open>Consumers\<close>

text \<open>What a handler does: one call of logger.info, a format and its arguments.\<close>

datatype log_arg = Arg string | Args "string list"

type_synonym log_call = "string \<times> log_arg list"

definition handle_user_created :: "user_created event_data \<Rightarrow> log_call" where
  "handle_user_created event =
     (''Processing UserCreatedEvent: user_id=%s, username=%s, email=%s'',
      [Arg (uc_user_id (ed_payload event)), Arg (uc_username (ed_payload event)),
       Arg (case uc_email (ed_payload event) of None \<Rightarrow> ''N/A'' | Some m \<Rightarrow> if m = [] then ''N/A'' else m)])"

definition handle_user_authenticated :: "user_authenticated event_data \<Rightarrow> log_call" where
  "handle_user_authenticated event =
     (''Processing UserAuthenticatedEvent: user_id=%s, username=%s'',
      [Arg (ua_user_id (ed_payload event)), Arg (ua_username (ed_payload event))])"

definition handle_user_profile_updated :: "user_profile_updated event_data \<Rightarrow> log_call" where
  "handle_user_profile_updated event =
     (''Processing UserProfileUpdatedEvent: user_id=%s, updated_fields=%s'',
      [Arg (up_user_id (ed_payload event)), Args (up_updated_fields (ed_payload event))])"

definition handle_user_deleted :: "user_deleted event_data \<Rightarrow> log_call" where
  "handle_user_deleted event =
     (''Processing UserDeletedEvent: user_id=%s'', [Arg (ud_user_id (ed_payload event))])"

record rabbit_exchange =
  ex_name :: string
  ex_topic :: bool
  ex_durable :: bool

definition user_events_exchange :: rabbit_exchange where
  "user_events_exchange = \<lparr>ex_name = ''domain_events'', ex_topic = True, ex_durable = True\<rparr>"

definition dead_letter_exchange :: rabbit_exchange where
  "dead_letter_exchange = \<lparr>ex_name = ''domain_events.dlx'', ex_topic = True, ex_durable = True\<rparr>"

definition MAX_DELIVERIES :: int where
  "MAX_DELIVERIES = 5"

definition QUEUE_ARGUMENTS :: payload where
  "QUEUE_ARGUMENTS =
     [(''x-dead-letter-exchange'', JStr (ex_name dead_letter_exchange)),
      (''x-delivery-limit'', JInt MAX_DELIVERIES), (''x-queue-type'', JStr ''quorum'')]"

record rabbit_queue =
  qu_name :: string
  qu_durable :: bool
  qu_arguments :: payload
  qu_routing_key :: string

definition user_queue :: "string \<Rightarrow> string \<Rightarrow> rabbit_queue" where
  "user_queue name routing_key =
     \<lparr>qu_name = name, qu_durable = True, qu_arguments = QUEUE_ARGUMENTS, qu_routing_key = routing_key\<rparr>"

record subscriber =
  su_queue :: rabbit_queue
  su_exchange :: rabbit_exchange
  su_handle :: "json \<Rightarrow> log_call option"

definition router :: "amqp \<Rightarrow> subscriber list" where
  "router A =
     [\<lparr>su_queue = user_queue ''user_created_queue'' ''UserCreatedEvent'', su_exchange = user_events_exchange,
       su_handle = (\<lambda>j. map_option handle_user_created (EventData A (UserCreatedEventSchema A) j))\<rparr>,
      \<lparr>su_queue = user_queue ''user_authenticated_queue'' ''UserAuthenticatedEvent'', su_exchange = user_events_exchange,
       su_handle = (\<lambda>j. map_option handle_user_authenticated (EventData A (UserAuthenticatedEventSchema A) j))\<rparr>,
      \<lparr>su_queue = user_queue ''user_profile_updated_queue'' ''UserProfileUpdatedEvent'', su_exchange = user_events_exchange,
       su_handle = (\<lambda>j. map_option handle_user_profile_updated (EventData A (UserProfileUpdatedEventSchema A) j))\<rparr>,
      \<lparr>su_queue = user_queue ''user_deleted_queue'' ''UserDeletedEvent'', su_exchange = user_events_exchange,
       su_handle = (\<lambda>j. map_option handle_user_deleted (EventData A (UserDeletedEventSchema A) j))\<rparr>]"

text \<open>A message published to the exchange x: each bound queue gets a copy, handled by its subscriber.\<close>

definition deliver :: "amqp \<Rightarrow> string \<Rightarrow> message \<Rightarrow> (string \<times> log_call option) list" where
  "deliver A x m =
     map (\<lambda>s. (qu_name (su_queue s), su_handle s (ms_body m)))
       (filter (\<lambda>s. ex_name (su_exchange s) = x \<and> am_matches A (qu_routing_key (su_queue s)) (ms_routing_key m)) (router A))"

text \<open>The exchanges that come into being: those of the subscribers and the publisher's.\<close>

definition declared_exchanges :: "amqp \<Rightarrow> string list" where
  "declared_exchanges A = EXCHANGE_NAME # map (\<lambda>s. ex_name (su_exchange s)) (router A)"

section \<open>From the event to its consumer\<close>

text \<open>What is to happen with an event: the queue that takes it and what is logged.\<close>

definition expected :: "event \<Rightarrow> (string \<times> log_call option) list" where
  "expected e =
     (case e of
        UserCreatedEvent u n m \<Rightarrow> [(''user_created_queue'', Some (''Processing UserCreatedEvent: user_id=%s, username=%s, email=%s'',
          [Arg (uuid_str u), Arg n, Arg (if m = None \<or> m = Some [] then ''N/A'' else the m)]))]
      | UserAuthenticatedEvent u n \<Rightarrow> [(''user_authenticated_queue'', Some (''Processing UserAuthenticatedEvent: user_id=%s, username=%s'',
          [Arg (uuid_str u), Arg n]))]
      | UserProfileUpdatedEvent u fs \<Rightarrow> [(''user_profile_updated_queue'', Some (''Processing UserProfileUpdatedEvent: user_id=%s, updated_fields=%s'',
          [Arg (uuid_str u), Args fs]))]
      | UserDeletedEvent u \<Rightarrow> [(''user_deleted_queue'', Some (''Processing UserDeletedEvent: user_id=%s'', [Arg (uuid_str u)]))]
      | _ \<Rightarrow> [])"

lemma redact_none [simp]: "redact [] p = p"
  by (simp add: redact_def case_prod_unfold)

lemma all_some_strings [simp]: "am_str A = f \<Longrightarrow> (\<And>s. f (JStr s) = Some s) \<Longrightarrow> all_some (map (f \<circ> JStr) fs) = Some fs"
  by (induction fs) simp_all

lemma amqp_laws:
  assumes "amqp_law E A"
  shows "CHR ''*'' \<notin> set b \<Longrightarrow> CHR ''#'' \<notin> set b \<Longrightarrow> am_matches A b k = (b = k)"
    "am_str A (JStr s) = Some s" "am_datetime A (JStr (isoformat E t)) = Some t"
  using assms by (auto simp: amqp_law_def)

text \<open>The envelope of a published event validates, with any schema its payload satisfies.\<close>

lemma envelope_read:
  assumes A: "amqp_law E A" and e: "sensitive_fields e = []"
  shows "EventData A schema (wire_payload E (outbox_row_of E k now (t, i) e)) =
     map_option (\<lambda>p. \<lparr>ed_event_type = wire_name e, ed_event_id = uuid_str (uuid4 E k), ed_aggregate_type = t,
       ed_aggregate_id = map_option uuid_str i, ed_created_at = now, ed_payload = p\<rparr>) (schema (to_payload E e))"
  using e by (cases i; cases "schema (to_payload E e)")
    (simp_all add: EventData_def wire_payload_def outbox_row_of_def object_of_def field_def str_or_none_def jopt_def amqp_laws [OF A])

text \<open>C25. Producer and consumer agree on the wire format. The message published for any event the program raises
  is delivered to the queue of its class and to no other, its body fits the schema of that consumer,
  and the consumer logs the fields the event was raised with; the events of the other seventeen
  classes reach no queue.\<close>

theorem events_reach_their_consumer:
  assumes A: "amqp_law E A"
  shows "deliver A EXCHANGE_NAME (event_message E (outbox_row_of E k now agg e)) = expected e"
proof -
  let ?row = "outbox_row_of E k now agg e"
  note laws = amqp_laws [OF A]
  obtain t i where agg: "agg = (t, i)" by fastforce
  have "deliver A EXCHANGE_NAME (event_message E ?row) =
      map (\<lambda>s. (qu_name (su_queue s), su_handle s (wire_payload E ?row))) (filter (\<lambda>s. qu_routing_key (su_queue s) = wire_name e) (router A))"
    by (simp add: deliver_def event_message_def outbox_row_of_def router_def user_queue_def user_events_exchange_def EXCHANGE_NAME_def laws(1))
  then show ?thesis
    by (cases e) (simp_all add: expected_def router_def user_queue_def sensitive_fields_def agg envelope_read [OF A] field_def field_default_def str_or_none_def str_list_def laws
        UserCreatedEventSchema_def UserAuthenticatedEventSchema_def UserProfileUpdatedEventSchema_def UserDeletedEventSchema_def
        handle_user_created_def handle_user_authenticated_def handle_user_profile_updated_def handle_user_deleted_def jopt_def split: option.splits)
qed

definition sample_amqp :: amqp where
  "sample_amqp =
     \<lparr>am_matches = (=), am_str = (\<lambda>j. case j of JStr s \<Rightarrow> Some s | _ \<Rightarrow> None),
      am_datetime = (\<lambda>j. case j of JStr s \<Rightarrow> (case py_int s of Inl _ \<Rightarrow> None | Inr n \<Rightarrow> Some n) | _ \<Rightarrow> None)\<rparr>"

lemma sample_amqp_law: "amqp_law sample_env sample_amqp"
  by (simp add: amqp_law_def sample_amqp_def sample_env_def py_int_str)

theorem events_reach_their_consumer_witness:
  "deliver sample_amqp EXCHANGE_NAME (event_message sample_env (outbox_row_of sample_env 3 9 (''User'', Some 7) (UserAuthenticatedEvent 7 ''alice''))) =
     [(''user_authenticated_queue'',
       Some (''Processing UserAuthenticatedEvent: user_id=%s, username=%s'', [Arg (uuid_str 7), Arg ''alice'']))]"
  by (simp add: events_reach_their_consumer [OF sample_amqp_law] expected_def)

text \<open>Every queue names a dead-letter exchange that nothing declares: neither a subscriber nor the
  publisher does, so the broker has nowhere to put a message past its delivery limit.\<close>

theorem dead_letter_exchange_undeclared:
  "s \<in> set (router A) \<Longrightarrow> \<exists>x. map_of (qu_arguments (su_queue s)) ''x-dead-letter-exchange'' = Some (JStr x) \<and> x \<notin> set (declared_exchanges A)"
  by (auto simp: router_def user_queue_def QUEUE_ARGUMENTS_def declared_exchanges_def user_events_exchange_def
      dead_letter_exchange_def EXCHANGE_NAME_def)

theorem dead_letter_exchange_undeclared_witness:
  "\<exists>x. map_of (qu_arguments (su_queue (hd (router sample_amqp)))) ''x-dead-letter-exchange'' = Some (JStr x) \<and>
     x \<notin> set (declared_exchanges sample_amqp)"
  by (rule dead_letter_exchange_undeclared) (simp add: router_def)

end
