(* ===== verification/Samples.thy ===== *)
theory Samples
  imports Preserves
begin

text \<open>
  A concrete account, session and request state, on which the properties of the use cases are
  instantiated.
\<close>

definition demo_password :: codepoints where
  "demo_password = map of_char ''Secret-Pass-1''"

definition demo_user :: user where
  "demo_user = (user_create sample_env 0 7 ''alice'' (Some ''al@ex.org'')
     (bcrypt_hashpw sample_env demo_password 0) ''verify'')\<lparr>u_events := []\<rparr>"

definition demo_session :: session where
  "demo_session = (fst (build_session sample_env 50 0 demo_user (DeviceInfo None None)))\<lparr>s_events := []\<rparr>"

definition demo_db :: db where
  "demo_db = empty_db\<lparr>users := [user_to_values sample_env demo_user 0],
     sessions := [session_to_row demo_session],
     refresh_tokens := map (token_to_row (s_session_id demo_session)) (s_refresh_tokens demo_session)\<rparr>"

definition demo_st :: st where
  "demo_st = \<lparr>st_committed = demo_db, st_work = demo_db, st_uow = empty_uow, st_draw = 100,
     st_cache = Map.empty, st_rate = \<lparr>lm_buckets = [], lm_last_cleanup = 0\<rparr>,
     st_attempts = \<lparr>lm_buckets = [], lm_last_cleanup = 0\<rparr>, st_metrics = []\<rparr>"

definition demo_reset_user :: user where
  "demo_reset_user = (request_password_reset sample_env 60 0 1 demo_user)\<lparr>u_events := []\<rparr>"

definition demo_reset_st :: st where
  "demo_reset_st = demo_st\<lparr>st_committed := demo_db\<lparr>users := [user_to_values sample_env demo_reset_user 0]\<rparr>\<rparr>"

lemma demo_tokens: "token_urlsafe sample_env n 51 = ''T51''" "token_urlsafe sample_env n 100 = ''T100''"
  by (simp_all add: sample_env_def) code_simp+

lemma demo_user_simps [simp]:
  "u_id demo_user = 7" "u_version demo_user = 0" "u_events demo_user = []" "\<not> is_deleted demo_user"
  "\<not> user_is_locked demo_user t" "u_username demo_user = ''alice''" "u_email demo_user = Some ''al@ex.org''"
  "has_two_factor demo_user = False"
  by (simp_all add: demo_user_def user_create_def is_deleted_def create_not_deleted_def deletion_is_deleted_def
      user_is_locked_def is_locked_out_def lock_create_def has_two_factor_def)

lemma demo_user_wf: "user_wf demo_user"
  by (simp add: user_wf_def demo_user_def user_create_def create_unverified_def UserID_def
      NIL_UUID_def Username_def MAX_USERNAME_LENGTH_def USERNAME_PATTERN_def match_dollar_def
      username_core_def Email_def EMAIL_PATTERN_def email_core_def email_domain_def local_char_def
      domain_char_def is_alnum_def is_alpha_def is_lower_def is_upper_def is_digit_def in_range_def
      newline_def demo_password_def)

lemma demo_session_simps [simp]:
  "s_session_id demo_session = 51" "s_user_id demo_session = 7" "s_events demo_session = []"
  "s_refresh_tokens demo_session = [\<lparr>rt_token_hash = from_raw sample_env ''T51'', rt_id = 53,
     rt_expires_at = 604800000000, rt_is_revoked = False, rt_created_at = 0\<rparr>]"
  "s_expires_at demo_session = 2592000000000" "\<not> s_is_revoked demo_session"
  by (simp_all add: demo_session_def build_session_def session_create_def add_refresh_token_def Let_def
      REFRESH_TOKEN_EXPIRE_SECONDS_def SESSION_EXPIRE_SECONDS_def demo_tokens)

lemma demo_db_ok: "db_ok demo_db"
  by (simp add: demo_db_def empty_db_def db_ok_def users_ok_def sessions_ok_def rbac_ok_def
      logs_ok_def some_values_Cons has_user_def has_session_def split: option.splits)

lemma demo_acquire:
  "session_acquire_by_token_hash (from_raw sample_env ''T51'') demo_db = Inr (Some demo_session)"
  "user_acquire_by_id sample_env 7 demo_db = Inr (Some demo_user)"
proof -
  show "user_acquire_by_id sample_env 7 demo_db = Inr (Some demo_user)"
    using row_to_user_values [OF sample_fernet_law demo_user_wf, of 0]
    by (simp add: user_acquire_by_id_def load_user_def demo_db_def table_simps)
  have "demo_session = \<lparr>s_session_id = 51, s_user_id = 7, s_device_info = s_device_info demo_session,
     s_created_at = s_created_at demo_session, s_expires_at = 2592000000000, s_is_revoked = False,
     s_refresh_tokens = s_refresh_tokens demo_session, s_events = []\<rparr>"
    by (rule session.equality) simp_all
  then show "session_acquire_by_token_hash (from_raw sample_env ''T51'') demo_db = Inr (Some demo_session)"
    by (simp add: session_acquire_by_token_hash_def demo_db_def table_simps session_tokens_def
        session_from_rows_def UserID_def NIL_UUID_def)
qed

lemma demo_hashes: "from_raw sample_env ''T100'' \<noteq> from_raw sample_env ''T51''"
proof
  assume "from_raw sample_env ''T100'' = from_raw sample_env ''T51''"
  then have "from_raw sample_env ''T100'' ! 31 = from_raw sample_env ''T51'' ! 31" by simp
  then show False by (simp add: from_raw_def digest_bytes_def sample_env_def)
qed

lemma demo_reset_token: "token_urlsafe sample_env n 60 = ''T60''"
  by (simp add: sample_env_def) code_simp

lemma demo_reset_simps [simp]:
  "u_id demo_reset_user = 7" "u_version demo_reset_user = 0" "u_events demo_reset_user = []"
  "u_password_reset_token demo_reset_user =
     Some (password_reset_create sample_env 0 ''T60'' 1)"
  by (simp_all add: demo_reset_user_def request_password_reset_def secure_token_create_def demo_reset_token Let_def)

lemma demo_reset_wf: "user_wf demo_reset_user"
  using demo_user_wf
  by (auto simp: user_wf_def demo_reset_user_def request_password_reset_def password_reset_create_def Let_def)

lemma demo_reset_db_ok: "db_ok (st_committed demo_reset_st)"
  by (simp add: demo_reset_st_def demo_st_def demo_db_def empty_db_def db_ok_def users_ok_def sessions_ok_def rbac_ok_def
      logs_ok_def some_values_Cons has_user_def has_session_def split: option.splits)

lemma demo_password_ok: "PlainPassword sample_env demo_password = Inr demo_password"
  by code_simp

lemma demo_sessions: "session_acquire_by_user_id 7 (demo_db\<lparr>users := us\<rparr>) = Inr [demo_session]"
proof -
  have "demo_session = \<lparr>s_session_id = 51, s_user_id = 7, s_device_info = s_device_info demo_session,
     s_created_at = s_created_at demo_session, s_expires_at = 2592000000000, s_is_revoked = False,
     s_refresh_tokens = s_refresh_tokens demo_session, s_events = []\<rparr>"
    by (rule session.equality) simp_all
  then show ?thesis
    by (simp add: session_acquire_by_user_id_def demo_db_def refresh_tokens_for_def session_from_rows_def UserID_def NIL_UUID_def)
qed

end
