(* ===== verification/Refresh.thy ===== *)
theory Refresh
  imports Use_Cases Samples
begin

text \<open>
  Refresh tokens across a whole request (RefreshTokenUseCase): a valid token is exchanged exactly
  once, and what happens when a token that is no longer valid is presented.
\<close>

definition rotated :: "env \<Rightarrow> nat \<Rightarrow> datetime \<Rightarrow> refresh_token \<Rightarrow> session \<Rightarrow> session" where
  "rotated E k now p old =
     refresh now SESSION_EXPIRE_SECONDS
       (add_refresh_token
          \<lparr>rt_token_hash = from_raw E (token_urlsafe E 32 k), rt_id = uuid4 E (k + 1),
           rt_expires_at = now + seconds REFRESH_TOKEN_EXPIRE_SECONDS, rt_is_revoked = False,
           rt_created_at = now\<rparr>
          (revoke_token (rt_id p) old))"

lemma rotated_simps [simp]:
  "s_session_id (rotated E k now p old) = s_session_id old" "s_user_id (rotated E k now p old) = s_user_id old"
  "s_expires_at (rotated E k now p old) = now + days 30"
  "s_events (rotated E k now p old) = s_events old @ [TokenRefreshedEvent (s_session_id old) (s_user_id old)]"
  by (simp_all add: rotated_def refresh_def add_refresh_token_def revoke_token_def SESSION_EXPIRE_SECONDS_def record_event_def)

lemma rotation_written:
  assumes ok: "db_ok d" and acq: "session_acquire_by_token_hash (from_raw E token) d = Inr (Some old)"
    and p: "find_refresh_token (from_raw E token) old = Some p"
    and n: "uuid4 E (k + 1) \<notin> tr_id ` set (refresh_tokens d)"
      "from_raw E (token_urlsafe E 32 k) \<notin> tr_token_hash ` set (refresh_tokens d)"
  shows "\<exists>d'. session_update (rotated E k now p old) d = Inr d' \<and>
     session_acquire_by_token_hash (from_raw E token) d' = Inr None \<and>
     session_acquire_by_token_hash (from_raw E (token_urlsafe E 32 k)) d' =
       Inr (Some ((rotated E k now p old)\<lparr>s_events := []\<rparr>))"
proof -
  let ?n = "\<lparr>rt_token_hash = from_raw E (token_urlsafe E 32 k), rt_id = uuid4 E (k + 1),
           rt_expires_at = now + seconds REFRESH_TOKEN_EXPIRE_SECONDS, rt_is_revoked = False,
           rt_created_at = now\<rparr>"
  let ?f = "\<lambda>t. if rt_id t = rt_id p then revoked t else t"
  note s = acquire_by_token_session [OF acq]
  have ev: "session_evolves old (rotated E k now p old) ?f [?n]"
    by (simp add: rotated_def session_evolves_def refresh_def add_refresh_token_def revoke_token_def)
  have f: "rt_id (?f t) = rt_id t \<and> rt_token_hash (?f t) = rt_token_hash t \<and>
      rt_created_at (?f t) = rt_created_at t" for t by simp
  obtain d' where d': "session_update (rotated E k now p old) d = Inr d'"
    using session_update_append [OF ok s(1) ev f] n by auto
  from rotation_stored [OF ok acq p _ _ _ rotated_def d'] n(1) d' show ?thesis by simp
qed

lemma acquired_by_token_events: "session_acquire_by_token_hash h d = Inr (Some s) \<Longrightarrow> s_events s = []"
  using acquire_by_token_session acquired_no_events by blast

lemma refresh_unknown:
  assumes "session_acquire_by_token_hash (from_raw E token) (st_committed s) = Inr None"
    and "st_work s = st_committed s" and "st_uow s = empty_uow"
  shows "in_request (refresh_token_use_case E now token) s = (Inl (InvalidCredentialsError None), s)"
proof -
  have "svc_refresh_session E now token s = (Inl (InvalidCredentialsError None), s)"
    using assms by (simp add: svc_refresh_session_def refresh_found_def Let_def bnd_query)
  moreover have "s\<lparr>st_work := st_committed s, st_uow := empty_uow\<rparr> = s"
    using assms(2,3) by (metis st.surjective st.update_convs(2,3) old.unit.exhaust)
  ultimately show ?thesis by (simp add: in_request_def refresh_token_use_case_def bnd_def)
qed

section \<open>A refresh from its read on\<close>

lemma bnd_assoc: "bnd (bnd m f) g = bnd m (\<lambda>x. bnd (f x) g)"
  by (auto simp: bnd_def fun_eq_iff split: prod.splits sum.splits)

text \<open>RefreshTokenUseCase after the lookup of the session.\<close>

definition refresh_resumed :: "env \<Rightarrow> datetime \<Rightarrow> string \<Rightarrow> session option \<Rightarrow> refresh_token_output action" where
  "refresh_resumed E now token found =
     bnd (refresh_found E now (from_raw E token) found) (\<lambda>(sess, u, raw).
     thn (commit E now)
       (ret \<lparr>ro_user_id = u_id u, ro_session_id = uuid_str (s_session_id sess),
             ro_expires_at = isoformat E (s_expires_at sess), ro_refresh_token = raw\<rparr>))"

lemma refresh_split:
  "refresh_token_use_case E now token =
     bnd (query (session_acquire_by_token_hash (from_raw E token))) (refresh_resumed E now token)"
  by (simp add: refresh_token_use_case_def svc_refresh_session_def refresh_resumed_def [abs_def] bnd_assoc Let_def)

lemma commit_draws:
  assumes "commit E now s = (Inr (), s')"
  shows "st_draw s' = st_draw s + 2 * length (waiting (st_uow s))"
proof -
  let ?es = "waiting (st_uow s)" and ?s = "s\<lparr>st_uow := empty_uow\<rparr>"
  obtain x s1 y s2 where "for_each ?es (persist_outbox_event E now) ?s = (Inr x, s1)"
    "for_each ?es (audit_event E now) s1 = (Inr y, s2)" "st_draw s' = st_draw s2"
    using assms by (auto simp: commit_def bnd_def drain_uow_def waiting_def drain_def Let_def thn_def split: sum.splits prod.splits)
  then show ?thesis by (auto dest!: persist_all_Inr audit_all_Inr)
qed

text \<open>What a refresh that wrote d leaves behind.\<close>

definition after_refresh :: "env \<Rightarrow> datetime \<Rightarrow> session \<Rightarrow> db \<Rightarrow> st \<Rightarrow> st" where
  "after_refresh E now old d s =
     (let d' = with_events E (st_draw s + 2) now [TokenRefreshedEvent (s_session_id old) (s_user_id old)] d in
      s\<lparr>st_committed := d', st_work := d', st_uow := empty_uow, st_draw := st_draw s + 4\<rparr>)"

lemma after_refresh_simps [simp]:
  "st_committed (after_refresh E now old d s) = with_events E (st_draw s + 2) now [TokenRefreshedEvent (s_session_id old) (s_user_id old)] d"
  "st_work (after_refresh E now old d s) = st_committed (after_refresh E now old d s)"
  "st_uow (after_refresh E now old d s) = empty_uow" "st_draw (after_refresh E now old d s) = st_draw s + 4"
  by (simp_all add: after_refresh_def Let_def)

lemma refresh_commits:
  assumes clean: "st_work s = st_committed s" "st_uow s = empty_uow"
    and old: "\<not> session_is_expired old now" "find_refresh_token (from_raw E token) old = Some p" "rt_is_valid p now" "s_events old = []"
    and u: "user_acquire_by_id E (s_user_id old) (st_committed s) = Inr (Some u)" "\<not> is_deleted u" "\<not> user_is_locked u now"
    and d: "session_update (rotated E (st_draw s) now p old) (st_committed s) = Inr d"
    and fresh: "fresh_ids E 4 s" and owner: "has_user (s_user_id old) (st_committed s)"
  shows "refresh_resumed E now token (Some old) s =
     (Inr \<lparr>ro_user_id = u_id u, ro_session_id = uuid_str (s_session_id old),
           ro_expires_at = isoformat E (now + days 30), ro_refresh_token = token_urlsafe E 32 (st_draw s)\<rparr>,
      after_refresh E now old d s)"
proof -
  let ?x = "rotated E (st_draw s) now p old" and ?s1 = "s\<lparr>st_draw := st_draw s + 2\<rparr>"
  obtain w where w: "save_session ?x ?s1 = (Inr (), ?s1\<lparr>st_work := d, st_uow := w\<rparr>)"
    "waiting w = [TokenRefreshedEvent (s_session_id old) (s_user_id old)]"
    using save_session_succeeds [of ?s1 ?x d] d old(4) clean by (auto simp: uow_ok_def)
  let ?s2 = "?s1\<lparr>st_work := d, st_uow := w\<rparr>"
  have f: "refresh_found E now (from_raw E token) (Some old) s = (Inr (?x, u, token_urlsafe E 32 (st_draw s)), ?s2)"
    using old u w(1) clean by (simp add: refresh_found_def bnd_query Let_def thn_def bnd_def rotated_def)
  have "fresh_ids E 2 ?s2"
    using fresh by (rule fresh_ids_later [of E 2 2 s, simplified]) (simp_all add: session_update_frame [OF d] clean)
  moreover have "has_user (s_user_id old) d" using owner session_update_frame(4) [OF d] by simp
  ultimately obtain k where c: "commit E now ?s2 = (Inr (), ?s2\<lparr>st_committed := with_events E (st_draw s + 2) now (waiting w) d,
        st_work := with_events E (st_draw s + 2) now (waiting w) d, st_uow := empty_uow, st_draw := k\<rparr>)"
    using commit_succeeds [of E ?s2 now] w(2) by auto
  have "k = st_draw s + 4" using commit_draws [OF c] w(2) by simp
  with c f w(2) show ?thesis by (simp add: refresh_resumed_def after_refresh_def bnd_def thn_def Let_def)
qed

lemma refresh_runs:
  assumes ok: "db_ok (st_committed s)"
    and old: "session_acquire_by_token_hash (from_raw E token) (st_committed s) = Inr (Some old)" "\<not> session_is_expired old now"
    and p: "find_refresh_token (from_raw E token) old = Some p" "rt_is_valid p now"
    and u: "user_acquire_by_id E (s_user_id old) (st_committed s) = Inr (Some u)" "\<not> is_deleted u" "\<not> user_is_locked u now"
    and fresh: "uuid4 E (st_draw s + 1) \<notin> tr_id ` set (refresh_tokens (st_committed s))"
      "from_raw E (token_urlsafe E 32 (st_draw s)) \<notin> tr_token_hash ` set (refresh_tokens (st_committed s))"
      "fresh_ids E 4 (s\<lparr>st_work := st_committed s\<rparr>)"
  shows "\<exists>d. session_update (rotated E (st_draw s) now p old) (st_committed s) = Inr d \<and>
     session_acquire_by_token_hash (from_raw E token) d = Inr None \<and>
     session_acquire_by_token_hash (from_raw E (token_urlsafe E 32 (st_draw s))) d =
       Inr (Some ((rotated E (st_draw s) now p old)\<lparr>s_events := []\<rparr>)) \<and>
     in_request (refresh_token_use_case E now token) s =
       (Inr \<lparr>ro_user_id = s_user_id old, ro_session_id = uuid_str (s_session_id old),
             ro_expires_at = isoformat E (now + days 30), ro_refresh_token = token_urlsafe E 32 (st_draw s)\<rparr>,
        after_refresh E now old d s)"
proof -
  let ?d = "st_committed s" and ?s = "s\<lparr>st_work := st_committed s, st_uow := empty_uow\<rparr>"
  obtain d where d: "session_update (rotated E (st_draw s) now p old) ?d = Inr d" "session_acquire_by_token_hash (from_raw E token) d = Inr None"
    "session_acquire_by_token_hash (from_raw E (token_urlsafe E 32 (st_draw s))) d = Inr (Some ((rotated E (st_draw s) now p old)\<lparr>s_events := []\<rparr>))"
    using rotation_written [OF ok old(1) p(1) fresh(1,2)] by blast
  have "has_user (s_user_id old) ?d" using session_owner_exists [OF ok acquire_by_token_session(1) [OF old(1)]] by simp
  then have "refresh_resumed E now token (Some old) ?s =
      (Inr \<lparr>ro_user_id = s_user_id old, ro_session_id = uuid_str (s_session_id old),
             ro_expires_at = isoformat E (now + days 30), ro_refresh_token = token_urlsafe E 32 (st_draw s)\<rparr>, after_refresh E now old d ?s)"
    using refresh_commits [of ?s old now E token p u d] old(2) p acquired_by_token_events [OF old(1)] u d(1) fresh(3)
    by (simp add: fresh_ids_def acquire_by_id_id [OF u(1)])
  with d old(1) show ?thesis by (simp add: in_request_def refresh_split bnd_query after_refresh_def Let_def)
qed

text \<open>C9. A valid refresh token is exchanged once and only once. If the token is known, unrevoked
  and unexpired, its session is live and the account is neither deleted nor locked, the refresh
  succeeds: after the commit the old token opens no session, the new one opens the same session,
  renewed for 30 days, and a later request that presents the old token again is refused: no second
  pair of tokens is handed out for it. The random identifiers drawn are assumed not to collide.\<close>

theorem refresh_rotates:
  assumes ok: "db_ok (st_committed s)"
    and old: "session_acquire_by_token_hash (from_raw E token) (st_committed s) = Inr (Some old)" "\<not> session_is_expired old now"
    and p: "find_refresh_token (from_raw E token) old = Some p" "rt_is_valid p now"
    and u: "user_acquire_by_id E (s_user_id old) (st_committed s) = Inr (Some u)" "\<not> is_deleted u" "\<not> user_is_locked u now"
    and fresh: "uuid4 E (st_draw s + 1) \<notin> tr_id ` set (refresh_tokens (st_committed s))"
      "from_raw E (token_urlsafe E 32 (st_draw s)) \<notin> tr_token_hash ` set (refresh_tokens (st_committed s))"
      "fresh_ids E 4 (s\<lparr>st_work := st_committed s\<rparr>)"
  shows "\<exists>out x s'. in_request (refresh_token_use_case E now token) s = (Inr out, s') \<and>
     ro_user_id out = s_user_id old \<and> ro_session_id out = uuid_str (s_session_id old) \<and>
     session_acquire_by_token_hash (from_raw E token) (st_committed s') = Inr None \<and>
     session_acquire_by_token_hash (from_raw E (ro_refresh_token out)) (st_committed s') = Inr (Some x) \<and>
     s_session_id x = s_session_id old \<and> s_user_id x = s_user_id old \<and> s_expires_at x = now + days 30 \<and>
     (\<exists>e. fst (in_request (refresh_token_use_case E later token) s') = Inl e)"
proof -
  obtain d where d: "session_acquire_by_token_hash (from_raw E token) d = Inr None"
    "session_acquire_by_token_hash (from_raw E (token_urlsafe E 32 (st_draw s))) d = Inr (Some ((rotated E (st_draw s) now p old)\<lparr>s_events := []\<rparr>))"
    and run: "in_request (refresh_token_use_case E now token) s =
       (Inr \<lparr>ro_user_id = s_user_id old, ro_session_id = uuid_str (s_session_id old),
             ro_expires_at = isoformat E (now + days 30), ro_refresh_token = token_urlsafe E 32 (st_draw s)\<rparr>, after_refresh E now old d s)"
    using refresh_runs [OF ok old p u fresh] by blast
  have "in_request (refresh_token_use_case E later token) (after_refresh E now old d s) =
      (Inl (InvalidCredentialsError None), after_refresh E now old d s)"
    by (rule refresh_unknown) (simp_all add: d(1))
  with d show ?thesis by (auto simp: run)
qed

theorem refresh_rotates_witness:
  "\<exists>out x s'. in_request (refresh_token_use_case sample_env 5 ''T51'') demo_st = (Inr out, s') \<and>
     ro_user_id out = 7 \<and>
     session_acquire_by_token_hash (from_raw sample_env ''T51'') (st_committed s') = Inr None \<and>
     session_acquire_by_token_hash (from_raw sample_env (ro_refresh_token out)) (st_committed s') = Inr (Some x) \<and>
     s_expires_at x = 5 + days 30 \<and>
     (\<exists>e. fst (in_request (refresh_token_use_case sample_env 6 ''T51'') s') = Inl e)"
proof -
  have [simp]: "st_committed demo_st = demo_db" "st_draw demo_st = 100" by (simp_all add: demo_st_def)
  have p: "find_refresh_token (from_raw sample_env ''T51'') demo_session = Some (hd (s_refresh_tokens demo_session))"
    by (simp add: find_refresh_token_def)
  have v: "rt_is_valid (hd (s_refresh_tokens demo_session)) 5" "\<not> session_is_expired demo_session 5"
    by (simp_all add: rt_is_valid_def rt_is_expired_def session_is_expired_def)
  have f: "fresh_ids sample_env 4 (demo_st\<lparr>st_work := demo_db\<rparr>)"
    by (simp add: fresh_ids_def demo_db_def empty_db_def upt_rec)
  have n: "uuid4 sample_env (st_draw demo_st + 1) \<notin> tr_id ` set (refresh_tokens demo_db)"
    "from_raw sample_env (token_urlsafe sample_env 32 (st_draw demo_st)) \<notin> tr_token_hash ` set (refresh_tokens demo_db)"
    using demo_hashes by (simp_all add: demo_db_def demo_tokens)
  have u: "user_acquire_by_id sample_env (s_user_id demo_session) demo_db = Inr (Some demo_user)"
    using demo_acquire(2) by simp
  obtain out x s' where "in_request (refresh_token_use_case sample_env 5 ''T51'') demo_st = (Inr out, s')"
     "ro_user_id out = s_user_id demo_session"
     "session_acquire_by_token_hash (from_raw sample_env ''T51'') (st_committed s') = Inr None"
     "session_acquire_by_token_hash (from_raw sample_env (ro_refresh_token out)) (st_committed s') = Inr (Some x)"
     "s_expires_at x = 5 + days 30"
     "\<exists>e. fst (in_request (refresh_token_use_case sample_env 6 ''T51'') s') = Inl e"
    using refresh_rotates [of demo_st sample_env "''T51''" demo_session 5 "hd (s_refresh_tokens demo_session)" demo_user 6]
      demo_db_ok demo_acquire(1) v p u f n by auto
  then show ?thesis by (intro exI [of _ out] exI [of _ x] exI [of _ s']) simp
qed

text \<open>Replay detection does not do what it announces. The branch that revokes the session is
  reached only for a token that is expired, never for one that was rotated away, because revoked
  tokens are not looked up; and when it is reached the request raises RefreshTokenReuseError
  without a commit, so the committed database is unchanged and the session stays live.\<close>

theorem replay_revocation_lost:
  assumes ok: "db_ok (st_committed s)"
    and old: "session_acquire_by_token_hash (from_raw E token) (st_committed s) = Inr (Some old)" "\<not> session_is_expired old now"
    and p: "find_refresh_token (from_raw E token) old = Some p" "\<not> rt_is_valid p now"
  shows "rt_is_expired p now \<and> \<not> rt_is_revoked p \<and>
     fst (in_request (refresh_token_use_case E now token) s) = Inl RefreshTokenReuseError \<and>
     st_committed (snd (in_request (refresh_token_use_case E now token) s)) = st_committed s \<and>
     session_acquire_by_token_hash (from_raw E token) (st_committed (snd (in_request (refresh_token_use_case E now token) s))) =
       Inr (Some old)"
proof -
  let ?s = "s\<lparr>st_work := st_committed s, st_uow := empty_uow\<rparr>"
  obtain w where w: "save_session (revoke old) ?s =
      (Inr (), ?s\<lparr>st_work := revoke_rows {s_session_id old} (st_committed s), st_uow := w\<rparr>)"
    using save_session_succeeds [of ?s "revoke old" "revoke_rows {s_session_id old} (st_committed s)"]
      revoke_update [OF ok acquire_by_token_session(1) [OF old(1)]] by (auto simp: uow_ok_def)
  have r: "\<not> rt_is_revoked p" by (rule presented_unrevoked [OF ok old(1) p(1)])
  have "svc_refresh_session E now token ?s = (Inl RefreshTokenReuseError,
      ?s\<lparr>st_work := revoke_rows {s_session_id old} (st_committed s), st_uow := w\<rparr>)"
    using old p w by (simp add: svc_refresh_session_def refresh_found_def Let_def bnd_query thn_def bnd_def)
  then have "in_request (refresh_token_use_case E now token) s = (Inl RefreshTokenReuseError, ?s)"
    by (simp add: in_request_def refresh_token_use_case_def bnd_def)
  then show ?thesis using p(2) r old(1) by (simp add: rt_is_valid_def)
qed

theorem replay_revocation_lost_witness:
  "fst (in_request (refresh_token_use_case sample_env 700000000000 ''T51'') demo_st) = Inl RefreshTokenReuseError \<and>
   st_committed (snd (in_request (refresh_token_use_case sample_env 700000000000 ''T51'') demo_st)) = demo_db"
proof -
  have [simp]: "st_committed demo_st = demo_db" by (simp add: demo_st_def)
  have p: "find_refresh_token (from_raw sample_env ''T51'') demo_session = Some (hd (s_refresh_tokens demo_session))"
    by (simp add: find_refresh_token_def)
  have v: "\<not> rt_is_valid (hd (s_refresh_tokens demo_session)) 700000000000" "\<not> session_is_expired demo_session 700000000000"
    by (simp_all add: rt_is_valid_def rt_is_expired_def session_is_expired_def)
  show ?thesis
    using replay_revocation_lost [of demo_st sample_env "''T51''" demo_session 700000000000 "hd (s_refresh_tokens demo_session)"]
      demo_db_ok demo_acquire(1) p v by simp
qed

end
