(* ===== verification/Rbac_Service.thy ===== *)
theory Rbac_Service
  imports Preserves Rbac_Repo
begin

text \<open>
  Role management: RBACService (application/user/rbac_service.py) over the role, permission and
  assignment repositories, and its commands (application/user/commands/rbac.py). \<open>rbac_\<close> marks the
  service's methods.
\<close>

definition DEFAULT_ROLE_USER :: string where
  "DEFAULT_ROLE_USER = ''user''"

definition DEFAULT_ROLE_ADMIN :: string where
  "DEFAULT_ROLE_ADMIN = ''admin''"

definition register_role :: "role \<Rightarrow> unit action" where
  "register_role r = register (''Role'', r_role_id r) (r_events r)"

text \<open>A repository write that draws identifiers.\<close>

definition on_work_draws :: "(nat \<Rightarrow> db \<Rightarrow> app_error + (nat \<times> db)) \<Rightarrow> unit action" where
  "on_work_draws f s =
     (case f (st_draw s) (st_work s) of
        Inl e \<Rightarrow> (Inl e, s)
      | Inr (k, d) \<Rightarrow> (Inr (), s\<lparr>st_work := d, st_draw := k\<rparr>))"

section \<open>The service\<close>

definition rbac_create_role :: "env \<Rightarrow> string \<Rightarrow> string option \<Rightarrow> role action" where
  "rbac_create_role E name description =
     bnd (query (role_acquire_by_name name)) (\<lambda>existing_role.
     if existing_role \<noteq> None then throw (RoleAlreadyExistsError (Some name))
     else
       bnd (next_draw 1) (\<lambda>k.
       bnd (lift (role_create E k name description)) (\<lambda>role.
         thn (on_work_draws (\<lambda>k. role_add E k role)) (thn (register_role role) (ret role)))))"

definition rbac_require_role :: "role_id \<Rightarrow> role action" where
  "rbac_require_role role_id =
     bnd (query (role_acquire_by_id role_id)) (\<lambda>role.
       case role of None \<Rightarrow> throw (RoleNotFoundError (Some (uuid_str role_id))) | Some r \<Rightarrow> ret r)"

definition rbac_require_user :: "env \<Rightarrow> user_id \<Rightarrow> user action" where
  "rbac_require_user E user_id =
     bnd (query (user_acquire_by_id E user_id)) (\<lambda>user.
       case user of None \<Rightarrow> throw (UserNotFoundError (Some (uuid_str user_id))) | Some u \<Rightarrow> ret u)"

definition rbac_delete_role :: "role_id \<Rightarrow> role action" where
  "rbac_delete_role role_id =
     bnd (rbac_require_role role_id) (\<lambda>role.
     if r_name role = DEFAULT_ROLE_ADMIN then throw (PermissionDeniedError (Some ''Cannot delete admin role''))
     else
       (let deleted_role = role_delete role in
        thn (on_work (\<lambda>d. Inr (role_repo_delete role_id d)))
       (thn (register_role deleted_role) (ret deleted_role))))"

definition rbac_assign_role :: "env \<Rightarrow> datetime \<Rightarrow> user_id \<Rightarrow> role_id \<Rightarrow> user_id option \<Rightarrow> user action" where
  "rbac_assign_role E now user_id role_id assigned_by =
     bnd (rbac_require_user E user_id) (\<lambda>user.
     bnd (rbac_require_role role_id) (\<lambda>role.
     bnd (query (user_role_acquire user_id role_id)) (\<lambda>existing.
     if existing \<noteq> None then ret user
     else
       thn (on_work (user_role_add \<lparr>ur_user_id = user_id, ur_role_id = role_id, ur_assigned_at = now,
              ur_assigned_by = assigned_by\<rparr>))
      (let updated = assign_role role_id assigned_by user in
       thn (register_user updated) (ret updated)))))"

definition rbac_revoke_role :: "env \<Rightarrow> user_id \<Rightarrow> role_id \<Rightarrow> user action" where
  "rbac_revoke_role E user_id role_id =
     bnd (rbac_require_user E user_id) (\<lambda>user.
     bnd (rbac_require_role role_id) (\<lambda>role.
     if r_name role = DEFAULT_ROLE_ADMIN
     then throw (PermissionDeniedError (Some ''Cannot revoke admin role from user''))
     else
       thn (on_work (\<lambda>d. Inr (user_role_delete user_id role_id d)))
      (let updated = revoke_role role_id user in
       thn (register_user updated) (ret updated))))"

text \<open>get_user_roles: one query per assignment, an assignment without a role is skipped.\<close>

definition rbac_get_user_roles :: "user_id \<Rightarrow> db \<Rightarrow> app_error + role list" where
  "rbac_get_user_roles user_id d =
     rbind (user_role_acquire_by_user_id user_id d) (\<lambda>user_roles.
     rbind (rmap (\<lambda>ur. role_acquire_by_id (ur_role_id ur) d) user_roles) (\<lambda>found.
       Inr (List.map_filter (\<lambda>x. x) found)))"

definition rbac_has_permission :: "user_id \<Rightarrow> string \<Rightarrow> db \<Rightarrow> app_error + bool" where
  "rbac_has_permission user_id permission d =
     rbind (rbac_get_user_roles user_id d) (\<lambda>roles. Inr (list_ex (has_permission permission) roles))"

definition rbac_require_permission :: "user_id \<Rightarrow> string \<Rightarrow> unit action" where
  "rbac_require_permission user_id permission =
     bnd (query (rbac_has_permission user_id permission)) (\<lambda>ok.
       if \<not> ok then throw (PermissionDeniedError (Some permission)) else ret ())"

definition save_role :: "env \<Rightarrow> role \<Rightarrow> role action" where
  "save_role E r = thn (on_work_draws (\<lambda>k. role_repo_update E k r)) (thn (register_role r) (ret r))"

definition rbac_add_permission_to_role :: "env \<Rightarrow> role_id \<Rightarrow> string \<Rightarrow> role action" where
  "rbac_add_permission_to_role E role_id permission_name =
     bnd (rbac_require_role role_id) (\<lambda>role.
     bnd (query (permission_acquire_by_name permission_name)) (\<lambda>found.
     bnd (case found of
            Some p \<Rightarrow> ret p
          | None \<Rightarrow>
              bnd (lift (Permission permission_name None)) (\<lambda>p.
              bnd (next_draw 1) (\<lambda>k. thn (on_work (permission_add E k p)) (ret p)))) (\<lambda>permission.
       save_role E (add_permission permission role))))"

definition rbac_remove_permission_from_role :: "env \<Rightarrow> role_id \<Rightarrow> string \<Rightarrow> role action" where
  "rbac_remove_permission_from_role E role_id permission_name =
     bnd (rbac_require_role role_id) (\<lambda>role. save_role E (remove_permission permission_name role))"

definition rbac_get_all_roles :: "db \<Rightarrow> app_error + role list" where
  "rbac_get_all_roles d = role_get_all d"

definition rbac_get_all_permissions :: "db \<Rightarrow> app_error + permission list" where
  "rbac_get_all_permissions d = permission_get_all d"

section \<open>The commands\<close>

record role_output =
  rout_role_id :: uuid
  rout_name :: string
  rout_description :: "string option"
  rout_permissions :: "string list"

definition from_role :: "role \<Rightarrow> role_output" where
  "from_role r =
     \<lparr>rout_role_id = r_role_id r, rout_name = r_name r, rout_description = r_description r,
      rout_permissions = map p_name (r_permissions r)\<rparr>"

definition assign_role_use_case :: "env \<Rightarrow> datetime \<Rightarrow> uuid \<Rightarrow> uuid \<Rightarrow> uuid option \<Rightarrow> unit action" where
  "assign_role_use_case E now user_id role_id assigned_by =
     bnd (lift (UserID user_id)) (\<lambda>u.
     bnd (lift (RoleID role_id)) (\<lambda>i.
     bnd (lift (case assigned_by of None \<Rightarrow> Inr None | Some b \<Rightarrow> rbind (UserID b) (\<lambda>b. Inr (Some b)))) (\<lambda>b.
       thn (rbac_assign_role E now u i b) (commit E now))))"

definition revoke_role_use_case :: "env \<Rightarrow> datetime \<Rightarrow> uuid \<Rightarrow> uuid \<Rightarrow> unit action" where
  "revoke_role_use_case E now user_id role_id =
     bnd (lift (UserID user_id)) (\<lambda>u.
     bnd (lift (RoleID role_id)) (\<lambda>i.
       thn (rbac_revoke_role E u i) (commit E now)))"

definition create_role_use_case :: "env \<Rightarrow> datetime \<Rightarrow> string \<Rightarrow> string option \<Rightarrow> role_output action" where
  "create_role_use_case E now name description =
     bnd (lift (RoleName name)) (\<lambda>n.
     bnd (rbac_create_role E n description) (\<lambda>role.
       thn (commit E now) (ret (from_role role))))"

definition delete_role_use_case :: "env \<Rightarrow> datetime \<Rightarrow> uuid \<Rightarrow> unit action" where
  "delete_role_use_case E now role_id =
     bnd (lift (RoleID role_id)) (\<lambda>i. thn (rbac_delete_role i) (commit E now))"

definition add_permission_use_case :: "env \<Rightarrow> datetime \<Rightarrow> uuid \<Rightarrow> string \<Rightarrow> role_output action" where
  "add_permission_use_case E now role_id permission_name =
     bnd (lift (RoleID role_id)) (\<lambda>i.
     bnd (rbac_add_permission_to_role E i permission_name) (\<lambda>role.
       thn (commit E now) (ret (from_role role))))"

definition remove_permission_use_case :: "env \<Rightarrow> datetime \<Rightarrow> uuid \<Rightarrow> string \<Rightarrow> role_output action" where
  "remove_permission_use_case E now role_id permission_name =
     bnd (lift (RoleID role_id)) (\<lambda>i.
     bnd (rbac_remove_permission_from_role E i permission_name) (\<lambda>role.
       thn (commit E now) (ret (from_role role))))"

section \<open>The walk over the assignments answers what the tables grant\<close>

lemma role_acquired_names:
  assumes "role_acquire_by_id i d = Inr (Some x)"
  shows "perm_names x = pr_name ` set (role_permission_rows i d)"
proof -
  obtain r where r: "find_row (\<lambda>r. rr_id r = i) (roles d) = Some r" "role_from_row d r = Inr x"
    using assms by (auto simp: role_acquire_by_id_def rbind_eq_Inr split: option.splits)
  then show ?thesis using role_from_row_names [OF r(2)] by (auto dest: find_row_Some_iff)
qed

lemma list_ex_rmap_filter:
  "rmap f xs = Inr ys \<Longrightarrow> list_ex P (List.map_filter (\<lambda>x. x) ys) \<longleftrightarrow> (\<exists>x \<in> set xs. \<exists>y. f x = Inr (Some y) \<and> P y)"
proof (induction xs arbitrary: ys)
  case (Cons a xs)
  then obtain z zs where z: "f a = Inr z" "rmap f xs = Inr zs" "ys = z # zs" by (auto simp: rbind_eq_Inr)
  with Cons.IH [OF z(2)] show ?case by (cases z) (simp_all add: map_filter_simps)
qed (simp add: map_filter_simps)

lemma user_role_rows:
  "rmap user_role_from_row rows = Inr xs \<Longrightarrow> ur_role_id ` set xs = urr_role_id ` set rows"
proof (induction rows arbitrary: xs)
  case (Cons r rows)
  then obtain y ys where y: "user_role_from_row r = Inr y" "rmap user_role_from_row rows = Inr ys" "xs = y # ys"
    by (auto simp: rbind_eq_Inr)
  then have "ur_role_id y = urr_role_id r"
    by (auto simp: user_role_from_row_def UserID_def RoleID_def rbind_eq_Inr split: if_splits)
  with Cons.IH [OF y(2)] y(3) show ?case by simp
qed simp

lemma assigned_role_exists: "db_ok d \<Longrightarrow> a \<in> set (user_roles d) \<Longrightarrow> has_role (urr_role_id a) d"
  by (simp add: db_ok_def rbac_ok_def list_all_iff)

lemma has_permission_grants:
  assumes "db_ok d" and "rbac_has_permission u name d = Inr b"
  shows "b = grants d u name"
proof -
  obtain xs ys where xs: "rmap user_role_from_row (filter (\<lambda>r. urr_user_id r = u) (user_roles d)) = Inr xs"
    and ys: "rmap (\<lambda>ur. role_acquire_by_id (ur_role_id ur) d) xs = Inr ys"
    and b: "b = list_ex (has_permission name) (List.map_filter (\<lambda>x. x) ys)"
    using assms(2) by (auto simp: rbac_has_permission_def rbac_get_user_roles_def user_role_acquire_by_user_id_def rbind_eq_Inr)
  have "b \<longleftrightarrow> (\<exists>i \<in> ur_role_id ` set xs. \<exists>y. role_acquire_by_id i d = Inr (Some y) \<and> name \<in> perm_names y)"
    unfolding b list_ex_rmap_filter [OF ys] by (auto simp: has_permission_iff)
  also have "\<dots> \<longleftrightarrow> (\<exists>a \<in> set (user_roles d). urr_user_id a = u \<and>
      (\<exists>y. role_acquire_by_id (urr_role_id a) d = Inr (Some y) \<and> name \<in> perm_names y))"
    unfolding user_role_rows [OF xs] by auto
  also have "\<dots> \<longleftrightarrow> grants d u name"
  proof -
    have "(\<exists>y. role_acquire_by_id (urr_role_id a) d = Inr (Some y) \<and> name \<in> perm_names y) \<longleftrightarrow>
        name \<in> pr_name ` set (role_permission_rows (urr_role_id a) d)"
      if "a \<in> set (user_roles d)" "urr_user_id a = u" for a
    proof -
      have "urr_role_id a \<in> ur_role_id ` set xs" using user_role_rows [OF xs] that by auto
      then obtain z where z: "role_acquire_by_id (urr_role_id a) d = Inr z"
        using ys by (induction xs arbitrary: ys) (auto simp: rbind_eq_Inr)
      have "z \<noteq> None"
        using assigned_role_exists [OF assms(1) that(1)] z
        by (auto simp: role_acquire_by_id_def rbind_eq_Inr has_role_iff find_row_None_iff split: option.splits)
      with z role_acquired_names show ?thesis by auto
    qed
    then show ?thesis unfolding grants_iff by blast
  qed
  finally show ?thesis .
qed

text \<open>Stored names and identifiers are values the domain accepts, as every write keeps them.\<close>

definition rbac_rows_valid :: "db \<Rightarrow> bool" where
  "rbac_rows_valid d =
     (list_all (\<lambda>p. PERMISSION_NAME_PATTERN (pr_name p)) (permissions d) \<and>
      list_all (\<lambda>r. rr_id r \<noteq> NIL_UUID \<and> RoleName (rr_name r) = Inr (rr_name r)) (roles d) \<and>
      list_all (\<lambda>a. urr_user_id a \<noteq> NIL_UUID \<and> urr_role_id a \<noteq> NIL_UUID \<and> urr_assigned_by a \<noteq> Some NIL_UUID) (user_roles d))"

lemma rmap_Inr: "(\<And>x. x \<in> set xs \<Longrightarrow> \<exists>y. f x = Inr y) \<Longrightarrow> \<exists>ys. rmap f xs = Inr ys"
  by (induction xs) (auto simp: rbind_eq_Inr)

lemma role_readable:
  assumes "rbac_rows_valid d" and "r \<in> set (roles d)"
  shows "\<exists>x. role_from_row d r = Inr x"
proof -
  have "\<exists>ps. rmap permission_from_row (role_permission_rows (rr_id r) d) = Inr ps"
    using assms(1) by (intro rmap_Inr)
      (auto simp: rbac_rows_valid_def list_all_iff permission_from_row_def Permission_def set_role_permission_rows)
  with assms show ?thesis
    by (auto simp: role_from_row_def get_role_permissions_def rbac_rows_valid_def list_all_iff RoleID_def)
qed

lemma role_acquire_readable: "rbac_rows_valid d \<Longrightarrow> \<exists>x. role_acquire_by_id i d = Inr x"
  using role_readable [of d] by (fastforce simp: role_acquire_by_id_def split: option.splits dest: find_row_Some_iff)

lemma has_permission_answers:
  assumes "rbac_rows_valid d"
  shows "\<exists>b. rbac_has_permission u name d = Inr b"
proof -
  have "\<exists>xs. rmap user_role_from_row (filter (\<lambda>r. urr_user_id r = u) (user_roles d)) = Inr xs"
    using assms by (intro rmap_Inr)
      (auto simp: rbac_rows_valid_def list_all_iff user_role_from_row_def UserID_def RoleID_def split: option.splits)
  then obtain xs where xs: "rmap user_role_from_row (filter (\<lambda>r. urr_user_id r = u) (user_roles d)) = Inr xs" ..
  have "\<exists>ys. rmap (\<lambda>ur. role_acquire_by_id (ur_role_id ur) d) xs = Inr ys"
    by (intro rmap_Inr role_acquire_readable assms)
  with xs show ?thesis
    by (auto simp: rbac_has_permission_def rbac_get_user_roles_def user_role_acquire_by_user_id_def)
qed

text \<open>The service's permission check, which loads every assigned role with its permissions,
  answers, and it answers what the assignment, link and permission tables grant, as the single
  grouped query of the read side does.\<close>

theorem has_permission_exact:
  assumes "db_ok d" and "rbac_rows_valid d"
  shows "rbac_has_permission u name d = Inr (grants d u name)"
  using has_permission_answers [OF assms(2), of u name] has_permission_grants [OF assms(1)] by auto

theorem has_permission_exact_witness:
  "rbac_has_permission 1 ''xy'' (rbac_sample\<lparr>permissions := [\<lparr>pr_id = 9, pr_name = ''xy'', pr_description = None\<rparr>]\<rparr>) = Inr True \<and>
   grants (rbac_sample\<lparr>permissions := [\<lparr>pr_id = 9, pr_name = ''xy'', pr_description = None\<rparr>]\<rparr>) 1 ''xy''"
proof -
  let ?d = "rbac_sample\<lparr>permissions := [\<lparr>pr_id = 9, pr_name = ''xy'', pr_description = None\<rparr>]\<rparr>"
  have ok: "db_ok ?d"
    by (simp add: rbac_sample_def empty_db_def db_ok_def users_ok_def sessions_ok_def rbac_ok_def
      logs_ok_def has_user_def has_role_def has_permission_row_def user_row.make_def some_values_def)
  have v: "rbac_rows_valid ?d" by code_simp
  have "grants ?d 1 ''xy''" by (simp add: grants_def rbac_sample_def)
  with has_permission_exact [OF ok v, of 1 "''xy''"] show ?thesis by simp
qed
end
