(* ===== verification/Atomicity.thy ===== *)
theory Atomicity
  imports Refresh Rbac_Service
begin

text \<open>
  Commands that raise commit nothing: a small calculus of actions that never leave a partial
  commit behind, and its application to every command that changes the database.
\<close>

named_theorems uncommitted \<open>actions that raise without a commit\<close>

definition raises_uncommitted :: "'a action \<Rightarrow> bool" where
  "raises_uncommitted m = (\<forall>s e s'. m s = (Inl e, s') \<longrightarrow> st_committed s' = st_committed s)"

lemma uncommitted_bnd [uncommitted]:
  assumes "\<And>d. preserves (committed_is d) m" and "\<And>x. raises_uncommitted (k x)"
  shows "raises_uncommitted (bnd m k)"
  unfolding raises_uncommitted_def
proof (intro allI impI)
  fix s e s' assume "bnd m k s = (Inl e, s')"
  then consider "m s = (Inl e, s')" | x t where "m s = (Inr x, t)" "k x t = (Inl e, s')"
    by (auto simp: bnd_eq_Inl)
  then show "st_committed s' = st_committed s"
  proof cases
    case 1
    from preservesD [OF assms(1) 1, of "st_committed s"] show ?thesis by (simp add: committed_is_def)
  next
    case 2
    from preservesD [OF assms(1) 2(1), of "st_committed s"] assms(2) 2(2) show ?thesis
      by (simp add: committed_is_def raises_uncommitted_def)
  qed
qed

lemma uncommitted_thn [uncommitted]:
  "(\<And>d. preserves (committed_is d) m) \<Longrightarrow> raises_uncommitted k \<Longrightarrow> raises_uncommitted (thn m k)"
  unfolding thn_def by (rule uncommitted_bnd)

lemma uncommitted_commit [uncommitted]:
  "raises_uncommitted (commit E now)" "raises_uncommitted (thn (commit E now) (ret x))"
  by (auto simp: raises_uncommitted_def thn_eq_Inl dest: commit_Inl)

lemma uncommitted_splits [uncommitted]:
  "(b \<Longrightarrow> raises_uncommitted m) \<Longrightarrow> (\<not> b \<Longrightarrow> raises_uncommitted n) \<Longrightarrow> raises_uncommitted (if b then m else n)"
  "(o1 = None \<Longrightarrow> raises_uncommitted m) \<Longrightarrow> (\<And>y. o1 = Some y \<Longrightarrow> raises_uncommitted (f y)) \<Longrightarrow>
     raises_uncommitted (case o1 of None \<Rightarrow> m | Some y \<Rightarrow> f y)"
  "(\<And>x y. z = (x, y) \<Longrightarrow> raises_uncommitted (g x y)) \<Longrightarrow> raises_uncommitted (case z of (x, y) \<Rightarrow> g x y)"
  "raises_uncommitted (ret v)" "raises_uncommitted (throw e)"
  by (simp_all add: raises_uncommitted_def split: option.splits prod.splits)

lemma committed_service [pres]:
  "preserves (committed_is d) (svc_revoke_all_sessions i)"
  "preserves (committed_is d) (svc_create E now i n p m v)"
  "preserves (committed_is d) (svc_verify_email E now t)"
  "preserves (committed_is d) (svc_request_password_reset E now m0)"
  "preserves (committed_is d) (svc_get_user_by_id E i)"
  "preserves (committed_is d) (svc_update_user E now u n' m')"
  "preserves (committed_is d) (svc_revoke_session j i)"
  unfolding svc_revoke_all_sessions_def svc_create_def svc_verify_email_def svc_request_password_reset_def
    svc_get_user_by_id_def svc_update_user_def svc_revoke_session_def register_user_def
  by (intro pres)+

lemma committed_service2 [pres]:
  "preserves (committed_is d) (svc_reset_password E now t p)"
  "preserves (committed_is d) (svc_change_password E u p q)"
  "preserves (committed_is d) (svc_delete_user E now i)"
  unfolding svc_reset_password_def reset_found_def [abs_def] svc_change_password_def svc_delete_user_def
  by (intro pres)+

lemma committed_limit [pres]: "preserves (committed_is d) (limit_by_ip cfg now prefix ip)"
  unfolding limit_by_ip_def
  by (intro pres) (simp add: preserves_def rate_limiter_check_def committed_is_def case_prod_unfold Let_def)

lemma committed_draws [pres]: "preserves (committed_is d) (on_work_draws f)"
  by (auto simp: preserves_def committed_is_def on_work_draws_def split: sum.splits)

lemma committed_rbac [pres]:
  "preserves (committed_is d) (rbac_create_role E n ds)" "preserves (committed_is d) (rbac_delete_role i)"
  "preserves (committed_is d) (rbac_assign_role E now u i b)" "preserves (committed_is d) (rbac_revoke_role E u i)"
  "preserves (committed_is d) (rbac_add_permission_to_role E i n)" "preserves (committed_is d) (rbac_remove_permission_from_role E i n)"
  unfolding rbac_create_role_def rbac_delete_role_def rbac_assign_role_def rbac_revoke_role_def
    rbac_add_permission_to_role_def rbac_remove_permission_from_role_def save_role_def rbac_require_role_def rbac_require_user_def
    register_role_def register_user_def
  by (intro pres)+

definition all_or_nothing :: "'a action \<Rightarrow> bool" where
  "all_or_nothing m = (\<forall>s. case in_request m s of
     (Inl e, s') \<Rightarrow> st_committed s' = st_committed s | (Inr x, s') \<Rightarrow> True)"

lemma all_or_nothingI: "raises_uncommitted m \<Longrightarrow> all_or_nothing m"
  unfolding all_or_nothing_def
proof (intro allI)
  fix s assume m: "raises_uncommitted m"
  obtain r s1 where r: "m (s\<lparr>st_work := st_committed s, st_uow := empty_uow\<rparr>) = (r, s1)" by fastforce
  with m show "case in_request m s of (Inl e, s') \<Rightarrow> st_committed s' = st_committed s | (Inr x, s') \<Rightarrow> True"
    by (cases r) (auto simp: in_request_def raises_uncommitted_def)
qed

text \<open>C3. Every command with one commit at its end is all or nothing: when it raises, for whatever
  reason and after whatever intermediate writes, the committed database is the one the request
  started from.\<close>

theorem commands_all_or_nothing:
  "all_or_nothing (refresh_token_use_case E now token) \<and>
   all_or_nothing (request_password_reset_use_case E cfg now email ip) \<and>
   all_or_nothing (reset_password_use_case E cfg now token p ip) \<and>
   all_or_nothing (change_password_use_case E now i p q) \<and>
   all_or_nothing (verify_email_use_case E now token) \<and>
   all_or_nothing (create_user E cfg now data) \<and>
   all_or_nothing (delete_me E now i) \<and>
   all_or_nothing (update_profile E now i n m) \<and>
   all_or_nothing (confirm_2fa E now i code) \<and>
   all_or_nothing (disable_2fa E now i p) \<and>
   all_or_nothing (verify_2fa E now i code) \<and>
   all_or_nothing (revoke_session_use_case E now i sid) \<and>
   all_or_nothing (create_role_use_case E now rn ds) \<and>
   all_or_nothing (delete_role_use_case E now ri) \<and>
   all_or_nothing (assign_role_use_case E now u ri b) \<and>
   all_or_nothing (revoke_role_use_case E now u ri) \<and>
   all_or_nothing (add_permission_use_case E now ri pn) \<and>
   all_or_nothing (remove_permission_use_case E now ri pn)"
  unfolding refresh_token_use_case_def request_password_reset_use_case_def reset_password_use_case_def
    change_password_use_case_def verify_email_use_case_def create_user_def delete_me_def update_profile_def
    confirm_2fa_def disable_2fa_def verify_2fa_def revoke_session_use_case_def create_role_use_case_def delete_role_use_case_def
    assign_role_use_case_def revoke_role_use_case_def add_permission_use_case_def remove_permission_use_case_def
  by (intro conjI all_or_nothingI uncommitted pres)

end
