(* ===== verification/Roles.thy ===== *)
theory Roles
  imports Atomicity
begin

text \<open>
  Role management over whole requests: no command takes the admin role away, an assignment grants
  exactly the role's permissions, and the stored permissions of an edited role are the edited ones.
\<close>

section \<open>The admin role\<close>

text \<open>The users who hold a role named admin.\<close>

definition admin_holders :: "db \<Rightarrow> uuid set" where
  "admin_holders d =
     {urr_user_id a |a r. a \<in> set (user_roles d) \<and> r \<in> set (roles d) \<and> rr_id r = urr_role_id a \<and> rr_name r = DEFAULT_ROLE_ADMIN}"

definition admins_kept :: "uuid set \<Rightarrow> st \<Rightarrow> bool" where
  "admins_kept H s =
     (distinct (map rr_id (roles (st_work s))) \<and> H \<subseteq> admin_holders (st_work s) \<and>
      distinct (map rr_id (roles (st_committed s))) \<and> H \<subseteq> admin_holders (st_committed s))"

datatype role_command =
    CreateRole string "string option"
  | DeleteRole uuid
  | AssignRoleTo uuid uuid "uuid option"
  | RevokeRoleFrom uuid uuid
  | AddPermissionToRole uuid string
  | RemovePermissionFromRole uuid string

primrec run_role_command :: "env \<Rightarrow> datetime \<Rightarrow> role_command \<Rightarrow> unit action" where
  "run_role_command E now (CreateRole n ds) = thn (create_role_use_case E now n ds) (ret ())"
| "run_role_command E now (DeleteRole i) = delete_role_use_case E now i"
| "run_role_command E now (AssignRoleTo u i b) = assign_role_use_case E now u i b"
| "run_role_command E now (RevokeRoleFrom u i) = revoke_role_use_case E now u i"
| "run_role_command E now (AddPermissionToRole i n) = thn (add_permission_use_case E now i n) (ret ())"
| "run_role_command E now (RemovePermissionFromRole i n) = thn (remove_permission_use_case E now i n) (ret ())"

text \<open>Requests one after the other, each in its own transaction.\<close>

definition run_role_commands :: "env \<Rightarrow> (datetime \<times> role_command) list \<Rightarrow> st \<Rightarrow> st" where
  "run_role_commands E cs s = fold (\<lambda>(now, c) s. snd (in_request (run_role_command E now c) s)) cs s"

lemma ensure_frame:
  "ensure_permission E k p d = Inr (i, k', d') \<Longrightarrow> roles d' = roles d \<and> user_roles d' = user_roles d \<and>
     role_permissions d' = role_permissions d \<and> users d' = users d"
  by (auto simp: ensure_permission_def permission_add_def insert_permission_def rbind_eq_Inr split: option.splits if_splits)

lemma ensure_all_frame:
  "ensure_permissions E k ps d = Inr (is, k', d') \<Longrightarrow> roles d' = roles d \<and> user_roles d' = user_roles d \<and>
     role_permissions d' = role_permissions d \<and> users d' = users d"
  by (induction ps arbitrary: k d "is" k') (fastforce simp: rbind_eq_Inr dest: ensure_frame)+

lemma insert_link_frame:
  "insert_role_permission i p d = Inr d' \<Longrightarrow> roles d' = roles d \<and> user_roles d' = user_roles d \<and> permissions d' = permissions d \<and> users d' = users d"
  by (auto simp: insert_role_permission_def Let_def split: if_splits)

lemma insert_links_frame:
  "insert_role_permissions i ps d = Inr d' \<Longrightarrow> roles d' = roles d \<and> user_roles d' = user_roles d \<and> permissions d' = permissions d \<and> users d' = users d"
  by (induction ps arbitrary: d) (fastforce simp: rbind_eq_Inr dest: insert_link_frame)+

lemma role_add_links_frame:
  "role_add_permissions E k i ps d = Inr (k', d') \<Longrightarrow> roles d' = roles d \<and> user_roles d' = user_roles d"
  by (induction ps arbitrary: k d) (fastforce simp: rbind_eq_Inr dest: ensure_frame insert_link_frame)+

lemma role_add_frame:
  "role_add E k r d = Inr (k', d') \<Longrightarrow> \<not> has_role (r_role_id r) d \<and> user_roles d' = user_roles d \<and>
     roles d' = roles d @ [\<lparr>rr_id = r_role_id r, rr_name = r_name r, rr_description = r_description r\<rparr>]"
  by (auto simp: role_add_def split: if_splits dest!: role_add_links_frame)

lemma role_update_frame:
  "role_repo_update E k r d = Inr (k', d') \<Longrightarrow> user_roles d' = user_roles d \<and>
     roles d' = update_where (\<lambda>x. rr_id x = r_role_id r) (\<lambda>x. x\<lparr>rr_name := r_name r, rr_description := r_description r\<rparr>) (roles d)"
  by (auto simp: role_repo_update_def Let_def rbind_eq_Inr split: if_splits dest!: insert_links_frame ensure_all_frame)

lemma admin_holders_cong:
  "user_roles d' = user_roles d \<Longrightarrow> roles d' = roles d \<Longrightarrow> admin_holders d' = admin_holders d"
  by (simp add: admin_holders_def)

lemma admin_holders_mono:
  assumes "set (user_roles d) \<subseteq> set (user_roles d')" and "\<And>r. r \<in> set (roles d) \<Longrightarrow> \<exists>r' \<in> set (roles d'). rr_id r' = rr_id r \<and> rr_name r' = rr_name r"
  shows "admin_holders d \<subseteq> admin_holders d'"
proof
  fix u assume "u \<in> admin_holders d"
  then obtain a r where a: "a \<in> set (user_roles d)" "r \<in> set (roles d)" "rr_id r = urr_role_id a" "rr_name r = DEFAULT_ROLE_ADMIN" "u = urr_user_id a"
    by (auto simp: admin_holders_def)
  from assms(2) [OF a(2)] obtain r' where "r' \<in> set (roles d')" "rr_id r' = rr_id r" "rr_name r' = rr_name r" by blast
  with a assms(1) show "u \<in> admin_holders d'" by (auto simp: admin_holders_def)
qed

text \<open>Writing to the transaction keeps the holders when the write does.\<close>

lemma admins_work:
  "admins_kept H s \<Longrightarrow> distinct (map rr_id (roles d)) \<Longrightarrow> admin_holders (st_work s) \<subseteq> admin_holders d \<Longrightarrow>
     admins_kept H (s\<lparr>st_work := d\<rparr>)"
  by (auto simp: admins_kept_def)

lemma admins_neutral [pres]:
  "preserves (admins_kept H) (next_draw n)" "preserves (admins_kept H) (register i es)"
  by (auto simp: preserves_def admins_kept_def register_def)

lemma admins_commit [pres]: "preserves (admins_kept H) (commit E now)"
proof (rule preservesI)
  fix s r s' assume "admins_kept H s" "commit E now s = (r, s')"
  with commit_cases [of E now s] show "admins_kept H s'"
    by (auto simp: admins_kept_def admin_holders_cong [of "with_events _ _ _ _ _"])
qed

lemma require_role_Inr:
  assumes "rbac_require_role i s = (Inr role, s')"
  shows "s' = s" "role_acquire_by_id i (st_work s) = Inr (Some role)"
  using assms by (auto simp: rbac_require_role_def bnd_query split: sum.splits option.splits)

lemma acquired_role_row:
  assumes "role_acquire_by_id i d = Inr (Some role)" and "distinct (map rr_id (roles d))"
    and "r \<in> set (roles d)" and "rr_id r = i"
  shows "r_role_id role = i" "r_name role = rr_name r" "r_description role = rr_description r" "r_events role = []"
proof -
  have "find_row (\<lambda>x. rr_id x = i) (roles d) = Some r" using find_row_unique [OF assms(2,3)] assms(4) by simp
  with assms(1) have "role_from_row d r = Inr role" by (auto simp: role_acquire_by_id_def rbind_eq_Inr)
  then show "r_role_id role = i" "r_name role = rr_name r" "r_description role = rr_description r" "r_events role = []"
    using assms(4) by (auto simp: role_from_row_def rbind_eq_Inr RoleID_def RoleName_def split: if_splits)
qed

lemma preserves_require_role:
  assumes "\<And>s role r s'. P s \<Longrightarrow> role_acquire_by_id i (st_work s) = Inr (Some role) \<Longrightarrow> k role s = (r, s') \<Longrightarrow> P s'"
  shows "preserves P (bnd (rbac_require_role i) k)"
proof (rule preservesI)
  fix s r s' assume P: "P s" and m: "bnd (rbac_require_role i) k s = (r, s')"
  then show "P s'"
    using assms [of s] by (auto simp: rbac_require_role_def bnd_def split: sum.splits option.splits prod.splits)
qed

lemma admins_delete [pres]: "preserves (admins_kept H) (rbac_delete_role i)"
  unfolding rbac_delete_role_def
proof (rule preserves_require_role)
  fix s role r s' assume k: "admins_kept H s" and role: "role_acquire_by_id i (st_work s) = Inr (Some role)"
    and m: "(if r_name role = DEFAULT_ROLE_ADMIN then throw (PermissionDeniedError (Some ''Cannot delete admin role''))
       else let deleted_role = role_delete role in thn (on_work (\<lambda>d. Inr (role_repo_delete i d)))
         (thn (register_role deleted_role) (ret deleted_role))) s = (r, s')"
  let ?d = "role_repo_delete i (st_work s)"
  show "admins_kept H s'"
  proof (cases "r_name role = DEFAULT_ROLE_ADMIN")
    case False
    have ids: "distinct (map rr_id (roles (st_work s)))" using k by (simp add: admins_kept_def)
    have "rr_name x \<noteq> DEFAULT_ROLE_ADMIN" if "x \<in> set (roles (st_work s))" "rr_id x = i" for x
      using acquired_role_row(2) [OF role ids that] False by simp
    then have "admin_holders (st_work s) \<subseteq> admin_holders ?d"
      by (fastforce simp: admin_holders_def set_delete_where)
    then have "admins_kept H (s\<lparr>st_work := ?d\<rparr>)"
      using k ids by (intro admins_work) (simp_all add: distinct_map_delete_where)
    with m False show ?thesis
      by (auto simp: thn_def bnd_def on_work_def register_role_def Let_def admins_kept_def register_def)
  qed (use m k in simp)
qed

lemma preserves_require [pres]:
  "preserves P (rbac_require_user E u)" "preserves P (rbac_require_role i)"
  unfolding rbac_require_user_def rbac_require_role_def by (intro pres)+

lemma preserves_on_work:
  assumes "\<And>s d. P s \<Longrightarrow> f (st_work s) = Inr d \<Longrightarrow> P (s\<lparr>st_work := d\<rparr>)"
  shows "preserves P (on_work f)"
  by (auto simp: preserves_def on_work_def assms split: sum.splits)

lemma preserves_on_work_draws:
  assumes "\<And>s k d. P s \<Longrightarrow> f (st_draw s) (st_work s) = Inr (k, d) \<Longrightarrow> P (s\<lparr>st_work := d, st_draw := k\<rparr>)"
  shows "preserves P (on_work_draws f)"
  by (auto simp: preserves_def on_work_draws_def assms split: sum.splits)

lemma admins_draw [simp]: "admins_kept H (s\<lparr>st_draw := k\<rparr>) = admins_kept H s"
  by (simp add: admins_kept_def)

lemma admins_revoke [pres]: "preserves (admins_kept H) (rbac_revoke_role E u i)"
  unfolding rbac_revoke_role_def
proof (intro preserves_bnd [OF preserves_require(1)] preserves_require_role)
  fix user s role r s' assume k: "admins_kept H s" and role: "role_acquire_by_id i (st_work s) = Inr (Some role)"
    and m: "(if r_name role = DEFAULT_ROLE_ADMIN then throw (PermissionDeniedError (Some ''Cannot revoke admin role from user''))
       else thn (on_work (\<lambda>d. Inr (user_role_delete u i d)))
         (let updated = revoke_role i user in thn (register_user updated) (ret updated))) s = (r, s')"
  let ?d = "user_role_delete u i (st_work s)"
  show "admins_kept H s'"
  proof (cases "r_name role = DEFAULT_ROLE_ADMIN")
    case False
    have ids: "distinct (map rr_id (roles (st_work s)))" using k by (simp add: admins_kept_def)
    have "rr_name x \<noteq> DEFAULT_ROLE_ADMIN" if "x \<in> set (roles (st_work s))" "rr_id x = i" for x
      using acquired_role_row(2) [OF role ids that] False by simp
    then have "admin_holders (st_work s) \<subseteq> admin_holders ?d"
      by (fastforce simp: admin_holders_def set_delete_where user_role_delete_def)
    then have "admins_kept H (s\<lparr>st_work := ?d\<rparr>)"
      using k ids by (intro admins_work) (simp_all add: user_role_delete_def)
    with m False show ?thesis
      by (auto simp: thn_def bnd_def on_work_def register_user_def Let_def admins_kept_def register_def)
  qed (use m k in simp)
qed

lemma admins_assign [pres]: "preserves (admins_kept H) (rbac_assign_role E now u i b)"
proof -
  have [pres]: "preserves (admins_kept H) (on_work (user_role_add x))" for x
    by (intro preserves_on_work admins_work admin_holders_mono) (auto simp: user_role_add_Inr admins_kept_def)
  show ?thesis unfolding rbac_assign_role_def register_user_def by (intro pres)
qed

lemma admins_create [pres]: "preserves (admins_kept H) (rbac_create_role E n ds)"
proof -
  have "admins_kept H (s\<lparr>st_work := d, st_draw := k\<rparr>)" if "admins_kept H s" "role_add E (st_draw s) x (st_work s) = Inr (k, d)" for s k d x
  proof -
    note f = role_add_frame [OF that(2)]
    have "distinct (map rr_id (roles d))" using f that(1) by (auto simp: admins_kept_def has_role_iff)
    moreover have "admin_holders (st_work s) \<subseteq> admin_holders d" using f by (intro admin_holders_mono) auto
    ultimately show ?thesis using admins_work [OF that(1)] by simp
  qed
  then have [pres]: "preserves (admins_kept H) (on_work_draws (\<lambda>k. role_add E k x))" for x
    by (rule preserves_on_work_draws)
  show ?thesis unfolding rbac_create_role_def register_role_def by (intro pres)
qed

text \<open>Writing a role back under its stored name.\<close>

lemma admins_save:
  assumes k: "admins_kept H s" and role: "role_acquire_by_id i (st_work s) = Inr (Some role)"
    and x: "r_role_id x = r_role_id role" "r_name x = r_name role"
    and d: "roles d = roles (st_work s)" "user_roles d = user_roles (st_work s)"
    and m: "save_role E x (s\<lparr>st_draw := k0, st_work := d\<rparr>) = (r, s')"
  shows "admins_kept H s'"
proof -
  have ids: "distinct (map rr_id (roles (st_work s)))" using k by (simp add: admins_kept_def)
  have "\<exists>y \<in> set (roles (st_work s)). rr_id y = i"
    using role by (auto simp: role_acquire_by_id_def split: option.splits dest: find_row_Some_iff)
  then obtain y where y: "y \<in> set (roles (st_work s))" "rr_id y = i" ..
  note yf = acquired_role_row [OF role ids y]
  have kd: "admins_kept H (s\<lparr>st_work := d\<rparr>)"
    using admins_work [OF k, of d] ids admin_holders_cong [OF d(2,1)] by (simp add: d(1))
  have w: "admins_kept H (s\<lparr>st_work := d'\<rparr>)" if u: "role_repo_update E k0 x d = Inr (k', d')" for k' d'
  proof -
    note f = role_update_frame [OF u]
    have "\<exists>r' \<in> set (roles d'). rr_id r' = rr_id z \<and> rr_name r' = rr_name z" if "z \<in> set (roles d)" for z
    proof -
      have "(if rr_id z = i then z\<lparr>rr_name := r_name x, rr_description := r_description x\<rparr> else z) \<in> set (roles d')"
        using f x yf that by (simp add: set_update_where)
      moreover have "rr_id z = i \<Longrightarrow> rr_name z = r_name x"
        using acquired_role_row(2) [OF role ids] that d x by simp
      ultimately show ?thesis
        by (intro bexI [of _ "if rr_id z = i then z\<lparr>rr_name := r_name x, rr_description := r_description x\<rparr> else z"])
          (simp_all split: if_splits)
    qed
    then have "admin_holders (st_work s) \<subseteq> admin_holders d'"
      using f d by (intro order_trans [OF _ admin_holders_mono [of d d']]) (auto simp: admin_holders_def)
    moreover have "distinct (map rr_id (roles d'))" using f d ids by (simp add: map_update_where)
    ultimately show ?thesis using k by (intro admins_work)
  qed
  show ?thesis
    using m kd w by (auto simp: save_role_def thn_def bnd_def on_work_draws_def register_role_def register_def
        admins_kept_def split: sum.splits prod.splits)
qed

lemma edited_role_fields [simp]:
  "r_role_id (add_permission p r) = r_role_id r" "r_name (add_permission p r) = r_name r"
  "r_role_id (remove_permission n r) = r_role_id r" "r_name (remove_permission n r) = r_name r"
  by (simp_all add: add_permission_def remove_permission_def Let_def)

lemma admins_remove_permission [pres]: "preserves (admins_kept H) (rbac_remove_permission_from_role E i n)"
  unfolding rbac_remove_permission_from_role_def
proof (rule preserves_require_role)
  fix s role r s' assume k: "admins_kept H s" and role: "role_acquire_by_id i (st_work s) = Inr (Some role)"
    and "save_role E (remove_permission n role) s = (r, s')"
  then show "admins_kept H s'"
    using admins_save [OF k role, of "remove_permission n role" "st_work s" E "st_draw s" r s'] by simp
qed

lemma admins_add_permission [pres]: "preserves (admins_kept H) (rbac_add_permission_to_role E i n)"
  unfolding rbac_add_permission_to_role_def
proof (rule preserves_require_role)
  fix s role r s' assume k: "admins_kept H s" and role: "role_acquire_by_id i (st_work s) = Inr (Some role)"
    and m: "bnd (query (permission_acquire_by_name n)) (\<lambda>found.
       bnd (case found of
            Some p \<Rightarrow> ret p
          | None \<Rightarrow> bnd (lift (Permission n None)) (\<lambda>p. bnd (next_draw 1) (\<lambda>k. thn (on_work (permission_add E k p)) (ret p)))) (\<lambda>permission.
         save_role E (add_permission permission role))) s = (r, s')"
  have save: "admins_kept H s'"
    if "save_role E (add_permission p role) (s\<lparr>st_draw := k0, st_work := d\<rparr>) = (r, s')"
      "roles d = roles (st_work s)" "user_roles d = user_roles (st_work s)" for p d k0
    using admins_save [OF k role _ _ that(2,3,1)] by simp
  show "admins_kept H s'"
  proof (cases "permission_acquire_by_name n (st_work s)")
    case (Inl e)
    with m k show ?thesis by (simp add: bnd_query)
  next
    case (Inr found)
    show ?thesis
    proof (cases found)
      case (Some p)
      with Inr m save [where p = p and d = "st_work s" and ?k0.0 = "st_draw s"] show ?thesis by (simp add: bnd_query)
    next
      case None
      show ?thesis
      proof (cases "Permission n None")
        case (Inl e)
        with None Inr m k show ?thesis by (simp add: bnd_query bnd_def)
      next
        case (Inr p)
        show ?thesis
        proof (cases "permission_add E (st_draw s) p (st_work s)")
          case (Inl e)
          with Inr None \<open>permission_acquire_by_name n (st_work s) = Inr found\<close> m k show ?thesis
            by (auto simp: bnd_def thn_def on_work_def)
        next
          case (Inr d)
          then have "roles d = roles (st_work s)" "user_roles d = user_roles (st_work s)"
            by (auto simp: permission_add_def insert_permission_def split: if_splits)
          with Inr \<open>Permission n None = Inr p\<close> None \<open>permission_acquire_by_name n (st_work s) = Inr found\<close> m
            save [where p = p and d = d and ?k0.0 = "Suc (st_draw s)"] show ?thesis
            by (simp add: bnd_def thn_def on_work_def)
        qed
      qed
    qed
  qed
qed

lemma admins_command [pres]: "preserves (admins_kept H) (run_role_command E now c)"
  by (cases c) (simp_all add: create_role_use_case_def delete_role_use_case_def assign_role_use_case_def
      revoke_role_use_case_def add_permission_use_case_def remove_permission_use_case_def preserves_bnd preserves_thn pres)

lemma admins_request:
  assumes "admins_kept H s"
  shows "admins_kept H (snd (in_request (run_role_command E now c) s))"
proof -
  obtain r s1 where r: "run_role_command E now c (s\<lparr>st_work := st_committed s, st_uow := empty_uow\<rparr>) = (r, s1)" by fastforce
  have "admins_kept H (s\<lparr>st_work := st_committed s, st_uow := empty_uow\<rparr>)" using assms by (simp add: admins_kept_def)
  from preservesD [OF admins_command r this] show ?thesis
    by (simp add: in_request_def r admins_kept_def)
qed

text \<open>C30. Nobody loses the admin role through role management: after any sequence of role requests,
  successful or not, every user who held the role named admin still holds it.\<close>

theorem admins_never_demoted:
  assumes "distinct (map rr_id (roles (st_committed s)))"
  shows "admin_holders (st_committed s) \<subseteq> admin_holders (st_committed (run_role_commands E cs s))"
proof -
  let ?H = "admin_holders (st_committed s)"
  have "admins_kept ?H t \<Longrightarrow> admins_kept ?H (run_role_commands E cs t)" for t
    unfolding run_role_commands_def
    by (induction cs arbitrary: t) (auto simp: admins_request)
  then have "admins_kept ?H (run_role_commands E cs (s\<lparr>st_work := st_committed s\<rparr>))"
    using assms by (simp add: admins_kept_def)
  moreover have "run_role_commands E cs (s\<lparr>st_work := st_committed s\<rparr>) = run_role_commands E cs s \<or> cs = []"
    by (cases cs) (auto simp: run_role_commands_def in_request_def)
  ultimately show ?thesis by (auto simp: admins_kept_def run_role_commands_def)
qed

section \<open>The stored permissions of a role\<close>

lemma ensure_permission_spec:
  "ensure_permission E k p d = Inr (pid, k', d') \<Longrightarrow>
     set (permissions d) \<subseteq> set (permissions d') \<and> (\<exists>q \<in> set (permissions d'). pr_id q = pid \<and> pr_name q = p_name p)"
  by (auto simp: ensure_permission_def permission_add_def insert_permission_def rbind_eq_Inr
      split: option.splits if_splits dest!: find_row_Some_iff)

lemma ensure_permissions_spec:
  "ensure_permissions E k ps d = Inr (pids, k', d') \<Longrightarrow>
     set (permissions d) \<subseteq> set (permissions d') \<and>
     list_all2 (\<lambda>p pid. \<exists>q \<in> set (permissions d'). pr_id q = pid \<and> pr_name q = p_name p) ps pids"
proof (induction ps arbitrary: k d pids k')
  case (Cons p ps)
  then obtain pid k1 d1 pids' where e: "ensure_permission E k p d = Inr (pid, k1, d1)"
    "ensure_permissions E k1 ps d1 = Inr (pids', k', d')" "pids = pid # pids'"
    by (auto simp: rbind_eq_Inr)
  from ensure_permission_spec [OF e(1)] Cons.IH [OF e(2)] e(3) show ?case by auto
qed simp

lemma insert_links_spec:
  "insert_role_permissions i ps d = Inr d' \<Longrightarrow>
     role_permissions d' = role_permissions d @ map (\<lambda>p. \<lparr>rp_role_id = i, rp_permission_id = p\<rparr>) ps"
  by (induction ps arbitrary: d) (fastforce simp: rbind_eq_Inr insert_role_permission_def Let_def split: if_splits)+

lemma desired_names:
  assumes "list_all2 (\<lambda>p pid. \<exists>q \<in> P. pr_id q = pid \<and> pr_name q = p_name p) ps pids" and "inj_on pr_id P"
  shows "pr_name ` {q \<in> P. pr_id q \<in> set pids} = p_name ` set ps"
  using assms(1)
proof (induction ps pids rule: list_all2_induct)
  case (Cons p ps pid pids)
  then obtain q where q: "q \<in> P" "pr_id q = pid" "pr_name q = p_name p" by blast
  have "x \<in> P \<Longrightarrow> pr_id x = pid \<longleftrightarrow> x = q" for x
    using q(1,2) assms(2) by (metis inj_onD)
  then have "{x \<in> P. pr_id x \<in> set (pid # pids)} = insert q {x \<in> P. pr_id x \<in> set pids}"
    using q(1) unfolding list.set by blast
  with Cons.IH q(3) show ?case by simp
qed simp

text \<open>The links after an update: the identifiers of the wanted permissions, and other roles' links.\<close>

lemma role_update_links:
  assumes "role_repo_update E k r d = Inr (k', d')"
  obtains ids where "set (permissions d) \<subseteq> set (permissions d')"
    "list_all2 (\<lambda>p pid. \<exists>q \<in> set (permissions d'). pr_id q = pid \<and> pr_name q = p_name p) (r_permissions r) ids"
    "set (role_permissions d') =
      {x \<in> set (role_permissions d). rp_role_id x = r_role_id r \<longrightarrow> rp_permission_id x \<in> set ids} \<union>
      (\<lambda>p. \<lparr>rp_role_id = r_role_id r, rp_permission_id = p\<rparr>) ` set ids"
proof -
  let ?i = "r_role_id r"
  let ?d0 = "d\<lparr>roles := update_where (\<lambda>x. rr_id x = ?i) (\<lambda>x. x\<lparr>rr_name := r_name r, rr_description := r_description r\<rparr>) (roles d)\<rparr>"
  let ?cur = "role_permission_ids ?i d"
  have cur0: "role_permission_ids ?i ?d0 = ?cur" by (simp add: role_permission_ids_def)
  obtain ids d1 where e: "ensure_permissions E k (r_permissions r) ?d0 = Inr (ids, k', d1)"
    and ins: "insert_role_permissions ?i (filter (\<lambda>p. p \<notin> set ?cur) (remdups ids))
       (d1\<lparr>role_permissions := delete_where (\<lambda>x. rp_role_id x = ?i \<and> rp_permission_id x \<in> set ?cur - set ids) (role_permissions d1)\<rparr>) = Inr d'"
    using assms unfolding role_repo_update_def Let_def cur0 by (auto simp: rbind_eq_Inr split: if_splits)
  note fe = ensure_all_frame [OF e] and se = ensure_permissions_spec [OF e] and fi = insert_links_frame [OF ins]
  have cur: "x \<in> set (role_permissions d) \<Longrightarrow> rp_role_id x = ?i \<Longrightarrow> rp_permission_id x \<in> set ?cur" for x
    by (auto simp: role_permission_ids_def)
  have "p \<in> set ?cur \<Longrightarrow> \<lparr>rp_role_id = ?i, rp_permission_id = p\<rparr> \<in> set (role_permissions d)" for p
    by (auto simp: role_permission_ids_def) (metis (full_types) old.unit.exhaust role_permission_row.surjective)
  then have "set (role_permissions d') =
      {x \<in> set (role_permissions d). rp_role_id x = ?i \<longrightarrow> rp_permission_id x \<in> set ids} \<union>
      (\<lambda>p. \<lparr>rp_role_id = ?i, rp_permission_id = p\<rparr>) ` set ids"
    using fe cur by (auto simp: insert_links_spec [OF ins] set_delete_where)
  with that [of ids] se fi show thesis by simp
qed

lemma role_update_own:
  assumes "db_ok d" and "role_repo_update E k r d = Inr (k', d')"
  shows "pr_name ` set (role_permission_rows (r_role_id r) d') = perm_names r"
proof -
  obtain ids where ids: "list_all2 (\<lambda>p pid. \<exists>q \<in> set (permissions d'). pr_id q = pid \<and> pr_name q = p_name p) (r_permissions r) ids"
    and links: "set (role_permissions d') =
      {x \<in> set (role_permissions d). rp_role_id x = r_role_id r \<longrightarrow> rp_permission_id x \<in> set ids} \<union>
      (\<lambda>p. \<lparr>rp_role_id = r_role_id r, rp_permission_id = p\<rparr>) ` set ids"
    by (rule role_update_links [OF assms(2)])
  have inj: "inj_on pr_id (set (permissions d'))"
    using role_repo_update_ok [OF assms] by (auto simp: db_ok_def rbac_ok_def distinct_map)
  have "set (role_permission_rows (r_role_id r) d') = {q \<in> set (permissions d'). pr_id q \<in> set ids}"
    unfolding set_role_permission_rows links by (auto simp: bex_Un)
  then show ?thesis using desired_names [OF ids inj] by (simp add: perm_names_def)
qed

lemma role_update_others:
  assumes "db_ok d" and "role_repo_update E k r d = Inr (k', d')" and "j \<noteq> r_role_id r"
  shows "set (role_permission_rows j d') = set (role_permission_rows j d)"
proof -
  obtain ids where sub: "set (permissions d) \<subseteq> set (permissions d')"
    and links: "set (role_permissions d') =
      {x \<in> set (role_permissions d). rp_role_id x = r_role_id r \<longrightarrow> rp_permission_id x \<in> set ids} \<union>
      (\<lambda>p. \<lparr>rp_role_id = r_role_id r, rp_permission_id = p\<rparr>) ` set ids"
    by (rule role_update_links [OF assms(2)])
  have inj: "inj_on pr_id (set (permissions d'))"
    using role_repo_update_ok [OF assms(1,2)] by (auto simp: db_ok_def rbac_ok_def distinct_map)
  have "q \<in> set (permissions d)" if "q \<in> set (permissions d')" "x \<in> set (role_permissions d)" "rp_permission_id x = pr_id q" for q x
  proof -
    have "has_permission_row (pr_id q) d" using assms(1) that by (auto simp: db_ok_def rbac_ok_def list_all_iff)
    then obtain q' where "q' \<in> set (permissions d)" "pr_id q' = pr_id q" by (auto simp: has_permission_row_iff)
    with sub inj that show ?thesis by (auto simp: inj_on_def)
  qed
  with sub assms(3) show ?thesis unfolding set_role_permission_rows links by fastforce
qed

text \<open>Writing a role back stores exactly its permissions: the update, which compares the stored
  links with the wanted ones and deletes and inserts the difference, creating permissions that do
  not exist yet, leaves the role linked to the wanted names and to nothing else, and leaves the
  permissions of every other role as they were.\<close>

theorem role_permissions_stored:
  assumes "db_ok d" and "role_repo_update E k r d = Inr (k', d')"
  shows "pr_name ` set (role_permission_rows (r_role_id r) d') = perm_names r \<and>
         (\<forall>j. j \<noteq> r_role_id r \<longrightarrow> set (role_permission_rows j d') = set (role_permission_rows j d))"
  using role_update_own [OF assms] role_update_others [OF assms] by blast

theorem role_permissions_stored_witness:
  "\<exists>k' d'. role_repo_update sample_env 0 \<lparr>r_role_id = 5, r_name = ''ops'', r_description = None,
       r_permissions = [\<lparr>p_name = ''yz'', p_description = None\<rparr>], r_events = []\<rparr> rbac_sample = Inr (k', d') \<and>
     pr_name ` set (role_permission_rows 5 d') = {''yz''}"
proof -
  let ?r = "\<lparr>r_role_id = 5, r_name = ''ops'', r_description = None, r_permissions = [\<lparr>p_name = ''yz'', p_description = None\<rparr>], r_events = []\<rparr>"
  have "\<exists>k' d'. role_repo_update sample_env 0 ?r rbac_sample = Inr (k', d')"
    by (simp add: role_repo_update_def rbac_sample_def Let_def has_role_def ensure_permission_def permission_add_def
        insert_permission_def role_permission_ids_def insert_role_permission_def has_permission_row_def table_simps update_where_def delete_where_def)
  then obtain k' d' where u: "role_repo_update sample_env 0 ?r rbac_sample = Inr (k', d')" by blast
  with role_permissions_stored [OF rbac_sample_ok u] show ?thesis by (simp add: perm_names_def)
qed

theorem admins_never_demoted_witness:
  "admin_holders (st_committed (run_role_commands sample_env [(0, DeleteRole 5), (1, RevokeRoleFrom 1 5)]
     (demo_st\<lparr>st_committed := rbac_sample\<lparr>roles := [\<lparr>rr_id = 5, rr_name = ''admin'', rr_description = None\<rparr>]\<rparr>\<rparr>))) \<noteq> {}"
proof -
  let ?s = "demo_st\<lparr>st_committed := rbac_sample\<lparr>roles := [\<lparr>rr_id = 5, rr_name = ''admin'', rr_description = None\<rparr>]\<rparr>\<rparr>"
  have "1 \<in> admin_holders (st_committed ?s)" by (auto simp: admin_holders_def rbac_sample_def DEFAULT_ROLE_ADMIN_def)
  then show ?thesis using admins_never_demoted [of ?s sample_env "[(0, DeleteRole 5), (1, RevokeRoleFrom 1 5)]"] by auto
qed

definition demo_role_db :: db where
  "demo_role_db = demo_db\<lparr>permissions := [\<lparr>pr_id = 8, pr_name = ''users:read'', pr_description = None\<rparr>],
     roles := [\<lparr>rr_id = 9, rr_name = ''ops'', rr_description = None\<rparr>],
     role_permissions := [\<lparr>rp_role_id = 9, rp_permission_id = 8\<rparr>]\<rparr>"

section \<open>Assigning a role\<close>

text \<open>The assignment the service writes, and the event that waits for the commit.\<close>

lemma assign_role_service:
  assumes usr: "user_acquire_by_id E u (st_work s) = Inr (Some usr)"
    and role: "role_acquire_by_id i (st_work s) = Inr (Some role)"
    and new: "user_role_acquire u i (st_work s) = Inr None"
    and b: "pred_option (\<lambda>b. has_user b (st_work s)) b"
    and w: "st_uow s = empty_uow"
  shows "\<exists>w. rbac_assign_role E now u i b s = (Inr (assign_role i b usr), s\<lparr>st_work := (st_work s)\<lparr>user_roles := user_roles (st_work s) @
         [\<lparr>urr_user_id = u, urr_role_id = i, urr_assigned_at = now, urr_assigned_by = b\<rparr>]\<rparr>, st_uow := w\<rparr>) \<and>
     waiting w = [UserRoleAssignedEvent u i b] \<and> has_user u (st_work s)"
proof -
  let ?d = "st_work s" and ?a = "\<lparr>urr_user_id = u, urr_role_id = i, urr_assigned_at = now, urr_assigned_by = b\<rparr>"
  obtain r where r: "r \<in> set (users ?d)" "row_to_user E r = Inr usr"
    using usr unfolding user_acquire_by_id_def load_user_def
    by (auto simp: rbind_eq_Inr split: option.splits dest!: find_row_Some_iff)
  have uid: "u_id usr = u" by (rule acquire_by_id_id [OF usr])
  note e = row_to_user_fields [OF r(2)]
  have hu: "has_user u ?d" using r(1) e uid by (auto simp: has_user_iff)
  have hr: "has_role i ?d" using role
    by (auto simp: role_acquire_by_id_def has_role_iff split: option.splits dest: find_row_Some_iff)
  have no: "(u, i) \<notin> (\<lambda>r. (urr_user_id r, urr_role_id r)) ` set (user_roles ?d)"
    using new by (auto simp: user_role_acquire_def rbind_eq_Inr find_row_None_iff split: option.splits)
  have add: "user_role_add \<lparr>ur_user_id = u, ur_role_id = i, ur_assigned_at = now, ur_assigned_by = b\<rparr> ?d =
      Inr (?d\<lparr>user_roles := user_roles ?d @ [?a]\<rparr>)"
    using no hu hr b by (cases b) (auto simp: user_role_add_Inr)
  have evs: "u_events (assign_role i b usr) = [UserRoleAssignedEvent u i b]" "u_id (assign_role i b usr) = u"
    using e uid by (simp_all add: assign_role_def record_event_def)
  show ?thesis
    using usr role new add evs w hu
    by (intro exI [of _ "sql_register \<lparr>ag_ref = 0, ag_identity = (''User'', u), ag_events = [UserRoleAssignedEvent u i b]\<rparr> empty_uow"])
      (simp add: rbac_assign_role_def rbac_require_user_def rbac_require_role_def bnd_def thn_def on_work_def register_user_def
        register_def Let_def waiting_eq sql_register_def empty_uow_def)
qed

text \<open>Assigning a role takes effect: the request succeeds, afterwards the user holds exactly the
  permissions held before and those of the role, and no other user's permissions change.\<close>

theorem assign_role_grants:
  assumes ok: "db_ok (st_committed s)" and ids: "u \<noteq> NIL_UUID" "i \<noteq> NIL_UUID"
    and usr: "user_acquire_by_id E u (st_committed s) = Inr (Some usr)"
    and role: "role_acquire_by_id i (st_committed s) = Inr (Some role)"
    and new: "user_role_acquire u i (st_committed s) = Inr None"
    and b: "pred_option (\<lambda>b. b \<noteq> NIL_UUID \<and> has_user b (st_committed s)) b"
    and fresh: "fresh_ids E 2 (s\<lparr>st_work := st_committed s\<rparr>)"
  shows "\<exists>s'. in_request (assign_role_use_case E now u i b) s = (Inr (), s') \<and>
     (\<forall>n. grants (st_committed s') u n \<longleftrightarrow> grants (st_committed s) u n \<or> n \<in> perm_names role) \<and>
     (\<forall>v n. v \<noteq> u \<longrightarrow> grants (st_committed s') v n = grants (st_committed s) v n)"
proof -
  let ?s = "s\<lparr>st_work := st_committed s, st_uow := empty_uow\<rparr>" and ?d = "st_committed s"
  let ?a = "\<lparr>urr_user_id = u, urr_role_id = i, urr_assigned_at = now, urr_assigned_by = b\<rparr>"
  let ?d1 = "?d\<lparr>user_roles := user_roles ?d @ [?a]\<rparr>" and ?ev = "UserRoleAssignedEvent u i b"
  have b': "pred_option (\<lambda>b. has_user b ?d) b" using b by (cases b) auto
  obtain w where svc: "rbac_assign_role E now u i b ?s = (Inr (assign_role i b usr), ?s\<lparr>st_work := ?d1, st_uow := w\<rparr>)"
    and hu: "has_user u ?d" and w: "waiting w = [?ev]"
    using assign_role_service [of E u ?s usr i role b now] usr role new b' by auto
  let ?s1 = "?s\<lparr>st_work := ?d1, st_uow := w\<rparr>"
  have bo: "(case b of None \<Rightarrow> Inr None | Some b \<Rightarrow> rbind (UserID b) (\<lambda>b. Inr (Some b))) = (Inr b :: app_error + _)"
    using b by (cases b) (auto simp: UserID_def)
  have "fresh_ids E (2 * length (waiting (st_uow ?s1))) ?s1"
    using fresh_ids_later [of E 0 2 "s\<lparr>st_work := st_committed s\<rparr>" ?s1] fresh w by (simp add: numeral_2_eq_2)
  moreover have "list_all (\<lambda>e. pred_option (\<lambda>u. has_user u (st_work ?s1)) (event_user e)) (waiting (st_uow ?s1))"
    using w hu by simp
  ultimately obtain k where c: "commit E now ?s1 = (Inr (), ?s1\<lparr>st_committed := with_events E (st_draw ?s1) now [?ev] (st_work ?s1),
      st_work := with_events E (st_draw ?s1) now [?ev] (st_work ?s1), st_uow := empty_uow, st_draw := k\<rparr>)"
    using commit_succeeds [of E ?s1 now] w by auto
  let ?e = "with_events E (st_draw ?s1) now [?ev] (st_work ?s1)"
  let ?s' = "?s1\<lparr>st_committed := ?e, st_work := ?e, st_uow := empty_uow, st_draw := k\<rparr>"
  have run: "in_request (assign_role_use_case E now u i b) s = (Inr (), ?s')"
    using ids c svc
    by (simp add: in_request_def assign_role_use_case_def UserID_def RoleID_def bnd_lift bo thn_def bnd_def [of "rbac_assign_role _ _ _ _ _"] case_prod_unfold)
  have t: "user_roles (st_committed ?s') = user_roles ?d @ [?a]" "role_permission_rows j (st_committed ?s') = role_permission_rows j ?d" for j
    by (simp_all add: role_permission_rows_def)
  have "grants (st_committed ?s') v n \<longleftrightarrow> grants ?d v n \<or> (v = u \<and> n \<in> perm_names role)" for v n
    unfolding grants_iff t role_acquired_names [OF role] by auto
  with run show ?thesis by (intro exI [of _ ?s']) auto
qed

theorem assign_role_grants_witness:
  "\<exists>s'. in_request (assign_role_use_case sample_env 5 7 9 None) (demo_st\<lparr>st_committed := demo_role_db\<rparr>) = (Inr (), s') \<and>
     grants (st_committed s') 7 ''users:read''"
proof -
  let ?s = "demo_st\<lparr>st_committed := demo_role_db\<rparr>"
  let ?role = "\<lparr>r_role_id = 9, r_name = ''ops'', r_description = None, r_permissions = [\<lparr>p_name = ''users:read'', p_description = None\<rparr>], r_events = []\<rparr>"
  have usr: "user_acquire_by_id sample_env 7 (st_committed ?s) = Inr (Some demo_user)"
    using demo_acquire(2) by (simp add: user_acquire_by_id_def demo_role_db_def)
  have ok: "db_ok (st_committed ?s)"
    by (simp add: demo_role_db_def demo_db_def empty_db_def db_ok_def users_ok_def sessions_ok_def rbac_ok_def
      logs_ok_def some_values_Cons has_user_def has_session_def has_role_def has_permission_row_def split: option.splits)
  have v: "RoleName ''ops'' = Inr ''ops''" "Permission ''users:read'' None = Inr \<lparr>p_name = ''users:read'', p_description = None\<rparr>"
    by code_simp+
  have role: "role_acquire_by_id 9 (st_committed ?s) = Inr (Some ?role)"
    using v by (simp add: demo_role_db_def role_acquire_by_id_def table_simps role_from_row_def get_role_permissions_def
        role_permission_rows_def permission_from_row_def RoleID_def NIL_UUID_def)
  have new: "user_role_acquire 7 9 (st_committed ?s) = Inr None"
    by (simp add: user_role_acquire_def demo_role_db_def demo_db_def empty_db_def)
  have fresh: "fresh_ids sample_env 2 (?s\<lparr>st_work := st_committed ?s\<rparr>)"
    by (simp add: fresh_ids_def demo_st_def demo_role_db_def demo_db_def empty_db_def upt_rec)
  have "(7::uuid) \<noteq> NIL_UUID" "(9::uuid) \<noteq> NIL_UUID" by (simp_all add: NIL_UUID_def)
  from assign_role_grants [OF ok this usr role new _ fresh, of None 5]
  show ?thesis by (auto simp: perm_names_def)
qed

end
