(* ===== verification/Login.thy ===== *)
theory Login
  imports Use_Cases
begin

text \<open>
  What the two steps of a login give away: the password step (LoginUseCase) and the second factor
  (CompleteTwoFactorUseCase), each run inside a request on an arbitrary state.
\<close>

section \<open>Login\<close>

definition login_lookup :: "env \<Rightarrow> login_input \<Rightarrow> db \<Rightarrow> app_error + user option" where
  "login_lookup E data d =
     (if truthy (li_username data)
      then rbind (Username (the (li_username data))) (\<lambda>n. user_acquire_by_username E n d)
      else if truthy (li_email data) then rbind (Email (li_email data)) (\<lambda>m. user_acquire_by_email E m d)
      else Inr None)"

lemma find_login_user_run:
  "find_login_user E (li_username data) (li_email data) s = (login_lookup E data (st_work s), s)"
  by (auto simp: find_login_user_def login_lookup_def bnd_def split: sum.splits)

lemma authenticate_session:
  assumes "svc_authenticate E now p (li_username data) (li_email data) (Some di) s = (Inr (Some u', Some (x, raw)), s')"
    and "uow_ok s"
  shows "\<exists>u k d w. login_lookup E data (st_work s) = Inr (Some u) \<and> \<not> user_is_locked u now \<and> \<not> is_deleted u \<and>
     bcrypt_checkpw E p (u_hashed_password u) \<and>
     user_update E (record_successful_login u) (st_work s) = Inr (u', d) \<and>
     (x, raw) = build_session E k now u' di \<and>
     s' = s\<lparr>st_work := d, st_uow := w, st_draw := k + 3\<rparr>"
proof -
  from assms(1) obtain u s1 where u: "login_lookup E data (st_work s) = Inr (Some u)"
    "\<not> user_is_locked u now" "\<not> is_deleted u" "bcrypt_checkpw E p (u_hashed_password u)"
    and sv: "save_user E (record_successful_login u) s = (Inr u', s1)"
    and x: "(x, raw) = build_session E (st_draw s1) now u' di" "s' = s1\<lparr>st_draw := st_draw s1 + 3\<rparr>"
    by (auto simp: svc_authenticate_def find_login_user_run bnd_eq_Inr split: if_splits option.splits)
  from save_user_Inr [OF assms(2) sv] obtain d w where
    d: "user_update E (record_successful_login u) (st_work s) = Inr (u', d)"
    "s1 = s\<lparr>st_work := d, st_uow := w\<rparr>" by blast
  show ?thesis
    using u d x by (intro exI [of _ u] exI [of _ "st_draw s1"] exI [of _ d] exI [of _ w]) simp
qed

lemma guard_pres [pres]: "(\<And>s l. P s \<Longrightarrow> P (s\<lparr>st_rate := l\<rparr>)) \<Longrightarrow> (\<And>s l. P s \<Longrightarrow> P (s\<lparr>st_metrics := l\<rparr>)) \<Longrightarrow>
  preserves P (login_guard cfg now key)"
  unfolding login_guard_def metric_def
  by (intro pres preserves_modify; simp add: preserves_def rate_limiter_check_def case_prod_unfold Let_def)

definition untouched :: "db \<Rightarrow> st \<Rightarrow> bool" where
  "untouched d s = (st_work s = d \<and> st_committed s = d \<and> st_uow s = empty_uow)"

lemma guard_untouched: "preserves (untouched d) (login_guard cfg now key)"
  by (intro pres) (simp_all add: untouched_def)

lemma frame_login_parts [pres]:
  "preserves (session_frame S) (note_failed_login cfg now key)"
  "preserves (session_frame S) (clear_failed_logins key)"
  "preserves (session_frame S) (login_rejected E now u)"
  "preserves (session_frame S) (login_challenged E now data di u)"
  unfolding note_failed_login_def clear_failed_logins_def login_rejected_def login_challenged_def
  by (intro pres preserves_modify; simp add: session_frame_def)+


lemma login_succeeded_Inl:
  "login_succeeded E now u x t s = (Inl e, s') \<Longrightarrow> st_committed s' = st_committed s"
proof -
  assume "login_succeeded E now u x t s = (Inl e, s')"
  then consider "svc_persist_session x s = (Inl e, s')"
    | s1 where "svc_persist_session x s = (Inr (), s1)" "commit E now s1 = (Inl e, s')"
    by (auto simp: login_succeeded_def thn_eq_Inl metric_def)
  then show ?thesis
    using preservesD [OF committed_save(3), of x s _ _ "st_committed s"]
    by cases (auto simp: committed_is_def dest: commit_Inl)
qed

lemma login_succeeded_Inr:
  assumes "login_succeeded E now u x t s = (Inr out, s')"
  shows "session_added x (st_work s) (st_committed s') \<and>
    out = \<lparr>lo_user_id = u_id u, lo_session_id = Some (uuid_str (s_session_id x)),
             lo_refresh_token = Some t, lo_requires_two_factor = False, lo_challenge_token = None\<rparr>"
proof -
  from assms obtain s1 s2 where p: "svc_persist_session x s = (Inr (), s1)" and c: "commit E now s1 = (Inr (), s2)"
    and s': "st_committed s' = st_committed s2" and out: "out = \<lparr>lo_user_id = u_id u, lo_session_id = Some (uuid_str (s_session_id x)),
             lo_refresh_token = Some t, lo_requires_two_factor = False, lo_challenge_token = None\<rparr>"
    by (auto simp: login_succeeded_def thn_eq_Inr metric_def)
  from persist_Inr [OF p] obtain d w where d: "session_add x (st_work s) = Inr d" "s1 = s\<lparr>st_work := d, st_uow := w\<rparr>"
    by blast
  show ?thesis using commit_Inr [OF c] session_add_Inr(1) [OF d(1)] s' out
    by (auto simp: d(2) session_added_def)
qed

lemma login_challenged_Inr:
  "login_challenged E now data di u s = (Inr out, s') \<Longrightarrow>
     lo_user_id out = u_id u \<and> lo_session_id out = None \<and> lo_refresh_token out = None \<and> lo_requires_two_factor out"
  by (auto simp: login_challenged_def thn_eq_Inr bnd_eq_Inr metric_def)

lemma refuses_succeeded [refusing]: "refuses S (login_succeeded E now u x t)"
  by (auto simp: refuses_def session_frame_def dest: login_succeeded_Inl)

lemma refuses_login: "refuses S (login E cfg now data)"
proof -
  have g: "preserves (session_frame S) (login_guard cfg now k)" for k
    by (intro pres) (simp_all add: session_frame_def)
  show ?thesis unfolding login_def by (intro refusing g pres refuses_preserves)
qed

lemma login_rejected_raises: "login_rejected E now u s \<noteq> (Inr x, s')"
  by (auto simp: login_rejected_def thn_eq_Inr metric_def split: if_splits)

lemma login_Inr:
  assumes "login E cfg now data s = (Inr out, s')"
  obtains s1 p di u x t s2 s3 where "login_guard cfg now (attempt_key data) s = (Inr (), s1)"
      "PlainPassword E (li_password data) = Inr p"
      "svc_authenticate E now p (li_username data) (li_email data) (Some di) s1 = (Inr (Some u, Some (x, t)), s2)"
      "clear_failed_logins (attempt_key data) s2 = (Inr (), s3)"
      "(if has_two_factor u then login_challenged E now data di u else login_succeeded E now u x t) s3 = (Inr out, s')"
proof -
  from assms obtain s1 p r s2 where g: "login_guard cfg now (attempt_key data) s = (Inr (), s1)"
    "PlainPassword E (li_password data) = Inr p"
    "svc_authenticate E now p (li_username data) (li_email data)
       (Some (DeviceInfo (li_user_agent data) (li_ip_address data))) s1 = (Inr r, s2)"
    and c: "(case r of
           (None, _) \<Rightarrow>
             thn (note_failed_login cfg now (attempt_key data))
             (thn (metric ''login_attempt'' ''unknown_user'') (throw (InvalidCredentialsError None)))
         | (Some u, None) \<Rightarrow> thn (note_failed_login cfg now (attempt_key data)) (login_rejected E now u)
         | (Some u, Some (sess, refresh_token)) \<Rightarrow>
             thn (clear_failed_logins (attempt_key data))
               (if has_two_factor u then login_challenged E now data (DeviceInfo (li_user_agent data) (li_ip_address data)) u
                else login_succeeded E now u sess refresh_token)) s2 = (Inr out, s')"
    unfolding login_def Let_def by (auto simp: thn_eq_Inr bnd_eq_Inr)
  from c obtain u x t s3 where "r = (Some u, Some (x, t))" "clear_failed_logins (attempt_key data) s2 = (Inr (), s3)"
    "(if has_two_factor u then login_challenged E now data (DeviceInfo (li_user_agent data) (li_ip_address data)) u
      else login_succeeded E now u x t) s3 = (Inr out, s')"
    by (auto simp: thn_eq_Inr login_rejected_raises split: prod.splits option.splits)
  with g that show thesis by blast
qed

text \<open>What is known when the password step, begun on a database, answers.\<close>

lemma login_answered:
  assumes l: "login E cfg now data (s\<lparr>st_work := st_committed s, st_uow := empty_uow\<rparr>) = (Inr out, s1)"
  shows "\<exists>u. login_lookup E data (st_committed s) = Inr (Some u) \<and> \<not> user_is_locked u now \<and>
     \<not> is_deleted u \<and> bcrypt_checkpw E (li_password data) (u_hashed_password u) \<and>
     lo_user_id out = u_id u \<and> lo_requires_two_factor out = has_two_factor u \<and>
     (if has_two_factor u
      then lo_session_id out = None \<and> lo_refresh_token out = None \<and>
           session_tables (st_committed s1) = session_tables (st_committed s)
      else (\<exists>x t. lo_session_id out = Some (uuid_str (s_session_id x)) \<and> s_user_id x = u_id u \<and>
              lo_refresh_token out = Some t \<and> map rt_token_hash (s_refresh_tokens x) = [from_raw E t] \<and>
              session_added x (st_committed s) (st_committed s1)))"
proof -
  let ?d = "st_committed s" and ?S = "session_tables (st_committed s)"
  let ?s = "s\<lparr>st_work := ?d, st_uow := empty_uow\<rparr>"
  have fr: "untouched ?d t \<Longrightarrow> session_frame ?S t" for t by (simp add: untouched_def session_frame_def)
  have u0: "untouched ?d ?s" by (simp add: untouched_def)
  from login_Inr [OF l] obtain s2 p di u x t s3 s4 where
    g: "login_guard cfg now (attempt_key data) ?s = (Inr (), s2)" "PlainPassword E (li_password data) = Inr p"
    "svc_authenticate E now p (li_username data) (li_email data) (Some di) s2 = (Inr (Some u, Some (x, t)), s3)"
    "clear_failed_logins (attempt_key data) s3 = (Inr (), s4)"
    "(if has_two_factor u then login_challenged E now data di u else login_succeeded E now u x t) s4 = (Inr out, s1)" .
  have u2: "untouched ?d s2" by (rule preservesD [OF guard_untouched g(1) u0])
  have f3: "session_frame ?S s3" by (rule preservesD [OF frame_authenticate g(3) fr [OF u2]])
  have f4: "session_frame ?S s4" by (rule preservesD [OF frame_login_parts(2) g(4) f3])
  have uow: "uow_ok s2" using u2 by (simp add: untouched_def uow_ok_def)
  from authenticate_session [OF g(3) uow] obtain u0 k d w where
    a: "login_lookup E data ?d = Inr (Some u0)" "\<not> user_is_locked u0 now" "\<not> is_deleted u0"
    "bcrypt_checkpw E p (u_hashed_password u0)" "user_update E (record_successful_login u0) ?d = Inr (u, d)"
    "(x, t) = build_session E k now u di"
    using u2 by (auto simp: untouched_def)
  have u: "u_id u = u_id u0" "has_two_factor u = has_two_factor u0"
    using user_update_result [OF a(5)] by (simp_all add: record_successful_login_def has_two_factor_def)
  have p: "p = li_password data" using g(2) by (rule PlainPassword_value)
  have x: "s_user_id x = u_id u" "map rt_token_hash (s_refresh_tokens x) = [from_raw E t]"
    using a(6) by (auto simp: build_session_def Let_def session_create_def add_refresh_token_def)
  show ?thesis
  proof (cases "has_two_factor u")
    case True
    with g(5) have c: "login_challenged E now data di u s4 = (Inr out, s1)" by simp
    have "session_frame ?S s1" by (rule preservesD [OF frame_login_parts(4) c f4])
    with True a p u login_challenged_Inr [OF c] show ?thesis
      by (simp add: session_frame_def)
  next
    case False
    with g(5) have c: "login_succeeded E now u x t s4 = (Inr out, s1)" by simp
    from login_succeeded_Inr [OF c] have
      o: "session_added x (st_work s4) (st_committed s1)" "lo_user_id out = u_id u"
      "lo_session_id out = Some (uuid_str (s_session_id x))" "lo_refresh_token out = Some t"
      "\<not> lo_requires_two_factor out" by auto
    have "session_added x ?d (st_committed s1)"
      using o(1) f4 by (simp add: session_added_def session_frame_def session_tables_def)
    then have "\<exists>x t. lo_session_id out = Some (uuid_str (s_session_id x)) \<and> s_user_id x = u_id u0 \<and>
        lo_refresh_token out = Some t \<and> map rt_token_hash (s_refresh_tokens x) = [from_raw E t] \<and>
        session_added x ?d (st_committed s1)"
      using o u x by (intro exI [of _ x] exI [of _ t]) simp
    then show ?thesis using o a p u False by simp
  qed
qed

text \<open>C4. The password step of the login gives away nothing it should not. Whenever it answers, the
  account exists, is neither locked nor deleted, and the password matches the stored hash. If the
  account has a second factor the answer carries neither session nor refresh token and no session
  or token row is written; otherwise exactly one session of that account is written, with one
  refresh token, the one handed out. If it raises, the committed sessions and tokens are unchanged.\<close>

theorem login_outcome:
  "let (r, s') = in_request (login E cfg now data) s in
   case r of
     Inl e \<Rightarrow> session_tables (st_committed s') = session_tables (st_committed s)
   | Inr out \<Rightarrow>
       (\<exists>u. login_lookup E data (st_committed s) = Inr (Some u) \<and> \<not> user_is_locked u now \<and>
          \<not> is_deleted u \<and> bcrypt_checkpw E (li_password data) (u_hashed_password u) \<and>
          lo_user_id out = u_id u \<and> lo_requires_two_factor out = has_two_factor u \<and>
          (if has_two_factor u
           then lo_session_id out = None \<and> lo_refresh_token out = None \<and>
                session_tables (st_committed s') = session_tables (st_committed s)
           else (\<exists>x t. lo_session_id out = Some (uuid_str (s_session_id x)) \<and> s_user_id x = u_id u \<and>
                   lo_refresh_token out = Some t \<and> map rt_token_hash (s_refresh_tokens x) = [from_raw E t] \<and>
                   session_added x (st_committed s) (st_committed s'))))"
proof -
  let ?d = "st_committed s" and ?s = "s\<lparr>st_work := st_committed s, st_uow := empty_uow\<rparr>"
  obtain r s1 where l: "login E cfg now data ?s = (r, s1)" by fastforce
  obtain s' where goal: "in_request (login E cfg now data) s = (r, s')" and s': "st_committed s' = st_committed s1" "st_cache s' = st_cache s1"
    by (simp add: in_request_def l)
  show ?thesis
  proof (cases r)
    case (Inl e)
    have "session_frame (session_tables ?d) ?s" by (simp add: session_frame_def)
    from refusesD [OF refuses_login this l [unfolded Inl]] show ?thesis by (simp add: goal Inl s')
  next
    case (Inr out)
    show ?thesis unfolding goal Inr Let_def prod.case sum.case s' by (rule login_answered [OF l [unfolded Inr]])
  qed
qed

section \<open>The second factor\<close>

lemma read_success_keeps:
  assumes "challenge_read InMemoryCache E t0 token c = (Inr ch, c1)" and "t0 \<le> t"
  shows "visible InMemoryCache t k c1 = visible InMemoryCache t k c"
  using assms mem.get_keeps [OF assms(2), of k "CACHE_PREFIX @ token" c]
  by (auto simp: challenge_read_def Let_def split: prod.splits option.splits)

lemma start_session_Inr:
  assumes "svc_start_session E now u di s = (Inr (x, t), s')"
  shows "\<exists>d w k. session_add x (st_work s) = Inr d \<and> s_user_id x = u_id u \<and>
     map rt_token_hash (s_refresh_tokens x) = [from_raw E t] \<and>
     s' = s\<lparr>st_work := d, st_uow := w, st_draw := k\<rparr>"
proof -
  let ?s = "s\<lparr>st_draw := st_draw s + 3\<rparr>"
  from assms have b: "build_session E (st_draw s) now u di = (x, t)" and p: "svc_persist_session x ?s = (Inr (), s')"
    by (auto simp: svc_start_session_def thn_eq_Inr split: prod.splits)
  from persist_Inr [OF p] obtain d w where "session_add x (st_work s) = Inr d" "s' = ?s\<lparr>st_work := d, st_uow := w\<rparr>"
    by auto
  with b show ?thesis
    by (intro exI [of _ d] exI [of _ w] exI [of _ "st_draw s + 3"])
      (auto simp: build_session_def Let_def session_create_def add_refresh_token_def)
qed

lemma accepted_Inr:
  assumes "second_factor_accepted E now token code ch u s = (Inr out, s')"
  shows "\<exists>x. session_added x (st_work s) (st_committed s') \<and> s_user_id x = u_id u \<and> users (st_committed s') = users (st_work s) \<and>
     map rt_token_hash (s_refresh_tokens x) = [from_raw E (co_refresh_token out)] \<and>
     co_user_id out = u_id u \<and> co_session_id out = uuid_str (s_session_id x) \<and> co_login_challenge out = ch_login_challenge ch \<and>
     st_cache s' = challenge_discard InMemoryCache token (remember InMemoryCache E now (ch_user_id ch) code (st_cache s))"
proof -
  let ?c = "challenge_discard InMemoryCache token (remember InMemoryCache E now (ch_user_id ch) code (st_cache s))"
  from assms obtain x t s1 s2 where st: "svc_start_session E now u (ch_device_info ch) (s\<lparr>st_cache := ?c\<rparr>) = (Inr (x, t), s1)"
    and c: "commit E now s1 = (Inr (), s2)" and o: "s' = s2"
    "out = \<lparr>co_user_id = u_id u, co_session_id = uuid_str (s_session_id x),
              co_refresh_token = t, co_login_challenge = ch_login_challenge ch\<rparr>"
    by (auto simp: second_factor_accepted_def thn_eq_Inr bnd_eq_Inr on_cache_def)
  from start_session_Inr [OF st] obtain d w k where
    d: "session_add x (st_work s) = Inr d" "s_user_id x = u_id u" "map rt_token_hash (s_refresh_tokens x) = [from_raw E t]"
    "s1 = s\<lparr>st_cache := ?c, st_work := d, st_uow := w, st_draw := k\<rparr>" by auto
  from commit_Inr [OF c] obtain es m where
    s2: "s2 = s1\<lparr>st_committed := with_events E (st_draw s1) now es (st_work s1),
     st_work := with_events E (st_draw s1) now es (st_work s1), st_uow := empty_uow, st_draw := m\<rparr>" by blast
  show ?thesis
    using session_add_Inr [OF d(1)] d(2,3)
    by (intro exI [of _ x]) (simp add: o s2 d(4) session_added_def)
qed

lemma accepted_Inl:
  "second_factor_accepted E now token code ch u s = (Inl e, s') \<Longrightarrow> st_committed s' = st_committed s"
proof -
  assume a: "second_factor_accepted E now token code ch u s = (Inl e, s')"
  let ?c = "challenge_discard InMemoryCache token (remember InMemoryCache E now (ch_user_id ch) code (st_cache s))"
  let ?s = "s\<lparr>st_cache := ?c\<rparr>" and ?m = "svc_start_session E now u (ch_device_info ch)"
  have k: "?m ?s = (r, t) \<Longrightarrow> st_committed t = st_committed s" for r t
    using preservesD [OF committed_start, of E now u "ch_device_info ch" ?s r t "st_committed s"]
    by (simp add: committed_is_def)
  from a consider "?m ?s = (Inl e, s')" | x s1 where "?m ?s = (Inr x, s1)" "commit E now s1 = (Inl e, s')"
    by (auto simp: second_factor_accepted_def thn_eq_Inl bnd_eq_Inl thn_eq_Inr on_cache_def)
  then show ?thesis
  proof cases
    case 2
    then show ?thesis using k [OF 2(1)] commit_Inl [OF 2(2)] by simp
  qed (rule k)
qed

lemma frame_refused [pres]: "preserves (session_frame S) (second_factor_refused E now token ch)"
  unfolding second_factor_refused_def by (intro pres)

lemma refused_raises: "second_factor_refused E now token ch s = (r, s') \<Longrightarrow> isl r"
  by (cases r) (auto simp: second_factor_refused_def thn_eq_Inr)


lemma refuses_accepted [refusing]: "refuses S (second_factor_accepted E now token code ch u)"
  by (auto simp: refuses_def session_frame_def dest: accepted_Inl)

lemma refuses_check [refusing]: "refuses S (check_second_factor E now token code ch u)"
  unfolding check_second_factor_def by (intro refusing pres; (intro refuses_preserves pres)?)

lemma refuses_complete: "refuses S (complete_two_factor E now token code)"
  unfolding complete_two_factor_def
  by (intro refusing pres; (intro refuses_preserves pres)?)


lemma check_Inr:
  assumes "check_second_factor E now token code ch u s = (Inr out, s')"
  obtains c2 upd v s2 where "was_used InMemoryCache E now (ch_user_id ch) code (st_cache s) = (False, c2)"
      "verify_two_factor E now u code = (True, upd)"
      "(case upd of None \<Rightarrow> ret u | Some u1 \<Rightarrow> save_user E u1) (s\<lparr>st_cache := c2\<rparr>) = (Inr v, s2)"
      "second_factor_accepted E now token code ch v s2 = (Inr out, s')"
proof -
  obtain used c2 where c2: "was_used InMemoryCache E now (ch_user_id ch) code (st_cache s) = (used, c2)" by fastforce
  obtain b upd where v: "verify_two_factor E now u code = (b, upd)" by fastforce
  have no: "second_factor_refused E now token ch t \<noteq> (Inr out, s')" for t
    using refused_raises by fastforce
  from assms c2 v no have b: "b" "\<not> used"
    by (cases used; cases b; simp add: check_second_factor_def bnd_on_cache)+
  with assms c2 v obtain w s2 where "(case upd of None \<Rightarrow> ret u | Some u1 \<Rightarrow> save_user E u1) (s\<lparr>st_cache := c2\<rparr>) = (Inr w, s2)"
     "second_factor_accepted E now token code ch w s2 = (Inr out, s')"
    by (cases upd) (auto simp: check_second_factor_def bnd_on_cache bnd_eq_Inr)
  with c2 v b show thesis by (intro that [of c2 upd w s2]) simp_all
qed

lemma complete_Inr:
  assumes "complete_two_factor E now token code s = (Inr out, s')"
  obtains ch c1 u where "challenge_read InMemoryCache E now token (st_cache s) = (Inr ch, c1)"
      "user_acquire_by_id E (ch_user_id ch) (st_work s) = Inr (Some u)" "\<not> is_deleted u" "\<not> user_is_locked u now"
      "check_second_factor E now token code ch u (s\<lparr>st_cache := c1\<rparr>) = (Inr out, s')"
proof -
  obtain x c1 where c1: "challenge_read InMemoryCache E now token (st_cache s) = (x, c1)" by fastforce
  with assms obtain ch where x: "x = Inr ch" by (cases x) (auto simp: complete_two_factor_def bnd_def on_cache_may_fail_def)
  from assms c1 x show thesis
    by (auto simp: complete_two_factor_def bnd_def [of "on_cache_may_fail _"] on_cache_may_fail_def
        bnd_lift bnd_query UserID_eq thn_eq_Inr intro!: that split: sum.splits option.splits if_splits)
qed

lemma used_key_not_challenge [simp]: "CACHE_PREFIX @ token \<noteq> used_code_key E u code" "used_code_key E u code \<noteq> CACHE_PREFIX @ token"
  by (simp_all add: CACHE_PREFIX_def used_code_key_def)

lemma spent_cache:
  assumes c'_def: "c' = challenge_discard InMemoryCache token (remember InMemoryCache E now u code c)"
  shows "fst (challenge_read InMemoryCache E t token c') = Inl TwoFactorChallengeExpiredError"
    and "fst (was_used InMemoryCache E now u code c')"
proof -
  show "fst (challenge_read InMemoryCache E t token c') = Inl TwoFactorChallengeExpiredError"
    unfolding c'_def by (rule mem.discarded_gone)
  have "visible InMemoryCache now (used_code_key E u code) c' =
        visible InMemoryCache now (used_code_key E u code) (remember InMemoryCache E now u code c)"
    unfolding c'_def challenge_discard_def by (rule mem.delete_other) simp
  with mem.remembered_used [of now now E u code c] show "fst (was_used InMemoryCache E now u code c')"
    by (simp add: mem.was_used_eq CODE_MEMORY_SECONDS_def)
qed

lemma second_factor_user:
  assumes "uow_ok s" and ver: "verify_two_factor E now u code = (True, upd)"
    and sv: "(case upd of None \<Rightarrow> ret u | Some u1 \<Rightarrow> save_user E u1) s = (Inr v, s2)"
  shows "session_tables (st_work s2) = session_tables (st_work s)" "u_id v = u_id u"
    "case upd of
       None \<Rightarrow> users (st_work s2) = users (st_work s)
     | Some v \<Rightarrow> map_sum id (users \<circ> snd) (user_update E v (st_work s)) = Inr (users (st_work s2))"
proof -
  have "session_tables (st_work s2) = session_tables (st_work s) \<and> u_id v = u_id u \<and> (case upd of
       None \<Rightarrow> users (st_work s2) = users (st_work s)
     | Some v \<Rightarrow> map_sum id (users \<circ> snd) (user_update E v (st_work s)) = Inr (users (st_work s2)))"
  proof (cases upd)
    case None
    with sv show ?thesis by auto
  next
    case (Some u1)
    with sv have "save_user E u1 s = (Inr v, s2)" by simp
    from save_user_Inr [OF assms(1) this] obtain d w where d: "user_update E u1 (st_work s) = Inr (v, d)"
      "s2 = s\<lparr>st_work := d, st_uow := w\<rparr>" by blast
    have "u_id v = u_id u"
      using user_update_result [OF d(1)] ver [unfolded Some] by (auto simp: verify_two_factor_consumed)
    moreover have "session_tables d = session_tables (st_work s)"
      using d(1) by (auto simp: user_update_def session_tables_def Let_def split: if_splits option.splits)
    ultimately show ?thesis using d Some by simp
  qed
  then show "session_tables (st_work s2) = session_tables (st_work s)" "u_id v = u_id u"
    "case upd of
       None \<Rightarrow> users (st_work s2) = users (st_work s)
     | Some v \<Rightarrow> map_sum id (users \<circ> snd) (user_update E v (st_work s)) = Inr (users (st_work s2))"
    by blast+
qed

text \<open>What is known when the second step answers.\<close>

lemma second_factor_answered:
  assumes l: "complete_two_factor E now token code (s\<lparr>st_work := st_committed s, st_uow := empty_uow\<rparr>) = (Inr out, s1)"
  shows "\<exists>ch u upd x. fst (challenge_read InMemoryCache E now token (st_cache s)) = Inr ch \<and>
     user_acquire_by_id E (ch_user_id ch) (st_committed s) = Inr (Some u) \<and>
     \<not> is_deleted u \<and> \<not> user_is_locked u now \<and>
     \<not> fst (was_used InMemoryCache E now (u_id u) code (st_cache s)) \<and>
     verify_two_factor E now u code = (True, upd) \<and>
     (case upd of
        None \<Rightarrow> users (st_committed s1) = users (st_committed s)
      | Some v \<Rightarrow> map_sum id (users \<circ> snd) (user_update E v (st_committed s)) = Inr (users (st_committed s1))) \<and>
     co_user_id out = u_id u \<and> co_session_id out = uuid_str (s_session_id x) \<and> s_user_id x = u_id u \<and>
     co_login_challenge out = ch_login_challenge ch \<and>
     map rt_token_hash (s_refresh_tokens x) = [from_raw E (co_refresh_token out)] \<and>
     session_added x (st_committed s) (st_committed s1) \<and>
     fst (challenge_read InMemoryCache E later token (st_cache s1)) = Inl TwoFactorChallengeExpiredError \<and>
     fst (was_used InMemoryCache E now (u_id u) code (st_cache s1))"
proof -
  let ?d = "st_committed s" and ?S = "session_tables (st_committed s)"
  let ?s = "s\<lparr>st_work := ?d, st_uow := empty_uow\<rparr>"
  from complete_Inr [OF l] obtain ch c1 u where
    c1: "challenge_read InMemoryCache E now token (st_cache ?s) = (Inr ch, c1)" and
    u: "user_acquire_by_id E (ch_user_id ch) (st_work ?s) = Inr (Some u)" "\<not> is_deleted u" "\<not> user_is_locked u now" and
    chk: "check_second_factor E now token code ch u (?s\<lparr>st_cache := c1\<rparr>) = (Inr out, s1)" .
  obtain c2 upd v s2 where
    c2: "was_used InMemoryCache E now (ch_user_id ch) code c1 = (False, c2)" and
    ver: "verify_two_factor E now u code = (True, upd)" and
    sv: "(case upd of None \<Rightarrow> ret u | Some u1 \<Rightarrow> save_user E u1) (?s\<lparr>st_cache := c2\<rparr>) = (Inr v, s2)" and
    acc: "second_factor_accepted E now token code ch v s2 = (Inr out, s1)"
    by (rule check_Inr [OF chk]) simp
  have uid: "ch_user_id ch = u_id u" using acquire_by_id_id [OF u(1)] by simp
  have "visible InMemoryCache now (used_code_key E (u_id u) code) c1 = None"
    using c2 mem.was_used_eq [of E now "u_id u" code c1] by (simp add: uid)
  then have unused: "\<not> fst (was_used InMemoryCache E now (u_id u) code (st_cache s))"
    using read_success_keeps [OF c1, of now] by (simp add: mem.was_used_eq)
  have s2: "session_tables (st_work s2) = ?S" "u_id v = u_id u" "case upd of
      None \<Rightarrow> users (st_work s2) = users ?d
    | Some v \<Rightarrow> map_sum id (users \<circ> snd) (user_update E v ?d) = Inr (users (st_work s2))"
    using second_factor_user [OF _ ver sv] by (simp_all add: session_frame_def uow_ok_def cong: option.case_cong)
  from accepted_Inr [OF acc] obtain x where x: "session_added x (st_work s2) (st_committed s1)" "s_user_id x = u_id v"
    "users (st_committed s1) = users (st_work s2)" "map rt_token_hash (s_refresh_tokens x) = [from_raw E (co_refresh_token out)]"
    "co_user_id out = u_id v" "co_session_id out = uuid_str (s_session_id x)"
    "co_login_challenge out = ch_login_challenge ch" "st_cache s1 = challenge_discard InMemoryCache token (remember InMemoryCache E now (ch_user_id ch) code (st_cache s2))"
    by (elim exE conjE) (rule that, assumption+)
  have add: "session_added x ?d (st_committed s1)"
    using x(1) s2(1) by (simp add: session_added_def session_tables_def)
  have c: "fst (challenge_read InMemoryCache E now token (st_cache s)) = Inr ch" using c1 by simp
  have u': "user_acquire_by_id E (ch_user_id ch) ?d = Inr (Some u)" using u(1) by simp
  note cache = spent_cache(1) [OF x(8), where t = later] spent_cache(2) [OF x(8), unfolded uid]
  show ?thesis
    by (intro exI [of _ ch] exI [of _ u] exI [of _ upd] exI [of _ x] conjI c u' u(2,3) unused ver)
      (simp_all add: s2(2) x(2,4,5,6,7) add cache, use s2(3) x(3) in \<open>simp cong: option.case_cong\<close>)
qed


end
