(* ===== verification/Constraints.thy ===== *)
theory Constraints
  imports Roles Login
begin

text \<open>
  Invariants of the database. \<open>holds I\<close> says that I is true of the transaction and of the committed
  database. The locale \<open>account_writes\<close> has as its laws that the writes on accounts, sessions, events
  and audit rows keep I; it shows that every service and every command of the user package then
  keeps it, whether it returns or raises. It is interpreted for the schema constraints \<open>db_ok\<close> and for
  the contents of the role tables.
\<close>

definition holds :: "(db \<Rightarrow> bool) \<Rightarrow> st \<Rightarrow> bool" where
  "holds I s = (I (st_work s) \<and> I (st_committed s))"

lemma holds_frame [pres]:
  "preserves (holds I) (next_draw n)" "preserves (holds I) (metric c l)"
  "preserves (holds I) (register i es)" "preserves (holds I) (on_cache h)"
  "preserves (holds I) (on_cache_may_fail h')"
  by (auto simp: preserves_def holds_def metric_def register_def
      on_cache_def on_cache_may_fail_def case_prod_unfold Let_def split: sum.splits)

lemma holds_on_work:
  "(\<And>d d'. I d \<Longrightarrow> f d = Inr d' \<Longrightarrow> I d') \<Longrightarrow> preserves (holds I) (on_work f)"
  "(\<And>d x d'. I d \<Longrightarrow> g d = Inr (x, d') \<Longrightarrow> I d') \<Longrightarrow> preserves (holds I) (on_work_with g)"
  "(\<And>k d k' d'. I d \<Longrightarrow> h k d = Inr (k', d') \<Longrightarrow> I d') \<Longrightarrow> preserves (holds I) (on_work_draws h)"
  by (auto simp: preserves_def holds_def on_work_def on_work_with_def on_work_draws_def split: sum.splits)

lemma kept_check [pres]: "preserves (holds I) (rate_limiter_check cfg now k)"
  by (simp add: preserves_def rate_limiter_check_def holds_def case_prod_unfold Let_def)

lemma kept_limit [pres]: "preserves (holds I) (limit_by_ip cfg now prefix ip)"
  unfolding limit_by_ip_def by (intro pres)

lemma preserves_bool [pres]: "(b \<Longrightarrow> preserves P m) \<Longrightarrow> (\<not> b \<Longrightarrow> preserves P k) \<Longrightarrow> preserves P (case b of True \<Rightarrow> m | False \<Rightarrow> k)"
  by (cases b) auto

section \<open>Commands of the user package\<close>

locale account_writes =
  fixes I :: "db \<Rightarrow> bool"
  assumes user_update_keeps: "I d \<Longrightarrow> user_update E u d = Inr (u', d') \<Longrightarrow> I d'"
    and user_add_keeps: "I d \<Longrightarrow> user_add E u d = Inr d' \<Longrightarrow> I d'"
    and session_add_keeps: "I d \<Longrightarrow> session_add x d = Inr d' \<Longrightarrow> I d'"
    and session_update_keeps: "I d \<Longrightarrow> session_update x d = Inr d' \<Longrightarrow> I d'"
    and outbox_keeps: "I d \<Longrightarrow> insert_outbox r d = Inr d' \<Longrightarrow> I d'"
    and audit_keeps: "I d \<Longrightarrow> audit_repo_add l d = Inr d' \<Longrightarrow> I d'"
begin

lemma kept_writes [pres]:
  "preserves (holds I) (on_work_with (user_update E u))" "preserves (holds I) (on_work (user_add E u))"
  "preserves (holds I) (on_work (session_add x))" "preserves (holds I) (on_work (session_update x))"
  "preserves (holds I) (on_work (insert_outbox r))" "preserves (holds I) (on_work (audit_repo_add l))"
  by (auto intro!: holds_on_work intro: user_update_keeps user_add_keeps session_add_keeps session_update_keeps outbox_keeps audit_keeps)

lemma kept_commit [pres]: "preserves (holds I) (commit E now)"
proof (rule preservesI)
  fix s r s' assume s: "holds I s" and c: "commit E now s = (r, s')"
  let ?es = "waiting (st_uow s)" and ?s = "s\<lparr>st_uow := empty_uow\<rparr>"
  let ?m = "thn (for_each ?es (persist_outbox_event E now)) (for_each ?es (audit_event E now))"
  have m: "preserves (holds I) ?m"
    unfolding persist_outbox_event_def audit_event_def by (intro pres)
  obtain o1 s1 where o: "?m ?s = (o1, s1)" by fastforce
  have "holds I s1" using preservesD [OF m o] s by (simp add: holds_def)
  then show "holds I s'" using c o s
    by (cases o1) (auto simp: commit_def bnd_def drain_uow_def waiting_def drain_def Let_def holds_def)
qed

lemma kept_saves [pres]:
  "preserves (holds I) (save_user E u)" "preserves (holds I) (save_session x)" "preserves (holds I) (svc_persist_session x)"
  unfolding save_user_def save_session_def svc_persist_session_def register_user_def register_session_def by (intro pres)+

lemma kept_services [pres]:
  "preserves (holds I) (svc_start_session E now u di)" "preserves (holds I) (svc_revoke_all_sessions i)"
  "preserves (holds I) (svc_create E now i n p m v)" "preserves (holds I) (svc_verify_email E now t)"
  "preserves (holds I) (svc_request_password_reset E now m0)" "preserves (holds I) (svc_get_user_by_id E i)"
  "preserves (holds I) (svc_update_user E now u n' m')" "preserves (holds I) (svc_revoke_session j i)"
  "preserves (holds I) (svc_refresh_session E now t)" "preserves (holds I) (svc_authenticate E now p un um o1)"
  unfolding svc_start_session_def svc_revoke_all_sessions_def svc_create_def svc_verify_email_def svc_request_password_reset_def
    svc_get_user_by_id_def svc_update_user_def svc_revoke_session_def svc_refresh_session_def refresh_found_def [abs_def] svc_authenticate_def find_login_user_def
    register_user_def
  by (intro pres)+

lemma kept_services2 [pres]:
  "preserves (holds I) (svc_reset_password E now t p)" "preserves (holds I) (svc_change_password E u p q)"
  "preserves (holds I) (svc_delete_user E now i)"
  unfolding svc_reset_password_def reset_found_def [abs_def] svc_change_password_def svc_delete_user_def by (intro pres)+

lemma kept_login_parts [pres]:
  "preserves (holds I) (login_guard cfg now key)" "preserves (holds I) (note_failed_login cfg now key)"
  "preserves (holds I) (clear_failed_logins key)" "preserves (holds I) (login_rejected E now u)"
  "preserves (holds I) (login_challenged E now data di u)" "preserves (holds I) (login_succeeded E now u x t)"
  unfolding login_guard_def note_failed_login_def clear_failed_logins_def login_rejected_def login_challenged_def login_succeeded_def
  by (intro pres preserves_modify; simp add: holds_def)+

lemma kept_second_factor [pres]:
  "preserves (holds I) (second_factor_refused E now token ch)" "preserves (holds I) (second_factor_accepted E now token code ch u)"
  unfolding second_factor_refused_def second_factor_accepted_def by (intro pres)+

lemma kept_check_second_factor [pres]: "preserves (holds I) (check_second_factor E now token code ch u)"
  unfolding check_second_factor_def by (intro pres)

lemma kept_commands [pres]:
  "preserves (holds I) (login E cfg now data)" "preserves (holds I) (complete_two_factor E now token code)"
  "preserves (holds I) (refresh_token_use_case E now token)"
  "preserves (holds I) (request_password_reset_use_case E cfg now m ip)"
  "preserves (holds I) (reset_password_use_case E cfg now token p ip)"
  "preserves (holds I) (change_password_use_case E now i p q)" "preserves (holds I) (verify_email_use_case E now token)"
  "preserves (holds I) (create_user E cfg now cu)" "preserves (holds I) (delete_me E now i)"
  "preserves (holds I) (update_profile E now i un um)" "preserves (holds I) (confirm_2fa E now i code)"
  "preserves (holds I) (enable_2fa E now i)" "preserves (holds I) (disable_2fa E now i p)"
  "preserves (holds I) (verify_2fa E now i code)" "preserves (holds I) (revoke_session_use_case E now i sid)"
  "preserves (holds I) (revoke_all_sessions_local E now i)"
  unfolding login_def complete_two_factor_def refresh_token_use_case_def request_password_reset_use_case_def
    reset_password_use_case_def change_password_use_case_def verify_email_use_case_def create_user_def delete_me_def
    update_profile_def confirm_2fa_def enable_2fa_def disable_2fa_def verify_2fa_def revoke_session_use_case_def
    revoke_all_sessions_local_def
  by (intro pres)+

end

section \<open>The schema constraints\<close>

lemma insert_outbox_ok: "db_ok d \<Longrightarrow> insert_outbox r d = Inr d' \<Longrightarrow> db_ok d'"
  by (auto simp: insert_outbox_Inr db_ok_def sessions_ok_def rbac_ok_def logs_ok_def)

lemma audit_add_ok: "db_ok d \<Longrightarrow> audit_repo_add l d = Inr d' \<Longrightarrow> db_ok d'"
  by (auto simp: audit_repo_add_Inr db_ok_def sessions_ok_def rbac_ok_def logs_ok_def)

interpretation schema: account_writes db_ok
  by unfold_locales (fact user_update_db_ok user_add_db_ok session_add_ok session_update_ok insert_outbox_ok audit_add_ok)+

abbreviation constrained :: "st \<Rightarrow> bool" where
  "constrained \<equiv> holds db_ok"

lemma ok_role_writes [pres]:
  "preserves constrained (on_work_draws (\<lambda>k. role_add E k r))" "preserves constrained (on_work_draws (\<lambda>k. role_repo_update E k r))"
  "preserves constrained (on_work (\<lambda>d. Inr (role_repo_delete i d)))" "preserves constrained (on_work (user_role_add a))"
  "preserves constrained (on_work (\<lambda>d. Inr (user_role_delete v i d)))" "preserves constrained (on_work (permission_add E n p))"
  by (intro holds_on_work; auto intro: role_add_ok role_repo_update_ok role_repo_delete_ok user_role_add_ok
      delete_user_roles_ok insert_permission_ok simp: user_role_delete_def permission_add_def)+

lemma ok_rbac [pres]:
  "preserves constrained (rbac_create_role E n ds)" "preserves constrained (rbac_delete_role i)"
  "preserves constrained (rbac_assign_role E now u i b)" "preserves constrained (rbac_revoke_role E u i)"
  "preserves constrained (rbac_add_permission_to_role E i n)" "preserves constrained (rbac_remove_permission_from_role E i n)"
  unfolding rbac_create_role_def rbac_delete_role_def rbac_assign_role_def rbac_revoke_role_def
    rbac_add_permission_to_role_def rbac_remove_permission_from_role_def save_role_def rbac_require_role_def rbac_require_user_def
    register_role_def register_user_def
  by (intro pres)+

lemma ok_role_commands [pres]:
  "preserves constrained (create_role_use_case E now rn ds)" "preserves constrained (delete_role_use_case E now ri)"
  "preserves constrained (assign_role_use_case E now v ri b)" "preserves constrained (revoke_role_use_case E now v ri)"
  "preserves constrained (add_permission_use_case E now ri pn)" "preserves constrained (remove_permission_use_case E now ri pn)"
  unfolding create_role_use_case_def delete_role_use_case_def assign_role_use_case_def revoke_role_use_case_def
    add_permission_use_case_def remove_permission_use_case_def
  by (intro pres)+

section \<open>The role tables\<close>

definition role_tables :: "db \<Rightarrow> permission_row list \<times> role_row list \<times> role_permission_row list \<times> user_role_row list" where
  "role_tables d = (permissions d, roles d, role_permissions d, user_roles d)"

lemma upsert_tokens_roles: "upsert_tokens rs d = Inr d' \<Longrightarrow> role_tables d' = role_tables d"
proof (induction rs arbitrary: d)
  case (Cons r rs)
  then obtain e where "upsert_token r d = Inr e" "upsert_tokens rs e = Inr d'" by (auto simp: rbind_eq_Inr)
  with Cons.IH show ?case
    by (auto simp: upsert_token_def insert_token_def role_tables_def split: if_splits)
qed simp

lemma insert_tokens_roles: "insert_tokens rs d = Inr d' \<Longrightarrow> role_tables d' = role_tables d"
proof (induction rs arbitrary: d)
  case (Cons r rs)
  then obtain e where "insert_token r d = Inr e" "insert_tokens rs e = Inr d'" by (auto simp: rbind_eq_Inr)
  with Cons.IH show ?case by (auto simp: insert_token_def role_tables_def split: if_splits)
qed simp

interpretation role_rows: account_writes "\<lambda>d. role_tables d = R" for R
proof unfold_locales
  show "role_tables d = R \<Longrightarrow> session_update x d = Inr d' \<Longrightarrow> role_tables d' = R" for x d d'
    by (auto simp: session_update_def role_tables_def dest!: upsert_tokens_roles)
  show "role_tables d = R \<Longrightarrow> session_add x d = Inr d' \<Longrightarrow> role_tables d' = R" for x d d'
    by (auto simp: session_add_def role_tables_def split: if_splits dest!: insert_tokens_roles)
qed (auto simp: user_update_def user_add_def insert_outbox_def audit_repo_add_def role_tables_def Let_def split: if_splits option.splits)

end
