(* ===== verification/Accounts.thy ===== *)
theory Accounts
  imports Atomicity
begin

text \<open>
  Whole requests that change a password: resetting it by a mailed token, changing it while signed
  in, and asking for a reset. Both changes end every session of the account.
\<close>

section \<open>Changing or losing the password ends every session\<close>

lemma revoke_user_tables: "live_sessions i (d\<lparr>users := us\<rparr>) = live_sessions i d"
  by (simp add: live_sessions_def)

text \<open>What is committed after the stored account was replaced and its sessions were revoked.\<close>

definition saved_and_signed_out :: "env \<Rightarrow> user \<Rightarrow> db \<Rightarrow> bool" where
  "saved_and_signed_out E u d' =
     (find_row (\<lambda>r. c_id r = u_id u) (users d') = Some (user_to_values E u (u_version u + 1)) \<and>
      live_sessions (u_id u) d' = [] \<and> session_acquire_by_user_id (u_id u) d' = Inr [])"

lemma saved_and_signed_out_commit:
  assumes ok: "db_ok (st_work s)" and d: "user_update E u (st_work s) = Inr (u', d)"
    and c: "commit E now s1 = (Inr (), s2)" and s1: "st_work s1 = revoke_rows (set (live_sessions (u_id u) d)) d"
  shows "saved_and_signed_out E u (st_committed s2)"
proof -
  obtain k es where s2: "st_committed s2 = with_events E k now es (revoke_rows (set (live_sessions (u_id u) d)) d)"
    using commit_Inr [OF c] s1 by auto
  have l: "live_sessions (u_id u) (st_committed s2) = []" by (simp add: s2 live_sessions_revoked)
  have "find_row (\<lambda>r. c_id r = u_id u) (users (st_committed s2)) = Some (user_to_values E u (u_version u + 1))"
    using user_update_row [OF d db_ok_users [OF ok]] by (simp add: s2)
  with l no_live_sessions(1) [OF l] show ?thesis by (simp add: saved_and_signed_out_def)
qed

lemma user_update_succeeds:
  assumes ok: "users_ok (users d)" and r: "r \<in> set (users d)" "row_to_user E r = Inr u0"
    and u: "u_id u = u_id u0" "u_version u = u_version u0" "u_username u = u_username u0" "u_email u = u_email u0"
  shows "\<exists>d'. user_update E u d = Inr (u\<lparr>u_version := u_version u + 1\<rparr>, d')"
proof -
  let ?m = "\<lambda>x. c_id x = u_id u \<and> c_version x = u_version u"
  note f = row_to_user_fields [OF r(2)]
  have fu: "u_id u = c_id r" "u_version u = c_version r" "u_username u = c_username r" "u_email u = c_email r"
    using f u by simp_all
  have m: "?m r" using fu by simp
  obtain xs ys where d: "users d = xs @ r # ys" using r(1) by (meson split_list)
  have n: "\<forall>x \<in> set (xs @ ys). c_id x \<noteq> c_id r" using ok by (auto simp: users_ok_def d notin_image_iff)
  then have o: "filter (\<lambda>x. \<not> ?m x) (users d) = xs @ ys"
    using fu by (auto simp: d intro!: filter_True)
  have "users_violation (user_to_values E u (u_version u + 1)) (filter (\<lambda>x. \<not> ?m x) (users d)) = None"
    using ok fu n unfolding o users_violation_None
    by (auto simp: users_ok_def d some_values_append some_values_Cons split: option.splits)
  moreover have "find_row ?m (users d) \<noteq> None" using m r(1) by (auto simp: find_row_None_iff)
  ultimately show ?thesis by (simp add: user_update_def Let_def)
qed

lemma save_user_succeeds:
  assumes "uow_ok s" and "user_update E u (st_work s) = Inr (u', d)"
  shows "\<exists>w. save_user E u s = (Inr u', s\<lparr>st_work := d, st_uow := w\<rparr>) \<and> uow_wf w \<and> waiting w = queued s @ u_events u"
proof -
  have "uow_ok (s\<lparr>st_work := d\<rparr>)" using assms(1) by (simp add: uow_ok_def)
  from register_eq [OF this, of "(''User'', u_id u')" "u_events u'"] obtain w where
    w: "register (''User'', u_id u') (u_events u') (s\<lparr>st_work := d\<rparr>) = (Inr (), s\<lparr>st_work := d, st_uow := w\<rparr>)"
    "uow_wf w" "waiting w = queued s @ u_events u'" by auto
  moreover have "u_events u' = u_events u" using user_update_result [OF assms(2)] by simp
  ultimately show ?thesis using assms(2)
    by (intro exI [of _ w]) (simp add: save_user_def register_user_def bnd_def thn_def on_work_with_def)
qed

lemma acquired_row:
  assumes "load_user E (find_row P (users d)) = Inr (Some u)"
  shows "\<exists>r \<in> set (users d). row_to_user E r = Inr u"
  using assms by (auto simp: load_user_def rbind_eq_Inr split: option.splits dest!: find_row_Some_iff)

lemma acquired_user_exists:
  assumes "load_user E (find_row P (users d)) = Inr (Some u)"
  shows "has_user (u_id u) d" "u_events u = []"
  using acquired_row [OF assms] row_to_user_fields by (fastforce simp: has_user_iff)+

lemma user_update_users:
  assumes "user_update E u d = Inr (u', d')" and "db_ok d"
  shows "has_user i d' = has_user i d" "live_sessions i d' = live_sessions i d"
    "outbox_events d' = outbox_events d" "audit_logs d' = audit_logs d"
    "session_acquire_by_user_id i d' = session_acquire_by_user_id i d"
proof -
  note f = user_update_frame [OF assms(1) db_ok_users [OF assms(2)]]
  obtain us where us: "d' = d\<lparr>users := us\<rparr>" using f(2) by blast
  have "c_id ` set (users d') = c_id ` set (users d)" using f(1) by (metis list.set_map)
  then show "has_user i d' = has_user i d" by (simp add: has_user_iff)
  show "live_sessions i d' = live_sessions i d" "outbox_events d' = outbox_events d" "audit_logs d' = audit_logs d"
    by (simp_all add: us live_sessions_def)
  show "session_acquire_by_user_id i d' = session_acquire_by_user_id i d"
    unfolding us session_acquire_by_user_id_def refresh_tokens_for_def by (simp add: Let_def)
qed

lemma list_all2_in: "list_all2 P xs ys \<Longrightarrow> y \<in> set ys \<Longrightarrow> \<exists>x \<in> set xs. P x y"
  by (induction rule: list_all2_induct) auto

lemma acquire_by_user_owner:
  assumes "session_acquire_by_user_id i d = Inr ss" and "x \<in> set ss"
  shows "s_user_id x = i"
proof -
  let ?rows = "filter (\<lambda>r. sr_user_id r = i \<and> \<not> sr_is_revoked r) (sessions d)"
  from assms obtain g where "list_all2 (\<lambda>r s. session_from_rows r (g r) = Inr s) ?rows ss"
    by (auto simp: session_acquire_by_user_id_def Let_def rbind_eq_Inr rmap_eq_Inr split: if_splits)
  then obtain r where "r \<in> set ?rows" "session_from_rows r (g r) = Inr x"
    using list_all2_in [OF _ assms(2)] by blast
  then show ?thesis by (auto simp: session_from_rows_def rbind_eq_Inr UserID_eq)
qed

text \<open>Saving a changed account, revoking its sessions and committing, from a clean request.\<close>

lemma sign_out_run:
  assumes ok: "db_ok (st_work s)" and uow: "st_uow s = empty_uow"
    and r: "r \<in> set (users (st_work s))" "row_to_user E r = Inr u0"
    and u: "u_id u = u_id u0" "u_version u = u_version u0" "u_username u = u_username u0" "u_email u = u_email u0"
    and ev: "list_all (\<lambda>e. event_user e = Some (u_id u0)) (u_events u)"
    and q: "session_acquire_by_user_id (u_id u0) (st_work s) = Inr ss"
    and fresh: "fresh_ids E (2 * (length (u_events u) + length ss)) s"
  shows "\<exists>u' s'. thn (bnd (save_user E u) (\<lambda>u'. thn (svc_revoke_all_sessions (u_id u0)) (ret u'))) (commit E now) s = (Inr (), s') \<and>
     saved_and_signed_out E u (st_committed s') \<and> st_work s' = st_committed s' \<and> st_uow s' = empty_uow"
proof -
  let ?u' = "u\<lparr>u_version := u_version u + 1\<rparr>" and ?i = "u_id u0"
  obtain d where d: "user_update E u (st_work s) = Inr (?u', d)"
    using user_update_succeeds [OF db_ok_users [OF ok] r u] by blast
  note fr = user_update_users [OF d ok]
  obtain w where w: "save_user E u s = (Inr ?u', s\<lparr>st_work := d, st_uow := w\<rparr>)" "uow_wf w" "waiting w = u_events u"
    using save_user_succeeds [OF _ d] uow by (auto simp: uow_ok_def)
  let ?s1 = "s\<lparr>st_work := d, st_uow := w\<rparr>" and ?d2 = "revoke_rows (set (live_sessions ?i d)) d"
  have "db_ok (st_work ?s1)" using user_update_db_ok [OF ok d] by simp
  from revoke_all_run [OF _ this, of ?i ss] w(2) q fr(5) obtain w2 where
    v: "svc_revoke_all_sessions ?i ?s1 = (Inr (map revoke ss), ?s1\<lparr>st_work := ?d2, st_uow := w2\<rparr>)"
    "waiting w2 = u_events u @ map (\<lambda>x. SessionRevokedEvent (s_session_id x) (s_user_id x)) ss"
    by (auto simp: uow_ok_def w(3))
  let ?s2 = "?s1\<lparr>st_work := ?d2, st_uow := w2\<rparr>"
  have owner: "s_user_id x = ?i" if "x \<in> set ss" for x
    using acquire_by_user_owner [OF q that] .
  have "has_user ?i ?d2" using r row_to_user_fields [OF r(2)] fr(1) by (auto simp: has_user_iff)
  then have users: "list_all (\<lambda>e. pred_option (\<lambda>u. has_user u ?d2) (event_user e)) (waiting w2)"
    using ev owner by (auto simp: v(2) list_all_iff)
  have "fresh_ids E (2 * length (waiting w2)) ?s2"
    using fresh by (simp add: v(2) fresh_ids_def fr)
  then obtain s3 where c: "commit E now ?s2 = (Inr (), s3)" "st_work s3 = st_committed s3" "st_uow s3 = empty_uow"
    using commit_succeeds [of E ?s2 now] users by auto
  have "saved_and_signed_out E u (st_committed s3)"
    using saved_and_signed_out_commit [OF ok d c(1)] u(1) by simp
  then show ?thesis using w(1) v(1) c by (auto simp: thn_def bnd_def)
qed

lemma limit_frame:
  "limit_by_ip cfg now prefix ip s = (r, s') \<Longrightarrow> \<exists>l. s' = s\<lparr>st_rate := l\<rparr>"
proof (cases "truthy ip")
  case True
  assume "limit_by_ip cfg now prefix ip s = (r, s')"
  with True show ?thesis
    by (auto simp: limit_by_ip_def bnd_def rate_limiter_check_def split: prod.splits sum.splits if_splits)
next
  case False
  assume "limit_by_ip cfg now prefix ip s = (r, s')"
  with False show ?thesis by (intro exI [of _ "st_rate s"]) (simp add: limit_by_ip_def)
qed

lemma reset_runs:
  assumes ok: "db_ok (st_committed s)"
    and lim: "fst (limit_by_ip cfg now ''password-reset-confirm:'' ip (s\<lparr>st_work := st_committed s, st_uow := empty_uow\<rparr>)) = Inr ()"
    and pw: "PlainPassword E p = Inr p" "bcrypt_hashpw E p (st_draw s) \<noteq> []"
    and u: "user_acquire_by_reset_token E (from_raw E token) (st_committed s) = Inr (Some u)"
    and u': "reset_password E now token (bcrypt_hashpw E p (st_draw s)) u = Inr u'"
    and q: "session_acquire_by_user_id (u_id u) (st_committed s) = Inr ss"
    and fresh: "fresh_ids E (1 + 2 * (1 + length ss)) (s\<lparr>st_work := st_committed s\<rparr>)"
  shows "\<exists>s'. in_request (reset_password_use_case E cfg now token p ip) s = (Inr (), s') \<and> saved_and_signed_out E u' (st_committed s')"
proof -
  let ?s = "s\<lparr>st_work := st_committed s, st_uow := empty_uow\<rparr>" and ?h = "bcrypt_hashpw E p (st_draw s)"
  obtain l where l: "limit_by_ip cfg now ''password-reset-confirm:'' ip ?s = (Inr (), ?s\<lparr>st_rate := l\<rparr>)"
    using lim limit_frame by (metis prod.collapse)
  have f: "u_id u' = u_id u" "u_version u' = u_version u" "u_username u' = u_username u" "u_email u' = u_email u"
    "u_events u' = u_events u @ [PasswordResetCompletedEvent (u_id u)]"
    using u' by (auto simp: reset_password_Inr record_event_def)
  obtain r where r: "r \<in> set (users (st_committed s))" "row_to_user E r = Inr u"
    using acquired_row u unfolding user_acquire_by_reset_token_def by blast
  note e = row_to_user_fields [OF r(2)]
  let ?s1 = "?s\<lparr>st_rate := l, st_draw := st_draw s + 1\<rparr>"
  have fi: "fresh_ids E (2 * (length (u_events u') + length ss)) ?s1"
    using fresh_ids_later [OF fresh, of ?s1] e f(5) by simp
  obtain s' where run: "thn (bnd (save_user E u') (\<lambda>u'. thn (svc_revoke_all_sessions (u_id u)) (ret u'))) (commit E now) ?s1 = (Inr (), s')"
    and out: "saved_and_signed_out E u' (st_committed s')" "st_work s' = st_committed s'" "st_uow s' = empty_uow"
    using sign_out_run [of ?s1 r E u u' ss now] ok r q f e fi by auto
  have svc: "thn (svc_reset_password E now token p) (commit E now) (?s\<lparr>st_rate := l\<rparr>) = (Inr (), s')"
    using run u u' pw(2) by (simp add: svc_reset_password_def reset_found_def bnd_query thn_def bnd_def HashedPassword_def)
  have "in_request (reset_password_use_case E cfg now token p ip) s = (Inr (), s'\<lparr>st_work := st_committed s', st_uow := empty_uow\<rparr>)"
    using svc l pw(1) by (simp add: in_request_def reset_password_use_case_def thn_def bnd_def)
  with out(1) show ?thesis by auto
qed

lemma demo_reset_request:
  "user_acquire_by_reset_token sample_env (from_raw sample_env ''T60'') (st_committed demo_reset_st) = Inr (Some demo_reset_user)"
  "password_reset_is_valid (password_reset_create sample_env 0 ''T60'' 1) 5"
  "password_reset_matches sample_env (password_reset_create sample_env 0 ''T60'' 1) ''T60''"
  "fresh_ids sample_env (1 + 2 * (1 + length [demo_session])) (demo_reset_st\<lparr>st_work := st_committed demo_reset_st\<rparr>)"
  "session_acquire_by_user_id (u_id demo_reset_user) (st_committed demo_reset_st) = Inr [demo_session]"
proof -
  have d: "st_committed demo_reset_st = demo_db\<lparr>users := [user_to_values sample_env demo_reset_user 0]\<rparr>" "st_draw demo_reset_st = 100"
    by (simp_all add: demo_reset_st_def demo_st_def)
  show "user_acquire_by_reset_token sample_env (from_raw sample_env ''T60'') (st_committed demo_reset_st) = Inr (Some demo_reset_user)"
    using row_to_user_values [OF sample_fernet_law demo_reset_wf, of 0]
    by (simp add: user_acquire_by_reset_token_def d load_user_def table_simps user_to_values_def password_reset_create_def)
  show "password_reset_is_valid (password_reset_create sample_env 0 ''T60'' 1) 5"
    "password_reset_matches sample_env (password_reset_create sample_env 0 ''T60'' 1) ''T60''"
    by (simp_all add: password_reset_is_valid_def password_reset_create_def password_reset_matches_def)
  show "fresh_ids sample_env (1 + 2 * (1 + length [demo_session])) (demo_reset_st\<lparr>st_work := st_committed demo_reset_st\<rparr>)"
    by (simp add: fresh_ids_def d demo_db_def empty_db_def upt_rec)
  show "session_acquire_by_user_id (u_id demo_reset_user) (st_committed demo_reset_st) = Inr [demo_session]"
    using demo_sessions by (simp add: d)
qed





text \<open>What a request for a reset leaves behind for a known account: exactly one outbox row, addressed to
  this account and carrying the token, and in the account the hash of the same token, unused and valid
  for an hour. The password and the other accounts stay.\<close>

definition reset_issued :: "env \<Rightarrow> datetime \<Rightarrow> string \<Rightarrow> user \<Rightarrow> db \<Rightarrow> db \<Rightarrow> bool" where
  "reset_issued E now token u d d' =
     ((\<exists>row. outbox_events d' = outbox_events d @ [row] \<and>
         ob_event_type row = ''PasswordResetRequestedEvent'' \<and> ob_aggregate_id row = Some (u_id u) \<and>
         ob_payload row = [(''user_id'', JStr (uuid_str (u_id u))), (''email'', JStr (email_or_blank (u_email u))),
                           (''reset_token'', JStr token)] \<and>
         ob_sensitive_keys row = Some [''reset_token''] \<and> ob_created_at row = now \<and>
         ob_processed_at row = None \<and> ob_failed_at row = None) \<and>
      (\<exists>r. find_row (\<lambda>r. c_id r = u_id u) (users d') = Some r \<and>
         c_password_reset_token_hash r = Some (from_raw E token) \<and>
         c_password_reset_expires_at r = Some (now + hours 1) \<and> \<not> c_password_reset_used r \<and>
         c_hashed_password r = u_hashed_password u) \<and>
      (\<forall>i. i \<noteq> u_id u \<longrightarrow> find_row (\<lambda>r. c_id r = i) (users d') = find_row (\<lambda>r. c_id r = i) (users d)))"

lemma reset_token_written:
  assumes ok: "db_ok (st_committed s)" "st_work s = st_committed s" "st_uow s = empty_uow"
    and q: "user_acquire_by_email E (Some m) (st_committed s) = Inr (Some u)" and fresh: "fresh_ids E 3 s"
  shows "\<exists>s'. thn (svc_request_password_reset E now (Some m)) (commit E now) s = (Inr (), s') \<and>
     reset_issued E now (token_urlsafe E 32 (st_draw s)) u (st_committed s) (st_committed s')"
proof -
  let ?u = "request_password_reset E (st_draw s) now 1 u"
  let ?e = "PasswordResetRequestedEvent (u_id u) (email_or_blank (u_email u)) (token_urlsafe E 32 (st_draw s))"
  obtain r where r: "r \<in> set (users (st_committed s))" "row_to_user E r = Inr u"
    using acquired_row [of E _ "st_committed s" u] q unfolding user_acquire_by_email_def by auto
  note e = row_to_user_fields [OF r(2)]
  have f: "u_id ?u = u_id u" "u_version ?u = u_version u" "u_username ?u = u_username u" "u_email ?u = u_email u"
    "u_events ?u = [?e]"
    using e by (simp_all add: request_password_reset_def secure_token_create_def Let_def record_event_def)
  obtain d where d: "user_update E ?u (st_committed s) = Inr (?u\<lparr>u_version := u_version ?u + 1\<rparr>, d)"
    using user_update_succeeds [OF db_ok_users [OF ok(1)] r f(1-4)] by blast
  note fr = user_update_users [OF d ok(1)]
  let ?s1 = "s\<lparr>st_draw := st_draw s + 1\<rparr>"
  obtain w where w: "save_user E ?u ?s1 = (Inr (?u\<lparr>u_version := u_version ?u + 1\<rparr>), ?s1\<lparr>st_work := d, st_uow := w\<rparr>)"
    "waiting w = [?e]"
    using save_user_succeeds [of ?s1 E ?u _ d] d f(5) ok(2,3) by (auto simp: uow_ok_def)
  let ?s2 = "?s1\<lparr>st_work := d, st_uow := w\<rparr>"
  have "fresh_ids E (2 * length (waiting w)) ?s2"
    using fresh_ids_later [of E 1 2 s ?s2] fresh ok(2) by (simp add: w(2) fr numeral_3_eq_3)
  moreover have "has_user (u_id u) d" using r(1) e fr(1) by (auto simp: has_user_iff)
  ultimately obtain k where c: "commit E now ?s2 = (Inr (), ?s2\<lparr>st_committed := with_events E (st_draw s + 1) now [?e] d,
      st_work := with_events E (st_draw s + 1) now [?e] d, st_uow := empty_uow, st_draw := k\<rparr>)"
    using commit_succeeds [of E ?s2 now] w(2) by auto
  then have "thn (svc_request_password_reset E now (Some m)) (commit E now) s = (Inr (), ?s2\<lparr>st_committed := with_events E (st_draw s + 1) now [?e] d,
      st_work := with_events E (st_draw s + 1) now [?e] d, st_uow := empty_uow, st_draw := k\<rparr>)"
    using q w(1) ok(2) by (simp add: svc_request_password_reset_def thn_def bnd_def)
  moreover have "find_row (\<lambda>r. c_id r = i) (users d) = find_row (\<lambda>r. c_id r = i) (users (st_committed s))" if "i \<noteq> u_id u" for i
    using user_update_frame(3) [OF d db_ok_users [OF ok(1)]] that f(1) by simp
  moreover have "find_row (\<lambda>r. c_id r = u_id u) (users d) = Some (user_to_values E ?u (u_version ?u + 1))"
    using user_update_row [OF d db_ok_users [OF ok(1)]] f(1) by simp
  moreover have "c_password_reset_token_hash (user_to_values E ?u k) = Some (from_raw E (token_urlsafe E 32 (st_draw s)))"
    "c_password_reset_expires_at (user_to_values E ?u k) = Some (now + hours 1)" "\<not> c_password_reset_used (user_to_values E ?u k)"
    "c_hashed_password (user_to_values E ?u k) = u_hashed_password u" for k
    by (simp_all add: user_to_values_def request_password_reset_def secure_token_create_def Let_def password_reset_create_def)
  ultimately show ?thesis
    by (simp add: reset_issued_def with_events_def fr(3) outbox_row_of_def sensitive_fields_def juuid_def event_subject_def)
qed

text \<open>C33. Asking for a password reset never tells whether an address is registered: whenever the
  limiter admits the request and the address is well formed, the answer is success, for a known
  address as for an unknown one. For an unknown address nothing is written. For a known one the
  outbox gets exactly one row, the request event of that account with the token, and the account
  stores the hash of the same token, unused and valid for an hour; no other account changes.\<close>

theorem reset_request_uniform:
  assumes ok: "db_ok (st_committed s)"
    and lim: "fst (limit_by_ip cfg now ''password-reset-request:'' ip (s\<lparr>st_work := st_committed s, st_uow := empty_uow\<rparr>)) = Inr ()"
    and m: "Email (Some m) = Inr (Some m)" and q: "user_acquire_by_email E (Some m) (st_committed s) = Inr found"
    and fresh: "fresh_ids E 3 (s\<lparr>st_work := st_committed s\<rparr>)"
  shows "\<exists>s'. in_request (request_password_reset_use_case E cfg now m ip) s = (Inr (), s') \<and>
     (case found of
        None \<Rightarrow> st_committed s' = st_committed s
      | Some u \<Rightarrow> reset_issued E now (token_urlsafe E 32 (st_draw s)) u (st_committed s) (st_committed s'))"
proof -
  let ?s = "s\<lparr>st_work := st_committed s, st_uow := empty_uow\<rparr>"
  obtain l where l: "limit_by_ip cfg now ''password-reset-request:'' ip ?s = (Inr (), ?s\<lparr>st_rate := l\<rparr>)"
    using lim limit_frame by (metis prod.collapse)
  let ?s0 = "?s\<lparr>st_rate := l\<rparr>"
  have run: "in_request (request_password_reset_use_case E cfg now m ip) s =
      (let (r, s1) = thn (svc_request_password_reset E now (Some m)) (commit E now) ?s0 in
       (r, s1\<lparr>st_work := st_committed s1, st_uow := empty_uow\<rparr>))"
    using l m by (simp add: in_request_def request_password_reset_use_case_def thn_def [of "limit_by_ip _ _ _ _"] bnd_def [of "limit_by_ip _ _ _ _"])
  show ?thesis
  proof (cases found)
    case None
    obtain k where "commit E now ?s0 = (Inr (), ?s0\<lparr>st_committed := st_work ?s0, st_uow := empty_uow, st_draw := k\<rparr>)"
      using commit_empty [of ?s0] by auto
    with q None show ?thesis
      by (auto simp: run svc_request_password_reset_def thn_def bnd_def)
  next
    case (Some u)
    have "fresh_ids E 3 ?s0" using fresh fresh_ids_later [of E 0 3 "s\<lparr>st_work := st_committed s\<rparr>" ?s0] by simp
    from reset_token_written [of ?s0, OF _ _ _ _ this, of m u now] ok q Some show ?thesis by (auto simp: run)
  qed
qed

lemma demo_by_email: "user_acquire_by_email sample_env (Some ''al@ex.org'') demo_db = Inr (Some demo_user)"
proof -
  have "u_deleted_at demo_user = None" by (simp add: demo_user_def user_create_def create_not_deleted_def)
  then show ?thesis using row_to_user_values [OF sample_fernet_law demo_user_wf, of 0]
    by (simp add: user_acquire_by_email_def load_user_def demo_db_def table_simps user_to_values_def)
qed

theorem reset_request_uniform_witness:
  "\<exists>s1 s2. in_request (request_password_reset_use_case sample_env default_config 5 ''no@ex.org'' None) demo_st = (Inr (), s1) \<and>
     st_committed s1 = demo_db \<and>
     in_request (request_password_reset_use_case sample_env default_config 5 ''al@ex.org'' None) demo_st = (Inr (), s2) \<and>
     reset_issued sample_env 5 ''T100'' demo_user demo_db (st_committed s2)"
proof -
  have d: "st_committed demo_st = demo_db" "st_draw demo_st = 100" by (simp_all add: demo_st_def)
  have m: "Email (Some ''no@ex.org'') = Inr (Some ''no@ex.org'')" "Email (Some ''al@ex.org'') = Inr (Some ''al@ex.org'')" by code_simp+
  have q: "user_acquire_by_email sample_env (Some ''no@ex.org'') (st_committed demo_st) = Inr None"
    by (simp add: user_acquire_by_email_def d load_user_def demo_db_def table_simps)
  have q': "user_acquire_by_email sample_env (Some ''al@ex.org'') (st_committed demo_st) = Inr (Some demo_user)"
    by (simp add: d demo_by_email)
  have f: "fresh_ids sample_env 3 (demo_st\<lparr>st_work := st_committed demo_st\<rparr>)"
    by (simp add: fresh_ids_def d demo_db_def empty_db_def upt_rec)
  note l = reset_request_uniform [OF _ _ _ _ f, where ip = None and cfg = default_config and now = 5]
  show ?thesis
    using l [OF _ _ m(1) q] l [OF _ _ m(2) q'] demo_db_ok d by (auto simp: limit_by_ip_def demo_tokens)
qed

end
