(* ===== verification/Isolation.thy ===== *)
theory Isolation
  imports Constraints Accounts
begin

text \<open>
  What a command run for one account can write: \<open>kept i D d\<close> says that d differs from D at most in
  the account i, its sessions and their refresh tokens, and in the event and audit tables. The
  commands of a signed-in user are shown to keep it for every other account.
\<close>

definition own_sessions :: "uuid \<Rightarrow> db \<Rightarrow> uuid set" where
  "own_sessions i d = sr_session_id ` {x \<in> set (sessions d). sr_user_id x = i}"

definition kept :: "uuid \<Rightarrow> db \<Rightarrow> db \<Rightarrow> bool" where
  "kept i D d =
     (filter (\<lambda>r. c_id r \<noteq> i) (users d) = filter (\<lambda>r. c_id r \<noteq> i) (users D) \<and>
      map (\<lambda>x. (sr_session_id x, sr_user_id x)) (sessions d) = map (\<lambda>x. (sr_session_id x, sr_user_id x)) (sessions D) \<and>
      filter (\<lambda>x. sr_user_id x \<noteq> i) (sessions d) = filter (\<lambda>x. sr_user_id x \<noteq> i) (sessions D) \<and>
      filter (\<lambda>t. tr_session_id t \<notin> own_sessions i D) (refresh_tokens d) =
        filter (\<lambda>t. tr_session_id t \<notin> own_sessions i D) (refresh_tokens D) \<and>
      permissions d = permissions D \<and> roles d = roles D \<and> role_permissions d = role_permissions D \<and> user_roles d = user_roles D)"

definition isolated :: "uuid \<Rightarrow> db \<Rightarrow> st \<Rightarrow> bool" where
  "isolated i D s = (uow_ok s \<and> constrained s \<and> kept i D (st_work s) \<and> kept i D (st_committed s))"

lemma own_sessions_kept: "kept i D d \<Longrightarrow> own_sessions i d = own_sessions i D"
proof -
  assume "kept i D d"
  then have "set (map (\<lambda>x. (sr_session_id x, sr_user_id x)) (sessions d)) = set (map (\<lambda>x. (sr_session_id x, sr_user_id x)) (sessions D))"
    by (simp add: kept_def)
  moreover have "own_sessions i e = {k. (k, i) \<in> set (map (\<lambda>x. (sr_session_id x, sr_user_id x)) (sessions e))}" for e
    by (auto simp: own_sessions_def)
  ultimately show ?thesis by simp
qed

lemma kept_refl: "kept i D D"
  by (simp add: kept_def)

lemma kept_events: "kept i D d \<Longrightarrow> kept i D (with_events E k now es d)"
  by (simp add: kept_def)

lemma kept_user_update:
  assumes "kept i D d" and "users_ok (users d)" and "user_update E u d = Inr (u', d')" and "u_id u = i"
  shows "kept i D d'"
proof -
  obtain xs r ys where s: "users d = xs @ r # ys" "c_id r = u_id u"
    "d' = d\<lparr>users := xs @ user_to_values E u (u_version u + 1) # ys\<rparr>"
    using user_update_split [OF assms(3,2)] by blast
  with assms(1,4) show ?thesis by (simp add: kept_def)
qed

lemma filter_update_where_other:
  "(\<And>x. x \<in> set xs \<Longrightarrow> P x \<Longrightarrow> \<not> Q x \<and> \<not> Q (f x)) \<Longrightarrow> filter Q (update_where P f xs) = filter Q xs"
  by (induction xs) (auto simp: update_where_def)

lemma kept_revoke:
  assumes k: "kept i D d" and ok: "db_ok d" and I: "I \<subseteq> own_sessions i d"
  shows "kept i D (revoke_rows I d)"
proof -
  have d: "distinct (map sr_session_id (sessions d))" using ok by (simp add: db_ok_def sessions_ok_def)
  have own: "sr_user_id x = i" if "x \<in> set (sessions d)" "sr_session_id x \<in> I" for x
    using that I d by (auto simp: own_sessions_def distinct_map dest: inj_onD)
  have s: "filter (\<lambda>x. sr_user_id x \<noteq> i) (sessions (revoke_rows I d)) = filter (\<lambda>x. sr_user_id x \<noteq> i) (sessions d)"
    unfolding revoke_rows_def by (simp, intro filter_update_where_other) (auto simp: own)
  have m: "map (\<lambda>x. (sr_session_id x, sr_user_id x)) (sessions (revoke_rows I d)) = map (\<lambda>x. (sr_session_id x, sr_user_id x)) (sessions d)"
    by (simp add: revoke_rows_def update_where_def)
  have t: "filter (\<lambda>t. tr_session_id t \<notin> own_sessions i D) (refresh_tokens (revoke_rows I d)) =
      filter (\<lambda>t. tr_session_id t \<notin> own_sessions i D) (refresh_tokens d)"
    using I own_sessions_kept [OF k] unfolding revoke_rows_def
    by (simp, intro filter_update_where_other) auto
  show ?thesis using k s m t by (simp add: kept_def)
qed

section \<open>Actions\<close>

lemma isolated_frame [pres]:
  "preserves (isolated i D) (next_draw n)" "preserves (isolated i D) (metric c l)"
  "preserves (isolated i D) (on_cache h)" "preserves (isolated i D) (on_cache_may_fail h')"
  by (auto simp: preserves_def isolated_def holds_def uow_ok_def metric_def
      on_cache_def on_cache_may_fail_def case_prod_unfold Let_def split: sum.splits)

lemma isolated_commit [pres]: "preserves (isolated i D) (commit E now)"
proof (rule preservesI)
  fix s r s' assume s: "isolated i D s" and c: "commit E now s = (r, s')"
  have "constrained s'" using preservesD [OF schema.kept_commit c] s by (simp add: isolated_def)
  then show "isolated i D s'"
    using commit_cases [of E now s] c s by (auto simp: isolated_def uow_ok_def kept_events)
qed

lemma isolated_save_user: "u_id u = i \<Longrightarrow> preserves (isolated i D) (save_user E u)"
proof (rule preservesI)
  fix s r s' assume u: "u_id u = i" and s: "isolated i D s" and m: "save_user E u s = (r, s')"
  have c: "constrained s'" using preservesD [OF schema.kept_saves(1) m] s by (simp add: isolated_def)
  have w: "uow_ok s" "users_ok (users (st_work s))"
    using s by (auto simp: isolated_def holds_def dest: db_ok_users)
  show "isolated i D s'"
  proof (cases r)
    case (Inl e)
    from save_user_Inl [OF w(1) m [unfolded Inl]] s show ?thesis by simp
  next
    case (Inr v)
    from save_user_Inr [OF w(1)] m Inr obtain d x where d: "user_update E u (st_work s) = Inr (v, d)" "s' = s\<lparr>st_work := d, st_uow := x\<rparr>" "uow_ok s'"
      by blast
    have "kept i D d" using kept_user_update [OF _ w(2) d(1) u] s by (simp add: isolated_def)
    with c d s show ?thesis by (simp add: isolated_def)
  qed
qed

lemma isolated_update_unregistered: "u_id u = i \<Longrightarrow> preserves (isolated i D) (on_work_with (user_update E u))"
proof (rule preservesI)
  fix s r s' assume u: "u_id u = i" and s: "isolated i D s" and m: "on_work_with (user_update E u) s = (r, s')"
  have c: "constrained s'" using preservesD [OF schema.kept_writes(1) m] s by (simp add: isolated_def)
  have w: "users_ok (users (st_work s))" using s by (auto simp: isolated_def holds_def dest: db_ok_users)
  from m c s w u show "isolated i D s'"
    by (auto simp: on_work_with_def isolated_def uow_ok_def split: sum.splits dest: kept_user_update)
qed

lemma isolated_revoke_all: "preserves (isolated i D) (svc_revoke_all_sessions i)"
proof (rule preservesI)
  fix s r s' assume s: "isolated i D s" and m: "svc_revoke_all_sessions i s = (r, s')"
  have c: "constrained s'" using preservesD [OF schema.kept_services(2) m] s by (simp add: isolated_def)
  have w: "uow_ok s" "db_ok (st_work s)" "kept i D (st_work s)" using s by (simp_all add: isolated_def holds_def)
  show "isolated i D s'"
  proof (cases "session_acquire_by_user_id i (st_work s)")
    case (Inl e)
    with m s show ?thesis by (simp add: svc_revoke_all_sessions_def bnd_query)
  next
    case (Inr ss)
    from revoke_all_run [OF w(1,2) Inr] m obtain x where
      x: "s' = s\<lparr>st_work := revoke_rows (set (live_sessions i (st_work s))) (st_work s), st_uow := x\<rparr>" "uow_wf x" by auto
    have "kept i D (revoke_rows (set (live_sessions i (st_work s))) (st_work s))"
      by (rule kept_revoke [OF w(3,2)]) (auto simp: live_sessions_def own_sessions_def)
    with x c s show ?thesis by (simp add: isolated_def uow_ok_def)
  qed
qed

lemma isolated_revoke_session: "preserves (isolated i D) (svc_revoke_session j i)"
proof (rule preservesI)
  fix s r s' assume s: "isolated i D s" and m: "svc_revoke_session j i s = (r, s')"
  have c: "constrained s'" using preservesD [OF schema.kept_services(8) m] s by (simp add: isolated_def)
  have w: "uow_ok s" "db_ok (st_work s)" "kept i D (st_work s)" using s by (simp_all add: isolated_def holds_def)
  show "isolated i D s'"
  proof (cases "\<exists>x. session_acquire_by_session_id j (st_work s) = Inr (Some x) \<and> s_user_id x = i")
    case False
    with m s show ?thesis
      by (cases "session_acquire_by_session_id j (st_work s)") (auto simp: svc_revoke_session_def bnd_query split: option.splits if_splits)
  next
    case True
    then obtain x where x: "session_acquire_by_session_id j (st_work s) = Inr (Some x)" "s_user_id x = i" by blast
    from save_session_succeeds [OF w(1) revoke_update [OF w(2) x(1)]] obtain y where
      "save_session (revoke x) s = (Inr (), s\<lparr>st_work := revoke_rows {j} (st_work s), st_uow := y\<rparr>)" "uow_wf y" by blast
    with m x have s': "s' = s\<lparr>st_work := revoke_rows {j} (st_work s), st_uow := y\<rparr>" "uow_wf y"
      by (auto simp: svc_revoke_session_def bnd_query thn_def bnd_def)
    have "kept i D (revoke_rows {j} (st_work s))"
      by (rule kept_revoke [OF w(3,2)]) (use x in \<open>auto simp: session_acquire_Some own_sessions_def dest!: find_row_Some_iff\<close>)
    with s' c s show ?thesis by (simp add: isolated_def uow_ok_def)
  qed
qed

section \<open>Commands of a signed-in user\<close>

text \<open>Rules that carry what is known of a result to the code that uses it.\<close>

definition yields :: "('a \<Rightarrow> bool) \<Rightarrow> ('s, 'e, 'a) act \<Rightarrow> bool" where
  "yields Q m = (\<forall>s x s'. m s = (Inr x, s') \<longrightarrow> Q x)"

lemma preserves_bnd_yields:
  assumes "preserves P m" and "yields Q m" and "\<And>x. Q x \<Longrightarrow> preserves P (k x)"
  shows "preserves P (bnd m k)"
proof (rule preservesI)
  fix s r s' assume P: "P s" and m: "bnd m k s = (r, s')"
  obtain o1 s1 where o: "m s = (o1, s1)" by fastforce
  have "P s1" using assms(1) o P by (rule preservesD)
  with m o assms(2,3) show "P s'" by (cases o1) (auto simp: bnd_def yields_def intro: preservesD)
qed

lemma preserves_UserID: "preserves P (k i) \<Longrightarrow> preserves P (bnd (lift (UserID i)) k)"
  by (rule preserves_bnd_yields [where Q = "\<lambda>x. x = i"]) (auto intro: pres simp: yields_def UserID_eq)

lemma preserves_get_user:
  "(\<And>u. u_id u = i \<Longrightarrow> preserves (isolated i D) (k u)) \<Longrightarrow> preserves (isolated i D) (bnd (svc_get_user_by_id E i) k)"
  by (rule preserves_bnd_yields [where Q = "\<lambda>u. u_id u = i"])
    (auto simp: svc_get_user_by_id_def yields_def bnd_eq_Inr dest: acquire_by_id_id split: option.splits if_splits intro!: pres)

lemma isolated_update_user: "u_id u = i \<Longrightarrow> preserves (isolated i D) (svc_update_user E now u n m)"
  unfolding svc_update_user_def
  by (intro preserves_split pres(1,2) preserves_bnd_yields [where Q = "\<lambda>u. u_id u = i"] isolated_save_user; (intro pres)?)
    (auto simp: yields_def bnd_eq_Inr update_username_def update_email_def Let_def split: option.splits if_splits)

lemma isolated_update_profile: "preserves (isolated i D) (update_profile E now i n m)"
  unfolding update_profile_def
  by (intro preserves_UserID preserves_get_user preserves_bnd pres isolated_update_user)

lemma isolated_delete_me: "preserves (isolated i D) (delete_me E now i)"
proof -
  have "preserves (isolated i D) (svc_delete_user E now i)"
    unfolding svc_delete_user_def
    by (intro preserves_bnd_yields [where Q = "\<lambda>o1. case o1 of None \<Rightarrow> True | Some u \<Rightarrow> u_id u = i"] preserves_option
        preserves_split preserves_thn isolated_revoke_all isolated_save_user; (intro pres)?)
      (auto simp: yields_def delete_def dest: acquire_by_id_id split: option.splits)
  then show ?thesis unfolding delete_me_def by (intro preserves_UserID preserves_thn pres)
qed

lemma isolated_change_password: "preserves (isolated i D) (change_password_use_case E now i p q)"
proof -
  have "preserves (isolated i D) (svc_change_password E u p' q')" if "u_id u = i" for u p' q'
    unfolding svc_change_password_def that
    by (rule preserves_bnd, intro pres, rule preserves_bnd, intro pres,
        rule preserves_bnd_yields [where Q = "\<lambda>v. u_id v = i"], intro pres)
      (use that in \<open>auto simp: yields_def change_password_def split: if_splits intro!: preserves_bnd preserves_thn isolated_save_user isolated_revoke_all pres\<close>)
  then show ?thesis unfolding change_password_use_case_def
    by (intro preserves_UserID preserves_get_user) (auto intro!: preserves_bnd preserves_thn pres)
qed

lemma isolated_two_factor:
  "preserves (isolated i D) (confirm_2fa E now i code)" "preserves (isolated i D) (disable_2fa E now i p)"
  "preserves (isolated i D) (enable_2fa E now i)" "preserves (isolated i D) (verify_2fa E now i code)"
proof -
  show "preserves (isolated i D) (confirm_2fa E now i code)"
    unfolding confirm_2fa_def
    by (intro preserves_UserID preserves_get_user preserves_bnd_yields [where Q = "\<lambda>v. u_id v = i"] preserves_thn isolated_update_user; (intro pres)?)
      (auto simp: yields_def confirm_two_factor_def split: option.splits if_splits)
  show "preserves (isolated i D) (disable_2fa E now i p)"
    unfolding disable_2fa_def
    by (intro preserves_UserID preserves_get_user preserves_bnd preserves_split preserves_thn isolated_update_user; (intro pres)?)
      (simp add: disable_two_factor_def)
  show "preserves (isolated i D) (enable_2fa E now i)"
    unfolding enable_2fa_def
    by (intro preserves_UserID preserves_get_user preserves_bnd preserves_split preserves_prod preserves_let preserves_thn isolated_update_user; (intro pres)?)
      (auto simp: begin_two_factor_enrolment_def Let_def split: prod.splits)
  show "preserves (isolated i D) (verify_2fa E now i code)"
    unfolding verify_2fa_def
    by (intro preserves_UserID preserves_bnd_yields [where Q = "\<lambda>o1. case o1 of None \<Rightarrow> True | Some u \<Rightarrow> u_id u = i"] preserves_option
        preserves_prod preserves_thn isolated_update_unregistered; (intro pres)?)
      (auto simp: yields_def verify_two_factor_consumed dest: acquire_by_id_id split: option.splits)
qed

lemma isolated_sessions:
  "preserves (isolated i D) (revoke_session_use_case E now i sid)"
  "preserves (isolated i D) (revoke_all_sessions_local E now i)"
proof -
  show "preserves (isolated i D) (revoke_session_use_case E now i sid)"
    unfolding revoke_session_use_case_def
    by (rule preserves_bnd, intro pres, rule preserves_UserID, rule preserves_bnd, rule isolated_revoke_session, intro pres)
  show "preserves (isolated i D) (revoke_all_sessions_local E now i)"
    unfolding revoke_all_sessions_local_def by (intro preserves_UserID preserves_thn isolated_revoke_all pres)
qed

end
