(* ===== verification/Overlap.thy ===== *)
theory Overlap
  imports Isolation
begin

text \<open>
  Two requests that overlap. PostgreSQL runs a transaction at the isolation level READ COMMITTED:
  each statement sees what is committed when it runs. A command is therefore split at the read it
  decides on; the part after the read is resumed on a state to which another request has committed
  in between. Accounts carry a version and a stale write is refused. Sessions do not.
\<close>

section \<open>A command split at its first read\<close>

definition reset_resumed :: "env \<Rightarrow> datetime \<Rightarrow> string \<Rightarrow> codepoints \<Rightarrow> user option \<Rightarrow> unit action" where
  "reset_resumed E now token new_password found = thn (reset_found E now token new_password found) (commit E now)"

lemma thn_bnd: "thn (bnd m f) k = bnd m (\<lambda>x. thn (f x) k)"
  by (auto simp: bnd_def thn_def fun_eq_iff split: prod.splits sum.splits)

lemma reset_split:
  "thn (svc_reset_password E now token p) (commit E now) =
     bnd (query (user_acquire_by_reset_token E (from_raw E token))) (reset_resumed E now token p)"
  by (simp add: svc_reset_password_def reset_resumed_def [abs_def] thn_bnd)

section \<open>A refresh that overlaps a sign-out\<close>

lemma revoked_tokens:
  assumes "i \<in> I"
  shows "session_tokens i (revoke_rows I d) = map (\<lambda>t. t\<lparr>tr_is_revoked := True\<rparr>) (session_tokens i d)"
proof -
  have "filter (\<lambda>t. tr_session_id t = i) (update_where (\<lambda>t. tr_session_id t \<in> I) (\<lambda>t. t\<lparr>tr_is_revoked := True\<rparr>) ts) =
      map (\<lambda>t. t\<lparr>tr_is_revoked := True\<rparr>) (filter (\<lambda>t. tr_session_id t = i) ts)" for ts
    using assms by (induction ts) (auto simp: update_where_def)
  then show ?thesis by (simp add: session_tokens_def revoke_rows_def)
qed

lemma request_keeps:
  assumes "preserves (holds I) h" and "I (st_committed s)" and "in_request h s = (r, s')"
  shows "I (st_committed s')"
proof -
  obtain x where "h (s\<lparr>st_work := st_committed s, st_uow := empty_uow\<rparr>) = (r, x)" "st_committed s' = st_committed x"
    using assms(3) by (auto simp: in_request_def split: prod.splits)
  with preservesD [OF assms(1)] assms(2) show ?thesis by (fastforce simp: holds_def)
qed

lemma in_clean_request:
  assumes "st_work s = st_committed s" and "st_uow s = empty_uow"
  shows "in_request h s = (let (r, s1) = h s in (r, s1\<lparr>st_work := st_committed s1, st_uow := empty_uow\<rparr>))"
proof -
  have "s\<lparr>st_work := st_committed s, st_uow := empty_uow\<rparr> = s" using assms by (cases s) simp
  then show ?thesis by (simp add: in_request_def)
qed

text \<open>A revoked session as it is read from the tables.\<close>

lemma acquire_revoked:
  assumes s: "session_acquire_by_session_id i d = Inr (Some s)" and i: "i \<in> I"
  shows "session_acquire_by_session_id i (revoke_rows I d) = Inr (Some ((revoke s)\<lparr>s_events := []\<rparr>))"
proof -
  note tk = session_acquire_tokens [OF s]
  have "session_tokens i (revoke_rows I d) = map (token_to_row i) (map revoked (s_refresh_tokens s))"
    unfolding revoked_tokens [OF i] tk(1) [symmetric] by (simp add: token_to_row_def)
  moreover have "list_all (\<lambda>t. rt_token_hash t \<noteq> []) (map revoked (s_refresh_tokens s))"
    using tk(2) by (simp add: list_all_iff)
  ultimately have ts: "rmap refresh_token_from_row (session_tokens i (revoke_rows I d)) = Inr (map revoked (s_refresh_tokens s))"
    by (simp only: tokens_written)
  obtain r where r: "find_row (\<lambda>r. sr_session_id r = i) (sessions d) = Some r" "sr_user_id r \<noteq> NIL_UUID"
    "s_user_id s = sr_user_id r" "s_device_info s = device_info_from_row r" "s_created_at s = sr_created_at r" "s_expires_at s = sr_expires_at r"
    using s unfolding session_acquire_Some by auto
  have ri: "sr_session_id r = i" using find_row_Some_iff [OF r(1)] by simp
  have "find_row (\<lambda>r. sr_session_id r = i) (sessions (revoke_rows I d)) = Some (r\<lparr>sr_is_revoked := True\<rparr>)"
    using r(1) ri i by (simp add: revoke_rows_def find_row_update_where)
  then show ?thesis unfolding session_acquire_Some
    using ts r(2-) ri tk(3)
    by (intro exI [of _ "r\<lparr>sr_is_revoked := True\<rparr>"] exI [of _ "map revoked (s_refresh_tokens s)"])
      (simp add: revoke_def device_info_from_row_def)
qed

text \<open>A session rotated from an old read is written over what has been committed since. The new token
  opens the session again, and so does every live token the old read did not know.\<close>

lemma acquired_token_ids:
  assumes "session_acquire_by_session_id i d = Inr (Some s)"
  shows "rt_id ` set (s_refresh_tokens s) \<subseteq> tr_id ` set (refresh_tokens d)"
proof -
  have "set (map (token_to_row i) (s_refresh_tokens s)) \<subseteq> set (refresh_tokens d)"
    unfolding session_acquire_tokens(1) [OF assms] by (auto simp: session_tokens_def)
  from image_mono [OF this, of tr_id] show ?thesis by (simp add: image_image)
qed

lemma stale_write:
  assumes ok: "db_ok d" and y: "session_acquire_by_session_id i d = Inr (Some y)"
    and x: "s_session_id x = i" "s_refresh_tokens x = ts @ [n]"
    and ts: "rt_id ` set ts \<subseteq> tr_id ` set (refresh_tokens d)" "distinct (map rt_id ts)"
    and n: "rt_id n \<notin> tr_id ` set (refresh_tokens d)" "rt_token_hash n \<notin> tr_token_hash ` set (refresh_tokens d)" "rt_token_hash n \<noteq> []"
  shows "\<exists>d' z. session_update x d = Inr d' \<and> session_acquire_by_session_id i d' = Inr (Some z) \<and>
     s_user_id z = s_user_id y \<and> s_is_revoked z = s_is_revoked x \<and> token_to_row i n \<in> set (refresh_tokens d') \<and>
     (\<forall>r \<in> set (refresh_tokens d). tr_id r \<notin> rt_id ` set ts \<longrightarrow> r \<in> set (refresh_tokens d'))"
proof -
  let ?ss = "update_where (\<lambda>r. sr_session_id r = i) (\<lambda>r. r\<lparr>sr_is_revoked := s_is_revoked x, sr_expires_at := s_expires_at x\<rparr>) (sessions d)"
  let ?d = "d\<lparr>sessions := ?ss\<rparr>" and ?rs = "map (token_to_row i) ts"
  obtain r where r: "find_row (\<lambda>r. sr_session_id r = i) (sessions d) = Some r" "sr_user_id r \<noteq> NIL_UUID" "s_user_id y = sr_user_id r"
    using y unfolding session_acquire_Some by auto
  have "list_all (\<lambda>q. tr_id q \<in> tr_id ` set (refresh_tokens ?d)) ?rs" using ts(1) by (auto simp: list_all_iff)
  then obtain D where D: "upsert_tokens ?rs ?d = Inr D" using upsert_tokens_present by blast
  have flt: "filter (\<lambda>q. tr_id q \<notin> tr_id ` set (refresh_tokens ?d)) ?rs = []" using ts(1) by (auto simp: filter_empty_conv)
  have "distinct (map tr_id ?rs)" using ts(2) by (simp add: comp_def)
  from upsert_tokens_table [OF D this] flt have D': "D = d\<lparr>sessions := ?ss, refresh_tokens := map (overlay ?rs) (refresh_tokens d)\<rparr>" by simp
  let ?d' = "D\<lparr>refresh_tokens := refresh_tokens D @ [token_to_row i n]\<rparr>"
  have "has_session i d" using r(1) by (auto simp: has_session_iff dest!: find_row_Some_iff)
  then have hs: "has_session i D" by (simp add: D' has_session_def list_ex_update_where)
  have u: "session_update x d = Inr ?d'"
    using D n hs by (simp add: session_update_def x upsert_tokens_append upsert_token_def list_ex_key insert_token_def D' image_image)
  have h: "tr_token_hash q \<noteq> []" if "q \<in> set (session_tokens i d)" for q
    using that session_acquire_tokens(2) [OF y] unfolding session_acquire_tokens(1) [OF y, symmetric] by (auto simp: list_all_iff)
  have "session_tokens i ?d' = map (overlay ?rs) (session_tokens i d) @ [token_to_row i n]"
    by (simp add: session_tokens_def D' filter_map comp_def)
  then have "tr_token_hash q \<noteq> []" if "q \<in> set (session_tokens i ?d')" for q using that h n(3) by auto
  then have "\<exists>t. refresh_token_from_row q = Inr t" if "q \<in> set (session_tokens i ?d')" for q
    using that by (simp add: refresh_token_from_row_def TokenHash_def)
  then obtain us where us: "rmap refresh_token_from_row (session_tokens i ?d') = Inr us"
    using rmap_Inr [of "session_tokens i ?d'" refresh_token_from_row] by blast
  have "sr_session_id r = i" using find_row_Some_iff [OF r(1)] by simp
  then have f: "find_row (\<lambda>r. sr_session_id r = i) (sessions ?d') = Some (r\<lparr>sr_is_revoked := s_is_revoked x, sr_expires_at := s_expires_at x\<rparr>)"
    using r(1) by (simp add: D' find_row_update_where)
  obtain z where z: "session_acquire_by_session_id i ?d' = Inr (Some z)" "s_user_id z = sr_user_id r" "s_is_revoked z = s_is_revoked x"
    using f us r(2) unfolding session_acquire_Some by fastforce
  have "q \<in> set (refresh_tokens ?d')" if "q \<in> set (refresh_tokens d)" "tr_id q \<notin> rt_id ` set ts" for q
  proof -
    have "find_row (\<lambda>t. tr_id t = tr_id q) ?rs = None" using that(2) by (auto simp: find_row_None_iff image_iff)
    then have "overlay ?rs q = q" by (simp add: overlay_def)
    with that(1) show ?thesis by (auto simp: D' intro!: image_eqI [of q])
  qed
  with u z r(3) show ?thesis by (intro exI [of _ ?d'] exI [of _ z]) simp
qed

text \<open>The tokens of a rotated session.\<close>

lemma rotated_tokens:
  "s_refresh_tokens (rotated E k now p old) = map (\<lambda>t. if rt_id t = rt_id p then revoked t else t) (s_refresh_tokens old) @
     [\<lparr>rt_token_hash = from_raw E (token_urlsafe E 32 k), rt_id = uuid4 E (k + 1),
       rt_expires_at = now + seconds REFRESH_TOKEN_EXPIRE_SECONDS, rt_is_revoked = False, rt_created_at = now\<rparr>]"
  "s_is_revoked (rotated E k now p old) = s_is_revoked old"
  by (simp_all add: rotated_def refresh_def add_refresh_token_def revoke_token_def)

lemma rotated_ids: "rt_id ` set (s_refresh_tokens (rotated E k now p old)) = insert (uuid4 E (k + 1)) (rt_id ` set (s_refresh_tokens old))"
proof -
  have "map rt_id (s_refresh_tokens (rotated E k now p old)) = map rt_id (s_refresh_tokens old) @ [uuid4 E (k + 1)]"
    by (simp add: rotated_tokens)
  from arg_cong [OF this, of set] show ?thesis by simp
qed

lemma stale_rotation_opens:
  assumes ok: "db_ok d0" "db_ok d" and acq: "session_acquire_by_token_hash h d0 = Inr (Some old)"
    and y: "session_acquire_by_session_id (s_session_id old) d = Inr (Some y)" "s_user_id y = s_user_id old"
    and ids: "rt_id ` set (s_refresh_tokens old) \<subseteq> tr_id ` set (refresh_tokens d)"
    and n: "uuid4 E (k + 1) \<notin> tr_id ` set (refresh_tokens d)"
      "from_raw E (token_urlsafe E 32 k) \<notin> tr_token_hash ` set (refresh_tokens d)"
  shows "\<exists>d' z. session_update (rotated E k now p old) d = Inr d' \<and>
     session_acquire_by_token_hash (from_raw E (token_urlsafe E 32 k)) d' = Inr (Some z) \<and>
     s_session_id z = s_session_id old \<and> s_user_id z = s_user_id old \<and>
     (\<forall>r \<in> set (refresh_tokens d). tr_session_id r = s_session_id old \<longrightarrow> tr_id r \<notin> rt_id ` set (s_refresh_tokens old) \<longrightarrow> \<not> tr_is_revoked r \<longrightarrow>
        session_acquire_by_token_hash (tr_token_hash r) d' = Inr (Some z))"
proof -
  let ?x = "rotated E k now p old" and ?i = "s_session_id old"
  note s = acquire_by_token_session [OF acq]
  have live: "\<not> s_is_revoked ?x" using s(2) by (simp add: rotated_tokens)
  have "distinct (map tr_id (session_tokens ?i d0))"
    using ok(1) by (simp add: db_ok_def sessions_ok_def session_tokens_def distinct_map_filter)
  then have dist: "distinct (map rt_id (s_refresh_tokens old))"
    unfolding session_acquire_tokens(1) [OF s(1), symmetric] by (simp add: comp_def)
  let ?ts = "map (\<lambda>t. if rt_id t = rt_id p then revoked t else t) (s_refresh_tokens old)"
  let ?n = "\<lparr>rt_token_hash = from_raw E (token_urlsafe E 32 k), rt_id = uuid4 E (k + 1),
       rt_expires_at = now + seconds REFRESH_TOKEN_EXPIRE_SECONDS, rt_is_revoked = False, rt_created_at = now\<rparr>"
  have m: "map rt_id ?ts = map rt_id (s_refresh_tokens old)" by simp
  have m': "rt_id ` set ?ts = rt_id ` set (s_refresh_tokens old)" unfolding set_map [symmetric] m ..
  have i: "rt_id ` set ?ts \<subseteq> tr_id ` set (refresh_tokens d)" "distinct (map rt_id ?ts)" unfolding m m' by (rule ids dist)+
  have k: "rt_id ?n \<notin> tr_id ` set (refresh_tokens d)" "rt_token_hash ?n \<notin> tr_token_hash ` set (refresh_tokens d)" "rt_token_hash ?n \<noteq> []"
    using n by simp_all
  obtain d' z where d': "session_update ?x d = Inr d'" "session_acquire_by_session_id ?i d' = Inr (Some z)" "s_user_id z = s_user_id y"
      "s_is_revoked z = s_is_revoked ?x" "token_to_row ?i ?n \<in> set (refresh_tokens d')"
      "\<forall>r \<in> set (refresh_tokens d). tr_id r \<notin> rt_id ` set ?ts \<longrightarrow> r \<in> set (refresh_tokens d')"
    using stale_write [OF ok(2) y(1) rotated_simps(1) rotated_tokens(1) i(1,2) k] by blast
  note row = acquire_by_token_row [OF session_update_ok [OF ok(2) d'(1)]]
  have "session_acquire_by_token_hash (tr_token_hash (token_to_row ?i ?n)) d' = Inr (Some z)"
    using row [OF d'(5)] d'(2,4) live by simp
  moreover have "session_acquire_by_token_hash (tr_token_hash r) d' = Inr (Some z)"
    if "r \<in> set (refresh_tokens d)" "tr_session_id r = ?i" "tr_id r \<notin> rt_id ` set (s_refresh_tokens old)" "\<not> tr_is_revoked r" for r
    using row [of r z] d'(2,4,6) that live m' by simp
  ultimately show ?thesis using d'(1,3) y(2) session_acquire_tokens(3) [OF d'(2)] by auto
qed

lemma signed_out:
  assumes ok: "db_ok (st_committed s)" and a: "in_request (revoke_all_sessions_local E t i) s = (Inr (), s1)"
  shows "\<exists>es. st_committed s1 = with_events E (st_draw s) t es (revoke_rows (set (live_sessions i (st_committed s))) (st_committed s))"
    "st_work s1 = st_committed s1" "st_uow s1 = empty_uow"
proof -
  let ?s = "s\<lparr>st_work := st_committed s, st_uow := empty_uow\<rparr>" and ?d = "st_committed s"
  obtain xs s2 s3 where v: "svc_revoke_all_sessions i ?s = (Inr xs, s2)" and c: "commit E t s2 = (Inr (), s3)"
    and s1: "s1 = s3\<lparr>st_work := st_committed s3, st_uow := empty_uow\<rparr>"
    using a by (auto simp: in_request_def revoke_all_sessions_local_def UserID_def lift_def bnd_def thn_def Let_def
        split: if_splits sum.splits prod.splits)
  then show "st_work s1 = st_committed s1" "st_uow s1 = empty_uow" by simp_all
  obtain w where "s2 = ?s\<lparr>st_work := revoke_rows (set (live_sessions i ?d)) ?d, st_uow := w\<rparr>"
    using revoke_all_Inr [OF _ _ v] ok by (auto simp: uow_ok_def)
  with commit_Inr [OF c] s1 show "\<exists>es. st_committed s1 = with_events E (st_draw s) t es (revoke_rows (set (live_sessions i ?d)) ?d)" by auto
qed

text \<open>C10. Signing out everywhere does not stop a refresh that is under way. A refresh has read its session; before
  it writes, the user revokes all sessions, and then no refresh token of the account opens a session
  any more. The refresh still succeeds: it writes the session back as it was read, unrevoked, and the
  token it hands out opens that session. The random identifiers drawn are assumed not to collide.\<close>

theorem refresh_undoes_sign_out:
  assumes ok: "db_ok (st_committed s)"
    and old: "session_acquire_by_token_hash (from_raw E token) (st_committed s) = Inr (Some old)" "\<not> session_is_expired old now"
    and p: "find_refresh_token (from_raw E token) old = Some p" "rt_is_valid p now"
    and u: "user_acquire_by_id E (s_user_id old) (st_committed s) = Inr (Some u)" "\<not> is_deleted u" "\<not> user_is_locked u now"
    and out: "in_request (revoke_all_sessions_local E t (s_user_id old)) s = (Inr (), s1)"
    and fresh: "uuid4 E (st_draw s1 + 1) \<notin> tr_id ` set (refresh_tokens (st_committed s1))"
      "from_raw E (token_urlsafe E 32 (st_draw s1)) \<notin> tr_token_hash ` set (refresh_tokens (st_committed s1))" "fresh_ids E 4 s1"
  shows "(\<nexists>h x. session_acquire_by_token_hash h (st_committed s1) = Inr (Some x) \<and> s_user_id x = s_user_id old) \<and>
     (\<exists>out x s2. in_request (refresh_resumed E now token (Some old)) s1 = (Inr out, s2) \<and>
        session_acquire_by_token_hash (from_raw E (ro_refresh_token out)) (st_committed s2) = Inr (Some x) \<and>
        s_session_id x = s_session_id old \<and> s_user_id x = s_user_id old)"
proof
  let ?i = "s_user_id old" and ?d = "st_committed s" and ?d1 = "st_committed s1"
  let ?R = "revoke_rows (set (live_sessions ?i ?d)) ?d" and ?x = "rotated E (st_draw s1) now p old"
  obtain es where d1: "?d1 = with_events E (st_draw s) t es ?R" using signed_out(1) [OF ok out] by blast
  note clean = signed_out(2,3) [OF ok out]
  have "live_sessions ?i ?d1 = []" by (simp add: d1 live_sessions_revoked)
  from no_live_sessions(2) [OF this]
  show "\<nexists>h x. session_acquire_by_token_hash h ?d1 = Inr (Some x) \<and> s_user_id x = ?i" by blast
  have ok1: "db_ok ?d1" using request_keeps [OF schema.kept_commands(16) ok out] .
  note old' = acquire_by_token_session(1) [OF old(1)]
  have r: "session_acquire_by_session_id (s_session_id old) ?d1 = Inr (Some ((revoke old)\<lparr>s_events := []\<rparr>))"
    using acquire_revoked [OF old' acquire_by_token_live [OF old(1)]] by (simp add: d1)
  have "rt_id ` set (s_refresh_tokens (revoke old)) = rt_id ` set (s_refresh_tokens old)" by (simp add: revoke_def image_image)
  then have ids: "rt_id ` set (s_refresh_tokens old) \<subseteq> tr_id ` set (refresh_tokens ?d1)" using acquired_token_ids [OF r] by simp
  obtain d z where d: "session_update ?x ?d1 = Inr d"
    "session_acquire_by_token_hash (from_raw E (token_urlsafe E 32 (st_draw s1))) d = Inr (Some z)" "s_session_id z = s_session_id old" "s_user_id z = ?i"
    using stale_rotation_opens [OF ok ok1 old(1) r _ ids fresh(1,2), of now p] by (auto simp: revoke_def)
  have u1: "user_acquire_by_id E ?i ?d1 = Inr (Some u)" using u(1) by (simp add: d1 user_acquire_by_id_def)
  have "has_user ?i ?d1" using session_owner_exists [OF ok old'] by (simp add: d1)
  note c = refresh_commits [OF clean old(2) p acquired_by_token_events [OF old(1)] u1 u(2,3) d(1) fresh(3) this]
  show "\<exists>out x s2. in_request (refresh_resumed E now token (Some old)) s1 = (Inr out, s2) \<and>
        session_acquire_by_token_hash (from_raw E (ro_refresh_token out)) (st_committed s2) = Inr (Some x) \<and>
        s_session_id x = s_session_id old \<and> s_user_id x = ?i"
    unfolding in_clean_request [OF clean] c using d by auto
qed

lemma signs_out:
  assumes ok: "db_ok (st_committed s)" and i: "i \<noteq> NIL_UUID" "has_user i (st_committed s)"
    and q: "session_acquire_by_user_id i (st_committed s) = Inr ss" and o: "list_all (\<lambda>x. s_user_id x = i) ss"
    and fresh: "fresh_ids E (2 * length ss) (s\<lparr>st_work := st_committed s\<rparr>)"
  shows "\<exists>s1. in_request (revoke_all_sessions_local E t i) s = (Inr (), s1) \<and> st_draw s1 = st_draw s + 2 * length ss \<and>
     st_committed s1 = with_events E (st_draw s) t (map (\<lambda>x. SessionRevokedEvent (s_session_id x) (s_user_id x)) ss)
       (revoke_rows (set (live_sessions i (st_committed s))) (st_committed s))"
proof -
  let ?s = "s\<lparr>st_work := st_committed s, st_uow := empty_uow\<rparr>" and ?d = "st_committed s"
  let ?R = "revoke_rows (set (live_sessions i ?d)) ?d"
  obtain w where w: "svc_revoke_all_sessions i ?s = (Inr (map revoke ss), ?s\<lparr>st_work := ?R, st_uow := w\<rparr>)"
    "waiting w = map (\<lambda>x. SessionRevokedEvent (s_session_id x) (s_user_id x)) ss"
    using revoke_all_run [of ?s i ss] ok q by (auto simp: uow_ok_def)
  let ?s2 = "?s\<lparr>st_work := ?R, st_uow := w\<rparr>"
  have "fresh_ids E (2 * length (waiting (st_uow ?s2))) ?s2" using fresh w(2) by (simp add: fresh_ids_def revoke_rows_def)
  moreover have "list_all (\<lambda>e. pred_option (\<lambda>u. has_user u (st_work ?s2)) (event_user e)) (waiting (st_uow ?s2))"
    using i(2) o w(2) by (auto simp: list_all_iff revoke_rows_def has_user_def)
  ultimately obtain k where c: "commit E t ?s2 = (Inr (), ?s2\<lparr>st_committed := with_events E (st_draw s) t (waiting w) ?R,
        st_work := with_events E (st_draw s) t (waiting w) ?R, st_uow := empty_uow, st_draw := k\<rparr>)"
    using commit_succeeds [of E ?s2 t] by auto
  from commit_draws [OF c] w c i(1) show ?thesis
    by (auto simp: in_request_def revoke_all_sessions_local_def UserID_def lift_def bnd_def thn_def)
qed

lemma demo_later_hash: "from_raw sample_env (token_urlsafe sample_env n 102) \<noteq> from_raw sample_env ''T51''"
proof -
  have "token_urlsafe sample_env n 102 = ''T102''" by (simp add: sample_env_def) code_simp
  moreover have "from_raw sample_env ''T102'' ! 31 \<noteq> from_raw sample_env ''T51'' ! 31"
    by (simp add: from_raw_def digest_bytes_def sample_env_def)
  ultimately show ?thesis by metis
qed

theorem refresh_undoes_sign_out_witness:
  "\<exists>out x s1 s2. in_request (revoke_all_sessions_local sample_env 4 7) demo_st = (Inr (), s1) \<and>
     in_request (refresh_resumed sample_env 5 ''T51'' (Some demo_session)) s1 = (Inr out, s2) \<and>
     session_acquire_by_token_hash (from_raw sample_env (ro_refresh_token out)) (st_committed s2) = Inr (Some x) \<and> s_user_id x = 7"
proof -
  have [simp]: "st_committed demo_st = demo_db" "st_draw demo_st = 100" by (simp_all add: demo_st_def)
  have p: "find_refresh_token (from_raw sample_env ''T51'') demo_session = Some (hd (s_refresh_tokens demo_session))"
    by (simp add: find_refresh_token_def)
  have v: "rt_is_valid (hd (s_refresh_tokens demo_session)) 5" "\<not> session_is_expired demo_session 5"
    by (simp_all add: rt_is_valid_def rt_is_expired_def session_is_expired_def)
  have f: "fresh_ids sample_env (2 * length [demo_session]) (demo_st\<lparr>st_work := st_committed demo_st\<rparr>)"
    by (simp add: fresh_ids_def demo_db_def empty_db_def upt_rec)
  have q: "session_acquire_by_user_id 7 (st_committed demo_st) = Inr [demo_session]"
    using demo_sessions [of "users demo_db"] by simp
  have h: "has_user 7 (st_committed demo_st)" by (simp add: has_user_def demo_db_def)
  obtain s1 where s1: "in_request (revoke_all_sessions_local sample_env 4 7) demo_st = (Inr (), s1)" "st_draw s1 = 102"
     "st_committed s1 = with_events sample_env 100 4 [SessionRevokedEvent 51 7] (revoke_rows (set (live_sessions 7 demo_db)) demo_db)"
    using signs_out [OF _ _ h q _ f, of 4] demo_db_ok by (auto simp: NIL_UUID_def)
  have tk: "refresh_tokens (st_committed s1) = update_where (\<lambda>t. tr_session_id t \<in> set (live_sessions 7 demo_db)) (\<lambda>t. t\<lparr>tr_is_revoked := True\<rparr>) (refresh_tokens demo_db)"
    by (simp add: s1(3) revoke_rows_def)
  have w: "st_work s1 = st_committed s1" using signed_out(2) [OF _ s1(1)] demo_db_ok by simp
  have f1: "fresh_ids sample_env 4 s1"
    using audit_row_of_cases [of sample_env 101 4 "SessionRevokedEvent 51 7"]
    by (auto simp: fresh_ids_def w s1(2,3) with_events_def revoke_rows_def demo_db_def empty_db_def outbox_row_of_def upt_rec)
  have f2: "uuid4 sample_env (st_draw s1 + 1) \<notin> tr_id ` set (refresh_tokens (st_committed s1))"
    by (simp add: tk s1(2) update_where_def demo_db_def demo_tokens)
  have t: "from_raw sample_env (token_urlsafe sample_env 32 (st_draw s1)) \<notin> tr_token_hash ` set (refresh_tokens (st_committed s1))"
    using demo_later_hash by (simp add: tk s1(2) update_where_def demo_db_def demo_tokens)
  have u: "user_acquire_by_id sample_env (s_user_id demo_session) demo_db = Inr (Some demo_user)"
    using demo_acquire(2) by simp
  from refresh_undoes_sign_out [of demo_st sample_env "''T51''" demo_session 5 "hd (s_refresh_tokens demo_session)" demo_user 4 s1]
    demo_db_ok demo_acquire(1) v p u s1(1) f1 f2 t
  obtain out x s2 where "in_request (refresh_resumed sample_env 5 ''T51'' (Some demo_session)) s1 = (Inr out, s2)"
     "session_acquire_by_token_hash (from_raw sample_env (ro_refresh_token out)) (st_committed s2) = Inr (Some x)" "s_user_id x = 7"
    by auto
  with s1(1) show ?thesis by (intro exI [of _ out] exI [of _ x] exI [of _ s1] exI [of _ s2]) simp
qed

section \<open>Two refreshes with one token\<close>

lemma demo_rotation:
  assumes d: "session_update (rotated sample_env 100 4 (hd (s_refresh_tokens demo_session)) demo_session) demo_db = Inr d"
  shows "tr_id ` set (refresh_tokens d) = {53, 102}"
    "tr_token_hash ` set (refresh_tokens d) = {from_raw sample_env ''T51'', from_raw sample_env ''T100''}"
    "outbox_events d = []" "audit_logs d = []"
proof -
  have u: "uuid4 sample_env (100 + 1) = 102" by (simp add: sample_env_def)
  show "tr_id ` set (refresh_tokens d) = {53, 102}"
    "tr_token_hash ` set (refresh_tokens d) = {from_raw sample_env ''T51'', from_raw sample_env ''T100''}"
    using d u by (auto simp: session_update_def demo_db_def empty_db_def rotated_tokens upsert_token_def insert_token_def token_to_row_def
       update_where_def has_session_def demo_tokens session_to_row_def split: if_splits)
  show "outbox_events d = []" "audit_logs d = []"
    using session_update_frame(2,3) [OF d] by (simp_all add: demo_db_def empty_db_def)
qed

lemma demo_third_hash: "from_raw sample_env (token_urlsafe sample_env n 104) \<notin> {from_raw sample_env ''T51'', from_raw sample_env ''T100''}"
proof -
  have "token_urlsafe sample_env n 104 = ''T104''" by (simp add: sample_env_def) code_simp
  moreover have "from_raw sample_env ''T104'' ! 31 \<noteq> from_raw sample_env ''T51'' ! 31" "from_raw sample_env ''T104'' ! 31 \<noteq> from_raw sample_env ''T100'' ! 31"
    by (simp_all add: from_raw_def digest_bytes_def sample_env_def)
  ultimately show ?thesis by auto
qed

text \<open>C16. Rotation is single-use only for refreshes that do not overlap. A refresh has read its session;
  before it writes, another request exchanges the same token and commits. The first refresh still
  succeeds: the two requests are handed different tokens for the one presented, and in the end both
  open the session. The random identifiers drawn are assumed not to collide.\<close>

theorem overlapping_refreshes_fork:
  assumes ok: "db_ok (st_committed s)"
    and old: "session_acquire_by_token_hash (from_raw E token) (st_committed s) = Inr (Some old)"
      "\<not> session_is_expired old t" "\<not> session_is_expired old now"
    and p: "find_refresh_token (from_raw E token) old = Some p" "rt_is_valid p t" "rt_is_valid p now"
    and u: "user_acquire_by_id E (s_user_id old) (st_committed s) = Inr (Some u)" "\<not> is_deleted u" "\<not> user_is_locked u t" "\<not> user_is_locked u now"
    and fresh: "uuid4 E (st_draw s + 1) \<notin> tr_id ` set (refresh_tokens (st_committed s))"
      "from_raw E (token_urlsafe E 32 (st_draw s)) \<notin> tr_token_hash ` set (refresh_tokens (st_committed s))"
      "fresh_ids E 4 (s\<lparr>st_work := st_committed s\<rparr>)"
    and first: "in_request (refresh_token_use_case E t token) s = (Inr out1, s1)"
    and fresh1: "uuid4 E (st_draw s1 + 1) \<notin> tr_id ` set (refresh_tokens (st_committed s1))"
      "from_raw E (token_urlsafe E 32 (st_draw s1)) \<notin> tr_token_hash ` set (refresh_tokens (st_committed s1))" "fresh_ids E 4 s1"
  shows "\<exists>out2 z s2. in_request (refresh_resumed E now token (Some old)) s1 = (Inr out2, s2) \<and>
     ro_refresh_token out1 \<noteq> ro_refresh_token out2 \<and> s_session_id z = s_session_id old \<and> s_user_id z = s_user_id old \<and>
     session_acquire_by_token_hash (from_raw E (ro_refresh_token out1)) (st_committed s2) = Inr (Some z) \<and>
     session_acquire_by_token_hash (from_raw E (ro_refresh_token out2)) (st_committed s2) = Inr (Some z)"
proof -
  let ?d1 = "st_committed s1" and ?i = "s_session_id old" and ?y = "rotated E (st_draw s1) now p old"
  let ?x = "rotated E (st_draw s) t p old"
  let ?n = "\<lparr>rt_token_hash = from_raw E (token_urlsafe E 32 (st_draw s)), rt_id = uuid4 E (st_draw s + 1),
       rt_expires_at = t + seconds REFRESH_TOKEN_EXPIRE_SECONDS, rt_is_revoked = False, rt_created_at = t\<rparr>"
  obtain d where d: "session_update ?x (st_committed s) = Inr d"
    "session_acquire_by_token_hash (from_raw E (token_urlsafe E 32 (st_draw s))) d = Inr (Some (?x\<lparr>s_events := []\<rparr>))"
    and o: "ro_refresh_token out1 = token_urlsafe E 32 (st_draw s)" and s1: "s1 = after_refresh E t old d s"
    using refresh_runs [OF ok old(1,2) p(1,2) u(1-3) fresh] first by auto
  have y1: "session_acquire_by_session_id ?i ?d1 = Inr (Some (?x\<lparr>s_events := []\<rparr>))"
    using acquire_by_token_session(1) [OF d(2)] by (simp add: s1)
  have "set (map (token_to_row ?i) (s_refresh_tokens ?x)) \<subseteq> set (refresh_tokens ?d1)"
    using session_acquire_tokens(1) [OF y1] by (auto simp: session_tokens_def dest: arg_cong [of _ _ set])
  then have B: "token_to_row ?i ?n \<in> set (refresh_tokens ?d1)" by (simp add: rotated_tokens)
  have ids: "rt_id ` set (s_refresh_tokens old) \<subseteq> tr_id ` set (refresh_tokens ?d1)"
    using acquired_token_ids [OF y1] by (simp add: rotated_ids)
  have nB: "tr_id (token_to_row ?i ?n) \<notin> rt_id ` set (s_refresh_tokens old)"
    using fresh(1) acquired_token_ids [OF acquire_by_token_session(1) [OF old(1)]] by auto
  have ok1: "db_ok ?d1" using request_keeps [OF schema.kept_commands(3) ok first] .
  obtain d' z where d': "session_update ?y ?d1 = Inr d'"
      "session_acquire_by_token_hash (from_raw E (token_urlsafe E 32 (st_draw s1))) d' = Inr (Some z)" "s_session_id z = ?i" "s_user_id z = s_user_id old"
    and rest: "\<forall>r \<in> set (refresh_tokens ?d1). tr_session_id r = ?i \<longrightarrow> tr_id r \<notin> rt_id ` set (s_refresh_tokens old) \<longrightarrow> \<not> tr_is_revoked r \<longrightarrow>
        session_acquire_by_token_hash (tr_token_hash r) d' = Inr (Some z)"
    using stale_rotation_opens [OF ok ok1 old(1) y1 _ ids fresh1(1,2), of now p] by auto
  have o1: "session_acquire_by_token_hash (from_raw E (token_urlsafe E 32 (st_draw s))) d' = Inr (Some z)"
    using bspec [OF rest B] nB by simp
  have clean: "st_work s1 = ?d1" "st_uow s1 = empty_uow" by (simp_all add: s1)
  have u1: "user_acquire_by_id E (s_user_id old) ?d1 = Inr (Some u)"
    using u(1) session_update_frame(1) [OF d(1)] by (simp add: s1 user_acquire_by_id_def)
  have "has_user (s_user_id old) ?d1" using session_owner_exists [OF ok1 y1] by simp
  note c = refresh_commits [OF clean old(3) p(1,3) acquired_by_token_events [OF old(1)] u1 u(2,4) d'(1) fresh1(3) this]
  have "from_raw E (token_urlsafe E 32 (st_draw s)) \<in> tr_token_hash ` set (refresh_tokens ?d1)"
    using B by (auto intro!: image_eqI [of _ _ "token_to_row ?i ?n"])
  with fresh1(2) have ne: "token_urlsafe E 32 (st_draw s) \<noteq> token_urlsafe E 32 (st_draw s1)" by auto
  show ?thesis unfolding in_clean_request [OF clean] c o using ne d' o1 by auto
qed

theorem overlapping_refreshes_fork_witness:
  "\<exists>out1 s1 out2 s2 x. in_request (refresh_token_use_case sample_env 4 ''T51'') demo_st = (Inr out1, s1) \<and>
     in_request (refresh_resumed sample_env 5 ''T51'' (Some demo_session)) s1 = (Inr out2, s2) \<and>
     ro_refresh_token out1 \<noteq> ro_refresh_token out2 \<and>
     session_acquire_by_token_hash (from_raw sample_env (ro_refresh_token out1)) (st_committed s2) = Inr (Some x) \<and>
     session_acquire_by_token_hash (from_raw sample_env (ro_refresh_token out2)) (st_committed s2) = Inr (Some x) \<and> s_user_id x = 7"
proof -
  let ?p = "hd (s_refresh_tokens demo_session)"
  have [simp]: "st_committed demo_st = demo_db" "st_draw demo_st = 100" by (simp_all add: demo_st_def)
  have p: "find_refresh_token (from_raw sample_env ''T51'') demo_session = Some ?p" by (simp add: find_refresh_token_def)
  have v: "rt_is_valid ?p 4" "rt_is_valid ?p 5" "\<not> session_is_expired demo_session 4" "\<not> session_is_expired demo_session 5"
    by (simp_all add: rt_is_valid_def rt_is_expired_def session_is_expired_def)
  have f: "fresh_ids sample_env 4 (demo_st\<lparr>st_work := demo_db\<rparr>)" by (simp add: fresh_ids_def demo_db_def empty_db_def upt_rec)
  have n: "uuid4 sample_env (100 + 1) \<notin> tr_id ` set (refresh_tokens demo_db)"
    "from_raw sample_env (token_urlsafe sample_env 32 100) \<notin> tr_token_hash ` set (refresh_tokens demo_db)"
    using demo_hashes by (simp_all add: demo_db_def demo_tokens)
  have u: "user_acquire_by_id sample_env (s_user_id demo_session) demo_db = Inr (Some demo_user)" using demo_acquire(2) by simp
  obtain d out1 where d: "session_update (rotated sample_env 100 4 ?p demo_session) demo_db = Inr d"
    and run: "in_request (refresh_token_use_case sample_env 4 ''T51'') demo_st = (Inr out1, after_refresh sample_env 4 demo_session d demo_st)"
    using refresh_runs [of demo_st sample_env "''T51''" demo_session 4 ?p demo_user] demo_db_ok demo_acquire(1) v p u f n by auto
  let ?s1 = "after_refresh sample_env 4 demo_session d demo_st"
  note r = demo_rotation [OF d]
  have f1: "fresh_ids sample_env 4 ?s1"
    using audit_row_of_cases [of sample_env 103 4 "TokenRefreshedEvent 51 7"]
    by (auto simp: fresh_ids_def with_events_def r(3,4) outbox_row_of_def upt_rec)
  have n1: "uuid4 sample_env (st_draw ?s1 + 1) \<notin> tr_id ` set (refresh_tokens (st_committed ?s1))"
    "from_raw sample_env (token_urlsafe sample_env 32 (st_draw ?s1)) \<notin> tr_token_hash ` set (refresh_tokens (st_committed ?s1))"
    using demo_third_hash by (simp_all add: r(1,2))
  have "\<exists>out2 z s2. in_request (refresh_resumed sample_env 5 ''T51'' (Some demo_session)) ?s1 = (Inr out2, s2) \<and>
     ro_refresh_token out1 \<noteq> ro_refresh_token out2 \<and> s_session_id z = s_session_id demo_session \<and> s_user_id z = s_user_id demo_session \<and>
     session_acquire_by_token_hash (from_raw sample_env (ro_refresh_token out1)) (st_committed s2) = Inr (Some z) \<and>
     session_acquire_by_token_hash (from_raw sample_env (ro_refresh_token out2)) (st_committed s2) = Inr (Some z)"
    by (rule overlapping_refreshes_fork [of demo_st sample_env "''T51''" demo_session 4 5 ?p demo_user out1 ?s1])
      (use demo_db_ok demo_acquire(1) v p u f n run n1 f1 in simp_all)
  with run show ?thesis by fastforce
qed

section \<open>Two resets with one token\<close>

definition users_are :: "user_row list \<Rightarrow> st \<Rightarrow> bool" where
  "users_are us s = (users (st_work s) = us)"

lemma users_kept: "preserves (users_are us) (svc_revoke_all_sessions i)"
proof -
  have [pres]: "preserves (users_are us) (on_work (session_update x))" "preserves (users_are us) (register j es)" for x j es
    by (auto simp: preserves_def users_are_def on_work_def register_def session_update_frame split: sum.splits)
  show ?thesis unfolding svc_revoke_all_sessions_def save_session_def register_session_def by (intro pres)
qed

lemma reset_found_Inr:
  assumes r: "reset_found E now token p (Some u) s = (Inr x, s')" and ok: "uow_ok s" "users_ok (users (st_work s))"
  shows "row_version (u_id u) (st_work s') = Some (u_version u + 1)"
proof -
  let ?h = "bcrypt_hashpw E p (st_draw s)" and ?s = "s\<lparr>st_draw := st_draw s + 1\<rparr>"
  obtain v w s1 xs where v: "reset_password E now token ?h u = Inr v" "save_user E v ?s = (Inr w, s1)"
    "svc_revoke_all_sessions (u_id u) s1 = (Inr xs, s')"
    using r by (auto simp: reset_found_def bnd_def thn_def lift_def HashedPassword_def split: sum.splits prod.splits if_splits)
  have id: "u_id v = u_id u" "u_version v = u_version u" using v(1) by (auto simp: reset_password_Inr)
  obtain d where d: "user_update E v (st_work s) = Inr (w, d)" "st_work s1 = d"
    using save_user_Inr [OF _ v(2)] ok(1) by (auto simp: uow_ok_def)
  have "users (st_work s') = users d"
    using preservesD [OF users_kept v(3)] d(2) by (simp add: users_are_def)
  with user_rows.upd_bumps [OF ok(2) d(1)] id show ?thesis by (simp add: row_version_def)
qed

lemma reset_Inr:
  assumes r: "in_request (reset_password_use_case E cfg now token p ip) s = (Inr (), s1)"
    and u: "user_acquire_by_reset_token E (from_raw E token) (st_committed s) = Inr found"
  shows "\<exists>q l x s3 s4. limit_by_ip cfg now ''password-reset-confirm:'' ip (s\<lparr>st_work := st_committed s, st_uow := empty_uow\<rparr>) = (Inr (), l) \<and>
     reset_found E now token q found l = (Inr x, s3) \<and> commit E now s3 = (Inr (), s4) \<and> st_committed s1 = st_committed s4 \<and>
     st_work s1 = st_committed s1 \<and> st_uow s1 = empty_uow"
proof -
  let ?s = "s\<lparr>st_work := st_committed s, st_uow := empty_uow\<rparr>"
  obtain s4 where h: "reset_password_use_case E cfg now token p ip ?s = (Inr (), s4)" and s4: "s1 = s4\<lparr>st_work := st_committed s4, st_uow := empty_uow\<rparr>"
    using r by (auto simp: in_request_def split: prod.splits)
  obtain l q where l: "limit_by_ip cfg now ''password-reset-confirm:'' ip ?s = (Inr (), l)"
    and m: "thn (svc_reset_password E now token q) (commit E now) l = (Inr (), s4)"
    using h by (auto simp: reset_password_use_case_def thn_eq_Inr bnd_eq_Inr)
  have "user_acquire_by_reset_token E (from_raw E token) (st_work l) = Inr found" using limit_frame [OF l] u by auto
  with m obtain x s3 where "reset_found E now token q found l = (Inr x, s3)" "commit E now s3 = (Inr (), s4)"
    by (auto simp: svc_reset_password_def thn_eq_Inr bnd_query)
  with l s4 show ?thesis by auto
qed

text \<open>C13. A reset token is spent once even when two resets with it overlap. Both have read the account; once one of them
  has committed, the other is refused, with ConcurrentModificationError if its token is still valid,
  and leaves the stored tables as they are.\<close>

theorem overlapping_reset_refused:
  assumes ok: "db_ok (st_committed s)"
    and u: "user_acquire_by_reset_token E (from_raw E token) (st_committed s) = Inr (Some u)"
    and t: "u_password_reset_token u = Some t" "password_reset_is_valid t now" "password_reset_matches E t token"
    and first: "in_request (reset_password_use_case E cfg now1 token p ip) s = (Inr (), s1)"
    and q: "bcrypt_hashpw E q (st_draw s1) \<noteq> []"
  shows "\<exists>s2. in_request (reset_resumed E now token q (Some u)) s1 = (Inl (ConcurrentModificationError (Some (uuid_str (u_id u)))), s2) \<and>
     st_committed s2 = st_committed s1"
proof -
  let ?s = "s\<lparr>st_work := st_committed s, st_uow := empty_uow\<rparr>" and ?h = "bcrypt_hashpw E q (st_draw s1)"
  obtain p' l x s3 s4 where l: "limit_by_ip cfg now1 ''password-reset-confirm:'' ip ?s = (Inr (), l)"
    and f: "reset_found E now1 token p' (Some u) l = (Inr x, s3)" and c: "commit E now1 s3 = (Inr (), s4)" and s1: "st_committed s1 = st_committed s4"
    and w1: "st_work s1 = st_committed s1" "st_uow s1 = empty_uow"
    using reset_Inr [OF first u] by blast
  have l': "st_work l = st_committed s" "uow_ok l" using limit_frame [OF l] by (auto simp: uow_ok_def)
  have "row_version (u_id u) (st_work s3) = Some (u_version u + 1)"
    using reset_found_Inr [OF f l'(2)] l'(1) db_ok_users [OF ok] by simp
  then have v: "row_version (u_id u) (st_committed s1) = Some (u_version u + 1)"
    using commit_Inr [OF c] s1 by (auto simp: row_version_def)
  have "users_ok (users (st_committed s1))"
    using request_keeps [OF schema.kept_commands(5) ok first] by (rule db_ok_users)
  moreover obtain u' where u': "reset_password E now token ?h u = Inr u'" "u_id u' = u_id u" "u_version u' = u_version u"
    using t by (auto simp: reset_password_Inr)
  ultimately have "user_update E u' (st_committed s1) = Inl (ConcurrentModificationError (Some (uuid_str (u_id u))))"
    using user_update_stale [of "st_committed s1" u' "u_version u + 1" E] v by simp
  then show ?thesis unfolding in_clean_request [OF w1] using u'(1) q w1
    by (simp add: reset_resumed_def reset_found_def thn_def bnd_def lift_def HashedPassword_def save_user_def on_work_with_def)
qed

theorem overlapping_reset_refused_witness:
  "\<exists>s1 s2. in_request (reset_password_use_case sample_env default_config 5 ''T60'' demo_password None) demo_reset_st = (Inr (), s1) \<and>
     in_request (reset_resumed sample_env 5 ''T60'' demo_password (Some demo_reset_user)) s1 =
       (Inl (ConcurrentModificationError (Some (uuid_str 7))), s2) \<and> st_committed s2 = st_committed s1"
proof -
  let ?u = "reset_password sample_env 5 ''T60'' (bcrypt_hashpw sample_env demo_password (st_draw demo_reset_st)) demo_reset_user"
  note r = demo_reset_request
  obtain u' where u': "?u = Inr u'" using r(2,3) by (simp add: reset_password_Inr)
  have h: "bcrypt_hashpw sample_env demo_password k \<noteq> []" for k by (simp add: sample_env_def)
  obtain s1 where s1: "in_request (reset_password_use_case sample_env default_config 5 ''T60'' demo_password None) demo_reset_st = (Inr (), s1)"
    using reset_runs [OF demo_reset_db_ok _ demo_password_ok h r(1) u' r(5,4), where ip = None and cfg = default_config]
    by (auto simp: limit_by_ip_def)
  from overlapping_reset_refused [OF demo_reset_db_ok r(1) demo_reset_simps(4) r(2,3) s1 h] s1 show ?thesis by auto
qed

end
