(* ===== verification/Startup.thy ===== *)
theory Startup
  imports Http_Edge Constraints
begin

text \<open>
  What the process does before it serves: the OAuth clients and the admin role that
  presentation/http/app.py seeds, and the clients infrastructure/oauth/config.py reads for it. The
  JSON adapter of pydantic for the list of clients is an argument.
\<close>

section \<open>OAuth clients from the environment\<close>

record seed_client_wire =
  sw_client_id :: string
  sw_client_name :: string
  sw_client_secret :: string
  sw_redirect_uris :: "string list"
  sw_grant_types :: "string list"
  sw_scopes :: "string list"
  sw_is_confidential :: bool

record seed_client_config =
  sd_client_id :: string
  sd_client_name :: string
  sd_client_secret :: string
  sd_redirect_uris :: "string list"
  sd_grant_types :: "string list"
  sd_scopes :: "string list"
  sd_is_confidential :: bool

definition to_seed_client_config :: "seed_client_wire \<Rightarrow> seed_client_config" where
  "to_seed_client_config wire =
     \<lparr>sd_client_id = sw_client_id wire,
      sd_client_name = (if sw_client_name wire \<noteq> [] then sw_client_name wire else sw_client_id wire),
      sd_client_secret = sw_client_secret wire, sd_redirect_uris = sw_redirect_uris wire,
      sd_grant_types = sw_grant_types wire, sd_scopes = sw_scopes wire, sd_is_confidential = sw_is_confidential wire\<rparr>"

definition seed_config_from_environ ::
    "(string \<Rightarrow> (seed_client_wire list + seed_client_wire) option) \<Rightarrow> string \<Rightarrow> seed_client_config list" where
  "seed_config_from_environ validate_json raw =
     (if raw = [] then []
      else (case validate_json raw of
              None \<Rightarrow> []
            | Some (Inl wires) \<Rightarrow> map to_seed_client_config wires
            | Some (Inr wire) \<Rightarrow> [to_seed_client_config wire]))"

definition seed_client :: "seed_client_config \<Rightarrow> client_create" where
  "seed_client seed =
     \<lparr>nc_client_name = sd_client_name seed, nc_redirect_uris = sd_redirect_uris seed, nc_grant_types = sd_grant_types seed,
      nc_response_types = (if ''authorization_code'' \<in> set (sd_grant_types seed) then [''code''] else []),
      nc_scope = sd_scopes seed,
      nc_token_endpoint_auth_method = (if sd_is_confidential seed then ''client_secret_basic'' else ''none''),
      nc_client_uri = None, nc_client_id = Some (sd_client_id seed),
      nc_client_secret = (if sd_client_secret seed \<noteq> [] then Some (sd_client_secret seed) else None)\<rparr>"

definition seed_oauth_clients :: "hydra \<Rightarrow> seed_client_config list \<Rightarrow> unit hydra_action" where
  "seed_oauth_clients H clients =
     for_each clients (\<lambda>seed.
       bnd (hydra_get_client H (sd_client_id seed)) (\<lambda>existing.
         if existing \<noteq> None then ret () else thn (hydra_create_client H (seed_client seed)) (ret ())))"

section \<open>The admin role\<close>

text \<open>The role named admin, made when there is none; then its admin permission.\<close>

definition find_admin_role :: "env \<Rightarrow> datetime \<Rightarrow> (uuid \<times> string list) action" where
  "find_admin_role E now =
     bnd (query (\<lambda>d. Inr (get_all_roles d))) (\<lambda>roles.
       case find_row (\<lambda>r. rd_name r = DEFAULT_ROLE_ADMIN) roles of
         Some r \<Rightarrow> ret (rd_role_id r, rd_permissions r)
       | None \<Rightarrow>
           bnd (create_role_use_case E now DEFAULT_ROLE_ADMIN (Some ''Administrator'')) (\<lambda>r.
           ret (rout_role_id r, rout_permissions r)))"

definition ensure_admin_role :: "env \<Rightarrow> datetime \<Rightarrow> uuid action" where
  "ensure_admin_role E now =
     bnd (find_admin_role E now) (\<lambda>role.
       if ADMIN_PERMISSION \<notin> set (snd role)
       then bnd (add_permission_use_case E now (fst role) ADMIN_PERMISSION) (\<lambda>r. ret (rout_role_id r))
       else ret (fst role))"

definition seed_admin_role :: "env \<Rightarrow> datetime \<Rightarrow> string option \<Rightarrow> unit action" where
  "seed_admin_role E now initial_admin_user_id =
     bnd (ensure_admin_role E now) (\<lambda>role_id.
       if truthy initial_admin_user_id
       then bnd (lift (case uuid_parse (the initial_admin_user_id) of
                         None \<Rightarrow> Inl (ValueError ''badly formed hexadecimal UUID string'')
                       | Some i \<Rightarrow> Inr i)) (\<lambda>user_id.
            assign_role_use_case E now user_id role_id None)
       else ret ())"

section \<open>What the role commands write\<close>

lemma role_create_fields:
  "role_create E k n ds = Inr r \<Longrightarrow> r_name r = n \<and> r_description r = ds \<and> r_permissions r = []"
  by (auto simp: role_create_def rbind_eq_Inr Let_def RoleName_def split: if_splits)

lemma commit_role_tables:
  assumes "commit E now s = (Inr x, s')"
  shows "st_work s' = st_committed s'" "role_tables (st_committed s') = role_tables (st_work s)"
proof -
  obtain k es where "s' = s\<lparr>st_committed := with_events E (st_draw s) now es (st_work s),
     st_work := with_events E (st_draw s) now es (st_work s), st_uow := empty_uow, st_draw := k\<rparr>"
    using commit_Inr [OF assms] by blast
  then show "st_work s' = st_committed s'" "role_tables (st_committed s') = role_tables (st_work s)"
    by (simp_all add: role_tables_def)
qed

lemma role_tables_rows:
  assumes "role_tables d = role_tables e"
  shows "role_permission_rows i d = role_permission_rows i e" "user_roles d = user_roles e" "roles d = roles e"
    "permissions d = permissions e" "role_permissions d = role_permissions e" "grants d u n = grants e u n" "admin_holders d = admin_holders e"
  using assms by (auto simp: role_tables_def role_permission_rows_def grants_def admin_holders_def)

lemma created_role:
  assumes "create_role_use_case E now n ds s = (Inr out, s')"
  shows "st_work s' = st_committed s'" "\<not> has_role (rout_role_id out) (st_work s)" "rout_permissions out = []"
    "role_tables (st_committed s') = role_tables ((st_work s)\<lparr>roles := roles (st_work s) @
        [\<lparr>rr_id = rout_role_id out, rr_name = n, rr_description = ds\<rparr>]\<rparr>)"
proof -
  from assms obtain n' r s1 where n: "RoleName n = Inr n'" and r: "rbac_create_role E n' ds s = (Inr r, s1)"
    and c: "commit E now s1 = (Inr (), s')" and out: "out = from_role r"
    by (auto simp: create_role_use_case_def bnd_def thn_def lift_def split: sum.splits prod.splits)
  have n': "n' = n" using n by (auto simp: RoleName_def split: if_splits)
  obtain k where a: "role_add E (Suc (st_draw s)) r (st_work s) = Inr (k, st_work s1)"
    and f: "r_name r = n" "r_description r = ds" "r_permissions r = []"
    using r n' by (auto simp: rbac_create_role_def bnd_def thn_def lift_def on_work_draws_def register_role_def register_def
        split: sum.splits prod.splits if_splits dest: role_create_fields)
  have w: "st_work s1 = (st_work s)\<lparr>roles := roles (st_work s) @ [\<lparr>rr_id = r_role_id r, rr_name = n, rr_description = ds\<rparr>]\<rparr>"
    "\<not> has_role (r_role_id r) (st_work s)"
    using a f by (auto simp: role_add_def split: if_splits)
  with commit_role_tables [OF c] f show "st_work s' = st_committed s'" "\<not> has_role (rout_role_id out) (st_work s)" "rout_permissions out = []"
    "role_tables (st_committed s') = role_tables ((st_work s)\<lparr>roles := roles (st_work s) @
        [\<lparr>rr_id = rout_role_id out, rr_name = n, rr_description = ds\<rparr>]\<rparr>)"
    by (simp_all add: out from_role_def)
qed

lemma perm_names_add: "perm_names (add_permission p r) = insert (p_name p) (perm_names r)"
  by (auto simp: add_permission_def perm_names_def has_permission_def list_ex_iff) (metis imageI)

lemma permission_added_rows:
  assumes "db_ok d" and "permission_add E k p d = Inr d'"
  shows "set (role_permission_rows j d') = set (role_permission_rows j d)" "user_roles d' = user_roles d" "roles d' = roles d"
proof -
  have a: "\<not> has_permission_row (uuid4 E k) d" "d' = d\<lparr>permissions := permissions d @
      [\<lparr>pr_id = uuid4 E k, pr_name = p_name p, pr_description = p_description p\<rparr>]\<rparr>"
    using assms(2) by (auto simp: permission_add_def insert_permission_def has_permission_row_def split: if_splits)
  have "x \<in> set (role_permissions d) \<Longrightarrow> rp_permission_id x \<noteq> uuid4 E k" for x
    using assms(1) a(1) by (auto simp: db_ok_def rbac_ok_def list_all_iff)
  then have r: "role_permission_rows j d' = role_permission_rows j d" for j
    by (simp add: role_permission_rows_def a(2) filter_empty_conv)
  then show "set (role_permission_rows j d') = set (role_permission_rows j d)" "user_roles d' = user_roles d" "roles d' = roles d"
    by (simp_all add: a(2))
qed

lemma permission_named:
  "permission_acquire_by_name n d = Inr (Some p) \<Longrightarrow> p_name p = n" "Permission n ds = Inr p \<Longrightarrow> p_name p = n"
  by (auto simp: permission_acquire_by_name_def rbind_eq_Inr permission_from_row_def Permission_def
      split: option.splits if_splits dest!: find_row_Some_iff)


lemma saved_role:
  assumes "save_role E r s = (Inr x, s')"
  shows "x = r \<and> (\<exists>k. role_repo_update E (st_draw s) r (st_work s) = Inr (k, st_work s'))"
  using assms by (auto simp: save_role_def bnd_def thn_def on_work_draws_def register_role_def register_def
      split: sum.splits prod.splits)

lemma acquired_role_id: "role_acquire_by_id i d = Inr (Some role) \<Longrightarrow> r_role_id role = i"
  by (auto simp: role_acquire_by_id_def role_from_row_def rbind_eq_Inr RoleID_def split: option.splits if_splits dest!: find_row_Some_iff)

lemma add_permission_saves:
  assumes r: "rbac_add_permission_to_role E i n s = (Inr r, s1)" and ok: "db_ok (st_work s)"
  obtains role p s0 where "role_acquire_by_id i (st_work s) = Inr (Some role)" "p_name p = n" "db_ok (st_work s0)"
    "\<And>j. set (role_permission_rows j (st_work s0)) = set (role_permission_rows j (st_work s))"
    "user_roles (st_work s0) = user_roles (st_work s)" "save_role E (add_permission p role) s0 = (Inr r, s1)"
proof -
  obtain role where role: "role_acquire_by_id i (st_work s) = Inr (Some role)" and rest: "bnd (query (permission_acquire_by_name n)) (\<lambda>found.
     bnd (case found of Some p \<Rightarrow> ret p
        | None \<Rightarrow> bnd (lift (Permission n None)) (\<lambda>p. bnd (next_draw 1) (\<lambda>k. thn (on_work (permission_add E k p)) (ret p))))
       (\<lambda>permission. save_role E (add_permission permission role))) s = (Inr r, s1)"
    using r by (auto simp: rbac_add_permission_to_role_def rbac_require_role_def bnd_def split: sum.splits option.splits prod.splits)
  show thesis
  proof (cases "permission_acquire_by_name n (st_work s)")
    case (Inr found)
    show thesis
    proof (cases found)
      case (Some p)
      with Inr rest that [of role p s] role ok permission_named(1) show thesis by (auto simp: bnd_def)
    next
      case None
      with Inr rest obtain p d1 where p: "Permission n None = Inr p" "permission_add E (st_draw s) p (st_work s) = Inr d1"
          "save_role E (add_permission p role) (s\<lparr>st_draw := Suc (st_draw s), st_work := d1\<rparr>) = (Inr r, s1)"
        by (auto simp: bnd_def thn_def lift_def on_work_def split: sum.splits prod.splits)
      have "db_ok d1" using p(2) ok by (auto simp: permission_add_def intro: insert_permission_ok)
      then show thesis
        using that [OF role _ _ _ _ p(3)] permission_named(2) [OF p(1)] permission_added_rows [OF ok p(2)] by simp
    qed
  qed (use rest in \<open>simp add: bnd_def\<close>)
qed

lemma added_permission:
  assumes "add_permission_use_case E now i n s = (Inr out, s')" and ok: "db_ok (st_work s)"
  shows "st_work s' = st_committed s'" "rout_role_id out = i" "user_roles (st_committed s') = user_roles (st_work s)"
    "pr_name ` set (role_permission_rows j (st_committed s')) =
       (if j = i then insert n (pr_name ` set (role_permission_rows i (st_work s))) else pr_name ` set (role_permission_rows j (st_work s)))"
proof -
  let ?d = "st_work s"
  from assms obtain r s1 where i: "i \<noteq> NIL_UUID" and r: "rbac_add_permission_to_role E i n s = (Inr r, s1)"
    and c: "commit E now s1 = (Inr (), s')" and out: "out = from_role r"
    by (auto simp: add_permission_use_case_def bnd_def thn_def lift_def RoleID_def split: sum.splits prod.splits if_splits)
  obtain role p s0 where role: "role_acquire_by_id i ?d = Inr (Some role)" and p: "p_name p = n"
    and d0: "db_ok (st_work s0)" "\<And>j. set (role_permission_rows j (st_work s0)) = set (role_permission_rows j ?d)"
      "user_roles (st_work s0) = user_roles ?d"
    and save: "save_role E (add_permission p role) s0 = (Inr r, s1)"
    by (rule add_permission_saves [OF r ok]) (rule that)
  obtain k where x: "r = add_permission p role" and u: "role_repo_update E (st_draw s0) (add_permission p role) (st_work s0) = Inr (k, st_work s1)"
    using saved_role [OF save] by blast
  have ri: "r_role_id (add_permission p role) = i" using acquired_role_id [OF role] by simp
  note ct = commit_role_tables [OF c]
  show "st_work s' = st_committed s'" by (rule ct)
  show "rout_role_id out = i" by (simp add: out from_role_def x ri del: edited_role_fields)
  show "user_roles (st_committed s') = user_roles ?d"
    using role_tables_rows(2) [OF ct(2)] role_update_frame [OF u] d0(3) by simp
  show "pr_name ` set (role_permission_rows j (st_committed s')) =
       (if j = i then insert n (pr_name ` set (role_permission_rows i ?d)) else pr_name ` set (role_permission_rows j ?d))"
    using role_update_own [OF d0(1) u] role_update_others [OF d0(1) u, of j] ri role_acquired_names [OF role] d0(2)
    by (simp add: role_tables_rows(1) [OF ct(2)] perm_names_add p)
qed

text \<open>Who holds which role, as the assignments say.\<close>

definition holders :: "db \<Rightarrow> (uuid \<times> uuid) set" where
  "holders d = (\<lambda>a. (urr_user_id a, urr_role_id a)) ` set (user_roles d)"

lemma grants_holders: "grants d u n \<longleftrightarrow> (\<exists>i. (u, i) \<in> holders d \<and> n \<in> pr_name ` set (role_permission_rows i d))"
  unfolding grants_iff by (auto simp: holders_def)

lemma assigned_role:
  assumes "assign_role_use_case E now u i b s = (Inr x, s')"
  shows "st_work s' = st_committed s'" "holders (st_committed s') = insert (u, i) (holders (st_work s))"
    "role_permission_rows j (st_committed s') = role_permission_rows j (st_work s)"
proof -
  from assms obtain b' user s1 where "u \<noteq> NIL_UUID" "i \<noteq> NIL_UUID" and r: "rbac_assign_role E now u i b' s = (Inr user, s1)"
    and c: "commit E now s1 = (Inr (), s')"
    by (auto simp: assign_role_use_case_def bnd_def thn_def lift_def UserID_def RoleID_def split: sum.splits prod.splits if_splits)
  then have "holders (st_work s1) = insert (u, i) (holders (st_work s)) \<and> role_permission_rows j (st_work s1) = role_permission_rows j (st_work s)"
    by (auto simp: rbac_assign_role_def rbac_require_user_def rbac_require_role_def bnd_def thn_def on_work_def register_user_def
        register_def Let_def user_role_add_Inr holders_def user_role_acquire_def role_permission_rows_def rbind_eq_Inr
        split: sum.splits prod.splits option.splits if_splits dest!: find_row_Some_iff)
  with commit_role_tables [OF c] role_tables_rows [OF commit_role_tables(2) [OF c]]
  show "st_work s' = st_committed s'" "holders (st_committed s') = insert (u, i) (holders (st_work s))"
    "role_permission_rows j (st_committed s') = role_permission_rows j (st_work s)"
    by (simp_all add: holders_def)
qed


section \<open>The roles as the reader lists them\<close>

definition listed :: "role_row set \<Rightarrow> (uuid \<times> role_read_dto) list \<Rightarrow> bool" where
  "listed R acc = (\<forall>i dto. map_of acc i = Some dto \<longrightarrow> (\<exists>r \<in> R. rr_id r = i \<and> rd_role_id dto = i \<and> rd_name dto = rr_name r))"

lemma group_row_listed: "listed R acc \<Longrightarrow> fst row \<in> R \<Longrightarrow> listed R (group_row acc row)"
  by (cases row) (fastforce simp: listed_def group_row_def Let_def update_conv' split: option.splits if_splits)

lemma grouped_listed: "listed R acc \<Longrightarrow> fst ` set rows \<subseteq> R \<Longrightarrow> listed R (foldl group_row acc rows)"
  by (induction rows arbitrary: acc) (auto simp: group_row_listed)

lemma grouped_keys: "fst ` set (foldl group_row acc rows) = fst ` set acc \<union> rr_id ` fst ` set rows"
proof (induction rows arbitrary: acc)
  case (Cons row rows)
  then show ?case by (cases row) (auto simp: group_row_def Let_def dom_update)
qed simp

lemma permission_names_of_Nil: "permission_names_of i d \<noteq> []"
  by (cases "filter (\<lambda>x. rp_role_id x = i) (role_permissions d)") (auto simp: permission_names_of_def Let_def)

lemma set_query_rows: "(r, n) \<in> set (query_rows source d) \<longleftrightarrow> r \<in> set source \<and> n \<in> set (permission_names_of (rr_id r) d)"
  by (auto simp: query_rows_def)

lemma all_roles_listed:
  assumes "dto \<in> set (get_all_roles d)"
  obtains r where "r \<in> set (roles d)" "rd_role_id dto = rr_id r" "rd_name dto = rr_name r"
    "set (rd_permissions dto) = pr_name ` set (role_permission_rows (rr_id r) d)"
proof -
  let ?rows = "query_rows (roles d) d" and ?g = "foldl group_row [] (query_rows (roles d) d)"
  have dist: "distinct (map fst ?g)" by (rule foldl_group_distinct) simp
  obtain i where "(i, dto) \<in> set ?g"
    using assms by (auto simp: get_all_roles_def role_reader_get_all_roles_def roles_with_permissions_def)
  then have m: "map_of ?g i = Some dto" using dist by simp
  have "listed (set (roles d)) ?g" by (rule grouped_listed) (auto simp: listed_def query_rows_def)
  with m obtain r where r: "r \<in> set (roles d)" "rr_id r = i" "rd_role_id dto = i" "rd_name dto = rr_name r"
    by (auto simp: listed_def)
  have "set (rd_permissions dto) = group_names ?g i" by (simp add: group_names_def m)
  also have "\<dots> = pr_name ` set (role_permission_rows i d)"
    using r(1,2) by (auto simp: foldl_group_names set_query_rows permission_names_of_Some)
  finally show thesis using that [of r] r by simp
qed

lemma all_roles_complete:
  assumes "r \<in> set (roles d)" and "inj_on rr_id (set (roles d))"
  shows "\<exists>dto \<in> set (get_all_roles d). rd_role_id dto = rr_id r \<and> rd_name dto = rr_name r"
proof -
  let ?g = "foldl group_row [] (query_rows (roles d) d)"
  obtain n where "n \<in> set (permission_names_of (rr_id r) d)" using permission_names_of_Nil [of "rr_id r" d] by (meson last_in_set)
  then have "rr_id r \<in> fst ` set ?g" using assms(1) by (force simp: grouped_keys query_rows_def)
  then obtain dto where d: "(rr_id r, dto) \<in> set ?g" by auto
  moreover have "distinct (map fst ?g)" by (rule foldl_group_distinct) simp
  ultimately have "map_of ?g (rr_id r) = Some dto" by simp
  moreover have "listed (set (roles d)) ?g" by (rule grouped_listed) (auto simp: listed_def query_rows_def)
  ultimately obtain q where "q \<in> set (roles d)" "rr_id q = rr_id r" "rd_role_id dto = rr_id r" "rd_name dto = rr_name q"
    by (auto simp: listed_def)
  with assms have "rd_role_id dto = rr_id r \<and> rd_name dto = rr_name r" by (auto dest: inj_onD)
  then show ?thesis using d
    by (force simp: get_all_roles_def role_reader_get_all_roles_def roles_with_permissions_def)
qed

section \<open>The administrators after a start\<close>

lemma admin_holders_named:
  assumes "inj_on rr_name (set (roles d))" and "r \<in> set (roles d)" and "rr_name r = DEFAULT_ROLE_ADMIN"
  shows "v \<in> admin_holders d \<longleftrightarrow> (v, rr_id r) \<in> holders d"
proof
  assume "v \<in> admin_holders d"
  then obtain a x where a: "a \<in> set (user_roles d)" "x \<in> set (roles d)" "rr_id x = urr_role_id a" "rr_name x = DEFAULT_ROLE_ADMIN" "v = urr_user_id a"
    by (auto simp: admin_holders_def)
  with assms have "x = r" by (metis inj_onD)
  with a show "(v, rr_id r) \<in> holders d" by (auto simp: holders_def)
next
  assume "(v, rr_id r) \<in> holders d"
  with assms(2,3) show "v \<in> admin_holders d" by (auto simp: holders_def admin_holders_def)
qed

lemma unlinked_role:
  assumes "db_ok d" and "\<not> has_role i d"
  shows "(v, i) \<notin> holders d" "role_permission_rows i d = []"
proof -
  show "(v, i) \<notin> holders d" using assms by (auto simp: db_ok_def rbac_ok_def list_all_iff holders_def)
  have "rp_role_id x \<noteq> i" if "x \<in> set (role_permissions d)" for x
    using assms that by (auto simp: db_ok_def rbac_ok_def list_all_iff)
  then have "set (role_permission_rows i d) = {}" by (auto simp: set_role_permission_rows)
  then show "role_permission_rows i d = []" by simp
qed

lemma found_admin_role:
  assumes ok: "db_ok (st_committed s)" and w: "st_work s = st_committed s" and run: "find_admin_role E now s = (Inr (i, ps), s')"
  shows "st_work s' = st_committed s'" "db_ok (st_committed s')" "holders (st_committed s') = holders (st_committed s)"
    "role_permission_rows j (st_committed s') = role_permission_rows j (st_committed s)"
    "set ps = pr_name ` set (role_permission_rows i (st_committed s))"
    "(v, i) \<in> holders (st_committed s) \<longleftrightarrow> v \<in> admin_holders (st_committed s)"
proof -
  let ?d = "st_committed s"
  have ids: "inj_on rr_id (set (roles ?d))" and names: "inj_on rr_name (set (roles ?d))"
    using ok by (auto simp: db_ok_def rbac_ok_def distinct_map)
  have "st_work s' = st_committed s' \<and> db_ok (st_committed s') \<and> holders (st_committed s') = holders ?d \<and>
    role_permission_rows j (st_committed s') = role_permission_rows j ?d \<and>
    set ps = pr_name ` set (role_permission_rows i ?d) \<and> ((v, i) \<in> holders ?d \<longleftrightarrow> v \<in> admin_holders ?d)"
  proof (cases "find_row (\<lambda>r. rd_name r = DEFAULT_ROLE_ADMIN) (get_all_roles ?d)")
    case (Some dto)
    then have dto: "dto \<in> set (get_all_roles ?d)" "rd_name dto = DEFAULT_ROLE_ADMIN" using find_row_Some_iff by fast+
    obtain r where "r \<in> set (roles ?d)" "rd_role_id dto = rr_id r" "rd_name dto = rr_name r"
      "set (rd_permissions dto) = pr_name ` set (role_permission_rows (rr_id r) ?d)"
      by (rule all_roles_listed [OF dto(1)])
    with Some run dto(2) w ok admin_holders_named [OF names, of r] show ?thesis by (auto simp: find_admin_role_def bnd_def)
  next
    case None
    then obtain out where c: "create_role_use_case E now DEFAULT_ROLE_ADMIN (Some ''Administrator'') s = (Inr out, s')"
      and i: "i = rout_role_id out" "ps = rout_permissions out"
      using run w by (auto simp: find_admin_role_def bnd_def split: sum.splits prod.splits)
    note cr = created_role [OF c, unfolded w]
    have "admin_holders ?d = {}"
      using all_roles_complete [OF _ ids] None unfolding admin_holders_def find_row_None_iff by fastforce
    moreover have "db_ok (st_committed s')" using preservesD [OF ok_role_commands(1) c] ok w by (simp add: holds_def)
    ultimately show ?thesis
      using cr role_tables_rows(1,2) [OF cr(4)] unlinked_role [OF ok cr(2)] i by (auto simp: holders_def role_permission_rows_def)
  qed
  then show "st_work s' = st_committed s'" "db_ok (st_committed s')" "holders (st_committed s') = holders ?d"
    "role_permission_rows j (st_committed s') = role_permission_rows j ?d"
    "set ps = pr_name ` set (role_permission_rows i ?d)" "(v, i) \<in> holders ?d \<longleftrightarrow> v \<in> admin_holders ?d"
    by auto
qed

lemma seeded_role:
  assumes ok: "db_ok (st_committed s)" and w: "st_work s = st_committed s" and run: "ensure_admin_role E now s = (Inr i, s')"
  shows "st_work s' = st_committed s'" "holders (st_committed s') = holders (st_committed s)"
    "grants (st_committed s') v ADMIN_PERMISSION \<longleftrightarrow> grants (st_committed s) v ADMIN_PERMISSION \<or> v \<in> admin_holders (st_committed s)"
    "ADMIN_PERMISSION \<in> pr_name ` set (role_permission_rows i (st_committed s'))"
proof -
  let ?d = "st_committed s"
  obtain k ps s1 where f: "find_admin_role E now s = (Inr (k, ps), s1)"
    and rest: "(if ADMIN_PERMISSION \<notin> set ps then bnd (add_permission_use_case E now k ADMIN_PERMISSION) (\<lambda>r. ret (rout_role_id r))
      else ret k) s1 = (Inr i, s')"
    using run by (auto simp: ensure_admin_role_def bnd_def split: sum.splits prod.splits cong: if_cong)
  note s1 = found_admin_role [OF ok w f]
  have "st_work s' = st_committed s' \<and> holders (st_committed s') = holders ?d \<and> k = i \<and>
    pr_name ` set (role_permission_rows j (st_committed s')) =
      (if j = i then insert ADMIN_PERMISSION (set ps) else pr_name ` set (role_permission_rows j ?d))" for j
  proof (cases "ADMIN_PERMISSION \<in> set ps")
    case True
    then have "k = i" "s' = s1" using rest by simp_all
    with True s1(1-5) show ?thesis by auto
  next
    case False
    then obtain out where o: "add_permission_use_case E now k ADMIN_PERMISSION s1 = (Inr out, s')" "i = rout_role_id out"
      using rest by (auto simp: bnd_def split: sum.splits prod.splits)
    note a = added_permission [OF o(1), unfolded s1(1), OF s1(2)]
    show ?thesis using a(1-3) a(4) [of j] s1(3-5) o(2) by (simp add: holders_def)
  qed
  note this [simp]
  show "st_work s' = st_committed s'" "holders (st_committed s') = holders (st_committed s)" by simp_all
  show "ADMIN_PERMISSION \<in> pr_name ` set (role_permission_rows i (st_committed s'))" by simp
  have "ADMIN_PERMISSION \<in> pr_name ` set (role_permission_rows j (st_committed s')) \<longleftrightarrow>
      j = i \<or> ADMIN_PERMISSION \<in> pr_name ` set (role_permission_rows j ?d)" for j
    using s1(5) by simp
  then show "grants (st_committed s') v ADMIN_PERMISSION \<longleftrightarrow> grants ?d v ADMIN_PERMISSION \<or> v \<in> admin_holders ?d"
    using s1(6) unfolding grants_holders by auto
qed

text \<open>C18. After a start that succeeds, the administrators are exactly those there were before, the
  holders of the role named admin, whose permission the start restores when it was taken away, and
  the initial administrator of the environment if one is set: the seeding makes nobody else one.\<close>

theorem startup_administrators:
  assumes "db_ok (st_committed s)" and "in_request (seed_admin_role E now initial_admin) s = (Inr (), s')"
  shows "grants (st_committed s') v ADMIN_PERMISSION \<longleftrightarrow>
     grants (st_committed s) v ADMIN_PERMISSION \<or> v \<in> admin_holders (st_committed s) \<or>
     (truthy initial_admin \<and> uuid_parse (the initial_admin) = Some v)"
proof -
  let ?s = "s\<lparr>st_work := st_committed s, st_uow := empty_uow\<rparr>"
  obtain s2 where run: "seed_admin_role E now initial_admin ?s = (Inr (), s2)" and s': "st_committed s' = st_committed s2"
    using assms(2) by (auto simp: in_request_def Let_def split: prod.splits)
  then obtain i s1 where e: "ensure_admin_role E now ?s = (Inr i, s1)"
    by (auto simp: seed_admin_role_def bnd_def split: sum.splits prod.splits)
  note s1 = seeded_role [of ?s, simplified, OF assms(1) e]
  show ?thesis
  proof (cases "truthy initial_admin")
    case True
    with run e obtain u where u: "uuid_parse (the initial_admin) = Some u" and a: "assign_role_use_case E now u i None s1 = (Inr (), s2)"
      by (auto simp: seed_admin_role_def bnd_def lift_def split: sum.splits prod.splits option.splits)
    from assigned_role [OF a] s1(1,2,4) have "grants (st_committed s2) v ADMIN_PERMISSION \<longleftrightarrow>
        grants (st_committed s1) v ADMIN_PERMISSION \<or> v = u"
      unfolding grants_holders by auto
    with s1(3) u True s' show ?thesis by auto
  next
    case False
    with run e s1(3) s' show ?thesis by (auto simp: seed_admin_role_def bnd_def)
  qed
qed

definition demo_admin_db :: db where
  "demo_admin_db = demo_db\<lparr>permissions := [\<lparr>pr_id = 8, pr_name = ''admin'', pr_description = None\<rparr>],
     roles := [\<lparr>rr_id = 9, rr_name = ''admin'', rr_description = None\<rparr>],
     role_permissions := [\<lparr>rp_role_id = 9, rp_permission_id = 8\<rparr>],
     user_roles := [\<lparr>urr_user_id = 7, urr_role_id = 9, urr_assigned_at = 0, urr_assigned_by = None\<rparr>]\<rparr>"

lemma demo_admin_ok: "db_ok demo_admin_db"
  by (simp add: demo_admin_db_def demo_db_def empty_db_def db_ok_def users_ok_def sessions_ok_def rbac_ok_def
      logs_ok_def some_values_Cons has_user_def has_session_def has_role_def has_permission_row_def split: option.splits)

theorem startup_administrators_witness:
  "\<exists>s'. in_request (seed_admin_role sample_env 5 None) (demo_st\<lparr>st_committed := demo_admin_db\<rparr>) = (Inr (), s') \<and>
     grants (st_committed s') 7 ADMIN_PERMISSION \<and> \<not> grants (st_committed s') 8 ADMIN_PERMISSION"
proof -
  let ?s = "demo_st\<lparr>st_committed := demo_admin_db\<rparr>"
  have "get_all_roles demo_admin_db = [\<lparr>rd_role_id = 9, rd_name = ''admin'', rd_description = None, rd_permissions = [''admin'']\<rparr>]"
    by (simp add: get_all_roles_def role_reader_get_all_roles_def roles_with_permissions_def query_rows_def permission_names_of_def
        demo_admin_db_def group_row_def)
  then obtain s' where r: "in_request (seed_admin_role sample_env 5 None) ?s = (Inr (), s')"
    by (simp add: in_request_def seed_admin_role_def ensure_admin_role_def find_admin_role_def bnd_def DEFAULT_ROLE_ADMIN_def
        ADMIN_PERMISSION_def find_row_Cons)
  have "admin_holders demo_admin_db = {7}" by (auto simp: admin_holders_def demo_admin_db_def DEFAULT_ROLE_ADMIN_def)
  moreover have "\<not> grants demo_admin_db 8 ADMIN_PERMISSION" by (simp add: grants_def demo_admin_db_def)
  ultimately show ?thesis
    using startup_administrators [OF _ r, of 7] startup_administrators [OF _ r, of 8] demo_admin_ok r by simp
qed

end
