(* ===== verification/Authority.thy ===== *)
theory Authority
  imports Startup
begin

text \<open>
  The contract of role management: a set of who holds which role and, for each role, the names of its
  permissions. The tables with their foreign keys, the deletion of links, the permissions created on
  the way and the events of a commit implement it; a command that is refused leaves it as it is.
\<close>

record authority =
  au_holders :: "(uuid \<times> uuid) set"
  au_permissions :: "uuid \<Rightarrow> string set"

definition authority_of :: "db \<Rightarrow> authority" where
  "authority_of d = \<lparr>au_holders = holders d, au_permissions = (\<lambda>i. pr_name ` set (role_permission_rows i d))\<rparr>"

text \<open>What each command promises. A new role has no permissions and nobody holds it.\<close>

fun authority_step :: "role_command \<Rightarrow> authority \<Rightarrow> authority" where
  "authority_step (CreateRole n ds) a = a"
| "authority_step (DeleteRole i) a =
     a\<lparr>au_holders := {h \<in> au_holders a. snd h \<noteq> i}, au_permissions := (au_permissions a)(i := {})\<rparr>"
| "authority_step (AssignRoleTo u i b) a = a\<lparr>au_holders := insert (u, i) (au_holders a)\<rparr>"
| "authority_step (RevokeRoleFrom u i) a = a\<lparr>au_holders := au_holders a - {(u, i)}\<rparr>"
| "authority_step (AddPermissionToRole i n) a = a\<lparr>au_permissions := (au_permissions a)(i := insert n (au_permissions a i))\<rparr>"
| "authority_step (RemovePermissionFromRole i n) a = a\<lparr>au_permissions := (au_permissions a)(i := au_permissions a i - {n})\<rparr>"

text \<open>A user may do what a role the user holds has the permission for.\<close>

definition may :: "authority \<Rightarrow> uuid \<Rightarrow> string \<Rightarrow> bool" where
  "may a u n = (\<exists>i. (u, i) \<in> au_holders a \<and> n \<in> au_permissions a i)"

lemma may_grants: "may (authority_of d) u n = grants d u n"
  by (simp add: may_def authority_of_def grants_holders)

lemma authority_tables: "role_tables d = role_tables e \<Longrightarrow> authority_of d = authority_of e"
  by (simp add: authority_of_def holders_def role_tables_rows(1,2) [of d e])

section \<open>The commands\<close>

lemma delete_role_authority:
  assumes "delete_role_use_case E now i s = (Inr x, s')"
  shows "authority_of (st_committed s') = authority_step (DeleteRole i) (authority_of (st_work s))"
proof -
  from assms obtain r s1 where r: "rbac_delete_role i s = (Inr r, s1)" and c: "commit E now s1 = (Inr (), s')"
    by (auto simp: delete_role_use_case_def bnd_def thn_def lift_def RoleID_def split: sum.splits prod.splits if_splits)
  have "st_work s1 = role_repo_delete i (st_work s)"
    using r by (auto simp: rbac_delete_role_def rbac_require_role_def bnd_def thn_def on_work_def register_role_def register_def Let_def
        split: sum.splits prod.splits option.splits if_splits)
  moreover have "authority_of (role_repo_delete i d) = authority_step (DeleteRole i) (authority_of d)" for d
    by (auto simp: authority_of_def holders_def role_repo_delete_def set_delete_where set_role_permission_rows fun_eq_iff)
  ultimately show ?thesis using authority_tables [OF commit_role_tables(2) [OF c]] by simp
qed

lemma revoke_role_authority:
  assumes "revoke_role_use_case E now u i s = (Inr x, s')"
  shows "authority_of (st_committed s') = authority_step (RevokeRoleFrom u i) (authority_of (st_work s))"
proof -
  from assms obtain r s1 where r: "rbac_revoke_role E u i s = (Inr r, s1)" and c: "commit E now s1 = (Inr (), s')"
    by (auto simp: revoke_role_use_case_def bnd_def thn_def lift_def UserID_def RoleID_def split: sum.splits prod.splits if_splits)
  have "st_work s1 = user_role_delete u i (st_work s)"
    using r by (auto simp: rbac_revoke_role_def rbac_require_user_def rbac_require_role_def bnd_def thn_def on_work_def register_user_def
        register_def Let_def split: sum.splits prod.splits option.splits if_splits)
  moreover have "authority_of (user_role_delete u i d) = authority_step (RevokeRoleFrom u i) (authority_of d)" for d
    by (auto simp: authority_of_def holders_def user_role_delete_def set_delete_where set_role_permission_rows fun_eq_iff)
  ultimately show ?thesis using authority_tables [OF commit_role_tables(2) [OF c]] by simp
qed

lemma create_role_authority:
  assumes "create_role_use_case E now n ds s = (Inr out, s')"
  shows "authority_of (st_committed s') = authority_of (st_work s)"
proof -
  have "authority_of (d\<lparr>roles := rs\<rparr>) = authority_of d" for d rs
    by (simp add: authority_of_def holders_def role_permission_rows_def)
  with authority_tables [OF created_role(4) [OF assms]] show ?thesis by simp
qed

lemma remove_permission_authority:
  assumes "remove_permission_use_case E now i n s = (Inr out, s')" and ok: "db_ok (st_work s)"
  shows "authority_of (st_committed s') = authority_step (RemovePermissionFromRole i n) (authority_of (st_work s))"
proof -
  let ?d = "st_work s"
  from assms obtain r s1 where r: "rbac_remove_permission_from_role E i n s = (Inr r, s1)" and c: "commit E now s1 = (Inr (), s')"
    by (auto simp: remove_permission_use_case_def bnd_def thn_def lift_def RoleID_def split: sum.splits prod.splits if_splits)
  from r obtain role where role: "role_acquire_by_id i ?d = Inr (Some role)" and sv: "save_role E (remove_permission n role) s = (Inr r, s1)"
    by (auto simp: rbac_remove_permission_from_role_def rbac_require_role_def bnd_def split: sum.splits option.splits prod.splits)
  obtain k where u: "role_repo_update E (st_draw s) (remove_permission n role) ?d = Inr (k, st_work s1)"
    using saved_role [OF sv] by blast
  have ri: "r_role_id (remove_permission n role) = i" using acquired_role_id [OF role] by simp
  have "pr_name ` set (role_permission_rows j (st_work s1)) =
      (if j = i then pr_name ` set (role_permission_rows i ?d) - {n} else pr_name ` set (role_permission_rows j ?d))" for j
    using role_update_own [OF ok u] role_update_others [OF ok u, of j] ri role_acquired_names [OF role] by simp
  moreover have "user_roles (st_work s1) = user_roles ?d" using role_update_frame [OF u] by simp
  ultimately have "authority_of (st_work s1) = authority_step (RemovePermissionFromRole i n) (authority_of ?d)"
    by (auto simp: authority_of_def holders_def fun_eq_iff)
  with authority_tables [OF commit_role_tables(2) [OF c]] show ?thesis by simp
qed

lemma command_authority:
  assumes run: "run_role_command E now c s = (Inr (), s')" and ok: "db_ok (st_work s)"
  shows "authority_of (st_committed s') = authority_step c (authority_of (st_work s))"
proof (cases c)
  case (CreateRole n ds)
  with run show ?thesis by (auto simp: thn_eq_Inr dest: create_role_authority)
next
  case (DeleteRole i)
  with run delete_role_authority show ?thesis by simp
next
  case (AssignRoleTo u i b)
  with run have a: "assign_role_use_case E now u i b s = (Inr (), s')" by simp
  show ?thesis unfolding AssignRoleTo by (simp add: authority_of_def assigned_role(2,3) [OF a])
next
  case (RevokeRoleFrom u i)
  with run revoke_role_authority show ?thesis by simp
next
  case (AddPermissionToRole i n)
  with run obtain out where a: "add_permission_use_case E now i n s = (Inr out, s')" by (auto simp: thn_eq_Inr)
  show ?thesis unfolding AddPermissionToRole
    by (auto simp: authority_of_def holders_def added_permission(3,4) [OF a ok] fun_eq_iff)
next
  case (RemovePermissionFromRole i n)
  with run show ?thesis by (auto simp: thn_eq_Inr dest: remove_permission_authority [OF _ ok])
qed

lemma uncommitted_ret: "raises_uncommitted m \<Longrightarrow> raises_uncommitted (thn m (ret x))"
  by (auto simp: raises_uncommitted_def thn_eq_Inl)

lemma role_use_cases_uncommitted:
  "raises_uncommitted (create_role_use_case E now rn ds)" "raises_uncommitted (delete_role_use_case E now ri)"
  "raises_uncommitted (assign_role_use_case E now u ri b)" "raises_uncommitted (revoke_role_use_case E now u ri)"
  "raises_uncommitted (add_permission_use_case E now ri pn)" "raises_uncommitted (remove_permission_use_case E now ri pn)"
  unfolding create_role_use_case_def delete_role_use_case_def assign_role_use_case_def revoke_role_use_case_def
    add_permission_use_case_def remove_permission_use_case_def
  by (intro uncommitted pres)+

lemma refused_command: "raises_uncommitted (run_role_command E now c)"
  by (cases c) (simp_all add: role_use_cases_uncommitted uncommitted_ret)

lemma request_authority:
  assumes "in_request (run_role_command E now c) s = (r, s')" and ok: "db_ok (st_committed s)"
  shows "authority_of (st_committed s') = (case r of Inl _ \<Rightarrow> authority_of (st_committed s) | Inr _ \<Rightarrow> authority_step c (authority_of (st_committed s)))"
    "db_ok (st_committed s')"
proof -
  let ?s = "s\<lparr>st_work := st_committed s, st_uow := empty_uow\<rparr>"
  obtain s1 where m: "run_role_command E now c ?s = (r, s1)" and s': "st_committed s' = st_committed s1"
    using assms(1) by (auto simp: in_request_def split: prod.splits)
  show "authority_of (st_committed s') = (case r of Inl _ \<Rightarrow> authority_of (st_committed s) | Inr _ \<Rightarrow> authority_step c (authority_of (st_committed s)))"
  proof (cases r)
    case (Inl e)
    have "st_committed s1 = st_committed ?s" using refused_command m Inl unfolding raises_uncommitted_def by blast
    with s' Inl show ?thesis by simp
  next
    case (Inr x)
    with command_authority [of E now c ?s s1] m ok s' show ?thesis by simp
  qed
  have "preserves constrained (run_role_command E now c)" by (cases c) (auto intro: pres)
  from preservesD [OF this m] ok s' show "db_ok (st_committed s')" by (simp add: holds_def)
qed

section \<open>Sequences of commands\<close>

text \<open>The commands of a sequence that were not refused.\<close>

fun accepted :: "env \<Rightarrow> (datetime \<times> role_command) list \<Rightarrow> st \<Rightarrow> role_command list" where
  "accepted E [] s = []"
| "accepted E ((now, c) # cs) s =
     (case in_request (run_role_command E now c) s of
        (Inr _, s1) \<Rightarrow> c # accepted E cs s1
      | (Inl _, s1) \<Rightarrow> accepted E cs s1)"

lemma run_role_commands_Cons:
  "run_role_commands E ((now, c) # cs) s = run_role_commands E cs (snd (in_request (run_role_command E now c) s))"
  by (simp add: run_role_commands_def)

text \<open>C29. Role management implements its contract. After any sequence of role commands, each in a request of its own, the
  tables grant a user a permission exactly when the abstract record of holders and permissions says
  so, after the commands that were not refused: creating a role grants nothing, deleting it takes it
  from all holders, assigning and revoking change one holder, adding and removing a permission change
  one name of one role, and a refused command changes nothing.\<close>

theorem role_commands_refine:
  assumes "db_ok (st_committed s)"
  shows "authority_of (st_committed (run_role_commands E cs s)) = fold authority_step (accepted E cs s) (authority_of (st_committed s)) \<and>
     grants (st_committed (run_role_commands E cs s)) u n = may (fold authority_step (accepted E cs s) (authority_of (st_committed s))) u n"
proof -
  have "authority_of (st_committed (run_role_commands E cs s)) = fold authority_step (accepted E cs s) (authority_of (st_committed s))"
    using assms
  proof (induction cs arbitrary: s)
    case (Cons x cs)
    obtain now c where x: "x = (now, c)" by fastforce
    obtain r s1 where r: "in_request (run_role_command E now c) s = (r, s1)" by fastforce
    from request_authority [OF r Cons.prems] Cons.IH [of s1] show ?case
      by (cases r) (simp_all add: x r run_role_commands_Cons)
  qed (simp add: run_role_commands_def)
  then show ?thesis using may_grants by metis
qed

text \<open>Deleting a role that has a permission.\<close>

lemma demo_delete_role: "\<exists>s'. in_request (run_role_command sample_env 0 (DeleteRole 9)) (demo_st\<lparr>st_committed := demo_role_db\<rparr>) = (Inr (), s')"
proof -
  let ?s = "demo_st\<lparr>st_committed := demo_role_db, st_work := demo_role_db, st_uow := empty_uow\<rparr>"
  let ?role = "\<lparr>r_role_id = 9, r_name = ''ops'', r_description = None, r_permissions = [\<lparr>p_name = ''users:read'', p_description = None\<rparr>], r_events = []\<rparr>"
  have "ROLE_NAME_PATTERN ''ops''" "PERMISSION_NAME_PATTERN ''users:read''" by code_simp+
  then have r: "role_acquire_by_id 9 demo_role_db = Inr (Some ?role)"
    by (simp add: role_acquire_by_id_def demo_role_db_def table_simps role_from_row_def get_role_permissions_def role_permission_rows_def
        permission_from_row_def Permission_def RoleID_def NIL_UUID_def RoleName_def)
  obtain w where w: "register (''Role'', 9) [RoleDeletedEvent 9] (?s\<lparr>st_work := role_repo_delete 9 demo_role_db\<rparr>) =
      (Inr (), ?s\<lparr>st_work := role_repo_delete 9 demo_role_db, st_uow := w\<rparr>)" "waiting w = [RoleDeletedEvent 9]"
    using register_eq [of "?s\<lparr>st_work := role_repo_delete 9 demo_role_db\<rparr>" "(''Role'', 9)" "[RoleDeletedEvent 9]"] by (auto simp: uow_ok_def)
  then have d: "\<exists>r'. rbac_delete_role 9 ?s = (Inr r', ?s\<lparr>st_work := role_repo_delete 9 demo_role_db, st_uow := w\<rparr>)"
    using r by (simp add: rbac_delete_role_def rbac_require_role_def bnd_def thn_def on_work_def register_role_def
        DEFAULT_ROLE_ADMIN_def role_delete_def record_event_def Let_def)
  let ?s1 = "?s\<lparr>st_work := role_repo_delete 9 demo_role_db, st_uow := w\<rparr>"
  have "fresh_ids sample_env (2 * length (waiting (st_uow ?s1))) ?s1"
    by (simp add: w(2) fresh_ids_def role_repo_delete_def demo_role_db_def demo_db_def empty_db_def demo_st_def upt_rec)
  then obtain s2 where "commit sample_env 0 ?s1 = (Inr (), s2)" using commit_succeeds [of sample_env ?s1 0] w(2) by auto
  with d show ?thesis
    by (auto simp: in_request_def delete_role_use_case_def RoleID_def NIL_UUID_def lift_def bnd_def thn_def)
qed

lemma demo_role_ok: "db_ok demo_role_db"
  by (simp add: demo_role_db_def demo_db_def empty_db_def db_ok_def users_ok_def sessions_ok_def rbac_ok_def
      logs_ok_def some_values_Cons has_user_def has_session_def has_role_def has_permission_row_def split: option.splits)

theorem role_commands_refine_witness:
  "au_permissions (authority_of demo_role_db) 9 = {''users:read''} \<and>
   au_permissions (authority_of (st_committed (run_role_commands sample_env [(0, DeleteRole 9)] (demo_st\<lparr>st_committed := demo_role_db\<rparr>)))) 9 = {}"
proof
  let ?s = "demo_st\<lparr>st_committed := demo_role_db\<rparr>"
  show "au_permissions (authority_of demo_role_db) 9 = {''users:read''}"
    by (auto simp: authority_of_def set_role_permission_rows demo_role_db_def)
  obtain s' where "in_request (run_role_command sample_env 0 (DeleteRole 9)) ?s = (Inr (), s')" using demo_delete_role by blast
  then have "accepted sample_env [(0, DeleteRole 9)] ?s = [DeleteRole 9]" by simp
  with role_commands_refine [of ?s sample_env "[(0, DeleteRole 9)]"] demo_role_ok
  show "au_permissions (authority_of (st_committed (run_role_commands sample_env [(0, DeleteRole 9)] ?s))) 9 = {}" by simp
qed

end
