(* ===== verification/Registration.thy ===== *)
theory Registration
  imports Http_Edge Accounts
begin

text \<open>
  Registration through its endpoint: what one successful run of \<open>create_user\<close> stores, and how the
  idempotency key makes a repeated request answer from the cache.
\<close>

text \<open>The account a registration at \<open>now\<close> builds when the draw counter stands at \<open>k\<close>.\<close>

definition registered :: "env \<Rightarrow> datetime \<Rightarrow> nat \<Rightarrow> create_user_input \<Rightarrow> user" where
  "registered E now k data =
     user_create E now (uuid4 E k) (cu_username data) (if truthy (cu_email data) then cu_email data else None)
       (bcrypt_hashpw E (cu_password data) (k + 1)) (uuid_str (uuid4 E (k + 2)))"

lemma create_user_run:
  assumes ok: "db_ok (st_committed s)"
    and lim: "fst (limit_by_ip cfg now ''register:'' (cu_ip_address data) (s\<lparr>st_work := st_committed s, st_uow := empty_uow\<rparr>)) = Inr ()"
    and n: "Username (cu_username data) = Inr (cu_username data)" and p: "PlainPassword E (cu_password data) = Inr (cu_password data)"
    and m: "Email (if truthy (cu_email data) then cu_email data else None) = Inr (if truthy (cu_email data) then cu_email data else None)"
    and h: "bcrypt_hashpw E (cu_password data) (st_draw s + 1) \<noteq> []" and i: "uuid4 E (st_draw s) \<noteq> NIL_UUID"
    and new: "users_violation (user_to_values E (registered E now (st_draw s) data) 0) (users (st_committed s)) = None"
    and fresh: "fresh_ids E (3 + 2 * 2) (s\<lparr>st_work := st_committed s\<rparr>)"
  shows "\<exists>s'. create_user E cfg now data (s\<lparr>st_work := st_committed s, st_uow := empty_uow\<rparr>) = (Inr (uuid4 E (st_draw s)), s') \<and>
     st_cache s' = st_cache s \<and>
     users (st_committed s') = users (st_committed s) @ [user_to_values E (registered E now (st_draw s) data) 0] \<and>
     map ob_event_type (outbox_events (st_committed s')) = map ob_event_type (outbox_events (st_committed s)) @
       [''UserCreatedEvent'', ''EmailVerificationRequestedEvent'']"
proof -
  let ?s = "s\<lparr>st_work := st_committed s, st_uow := empty_uow\<rparr>" and ?k = "st_draw s" and ?d = "st_committed s"
  let ?m = "if truthy (cu_email data) then cu_email data else None"
  let ?u = "registered E now ?k data" and ?i = "uuid4 E ?k"
  let ?es = "[UserCreatedEvent ?i (cu_username data) ?m, EmailVerificationRequestedEvent ?i (email_or_blank ?m) (uuid_str (uuid4 E (?k + 2)))]"
  obtain l where l: "limit_by_ip cfg now ''register:'' (cu_ip_address data) ?s = (Inr (), ?s\<lparr>st_rate := l\<rparr>)"
    using lim limit_frame by (metis prod.collapse)
  have u: "u_events ?u = ?es" "u_id ?u = ?i"
    by (simp_all add: registered_def user_create_def Let_def record_event_def)
  let ?d1 = "?d\<lparr>users := users ?d @ [user_to_values E ?u 0]\<rparr>"
  have add: "user_add E ?u ?d = Inr ?d1" using new by (simp add: user_add_def Let_def)
  have free: "\<not> check_username_exists (cu_username data) ?d" "\<not> check_email_exists ?m ?d"
    using new by (auto simp: users_violation_def user_to_values_def registered_def user_create_def Let_def check_username_exists_def
        check_email_exists_def list_ex_iff split: if_splits)
  let ?s3 = "?s\<lparr>st_rate := l, st_draw := ?k + 3\<rparr>"
  obtain w where w: "register (''User'', ?i) ?es (?s3\<lparr>st_work := ?d1\<rparr>) = (Inr (), ?s3\<lparr>st_work := ?d1, st_uow := w\<rparr>)" "waiting w = ?es"
    using register_run [of "?s3\<lparr>st_work := ?d1\<rparr>" "(''User'', ?i)" ?es] by auto
  let ?s4 = "?s3\<lparr>st_work := ?d1, st_uow := w\<rparr>"
  have svc: "svc_create E now ?i (cu_username data) (cu_password data) (if truthy (cu_email data) then Some (cu_email data) else None) None
      (?s\<lparr>st_rate := l, st_draw := ?k + 1\<rparr>) = (Inr ?u, ?s4)"
    using free add w h u
    by (cases "truthy (cu_email data)")
      (simp_all add: svc_create_def bnd_def thn_def HashedPassword_def on_work_def register_user_def registered_def Let_def numeral_3_eq_3)
  have "fresh_ids E (2 * length (waiting w)) ?s4"
    using fresh_ids_later [OF fresh, of ?s4] w(2) by simp
  moreover have "list_all (\<lambda>e. pred_option (\<lambda>u. has_user u ?d1) (event_user e)) ?es"
    using u by (simp add: has_user_iff user_to_values_def)
  ultimately obtain k where c: "commit E now ?s4 = (Inr (), ?s4\<lparr>st_committed := with_events E (?k + 3) now ?es ?d1,
      st_work := with_events E (?k + 3) now ?es ?d1, st_uow := empty_uow, st_draw := k\<rparr>)"
    using commit_succeeds [of E ?s4 now] w(2) by auto
  have "create_user E cfg now data ?s = (Inr ?i, ?s4\<lparr>st_committed := with_events E (?k + 3) now ?es ?d1,
      st_work := with_events E (?k + 3) now ?es ?d1, st_uow := empty_uow, st_draw := k\<rparr>)"
    using l svc c n p m i u
    by (cases "truthy (cu_email data)") (simp_all add: create_user_def bnd_def thn_def UserID_def)
  then show ?thesis
    by (simp add: with_events_def outbox_row_of_def)
qed

definition register_data :: "(string \<Rightarrow> bool) \<Rightarrow> register_request \<Rightarrow> create_user_input" where
  "register_data is_trusted rq =
     \<lparr>cu_username = rq_username rq, cu_password = rq_password rq, cu_email = rq_email rq,
      cu_ip_address = client_ip is_trusted (rq_peer rq) (rq_forwarded rq)\<rparr>"

abbreviation register_key :: "(string \<Rightarrow> bool) \<Rightarrow> register_request \<Rightarrow> string" where
  "register_key is_trusted rq \<equiv>
     cache_key ''register'' (client_ip_or_unknown is_trusted (rq_peer rq) (rq_forwarded rq)) (the (rq_idempotency_key rq))"

text \<open>A request whose key has no cached answer, and one whose key has.\<close>

lemma register_miss:
  assumes "truthy (rq_idempotency_key rq)" and "visible InMemoryCache now (register_key is_trusted rq) (st_cache s) = None"
    and "create_user E cfg now (register_data is_trusted rq) (s\<lparr>st_cache := c1\<rparr>) = (Inr i, s1)"
    and "snd (mem_get now (register_key is_trusted rq) (st_cache s)) = c1"
  shows "register_endpoint E dump validate is_trusted cfg now rq s =
     (Inr i, s1\<lparr>st_cache := cache_response InMemoryCache dump now ''register''
        (client_ip_or_unknown is_trusted (rq_peer rq) (rq_forwarded rq)) (the (rq_idempotency_key rq)) [(''user_id'', juuid i)] (st_cache s1)\<rparr>)"
proof -
  have "mem_get now (register_key is_trusted rq) (st_cache s) = (None, c1)"
    using assms(2,4) by (metis InMemoryCache_sel(1) prod.collapse visible_def)
  with assms(1,3) show ?thesis
    by (simp add: register_endpoint_def Let_def bnd_def thn_def on_cache_may_fail_def on_cache_def get_cached_response_def
        cached_user_id_def register_data_def)
qed

lemma register_hit:
  assumes "truthy (rq_idempotency_key rq)" and "visible InMemoryCache now (register_key is_trusted rq) (st_cache s) = Some v"
    and "validate v = Inr [(''user_id'', juuid i)]"
  shows "\<exists>c. register_endpoint E dump validate is_trusted cfg now rq s = (Inr i, s\<lparr>st_cache := c\<rparr>)"
proof -
  obtain c where "mem_get now (register_key is_trusted rq) (st_cache s) = (Some v, c)"
    using assms(2) by (metis InMemoryCache_sel(1) prod.collapse visible_def)
  with assms(1,3) show ?thesis
    by (intro exI [of _ c]) (simp add: register_endpoint_def Let_def bnd_def on_cache_may_fail_def get_cached_response_def
        cached_user_id_def juuid_def uuid_parse_str)
qed

text \<open>C31. Registration creates one account, once: with a valid free name, a valid password and an
  optional valid free address, admitted by the limiter, it stores the account under a new
  identifier and queues its two events; and the same client repeating the request with the same
  idempotency key within a day gets the same identifier, whatever else the request says, with
  nothing written.\<close>

theorem registration_once:
  assumes ok: "db_ok (st_committed s)"
    and lim: "fst (limit_by_ip cfg t0 ''register:'' (client_ip is_trusted (rq_peer rq) (rq_forwarded rq)) (s\<lparr>st_work := st_committed s, st_uow := empty_uow\<rparr>)) = Inr ()"
    and n: "Username (rq_username rq) = Inr (rq_username rq)" and p: "PlainPassword E (rq_password rq) = Inr (rq_password rq)"
    and m: "Email (if truthy (rq_email rq) then rq_email rq else None) = Inr (if truthy (rq_email rq) then rq_email rq else None)"
    and h: "bcrypt_hashpw E (rq_password rq) (st_draw s + 1) \<noteq> []" and i: "uuid4 E (st_draw s) \<noteq> NIL_UUID"
    and new: "users_violation (user_to_values E (registered E t0 (st_draw s) (register_data is_trusted rq)) 0) (users (st_committed s)) = None"
    and fresh: "fresh_ids E (3 + 2 * 2) (s\<lparr>st_work := st_committed s\<rparr>)"
    and key: "truthy (rq_idempotency_key rq)" and miss: "visible InMemoryCache t0 (register_key is_trusted rq) (st_cache s) = None"
    and codec: "validate (dump [(''user_id'', juuid (uuid4 E (st_draw s)))]) = Inr [(''user_id'', juuid (uuid4 E (st_draw s)))]"
    and same: "rq_idempotency_key rq' = rq_idempotency_key rq" "rq_peer rq' = rq_peer rq" "rq_forwarded rq' = rq_forwarded rq"
    and time: "t0 \<le> t" "t < t0 + seconds IDEMPOTENCY_TTL_SECONDS"
  shows "\<exists>s1 s2. in_request (register_endpoint E dump validate is_trusted cfg t0 rq) s = (Inr (uuid4 E (st_draw s)), s1) \<and>
     users (st_committed s1) = users (st_committed s) @ [user_to_values E (registered E t0 (st_draw s) (register_data is_trusted rq)) 0] \<and>
     map ob_event_type (outbox_events (st_committed s1)) = map ob_event_type (outbox_events (st_committed s)) @
       [''UserCreatedEvent'', ''EmailVerificationRequestedEvent''] \<and>
     in_request (register_endpoint E dump validate is_trusted cfg t rq') s1 = (Inr (uuid4 E (st_draw s)), s2) \<and>
     st_committed s2 = st_committed s1"
proof -
  let ?k = "register_key is_trusted rq" and ?i = "uuid4 E (st_draw s)"
  let ?host = "client_ip_or_unknown is_trusted (rq_peer rq) (rq_forwarded rq)"
  let ?c1 = "snd (mem_get t0 ?k (st_cache s))" and ?D = "register_data is_trusted rq"
  let ?s = "s\<lparr>st_work := st_committed s, st_uow := empty_uow\<rparr>"
  have lim': "fst (limit_by_ip cfg t0 ''register:'' (cu_ip_address (register_data is_trusted rq))
      (s\<lparr>st_cache := ?c1, st_work := st_committed s, st_uow := empty_uow\<rparr>)) = Inr ()"
    using lim by (auto simp: limit_by_ip_def register_data_def bnd_def rate_limiter_check_def case_prod_unfold Let_def split: sum.splits if_splits)
  have f: "Username (cu_username ?D) = Inr (cu_username ?D)" "PlainPassword E (cu_password ?D) = Inr (cu_password ?D)"
    "Email (if truthy (cu_email ?D) then cu_email ?D else None) = Inr (if truthy (cu_email ?D) then cu_email ?D else None)"
    "bcrypt_hashpw E (cu_password ?D) (st_draw s + 1) \<noteq> []"
    using n p m h unfolding register_data_def create_user_input.simps by -
  obtain sa where c: "create_user E cfg t0 (register_data is_trusted rq) (s\<lparr>st_cache := ?c1, st_work := st_committed s, st_uow := empty_uow\<rparr>) = (Inr ?i, sa)"
    and sa: "st_cache sa = ?c1" "users (st_committed sa) = users (st_committed s) @ [user_to_values E (registered E t0 (st_draw s) (register_data is_trusted rq)) 0]"
      "map ob_event_type (outbox_events (st_committed sa)) = map ob_event_type (outbox_events (st_committed s)) @
       [''UserCreatedEvent'', ''EmailVerificationRequestedEvent'']"
    using create_user_run [of "s\<lparr>st_cache := ?c1\<rparr>" cfg t0 "register_data is_trusted rq" E] ok lim' f i new fresh
    by (auto simp: fresh_ids_def)
  let ?c2 = "cache_response InMemoryCache dump t0 ''register'' ?host (the (rq_idempotency_key rq)) [(''user_id'', juuid ?i)] ?c1"
  let ?s1 = "sa\<lparr>st_cache := ?c2, st_work := st_committed sa, st_uow := empty_uow\<rparr>"
  have eq: "?s\<lparr>st_cache := ?c1\<rparr> = s\<lparr>st_cache := ?c1, st_work := st_committed s, st_uow := empty_uow\<rparr>" by (cases s) simp
  have c': "create_user E cfg t0 ?D (?s\<lparr>st_cache := ?c1\<rparr>) = (Inr ?i, sa)" unfolding eq by (rule c)
  have r1: "in_request (register_endpoint E dump validate is_trusted cfg t0 rq) s = (Inr ?i, ?s1)"
    using register_miss [OF key, of t0 is_trusted ?s E cfg ?c1 ?i sa dump validate] miss c' sa(1) by (simp add: in_request_def)
  have "visible InMemoryCache t ?k ?c2 = Some (dump [(''user_id'', juuid ?i)])"
    using mem.set_visible [of IDEMPOTENCY_TTL_SECONDS t0 t] time by (simp add: cache_response_def IDEMPOTENCY_TTL_SECONDS_def)
  then obtain c3 where "register_endpoint E dump validate is_trusted cfg t rq' ?s1 = (Inr ?i, ?s1\<lparr>st_cache := c3\<rparr>)"
    using register_hit [of rq' t is_trusted ?s1 _ validate ?i E dump cfg] key same codec by auto
  then have "in_request (register_endpoint E dump validate is_trusted cfg t rq') ?s1 = (Inr ?i, ?s1\<lparr>st_cache := c3\<rparr>)"
    by (simp add: in_request_def)
  with r1 sa show ?thesis by (intro exI [of _ ?s1] exI [of _ "?s1\<lparr>st_cache := c3\<rparr>"]) simp
qed

definition demo_register :: register_request where
  "demo_register = \<lparr>rq_username = ''carol'', rq_password = demo_password, rq_email = None, rq_peer = None,
     rq_forwarded = None, rq_idempotency_key = Some ''k1''\<rparr>"

theorem registration_once_witness:
  "\<exists>s1 s2 dump validate. in_request (register_endpoint sample_env dump validate (\<lambda>_. False) default_config 5 demo_register) demo_st = (Inr 101, s1) \<and>
     length (users (st_committed s1)) = 2 \<and>
     in_request (register_endpoint sample_env dump validate (\<lambda>_. False) default_config 9 (demo_register\<lparr>rq_username := ''dave''\<rparr>)) s1 = (Inr 101, s2) \<and>
     st_committed s2 = st_committed s1"
proof -
  let ?dump = "\<lambda>p. case p of [(k, JStr x)] \<Rightarrow> x | _ \<Rightarrow> []" and ?validate = "\<lambda>x. Inr [(''user_id'', JStr x)]"
  have d: "st_committed demo_st = demo_db" "st_draw demo_st = 100" "st_cache demo_st = Map.empty" "users demo_db = [user_to_values sample_env demo_user 0]"
    by (simp_all add: demo_st_def demo_db_def)
  have n: "Username ''carol'' = Inr ''carol''" by code_simp
  have m: "Email None = Inr None" by code_simp
  have f: "fresh_ids sample_env (3 + 2 * 2) (demo_st\<lparr>st_work := st_committed demo_st\<rparr>)"
    by (simp add: fresh_ids_def d demo_db_def empty_db_def upt_rec)
  have v: "users_violation (user_to_values sample_env (registered sample_env 5 (st_draw demo_st) (register_data (\<lambda>_. False) demo_register)) 0)
      (users (st_committed demo_st)) = None"
    by (simp add: d users_violation_def registered_def register_data_def demo_register_def user_create_def user_to_values_def Let_def)
  show ?thesis
    using registration_once [of demo_st default_config 5 "\<lambda>_. False" demo_register sample_env ?validate ?dump "demo_register\<lparr>rq_username := ''dave''\<rparr>" 9, OF _ _ _ _ _ _ _ v f]
      demo_db_ok n m demo_password_ok d
    by (fastforce simp: demo_register_def client_ip_def limit_by_ip_def NIL_UUID_def visible_mem juuid_def IDEMPOTENCY_TTL_SECONDS_def)
qed

end
