(* ===== verification/Bridge.thy ===== *)
theory Bridge
  imports Http_Edge Login
begin

text \<open>
  The login and consent pages the authorization server sends browsers to
  (presentation/http/controllers/hydra_bridge.py). A handler acts on the application's state and on
  the history of calls to the server; what it answers is a template with its context or a redirect.
\<close>

section \<open>Handlers\<close>

record web =
  wb_st :: st
  wb_calls :: wire

type_synonym 'a web_action = "(web, http_error, 'a) act"

definition on_app :: "'a action \<Rightarrow> 'a web_action" where
  "on_app m w = (let (r, s) = m (wb_st w) in (map_sum Raised id r, w\<lparr>wb_st := s\<rparr>))"

definition on_hydra :: "'a hydra_action \<Rightarrow> 'a web_action" where
  "on_hydra m w = (let (r, l) = m (wb_calls w) in (map_sum Raised id r, w\<lparr>wb_calls := l\<rparr>))"

text \<open>The body of a try: its exception is a value for the code that follows.\<close>

definition attempt :: "('s, 'e, 'a) act \<Rightarrow> ('s, 'e, 'e + 'a) act" where
  "attempt m s = (let (r, s') = m s in (Inr r, s'))"

text \<open>A handler runs in the database session of its request, as \<open>in_request\<close> does.\<close>

definition opened :: "web \<Rightarrow> web" where
  "opened w = w\<lparr>wb_st := (wb_st w)\<lparr>st_work := st_committed (wb_st w), st_uow := empty_uow\<rparr>\<rparr>"

definition web_request :: "'a web_action \<Rightarrow> 'a web_action" where
  "web_request h w = (let (r, w1) = h (opened w) in (r, opened w1))"

record connection =
  cn_peer :: "string option"
  cn_forwarded :: "string option"
  cn_user_agent :: "string option"

record login_form_data =
  fd_login_challenge :: string
  fd_username :: "string option"
  fd_password :: "codepoints option"
  fd_two_factor_code :: "string option"
  fd_pending_token :: "string option"

datatype bridge_reply =
    LoginTemplate (lt_login_challenge: string) (lt_error: string) (lt_requires_two_factor: bool) (lt_pending_token: string)
  | ConsentTemplate string string "string list"
  | Redirect string

definition ACR_TWO_FACTOR :: string where
  "ACR_TWO_FACTOR = ''urn:acr:2fa''"

definition unknown_request :: "string \<Rightarrow> http_error" where
  "unknown_request what = HTTPException 400 (''Unknown or expired '' @ what @ '' request'')"

text \<open>\<open>except HydraChallengeNotFoundError as e: raise HTTPException(400, ...)\<close>\<close>

definition as_unknown :: "string \<Rightarrow> http_error \<Rightarrow> http_error" where
  "as_unknown what e = (case e of Raised (HydraChallengeNotFoundError n t) \<Rightarrow> unknown_request what | _ \<Rightarrow> e)"

definition or_unknown :: "string \<Rightarrow> 'a web_action \<Rightarrow> 'a web_action" where
  "or_unknown what m w = (case m w of (Inl e, w') \<Rightarrow> (Inl (as_unknown what e), w') | (Inr x, w') \<Rightarrow> (Inr x, w'))"

section \<open>Login\<close>

definition login_form :: "hydra \<Rightarrow> string \<Rightarrow> bridge_reply web_action" where
  "login_form H login_challenge =
     bnd (or_unknown ''login'' (on_hydra (get_login_request H login_challenge))) (\<lambda>login_request.
       if lq_skip login_request \<and> truthy (lq_subject login_request)
       then bnd (on_hydra (accept_login_request H login_challenge (the (lq_subject login_request)) False 0 None None
                   (Some [(''user_id'', JStr (the (lq_subject login_request)))]))) (\<lambda>redirect_to.
              ret (Redirect redirect_to))
       else ret (LoginTemplate login_challenge [] False []))"

definition login_refusal :: "http_error \<Rightarrow> app_error option" where
  "login_refusal e =
     (case e of
        Raised (InvalidCredentialsError m) \<Rightarrow> Some (InvalidCredentialsError m)
      | Raised (AccountLockedError m) \<Rightarrow> Some (AccountLockedError m)
      | Raised (TooManyLoginAttemptsError n) \<Rightarrow> Some (TooManyLoginAttemptsError n)
      | _ \<Rightarrow> None)"

definition session_context :: "uuid \<Rightarrow> string option \<Rightarrow> payload" where
  "session_context user_id session_id =
     [(''user_id'', JStr (uuid_str user_id)), (''session_id'', jopt JStr session_id)]"

text \<open>The page, or the accepted login, that the outcome of each use case leads to.\<close>

definition answer_code ::
    "hydra \<Rightarrow> hydra_config \<Rightarrow> login_form_data \<Rightarrow> http_error + complete_two_factor_output \<Rightarrow> bridge_reply web_action" where
  "answer_code H G data r =
     (case r of
        Inl e \<Rightarrow>
          if e = Raised TwoFactorChallengeExpiredError
          then ret (LoginTemplate (fd_login_challenge data) ''Invalid code, or the challenge expired. Please sign in again.'' False [])
          else throw e
      | Inr result \<Rightarrow>
          bnd (on_hydra (accept_login_request H
                 (if truthy (co_login_challenge result) then the (co_login_challenge result) else fd_login_challenge data)
                 (uuid_str (co_user_id result)) True (hg_login_remember_seconds G)
                 (Some ACR_TWO_FACTOR) (Some [''pwd'', ''otp''])
                 (Some (session_context (co_user_id result) (Some (co_session_id result)))))) (\<lambda>redirect_to.
            ret (Redirect redirect_to)))"

definition answer_password ::
    "hydra \<Rightarrow> hydra_config \<Rightarrow> login_form_data \<Rightarrow> http_error + login_output \<Rightarrow> bridge_reply web_action" where
  "answer_password H G data r =
     (case r of
        Inl e \<Rightarrow>
          (case login_refusal e of
             Some x \<Rightarrow> ret (LoginTemplate (fd_login_challenge data) (detail x) False [])
           | None \<Rightarrow> throw e)
      | Inr result \<Rightarrow>
          if lo_requires_two_factor result
          then ret (LoginTemplate (fd_login_challenge data) [] True
                 (case lo_challenge_token result of None \<Rightarrow> [] | Some t \<Rightarrow> t))
          else
            bnd (on_hydra (accept_login_request H (fd_login_challenge data) (uuid_str (lo_user_id result)) True
                   (hg_login_remember_seconds G) None (Some [''pwd''])
                   (Some (session_context (lo_user_id result) (lo_session_id result))))) (\<lambda>redirect_to.
              ret (Redirect redirect_to)))"

definition submit_two_factor ::
    "env \<Rightarrow> hydra \<Rightarrow> hydra_config \<Rightarrow> rate_limit_config \<Rightarrow> datetime \<Rightarrow> login_form_data \<Rightarrow> string \<Rightarrow> bridge_reply web_action" where
  "submit_two_factor E H G cfg now data client_host =
     (let pending_token = (case fd_pending_token data of None \<Rightarrow> [] | Some t \<Rightarrow> t) in
      bnd (on_app (rate_limiter_check cfg now (''2fa:'' @ client_host))) (\<lambda>limit.
      if \<not> allowed limit
      then ret (LoginTemplate (fd_login_challenge data) ''Too many attempts, try again later'' True pending_token)
      else if \<not> truthy (fd_two_factor_code data)
      then ret (LoginTemplate (fd_login_challenge data) ''Two-factor code is required'' True pending_token)
      else
        bnd (attempt (on_app (complete_two_factor E now pending_token (the (fd_two_factor_code data)))))
          (answer_code H G data)))"

definition login_submit ::
    "env \<Rightarrow> hydra \<Rightarrow> hydra_config \<Rightarrow> (string \<Rightarrow> bool) \<Rightarrow> rate_limit_config \<Rightarrow> datetime \<Rightarrow> connection \<Rightarrow> login_form_data \<Rightarrow>
     bridge_reply web_action" where
  "login_submit E H G is_trusted cfg now cn data =
     (let client_host = client_ip_or_unknown is_trusted (cn_peer cn) (cn_forwarded cn) in
      if truthy (fd_pending_token data) then submit_two_factor E H G cfg now data client_host
      else if \<not> truthy (fd_username data) \<or> fd_password data = None \<or> fd_password data = Some []
      then ret (LoginTemplate (fd_login_challenge data) ''Username and password are required'' False [])
      else
        bnd (attempt (on_app (login E cfg now
               \<lparr>li_password = the (fd_password data), li_username = fd_username data, li_email = None,
                li_user_agent = cn_user_agent cn, li_ip_address = Some client_host,
                li_login_challenge = Some (fd_login_challenge data)\<rparr>)))
          (answer_password H G data))"

section \<open>Consent and logout\<close>

definition accept_consent :: "hydra \<Rightarrow> hydra_config \<Rightarrow> datetime \<Rightarrow> consent_request \<Rightarrow> string web_action" where
  "accept_consent H G now consent_request =
     (let session_id = (case map_of (cq_context consent_request) ''session_id'' of Some (JStr s) \<Rightarrow> Some s | _ \<Rightarrow> None);
          grant_scope = cq_requested_scope consent_request in
      bnd (case map_of (cq_context consent_request) ''user_id'' of
             Some (JStr s) \<Rightarrow>
               (case uuid_parse s of
                  None \<Rightarrow> throw (HTTPException 400 ''Invalid consent context'')
                | Some i \<Rightarrow> ret (Some i))
           | _ \<Rightarrow> ret None) (\<lambda>user_id.
      bnd (on_app (query (build_consent_claims now user_id session_id grant_scope))) (\<lambda>claims.
      on_hydra (accept_consent_request H (cq_challenge consent_request) grant_scope None True
        (hg_consent_remember_seconds G) (Some (cc_id_token claims)) (Some (cc_access_token claims))))))"

definition consent_form :: "hydra \<Rightarrow> hydra_config \<Rightarrow> datetime \<Rightarrow> string \<Rightarrow> bridge_reply web_action" where
  "consent_form H G now consent_challenge =
     bnd (or_unknown ''consent'' (on_hydra (get_consent_request H consent_challenge))) (\<lambda>consent_request.
       if cq_skip consent_request
       then bnd (accept_consent H G now consent_request) (\<lambda>redirect_to. ret (Redirect redirect_to))
       else ret (ConsentTemplate consent_challenge (cr_client_name (cq_client consent_request)) (cq_requested_scope consent_request)))"

definition consent_submit :: "hydra \<Rightarrow> hydra_config \<Rightarrow> datetime \<Rightarrow> string \<Rightarrow> string \<Rightarrow> bridge_reply web_action" where
  "consent_submit H G now consent_challenge approve =
     (if approve \<noteq> ''true''
      then bnd (on_hydra (reject_consent_request H consent_challenge ''access_denied'' ''User denied consent'')) (\<lambda>redirect_to.
             ret (Redirect redirect_to))
      else
        bnd (or_unknown ''consent'' (on_hydra (get_consent_request H consent_challenge))) (\<lambda>consent_request.
        bnd (accept_consent H G now consent_request) (\<lambda>redirect_to. ret (Redirect redirect_to))))"

definition logout :: "hydra \<Rightarrow> string \<Rightarrow> bridge_reply web_action" where
  "logout H logout_challenge =
     bnd (or_unknown ''logout'' (thn (on_hydra (get_logout_request H logout_challenge))
            (on_hydra (accept_logout_request H logout_challenge)))) (\<lambda>redirect_to.
       ret (Redirect redirect_to))"

section \<open>Whom the application vouches for\<close>

abbreviation accept_login_call :: "string \<Rightarrow> string \<Rightarrow> int \<Rightarrow> string option \<Rightarrow> string list \<Rightarrow> payload \<Rightarrow> http_call" where
  "accept_login_call challenge subject remember_for acr amr context \<equiv>
     HttpPut ''/admin/oauth2/auth/requests/login/accept'' [(''login_challenge'', challenge)]
       (JsonBody (accept_login_body subject True remember_for acr (Some amr) (Some context)))"

lemma opened_simps [simp]:
  "wb_calls (opened w) = wb_calls w" "wb_st (opened w) = (wb_st w)\<lparr>st_work := st_committed (wb_st w), st_uow := empty_uow\<rparr>"
  by (simp_all add: opened_def)

lemma web_request_calls: "wb_calls (snd (web_request h w)) = wb_calls (snd (h (opened w)))"
  by (simp add: web_request_def case_prod_unfold Let_def)

lemma bnd_on_app:
  "m (wb_st w) = (r, s) \<Longrightarrow> bnd (on_app m) k w =
     (case r of Inl e \<Rightarrow> (Inl (Raised e), w\<lparr>wb_st := s\<rparr>) | Inr x \<Rightarrow> k x (w\<lparr>wb_st := s\<rparr>))"
  by (simp add: bnd_def on_app_def split: sum.splits)

lemma bnd_attempt_app:
  "m (wb_st w) = (r, s) \<Longrightarrow> bnd (attempt (on_app m)) k w = k (map_sum Raised id r) (w\<lparr>wb_st := s\<rparr>)"
  by (simp add: bnd_def attempt_def on_app_def)

lemma calls_accept:
  "wb_calls (snd (bnd (on_hydra (ask H call check validate)) (\<lambda>x. ret (f x)) w)) = wb_calls w @ [call]"
  using ask_log [of H call check validate "wb_calls w"]
  by (auto simp: bnd_def on_hydra_def split: prod.splits sum.splits)

text \<open>The context of the login a session belongs to.\<close>

definition password_shown :: "env \<Rightarrow> datetime \<Rightarrow> login_form_data \<Rightarrow> db \<Rightarrow> user \<Rightarrow> bool" where
  "password_shown E now data d u =
     (\<exists>n p. fd_username data = Some n \<and> fd_password data = Some p \<and>
        rbind (Username n) (\<lambda>n. user_acquire_by_username E n d) = Inr (Some u) \<and>
        \<not> is_deleted u \<and> \<not> user_is_locked u now \<and> bcrypt_checkpw E p (u_hashed_password u))"

definition code_shown :: "env \<Rightarrow> datetime \<Rightarrow> login_form_data \<Rightarrow> st \<Rightarrow> two_factor_challenge \<Rightarrow> user \<Rightarrow> bool" where
  "code_shown E now data s ch u =
     (\<exists>t code. fd_pending_token data = Some t \<and> fd_two_factor_code data = Some code \<and>
        fst (challenge_read InMemoryCache E now t (st_cache s)) = Inr ch \<and>
        user_acquire_by_id E (ch_user_id ch) (st_committed s) = Inr (Some u) \<and>
        \<not> is_deleted u \<and> \<not> user_is_locked u now \<and> fst (verify_two_factor E now u code))"

text \<open>Only an accepted outcome reaches the authorization server.\<close>

lemma answer_code_calls:
  "wb_calls (snd (answer_code H G data r w)) = wb_calls w @
     (case r of
        Inl e \<Rightarrow> []
      | Inr out \<Rightarrow>
          [accept_login_call (if truthy (co_login_challenge out) then the (co_login_challenge out) else fd_login_challenge data)
             (uuid_str (co_user_id out)) (hg_login_remember_seconds G) (Some ACR_TWO_FACTOR) [''pwd'', ''otp'']
             (session_context (co_user_id out) (Some (co_session_id out)))])"
  unfolding answer_code_def accept_login_request_def by (simp add: calls_accept split: sum.split)

lemma answer_password_calls:
  "wb_calls (snd (answer_password H G data r w)) = wb_calls w @
     (case r of
        Inl e \<Rightarrow> []
      | Inr out \<Rightarrow>
          if lo_requires_two_factor out then []
          else [accept_login_call (fd_login_challenge data) (uuid_str (lo_user_id out)) (hg_login_remember_seconds G) None [''pwd'']
                  (session_context (lo_user_id out) (lo_session_id out))])"
  unfolding answer_password_def accept_login_request_def by (simp add: calls_accept split: sum.split option.split)

lemma two_factor_calls:
  assumes p: "truthy (fd_pending_token data)"
  shows "let w' = snd (submit_two_factor E H G cfg now data host (opened w)) in
     wb_calls w' = wb_calls w \<or> (\<exists>u context ch. code_shown E now data (wb_st w) ch u \<and>
       wb_calls w' = wb_calls w @
         [accept_login_call (if truthy (ch_login_challenge ch) then the (ch_login_challenge ch) else fd_login_challenge data)
            (uuid_str (u_id u)) (hg_login_remember_seconds G) (Some ACR_TWO_FACTOR) [''pwd'', ''otp''] context])"
proof -
  obtain t where t: "fd_pending_token data = Some t" using p by (cases "fd_pending_token data") auto
  define key where "key = ''2fa:'' @ host"
  obtain lr l where l: "rate_limiter_check cfg now key (wb_st (opened w)) = (lr, (wb_st (opened w))\<lparr>st_rate := l\<rparr>)"
    by (simp add: rate_limiter_check_def case_prod_unfold Let_def)
  let ?s0 = "(wb_st w)\<lparr>st_rate := l\<rparr>"
  let ?s1 = "?s0\<lparr>st_work := st_committed (wb_st w), st_uow := empty_uow\<rparr>"
  have eq: "(wb_st (opened w))\<lparr>st_rate := l\<rparr> = ?s1" by (cases "wb_st w") simp
  note run = bnd_on_app [of "rate_limiter_check cfg now key" "opened w", OF l [unfolded eq]]
  show ?thesis
  proof (cases "\<exists>x. lr = Inr x \<and> allowed x \<and> truthy (fd_two_factor_code data)")
    case False
    then show ?thesis unfolding submit_two_factor_def Let_def key_def [symmetric] run by (cases lr) auto
  next
    case True
    then obtain x code where x: "lr = Inr x" "allowed x" "fd_two_factor_code data = Some code" "code \<noteq> []"
      by (cases "fd_two_factor_code data") auto
    obtain r s2 where c: "complete_two_factor E now t code (?s0\<lparr>st_work := st_committed ?s0, st_uow := empty_uow\<rparr>) = (r, s2)" by fastforce
    have calls: "snd (submit_two_factor E H G cfg now data host (opened w)) =
        snd (answer_code H G data (map_sum Raised id r) (opened w\<lparr>wb_st := s2\<rparr>))"
      unfolding submit_two_factor_def Let_def key_def [symmetric] run
      using bnd_attempt_app [of "complete_two_factor E now t code" "opened w\<lparr>wb_st := ?s1\<rparr>" r s2 "answer_code H G data"] c by (simp add: x t)
    show ?thesis
    proof (cases r)
      case (Inr out)
      from second_factor_answered [OF c [unfolded Inr], of now] obtain ch u upd where
        o: "fst (challenge_read InMemoryCache E now t (st_cache ?s0)) = Inr ch"
        "user_acquire_by_id E (ch_user_id ch) (st_committed ?s0) = Inr (Some u)" "\<not> is_deleted u" "\<not> user_is_locked u now"
        "verify_two_factor E now u code = (True, upd)" "co_user_id out = u_id u" "co_login_challenge out = ch_login_challenge ch"
        by (elim exE conjE) (rule that, assumption+)
      have "code_shown E now data (wb_st w) ch u" unfolding code_shown_def using o x t by simp
      then show ?thesis by (auto simp: calls answer_code_calls Inr o(6,7))
    qed (simp add: calls answer_code_calls)
  qed
qed

lemma password_calls:
  assumes p: "\<not> truthy (fd_pending_token data)"
  shows "let w' = snd (login_submit E H G is_trusted cfg now cn data (opened w)) in
     wb_calls w' = wb_calls w \<or> (\<exists>u context. password_shown E now data (st_committed (wb_st w)) u \<and> \<not> has_two_factor u \<and>
       wb_calls w' = wb_calls w @
         [accept_login_call (fd_login_challenge data) (uuid_str (u_id u)) (hg_login_remember_seconds G) None [''pwd''] context])"
proof (cases "truthy (fd_username data) \<and> fd_password data \<noteq> None \<and> fd_password data \<noteq> Some []")
  case False
  with p show ?thesis by (auto simp: login_submit_def Let_def)
next
  case True
  then obtain n pw where n: "fd_username data = Some n" "n \<noteq> []" "fd_password data = Some pw" "pw \<noteq> []"
    by (cases "fd_username data"; cases "fd_password data") auto
  define inp where "inp = \<lparr>li_password = pw, li_username = Some n, li_email = None,
     li_user_agent = cn_user_agent cn, li_ip_address = Some (client_ip_or_unknown is_trusted (cn_peer cn) (cn_forwarded cn)),
     li_login_challenge = Some (fd_login_challenge data)\<rparr>"
  obtain r s1 where l: "login E cfg now inp ((wb_st w)\<lparr>st_work := st_committed (wb_st w), st_uow := empty_uow\<rparr>) = (r, s1)" by fastforce
  have sub: "login_submit E H G is_trusted cfg now cn data (opened w) =
      answer_password H G data (map_sum Raised id r) (opened w\<lparr>wb_st := s1\<rparr>)"
    using p n bnd_attempt_app [of "login E cfg now inp" "opened w" r s1] l unfolding login_submit_def Let_def inp_def by simp
  show ?thesis
  proof (cases r)
    case (Inr out)
    from login_answered [OF l [unfolded Inr]] obtain u where
      u: "login_lookup E inp (st_committed (wb_st w)) = Inr (Some u)" "\<not> user_is_locked u now" "\<not> is_deleted u"
      "bcrypt_checkpw E pw (u_hashed_password u)" "lo_user_id out = u_id u" "lo_requires_two_factor out = has_two_factor u"
      by (auto simp: inp_def)
    have "password_shown E now data (st_committed (wb_st w)) u"
      using u n by (simp add: password_shown_def login_lookup_def inp_def)
    then show ?thesis by (auto simp: sub answer_password_calls Inr u(5,6))
  qed (simp add: sub answer_password_calls)
qed

text \<open>C6. The application vouches for a browser only after it has authenticated its user. A submitted
  login form leads to at most one call that accepts the login at the authorization server. If it
  carries no pending challenge, the subject is a stored account, neither locked nor deleted, without
  a second factor, whose password was given, and the call claims the password only. If it carries a
  pending challenge, the subject is the user of that challenge, the code given verifies for it, and
  only then does the call claim a second factor.\<close>

theorem login_vouched:
  "let s = wb_st w; w' = snd (web_request (login_submit E H G is_trusted cfg now cn data) w) in
   wb_calls w' = wb_calls w \<or>
   (\<exists>u context.
      if truthy (fd_pending_token data)
      then \<exists>ch. code_shown E now data s ch u \<and>
        wb_calls w' = wb_calls w @
          [accept_login_call (if truthy (ch_login_challenge ch) then the (ch_login_challenge ch) else fd_login_challenge data)
             (uuid_str (u_id u)) (hg_login_remember_seconds G) (Some ACR_TWO_FACTOR) [''pwd'', ''otp''] context]
      else password_shown E now data (st_committed s) u \<and> \<not> has_two_factor u \<and>
        wb_calls w' = wb_calls w @
          [accept_login_call (fd_login_challenge data) (uuid_str (u_id u)) (hg_login_remember_seconds G) None [''pwd''] context])"
proof (cases "truthy (fd_pending_token data)")
  case True
  then have "login_submit E H G is_trusted cfg now cn data =
      submit_two_factor E H G cfg now data (client_ip_or_unknown is_trusted (cn_peer cn) (cn_forwarded cn))"
    by (simp add: login_submit_def)
  with two_factor_calls [OF True] True show ?thesis unfolding Let_def web_request_calls by auto
next
  case False
  with password_calls [OF False] show ?thesis unfolding Let_def web_request_calls by auto
qed

text \<open>A remembered login is accepted on the word of the authorization server alone: the page and the calls do
  not depend on the application's state, so neither deleting nor locking the account ends it.\<close>

lemma remembered_login_unchecked:
  "fst (login_form H c (w\<lparr>wb_st := s\<rparr>)) = fst (login_form H c w) \<and>
   wb_calls (snd (login_form H c (w\<lparr>wb_st := s\<rparr>))) = wb_calls (snd (login_form H c w))"
  by (auto simp: login_form_def bnd_def or_unknown_def on_hydra_def split: prod.splits sum.splits)

section \<open>What is granted in the user's name\<close>

text \<open>The claims for the user and session a consent request carries in its context.\<close>

definition context_str :: "string \<Rightarrow> consent_request \<Rightarrow> string option" where
  "context_str k q = (case map_of (cq_context q) k of Some (JStr s) \<Rightarrow> Some s | _ \<Rightarrow> None)"

lemma accept_consent_run:
  "accept_consent H G now q w =
     (case context_str ''user_id'' q of
        Some s \<Rightarrow> (case uuid_parse s of
           None \<Rightarrow> throw (HTTPException 400 ''Invalid consent context'')
         | Some i \<Rightarrow> bnd (on_app (query (build_consent_claims now (Some i) (context_str ''session_id'' q) (cq_requested_scope q)))) (\<lambda>claims.
             on_hydra (accept_consent_request H (cq_challenge q) (cq_requested_scope q) None True
               (hg_consent_remember_seconds G) (Some (cc_id_token claims)) (Some (cc_access_token claims)))))
      | None \<Rightarrow> bnd (on_app (query (build_consent_claims now None (context_str ''session_id'' q) (cq_requested_scope q)))) (\<lambda>claims.
             on_hydra (accept_consent_request H (cq_challenge q) (cq_requested_scope q) None True
               (hg_consent_remember_seconds G) (Some (cc_id_token claims)) (Some (cc_access_token claims))))) w"
  by (auto simp: accept_consent_def context_str_def Let_def bnd_def split: option.splits json.splits)

abbreviation accept_consent_call :: "consent_request \<Rightarrow> int \<Rightarrow> consent_claims \<Rightarrow> http_call" where
  "accept_consent_call q remember_for c \<equiv>
     HttpPut ''/admin/oauth2/auth/requests/consent/accept'' [(''consent_challenge'', cq_challenge q)]
       (JsonBody (accept_consent_body (cq_requested_scope q) None True remember_for (Some (cc_id_token c)) (Some (cc_access_token c))))"

definition claims_for :: "datetime \<Rightarrow> consent_request \<Rightarrow> db \<Rightarrow> app_error + consent_claims" where
  "claims_for now q =
     build_consent_claims now (Option.bind (context_str ''user_id'' q) uuid_parse) (context_str ''session_id'' q) (cq_requested_scope q)"

lemma hydra_ask_run: "on_hydra (ask H call check validate) w =
    (map_sum Raised id (fst (ask H call check validate (wb_calls w))), w\<lparr>wb_calls := wb_calls w @ [call]\<rparr>)"
  using ask_log [of H call check validate "wb_calls w"] by (simp add: on_hydra_def case_prod_unfold Let_def)

lemma claims_then_accept:
  assumes "w' = snd (bnd (on_app (query f)) (\<lambda>c. on_hydra (ask H (call c) check (validate c))) w)"
  shows "wb_st w' = wb_st w \<and> (wb_calls w' = wb_calls w \<or> (\<exists>c. f (st_work (wb_st w)) = Inr c \<and> wb_calls w' = wb_calls w @ [call c]))"
  unfolding assms by (cases "f (st_work (wb_st w))") (simp_all add: bnd_def on_app_def query_def hydra_ask_run)

lemma accept_consent_calls:
  assumes "accept_consent H G now q w = (r, w')"
  shows "wb_st w' = wb_st w \<and> (wb_calls w' = wb_calls w \<or>
    (\<exists>c. claims_for now q (st_work (wb_st w)) = Inr c \<and>
       wb_calls w' = wb_calls w @ [accept_consent_call q (hg_consent_remember_seconds G) c]))"
proof -
  let ?k = "\<lambda>uid. bnd (on_app (query (build_consent_claims now uid (context_str ''session_id'' q) (cq_requested_scope q)))) (\<lambda>claims.
      on_hydra (accept_consent_request H (cq_challenge q) (cq_requested_scope q) None True
        (hg_consent_remember_seconds G) (Some (cc_id_token claims)) (Some (cc_access_token claims))))"
  have w': "w' = snd (accept_consent H G now q w)" using assms by simp
  show ?thesis
  proof (cases "\<exists>s. context_str ''user_id'' q = Some s \<and> uuid_parse s = None")
    case True
    then show ?thesis by (auto simp: w' accept_consent_run)
  next
    case False
    then have "w' = snd (?k (Option.bind (context_str ''user_id'' q) uuid_parse) w)"
      by (auto simp: w' accept_consent_run split: option.splits)
    from claims_then_accept [OF this [unfolded accept_consent_request_def]] show ?thesis by (simp add: claims_for_def)
  qed
qed


end
