(* ===== verification/Api.thy ===== *)
theory Api
  imports Bridge Isolation
begin

text \<open>
  The JSON interface: the controllers of presentation/http/controllers (user.py, roles.py,
  admin.py), the paths the authentication middleware lets through, the guards of each route, and
  how a request passes through all of them. A route and the data litestar has parsed for it is a
  value of \<open>endpoint\<close>; parsing and routing are litestar's. Response schemas that repeat the fields
  of the output they are built from are that output.
\<close>

section \<open>Schemas\<close>

record login_response =
  lr_user_id :: string
  lr_session_id :: "string option"
  lr_refresh_token :: "string option"
  lr_requires_two_factor :: bool
  lr_challenge_token :: "string option"

record two_factor_response =
  tf_user_id :: string
  tf_session_id :: string
  tf_refresh_token :: string

record refresh_response =
  rp_user_id :: string
  rp_session_id :: string
  rp_expires_at :: string
  rp_refresh_token :: string

record profile_response =
  pp_user_id :: string
  pp_username :: string
  pp_email :: "string option"
  pp_is_email_verified :: bool
  pp_is_locked :: bool
  pp_has_two_factor :: bool

record session_response =
  sv_session_id :: string
  sv_created_at :: string
  sv_expires_at :: string
  sv_is_valid :: bool
  sv_device :: "(string \<times> string option) list"

record sessions_page_response =
  sq_sessions :: "session_response list"
  sq_total :: nat
  sq_limit :: int
  sq_offset :: int
  sq_has_more :: bool

record role_response =
  rw_role_id :: string
  rw_name :: string
  rw_description :: "string option"
  rw_permissions :: "string list"

definition result_context :: "string \<Rightarrow> string \<Rightarrow> (string \<times> string) list" where
  "result_context message err = [(''message'', message), (''error'', err)]"

section \<open>UserController\<close>

definition api_login ::
    "env \<Rightarrow> (string \<Rightarrow> bool) \<Rightarrow> rate_limit_config \<Rightarrow> datetime \<Rightarrow> connection \<Rightarrow> codepoints \<Rightarrow> string option \<Rightarrow> string option \<Rightarrow>
     login_response action" where
  "api_login E is_trusted cfg now cn password username email =
     bnd (login E cfg now
       \<lparr>li_password = password, li_username = username, li_email = email, li_user_agent = cn_user_agent cn,
        li_ip_address = client_ip is_trusted (cn_peer cn) (cn_forwarded cn), li_login_challenge = None\<rparr>) (\<lambda>result.
     ret \<lparr>lr_user_id = uuid_str (lo_user_id result), lr_session_id = lo_session_id result,
          lr_refresh_token = lo_refresh_token result, lr_requires_two_factor = lo_requires_two_factor result,
          lr_challenge_token = lo_challenge_token result\<rparr>)"

definition api_get_me :: "datetime \<Rightarrow> user_security \<Rightarrow> profile_response action" where
  "api_get_me now user =
     bnd (query (get_me now (us_user_id user))) (\<lambda>result.
     ret \<lparr>pp_user_id = gm_user_id result, pp_username = gm_username result, pp_email = gm_email result,
          pp_is_email_verified = gm_is_email_verified result, pp_is_locked = gm_is_locked result,
          pp_has_two_factor = gm_has_two_factor result\<rparr>)"

definition api_update_profile :: "env \<Rightarrow> datetime \<Rightarrow> user_security \<Rightarrow> string option \<Rightarrow> string option \<Rightarrow> profile_response action" where
  "api_update_profile E now user username email =
     bnd (update_profile E now (us_user_id user) username email) (\<lambda>result.
     ret \<lparr>pp_user_id = uuid_str (us_user_id user), pp_username = uo_username result, pp_email = uo_email result,
          pp_is_email_verified = uo_is_email_verified result, pp_is_locked = uo_is_locked result,
          pp_has_two_factor = uo_has_two_factor result\<rparr>)"

section \<open>AuthController\<close>

definition api_refresh :: "env \<Rightarrow> datetime \<Rightarrow> string \<Rightarrow> refresh_response action" where
  "api_refresh E now refresh_token =
     bnd (refresh_token_use_case E now refresh_token) (\<lambda>result.
     ret \<lparr>rp_user_id = uuid_str (ro_user_id result), rp_session_id = ro_session_id result,
          rp_expires_at = ro_expires_at result, rp_refresh_token = ro_refresh_token result\<rparr>)"

definition api_complete_two_factor :: "env \<Rightarrow> datetime \<Rightarrow> string \<Rightarrow> string \<Rightarrow> two_factor_response action" where
  "api_complete_two_factor E now challenge_token code =
     bnd (complete_two_factor E now challenge_token code) (\<lambda>result.
     ret \<lparr>tf_user_id = uuid_str (co_user_id result), tf_session_id = co_session_id result,
          tf_refresh_token = co_refresh_token result\<rparr>)"

text \<open>Membership in the class BaseDomainError; the other application errors derive from
  BaseApplicationError.\<close>

definition is_domain_error :: "app_error \<Rightarrow> bool" where
  "is_domain_error e =
     (status e \<noteq> None \<and>
      (case e of
         ConfigurationError m \<Rightarrow> False | TooManyLoginAttemptsError n \<Rightarrow> False | OAuthClientNotFoundError c \<Rightarrow> False
       | TwoFactorChallengeExpiredError \<Rightarrow> False | SecretDecryptionError \<Rightarrow> False | _ \<Rightarrow> True))"

definition verify_email_landing :: "env \<Rightarrow> datetime \<Rightarrow> string \<Rightarrow> (string \<times> string) list action" where
  "verify_email_landing E now token =
     bnd (attempt (verify_email_use_case E now token)) (\<lambda>r.
       case r of
         Inl e \<Rightarrow> if is_domain_error e then ret (result_context [] (detail e)) else throw e
       | Inr _ \<Rightarrow> ret (result_context ''Your email address is verified. You can sign in now.'' []))"

section \<open>SessionController\<close>

definition session_view :: "env \<Rightarrow> datetime \<Rightarrow> session_read_dto \<Rightarrow> session_response" where
  "session_view E now s =
     \<lparr>sv_session_id = uuid_str (sd_session_id s), sv_created_at = isoformat E (sd_created_at s),
      sv_expires_at = isoformat E (sd_expires_at s), sv_is_valid = (\<not> sd_is_revoked s \<and> now < sd_expires_at s),
      sv_device = [(''user_agent'', di_user_agent (sd_device_info s)), (''ip_address'', di_ip_address (sd_device_info s)),
                   (''device_name'', di_device_name (sd_device_info s))]\<rparr>"

definition api_get_sessions :: "env \<Rightarrow> datetime \<Rightarrow> user_security \<Rightarrow> int \<Rightarrow> int \<Rightarrow> sessions_page_response action" where
  "api_get_sessions E now user limit offset =
     bnd (query (get_user_sessions (us_user_id user) limit offset)) (\<lambda>result.
     ret \<lparr>sq_sessions = map (session_view E now) (sp_sessions result), sq_total = sp_total result,
          sq_limit = sp_limit result, sq_offset = sp_offset result, sq_has_more = sp_has_more result\<rparr>)"

definition revoke_all_sessions_use_case :: "env \<Rightarrow> hydra \<Rightarrow> datetime \<Rightarrow> uuid \<Rightarrow> unit web_action" where
  "revoke_all_sessions_use_case E H now user_id =
     thn (on_app (revoke_all_sessions_local E now user_id))
    (thn (on_hydra (revoke_consent_sessions H (uuid_str user_id)))
         (on_hydra (revoke_login_sessions H (uuid_str user_id))))"

section \<open>RolesController and PermissionsController\<close>

definition role_from_output :: "role_output \<Rightarrow> role_response" where
  "role_from_output r =
     \<lparr>rw_role_id = uuid_str (rout_role_id r), rw_name = rout_name r, rw_description = rout_description r,
      rw_permissions = rout_permissions r\<rparr>"

definition role_view :: "role_read_dto \<Rightarrow> role_response" where
  "role_view r =
     \<lparr>rw_role_id = uuid_str (rd_role_id r), rw_name = rd_name r, rw_description = rd_description r,
      rw_permissions = rd_permissions r\<rparr>"

definition api_list_roles :: "role_response list action" where
  "api_list_roles = query (\<lambda>d. Inr (map role_view (get_all_roles d)))"

definition api_get_user_roles :: "uuid \<Rightarrow> role_response list action" where
  "api_get_user_roles user_id = bnd (query (get_user_roles user_id)) (\<lambda>roles. ret (map role_view roles))"

definition api_list_permissions :: "(string \<times> string option) list action" where
  "api_list_permissions = bnd (query rbac_get_all_permissions) (\<lambda>ps. ret (map (\<lambda>p. (p_name p, p_description p)) ps))"

section \<open>Routes\<close>

datatype (plugins only: code size) endpoint =
    PostRegister register_request
  | PostLogin codepoints "string option" "string option"
  | GetMe
  | PatchMe "string option" "string option"
  | DeleteMe
  | PostPassword codepoints codepoints
  | PostRefresh string
  | PostChallenge string string
  | PostVerifyEmail string
  | GetVerifyEmail string
  | PostRequestReset string
  | PostResetPassword string codepoints
  | GetResetPassword string
  | PostEnable2FA
  | PostConfirm2FA string
  | PostDisable2FA codepoints
  | PostVerify2FA string
  | GetSessions int int
  | DeleteSession string
  | DeleteSessions
  | PostRole string "string option"
  | DeleteRole uuid
  | GetRoles
  | PostAssign uuid uuid
  | PostRevoke uuid uuid
  | GetUserRoles uuid
  | PostPermission uuid string
  | DeletePermission uuid string
  | GetPermissions
  | PostClient create_oauth_client_input
  | GetClients
  | DeleteClient string
  | PostRotate string

text \<open>The path of a route, as its controller's prefix and its decorator give it.\<close>

primrec route_path :: "endpoint \<Rightarrow> string" where
  "route_path (PostRegister r) = ''/v1/users/register''"
| "route_path (PostLogin p n m) = ''/v1/users/login''"
| "route_path GetMe = ''/v1/users/me''"
| "route_path (PatchMe n m) = ''/v1/users/me''"
| "route_path DeleteMe = ''/v1/users/me''"
| "route_path (PostPassword p q) = ''/v1/users/me/password''"
| "route_path (PostRefresh t) = ''/v1/auth/refresh''"
| "route_path (PostChallenge t c) = ''/v1/auth/2fa/challenge''"
| "route_path (PostVerifyEmail t) = ''/v1/auth/verify-email''"
| "route_path (GetVerifyEmail t) = ''/v1/auth/verify-email''"
| "route_path (PostRequestReset m) = ''/v1/auth/request-password-reset''"
| "route_path (PostResetPassword t p) = ''/v1/auth/reset-password''"
| "route_path (GetResetPassword t) = ''/v1/auth/reset-password''"
| "route_path PostEnable2FA = ''/v1/auth/2fa/enable''"
| "route_path (PostConfirm2FA c) = ''/v1/auth/2fa/confirm''"
| "route_path (PostDisable2FA p) = ''/v1/auth/2fa/disable''"
| "route_path (PostVerify2FA c) = ''/v1/auth/2fa/verify''"
| "route_path (GetSessions l f) = ''/v1/sessions''"
| "route_path (DeleteSession s) = ''/v1/sessions/'' @ s"
| "route_path DeleteSessions = ''/v1/sessions''"
| "route_path (PostRole n d) = ''/admin/roles''"
| "route_path (DeleteRole i) = ''/admin/roles/'' @ uuid_str i"
| "route_path GetRoles = ''/admin/roles''"
| "route_path (PostAssign i u) = ''/admin/roles/'' @ uuid_str i @ ''/assign''"
| "route_path (PostRevoke i u) = ''/admin/roles/'' @ uuid_str i @ ''/revoke''"
| "route_path (GetUserRoles u) = ''/admin/roles/users/'' @ uuid_str u"
| "route_path (PostPermission i n) = ''/admin/roles/'' @ uuid_str i @ ''/permissions''"
| "route_path (DeletePermission i n) = ''/admin/roles/'' @ uuid_str i @ ''/permissions/'' @ n"
| "route_path GetPermissions = ''/admin/permissions''"
| "route_path (PostClient c) = ''/admin/clients''"
| "route_path GetClients = ''/admin/clients''"
| "route_path (DeleteClient i) = ''/admin/clients/'' @ i"
| "route_path (PostRotate i) = ''/admin/clients/'' @ i @ ''/rotate''"

text \<open>exclude_paths: anchored patterns. \<open>^p\<close> matches every path that begins with p; \<open>^p$\<close> the path
  p, also before a final newline.\<close>

definition exclude_prefixes :: "string list" where
  "exclude_prefixes = [''/health'', ''/schema'']"

definition exclude_exact :: "string list" where
  "exclude_exact =
     [''/v1/users/login'', ''/v1/users/register'', ''/v1/auth/refresh'', ''/v1/auth/request-password-reset'',
      ''/v1/auth/reset-password'', ''/v1/auth/verify-email'', ''/v1/auth/2fa/challenge'',
      ''/auth/login'', ''/auth/consent'', ''/auth/logout'']"

definition excluded :: "string \<Rightarrow> bool" where
  "excluded path =
     (list_ex (\<lambda>p. take (length p) path = p) exclude_prefixes \<or>
      list_ex (\<lambda>p. path = p \<or> path = p @ [newline]) exclude_exact)"

datatype guard = NeedScope string | NeedAdmin

definition SCOPE_ACCOUNT_WRITE :: string where
  "SCOPE_ACCOUNT_WRITE = ''account:write''"

definition SCOPE_SESSIONS_WRITE :: string where
  "SCOPE_SESSIONS_WRITE = ''sessions:write''"

text \<open>\<open>guards=[...]\<close> of each route; the admin controllers carry theirs for all of their routes.\<close>

fun guards :: "endpoint \<Rightarrow> guard list" where
  "guards (PostRegister r) = []"
| "guards (PostLogin p n m) = []"
| "guards GetMe = [NeedScope SCOPE_PROFILE]"
| "guards (PatchMe n m) = [NeedScope SCOPE_PROFILE]"
| "guards DeleteMe = [NeedScope SCOPE_ACCOUNT_WRITE]"
| "guards (PostPassword p q) = [NeedScope SCOPE_ACCOUNT_WRITE]"
| "guards (PostRefresh t) = []"
| "guards (PostChallenge t c) = []"
| "guards (PostVerifyEmail t) = []"
| "guards (GetVerifyEmail t) = []"
| "guards (PostRequestReset m) = []"
| "guards (PostResetPassword t p) = []"
| "guards (GetResetPassword t) = []"
| "guards PostEnable2FA = [NeedScope SCOPE_ACCOUNT_WRITE]"
| "guards (PostConfirm2FA c) = [NeedScope SCOPE_ACCOUNT_WRITE]"
| "guards (PostDisable2FA p) = [NeedScope SCOPE_ACCOUNT_WRITE]"
| "guards (PostVerify2FA c) = []"
| "guards (GetSessions l f) = [NeedScope SCOPE_PROFILE]"
| "guards (DeleteSession s) = [NeedScope SCOPE_SESSIONS_WRITE]"
| "guards DeleteSessions = [NeedScope SCOPE_SESSIONS_WRITE]"
| "guards e = [NeedAdmin]"

section \<open>A request from its bearer token to its answer\<close>

datatype (plugins only: code size) api_reply =
    RUserId uuid
  | RLogin login_response
  | RTwoFactor two_factor_response
  | RRefresh refresh_response
  | RProfile profile_response
  | RSuccess bool
  | RResult "(string \<times> string) list"
  | RResetForm string
  | REnable enable_2fa_output
  | RSessions sessions_page_response
  | RRole role_response
  | RRoles "role_response list"
  | RPermissions "(string \<times> string option) list"
  | RMessage string
  | RClient create_oauth_client_output
  | RClients "client_dto list"
  | RSecret "string \<times> string option"
  | RNone

text \<open>What the container provides: the environment, the server with its client and introspection, the
  configurations, the proxy test and the JSON codec of stored responses.\<close>

record site =
  si_env :: env
  si_hydra :: hydra
  si_introspector :: introspector
  si_hydra_config :: hydra_config
  si_rate_limits :: rate_limit_config
  si_is_trusted :: "string \<Rightarrow> bool"
  si_dump :: "payload \<Rightarrow> string"
  si_validate :: "string \<Rightarrow> app_error + payload"

definition and_reply :: "('a \<Rightarrow> api_reply) \<Rightarrow> 'a web_action \<Rightarrow> api_reply web_action" where
  "and_reply f m = bnd m (\<lambda>x. ret (f x))"

text \<open>\<open>request.user\<close> outside an authenticated request raises.\<close>

definition with_user :: "user_security option \<Rightarrow> (user_security \<Rightarrow> 'a web_action) \<Rightarrow> 'a web_action" where
  "with_user user k = (case user of None \<Rightarrow> throw ImproperlyConfigured | Some u \<Rightarrow> k u)"

definition page_bounds :: "int \<Rightarrow> int \<Rightarrow> unit web_action" where
  "page_bounds limit offset =
     (if 1 \<le> limit \<and> limit \<le> 100 \<and> 0 \<le> offset then ret () else throw (HTTPException 400 ''Validation failed''))"

abbreviation peer_ip :: "site \<Rightarrow> connection \<Rightarrow> string option" where
  "peer_ip S cn \<equiv> client_ip (si_is_trusted S) (cn_peer cn) (cn_forwarded cn)"

text \<open>The controllers' methods: the use case each runs, with what arguments, and its answer.\<close>

text \<open>UserController.\<close>

definition register_handler :: "site \<Rightarrow> datetime \<Rightarrow> connection \<Rightarrow> register_request \<Rightarrow> api_reply web_action" where
  "register_handler S now cn r =
     and_reply RUserId (on_app (register_endpoint (si_env S) (si_dump S) (si_validate S) (si_is_trusted S) (si_rate_limits S) now
       (r\<lparr>rq_peer := cn_peer cn, rq_forwarded := cn_forwarded cn\<rparr>)))"

definition login_handler :: "site \<Rightarrow> datetime \<Rightarrow> connection \<Rightarrow> codepoints \<Rightarrow> string option \<Rightarrow> string option \<Rightarrow> api_reply web_action" where
  "login_handler S now cn p n m =
     and_reply RLogin (on_app (api_login (si_env S) (si_is_trusted S) (si_rate_limits S) now cn p n m))"

definition get_me_handler :: "datetime \<Rightarrow> user_security option \<Rightarrow> api_reply web_action" where
  "get_me_handler now user =
     with_user user (\<lambda>u. and_reply RProfile (on_app (api_get_me now u)))"

definition update_profile_handler :: "site \<Rightarrow> datetime \<Rightarrow> user_security option \<Rightarrow> string option \<Rightarrow> string option \<Rightarrow> api_reply web_action" where
  "update_profile_handler S now user n m =
     with_user user (\<lambda>u. and_reply RProfile (on_app (api_update_profile (si_env S) now u n m)))"

definition delete_me_handler :: "site \<Rightarrow> datetime \<Rightarrow> user_security option \<Rightarrow> api_reply web_action" where
  "delete_me_handler S now user =
     with_user user (\<lambda>u. and_reply (\<lambda>_. RNone) (on_app (delete_me (si_env S) now (us_user_id u))))"

definition change_password_handler :: "site \<Rightarrow> datetime \<Rightarrow> user_security option \<Rightarrow> codepoints \<Rightarrow> codepoints \<Rightarrow> api_reply web_action" where
  "change_password_handler S now user p q =
     with_user user (\<lambda>u. and_reply (\<lambda>_. RSuccess True) (on_app (change_password_use_case (si_env S) now (us_user_id u) p q)))"

text \<open>AuthController.\<close>

definition refresh_handler :: "site \<Rightarrow> datetime \<Rightarrow> string \<Rightarrow> api_reply web_action" where
  "refresh_handler S now t =
     and_reply RRefresh (on_app (api_refresh (si_env S) now t))"

definition complete_two_factor_handler :: "site \<Rightarrow> datetime \<Rightarrow> string \<Rightarrow> string \<Rightarrow> api_reply web_action" where
  "complete_two_factor_handler S now t c =
     and_reply RTwoFactor (on_app (api_complete_two_factor (si_env S) now t c))"

definition verify_email_handler :: "site \<Rightarrow> datetime \<Rightarrow> string \<Rightarrow> api_reply web_action" where
  "verify_email_handler S now t =
     and_reply (\<lambda>_. RSuccess True) (on_app (verify_email_use_case (si_env S) now t))"

definition verify_email_page_handler :: "site \<Rightarrow> datetime \<Rightarrow> string \<Rightarrow> api_reply web_action" where
  "verify_email_page_handler S now t =
     and_reply RResult (on_app (verify_email_landing (si_env S) now t))"

definition request_password_reset_handler :: "site \<Rightarrow> datetime \<Rightarrow> connection \<Rightarrow> string \<Rightarrow> api_reply web_action" where
  "request_password_reset_handler S now cn m =
     and_reply (\<lambda>_. RSuccess True) (on_app (request_password_reset_use_case (si_env S) (si_rate_limits S) now m (peer_ip S cn)))"

definition reset_password_handler :: "site \<Rightarrow> datetime \<Rightarrow> connection \<Rightarrow> string \<Rightarrow> codepoints \<Rightarrow> api_reply web_action" where
  "reset_password_handler S now cn t p =
     and_reply (\<lambda>_. RSuccess True) (on_app (reset_password_use_case (si_env S) (si_rate_limits S) now t p (peer_ip S cn)))"

definition reset_password_form_handler :: "string \<Rightarrow> api_reply web_action" where
  "reset_password_form_handler t =
     ret (RResetForm t)"

definition enable_2fa_handler :: "site \<Rightarrow> datetime \<Rightarrow> user_security option \<Rightarrow> api_reply web_action" where
  "enable_2fa_handler S now user =
     with_user user (\<lambda>u. and_reply REnable (on_app (enable_2fa (si_env S) now (us_user_id u))))"

definition confirm_2fa_handler :: "site \<Rightarrow> datetime \<Rightarrow> user_security option \<Rightarrow> string \<Rightarrow> api_reply web_action" where
  "confirm_2fa_handler S now user c =
     with_user user (\<lambda>u. and_reply (\<lambda>_. RSuccess True) (on_app (confirm_2fa (si_env S) now (us_user_id u) c)))"

definition disable_2fa_handler :: "site \<Rightarrow> datetime \<Rightarrow> user_security option \<Rightarrow> codepoints \<Rightarrow> api_reply web_action" where
  "disable_2fa_handler S now user p =
     with_user user (\<lambda>u. and_reply (\<lambda>_. RSuccess True) (on_app (disable_2fa (si_env S) now (us_user_id u) p)))"

definition verify_2fa_handler :: "site \<Rightarrow> datetime \<Rightarrow> user_security option \<Rightarrow> string \<Rightarrow> api_reply web_action" where
  "verify_2fa_handler S now user c =
     with_user user (\<lambda>u. and_reply RSuccess (on_app (verify_2fa (si_env S) now (us_user_id u) c)))"

text \<open>SessionController.\<close>

definition get_sessions_handler :: "site \<Rightarrow> datetime \<Rightarrow> user_security option \<Rightarrow> int \<Rightarrow> int \<Rightarrow> api_reply web_action" where
  "get_sessions_handler S now user l f =
     thn (page_bounds l f) (with_user user (\<lambda>u. and_reply RSessions (on_app (api_get_sessions (si_env S) now u l f))))"

definition revoke_session_handler :: "site \<Rightarrow> datetime \<Rightarrow> user_security option \<Rightarrow> string \<Rightarrow> api_reply web_action" where
  "revoke_session_handler S now user s =
     with_user user (\<lambda>u. and_reply (\<lambda>_. RNone) (on_app (revoke_session_use_case (si_env S) now (us_user_id u) s)))"

definition revoke_all_sessions_handler :: "site \<Rightarrow> datetime \<Rightarrow> user_security option \<Rightarrow> api_reply web_action" where
  "revoke_all_sessions_handler S now user =
     with_user user (\<lambda>u. and_reply (\<lambda>_. RNone) (revoke_all_sessions_use_case (si_env S) (si_hydra S) now (us_user_id u)))"

text \<open>RolesController and PermissionsController.\<close>

definition create_role_handler :: "site \<Rightarrow> datetime \<Rightarrow> string \<Rightarrow> string option \<Rightarrow> api_reply web_action" where
  "create_role_handler S now n ds =
     and_reply (RRole \<circ> role_from_output) (on_app (create_role_use_case (si_env S) now n ds))"

definition delete_role_handler :: "site \<Rightarrow> datetime \<Rightarrow> uuid \<Rightarrow> api_reply web_action" where
  "delete_role_handler S now i =
     and_reply (\<lambda>_. RNone) (on_app (delete_role_use_case (si_env S) now i))"

definition list_roles_handler :: "api_reply web_action" where
  "list_roles_handler =
     and_reply RRoles (on_app (api_list_roles))"

definition assign_role_handler :: "site \<Rightarrow> datetime \<Rightarrow> user_security option \<Rightarrow> uuid \<Rightarrow> uuid \<Rightarrow> api_reply web_action" where
  "assign_role_handler S now user i v =
     with_user user (\<lambda>u. and_reply (\<lambda>_. RMessage ''Role assigned'')
       (on_app (assign_role_use_case (si_env S) now v i (Some (us_user_id u)))))"

definition revoke_role_handler :: "site \<Rightarrow> datetime \<Rightarrow> uuid \<Rightarrow> uuid \<Rightarrow> api_reply web_action" where
  "revoke_role_handler S now i v =
     and_reply (\<lambda>_. RMessage ''Role revoked'') (on_app (revoke_role_use_case (si_env S) now v i))"

definition get_user_roles_handler :: "uuid \<Rightarrow> api_reply web_action" where
  "get_user_roles_handler v =
     and_reply RRoles (on_app (api_get_user_roles v))"

definition add_permission_handler :: "site \<Rightarrow> datetime \<Rightarrow> uuid \<Rightarrow> string \<Rightarrow> api_reply web_action" where
  "add_permission_handler S now i n =
     and_reply (RRole \<circ> role_from_output) (on_app (add_permission_use_case (si_env S) now i n))"

definition remove_permission_handler :: "site \<Rightarrow> datetime \<Rightarrow> uuid \<Rightarrow> string \<Rightarrow> api_reply web_action" where
  "remove_permission_handler S now i n =
     and_reply (RRole \<circ> role_from_output) (on_app (remove_permission_use_case (si_env S) now i n))"

definition list_permissions_handler :: "api_reply web_action" where
  "list_permissions_handler =
     and_reply RPermissions (on_app (api_list_permissions))"

text \<open>AdminClientsController.\<close>

definition create_client_handler :: "site \<Rightarrow> create_oauth_client_input \<Rightarrow> api_reply web_action" where
  "create_client_handler S c =
     and_reply RClient (on_hydra (create_oauth_client (si_hydra S) c))"

definition list_clients_handler :: "site \<Rightarrow> api_reply web_action" where
  "list_clients_handler S =
     and_reply RClients (on_hydra (list_oauth_clients (si_hydra S)))"

definition delete_client_handler :: "site \<Rightarrow> string \<Rightarrow> api_reply web_action" where
  "delete_client_handler S c =
     and_reply (\<lambda>_. RMessage (''Client '' @ quoted c @ '' deleted'')) (on_hydra (delete_oauth_client (si_hydra S) c))"

definition rotate_secret_handler :: "site \<Rightarrow> string \<Rightarrow> api_reply web_action" where
  "rotate_secret_handler S c =
     and_reply RSecret (on_hydra (rotate_client_secret (si_hydra S) c))"

text \<open>\<open>route_handlers\<close>.\<close>

primrec dispatch :: "site \<Rightarrow> datetime \<Rightarrow> connection \<Rightarrow> user_security option \<Rightarrow> endpoint \<Rightarrow> api_reply web_action" where
  "dispatch S now cn user (PostRegister r) = register_handler S now cn r"
| "dispatch S now cn user (PostLogin p n m) = login_handler S now cn p n m"
| "dispatch S now cn user GetMe = get_me_handler now user"
| "dispatch S now cn user (PatchMe n m) = update_profile_handler S now user n m"
| "dispatch S now cn user DeleteMe = delete_me_handler S now user"
| "dispatch S now cn user (PostPassword p q) = change_password_handler S now user p q"
| "dispatch S now cn user (PostRefresh t) = refresh_handler S now t"
| "dispatch S now cn user (PostChallenge t c) = complete_two_factor_handler S now t c"
| "dispatch S now cn user (PostVerifyEmail t) = verify_email_handler S now t"
| "dispatch S now cn user (GetVerifyEmail t) = verify_email_page_handler S now t"
| "dispatch S now cn user (PostRequestReset m) = request_password_reset_handler S now cn m"
| "dispatch S now cn user (PostResetPassword t p) = reset_password_handler S now cn t p"
| "dispatch S now cn user (GetResetPassword t) = reset_password_form_handler t"
| "dispatch S now cn user PostEnable2FA = enable_2fa_handler S now user"
| "dispatch S now cn user (PostConfirm2FA c) = confirm_2fa_handler S now user c"
| "dispatch S now cn user (PostDisable2FA p) = disable_2fa_handler S now user p"
| "dispatch S now cn user (PostVerify2FA c) = verify_2fa_handler S now user c"
| "dispatch S now cn user (GetSessions l f) = get_sessions_handler S now user l f"
| "dispatch S now cn user (DeleteSession s) = revoke_session_handler S now user s"
| "dispatch S now cn user DeleteSessions = revoke_all_sessions_handler S now user"
| "dispatch S now cn user (PostRole n ds) = create_role_handler S now n ds"
| "dispatch S now cn user (DeleteRole i) = delete_role_handler S now i"
| "dispatch S now cn user GetRoles = list_roles_handler"
| "dispatch S now cn user (PostAssign i v) = assign_role_handler S now user i v"
| "dispatch S now cn user (PostRevoke i v) = revoke_role_handler S now i v"
| "dispatch S now cn user (GetUserRoles v) = get_user_roles_handler v"
| "dispatch S now cn user (PostPermission i n) = add_permission_handler S now i n"
| "dispatch S now cn user (DeletePermission i n) = remove_permission_handler S now i n"
| "dispatch S now cn user GetPermissions = list_permissions_handler"
| "dispatch S now cn user (PostClient c) = create_client_handler S c"
| "dispatch S now cn user GetClients = list_clients_handler S"
| "dispatch S now cn user (DeleteClient c) = delete_client_handler S c"
| "dispatch S now cn user (PostRotate c) = rotate_secret_handler S c"

definition check_guard :: "user_security option \<Rightarrow> guard \<Rightarrow> unit web_action" where
  "check_guard user g = with_user user (\<lambda>u w.
     (case g of
        NeedScope s \<Rightarrow> require_scope s u
      | NeedAdmin \<Rightarrow> require_admin u (st_work (wb_st w)), w))"

definition authenticate :: "site \<Rightarrow> datetime \<Rightarrow> string option \<Rightarrow> user_security web_action" where
  "authenticate S now bearer w =
     (case bearer of
        None \<Rightarrow> (Inl (NotAuthorized ''No JWT token found in request header''), w)
      | Some tok \<Rightarrow>
          (let (r, c) = authenticate_token (si_env S) (si_introspector S) (si_hydra_config S) now tok (st_cache (wb_st w)) in
           (map_sum id fst r, w\<lparr>wb_st := (wb_st w)\<lparr>st_cache := c\<rparr>\<rparr>)))"

text \<open>The authentication middleware, the guards of the route, the handler.\<close>

definition serve :: "site \<Rightarrow> datetime \<Rightarrow> connection \<Rightarrow> string option \<Rightarrow> endpoint \<Rightarrow> api_reply web_action" where
  "serve S now cn bearer e =
     bnd (if excluded (route_path e) then ret None else bnd (authenticate S now bearer) (\<lambda>u. ret (Some u))) (\<lambda>user.
     thn (for_each (guards e) (check_guard user)) (dispatch S now cn user e))"

text \<open>\<open>exception_handlers\<close> of the application; an exception without a handler is litestar's 500.\<close>

definition handle_exception :: "app_error \<Rightarrow> response option" where
  "handle_exception exc =
     (if is_domain_error exc then Some (domain_exception_handler exc)
      else if status exc \<noteq> None then Some (app_exception_handler exc)
      else if hydra_status_code exc \<noteq> None then Some (hydra_admin_error_handler exc)
      else None)"

lemmas handlers =
  register_handler_def login_handler_def get_me_handler_def update_profile_handler_def delete_me_handler_def
  change_password_handler_def refresh_handler_def complete_two_factor_handler_def verify_email_handler_def
  verify_email_page_handler_def request_password_reset_handler_def reset_password_handler_def
  reset_password_form_handler_def enable_2fa_handler_def confirm_2fa_handler_def disable_2fa_handler_def
  verify_2fa_handler_def get_sessions_handler_def revoke_session_handler_def revoke_all_sessions_handler_def
  create_role_handler_def delete_role_handler_def list_roles_handler_def assign_role_handler_def
  revoke_role_handler_def get_user_roles_handler_def add_permission_handler_def remove_permission_handler_def
  list_permissions_handler_def create_client_handler_def list_clients_handler_def delete_client_handler_def
  rotate_secret_handler_def

end
