(* ===== verification/Requests.thy ===== *)
theory Requests
  imports Api
begin

text \<open>
  What a request to the JSON interface can do, over all routes at once: who has to ask, and which
  rows can change.
\<close>

section \<open>Requests without an answer\<close>

text \<open>The caller the authentication middleware accepts, and what a guard asks of it.\<close>

definition caller :: "site \<Rightarrow> datetime \<Rightarrow> string option \<Rightarrow> web \<Rightarrow> user_security option" where
  "caller S now bearer w =
     (case bearer of
        None \<Rightarrow> None
      | Some tok \<Rightarrow>
          (case fst (authenticate_token (si_env S) (si_introspector S) (si_hydra_config S) now tok (st_cache (wb_st w))) of
             Inl e \<Rightarrow> None
           | Inr (u, t) \<Rightarrow> Some u))"

definition permits :: "db \<Rightarrow> user_security \<Rightarrow> guard \<Rightarrow> bool" where
  "permits d u g =
     (case g of
        NeedScope s \<Rightarrow> s \<in> set (us_scopes u)
      | NeedAdmin \<Rightarrow> us_user_id u \<noteq> NIL_UUID \<and> grants d (us_user_id u) ADMIN_PERMISSION)"

text \<open>A request that only touched the cache.\<close>

definition refused :: "web \<Rightarrow> (http_error + 'a) \<times> web \<Rightarrow> bool" where
  "refused w rw = (isl (fst rw) \<and> st_committed (wb_st (snd rw)) = st_committed (wb_st w) \<and> wb_calls (snd rw) = wb_calls w)"

lemma excluded_iff:
  "excluded (route_path e) \<longleftrightarrow>
     (case e of PostRegister r \<Rightarrow> True | PostLogin p n m \<Rightarrow> True | PostRefresh t \<Rightarrow> True | PostChallenge t c \<Rightarrow> True
      | PostVerifyEmail t \<Rightarrow> True | GetVerifyEmail t \<Rightarrow> True | PostRequestReset m \<Rightarrow> True | PostResetPassword t p \<Rightarrow> True
      | GetResetPassword t \<Rightarrow> True | _ \<Rightarrow> False)"
  by (cases e) (simp_all add: excluded_def exclude_prefixes_def exclude_exact_def)

lemma guard_run:
  assumes "db_ok (st_work (wb_st w))"
  shows "\<exists>e. check_guard (Some u) g w = (if permits (st_work (wb_st w)) u g then Inr () else Inl e, w)"
proof (cases g)
  case (NeedScope s)
  then show ?thesis by (auto simp: check_guard_def with_user_def require_scope_def permits_def)
next
  case NeedAdmin
  have "list_ex (\<lambda>r. ADMIN_PERMISSION \<in> set (rd_permissions r)) (role_reader_get_user_roles i (st_work (wb_st w))) \<longleftrightarrow>
      grants (st_work (wb_st w)) i ADMIN_PERMISSION" for i
    using reader_grants [OF assms] by (simp add: list_ex_iff)
  then show ?thesis using NeedAdmin
    by (auto simp: check_guard_def with_user_def require_admin_def permits_def check_permission_def UserID_def split: if_splits)
qed

lemma guards_run:
  assumes "db_ok (st_work (wb_st w))"
  shows "\<exists>e. for_each gs (check_guard (Some u)) w = (if list_all (permits (st_work (wb_st w)) u) gs then Inr () else Inl e, w)"
proof (induction gs)
  case (Cons g gs)
  then show ?case using guard_run [OF assms, of u g] by (auto simp: thn_def bnd_def split: if_splits)
qed simp

text \<open>A request to a route that is not excluded either stops before its handler, or its handler runs
  for an accepted caller whom all guards permit.\<close>

lemma serve_cases:
  assumes ok: "db_ok (st_committed (wb_st w))" and e: "\<not> excluded (route_path e)"
  obtains (stopped) "refused w (web_request (serve S now cn bearer e) w)"
      "case caller S now bearer w of None \<Rightarrow> True | Some u \<Rightarrow> \<not> list_all (permits (st_committed (wb_st w)) u) (guards e)"
    | (handled) u c where "caller S now bearer w = Some u" "list_all (permits (st_committed (wb_st w)) u) (guards e)"
      "web_request (serve S now cn bearer e) w =
         web_request (dispatch S now cn (Some u) e) (w\<lparr>wb_st := (wb_st w)\<lparr>st_cache := c\<rparr>\<rparr>)"
proof -
  let ?a = "\<lambda>tok. authenticate_token (si_env S) (si_introspector S) (si_hydra_config S) now tok (st_cache (wb_st w))"
  obtain r c where a: "authenticate S now bearer (opened w) = (r, (opened w)\<lparr>wb_st := (wb_st (opened w))\<lparr>st_cache := c\<rparr>\<rparr>)"
    and r: "caller S now bearer w = (case r of Inl _ \<Rightarrow> None | Inr u \<Rightarrow> Some u)"
  proof (cases bearer)
    case None
    show ?thesis by (rule that [of "Inl (NotAuthorized ''No JWT token found in request header'')" "st_cache (wb_st w)"])
      (simp_all add: None authenticate_def caller_def)
  next
    case (Some tok)
    obtain x c where x: "?a tok = (x, c)" by fastforce
    show ?thesis by (rule that [of "map_sum id fst x" c])
      (simp_all add: Some authenticate_def caller_def x split: sum.splits prod.splits)
  qed
  let ?w1 = "(opened w)\<lparr>wb_st := (wb_st (opened w))\<lparr>st_cache := c\<rparr>\<rparr>" and ?w2 = "w\<lparr>wb_st := (wb_st w)\<lparr>st_cache := c\<rparr>\<rparr>"
  have w12: "?w1 = opened ?w2" by (cases w, cases "wb_st w") (simp add: opened_def)
  show thesis
  proof (cases r)
    case (Inl x)
    then have "serve S now cn bearer e (opened w) = (Inl x, ?w1)" using e a by (simp add: serve_def bnd_def)
    then show thesis using Inl r by (intro stopped) (simp_all add: refused_def web_request_def)
  next
    case (Inr u)
    from guards_run [of ?w1 "guards e" u] ok obtain x where
      g: "for_each (guards e) (check_guard (Some u)) ?w1 = (if list_all (permits (st_committed (wb_st w)) u) (guards e) then Inr () else Inl x, ?w1)"
      by auto
    show thesis
    proof (cases "list_all (permits (st_committed (wb_st w)) u) (guards e)")
      case False
      then have "serve S now cn bearer e (opened w) = (Inl x, ?w1)" using e a g Inr by (simp add: serve_def bnd_def thn_def)
      then show thesis using Inr r False by (intro stopped) (simp_all add: refused_def web_request_def)
    next
      case True
      then have "serve S now cn bearer e (opened w) = dispatch S now cn (Some u) e ?w1"
        using e a g Inr by (simp add: serve_def bnd_def thn_def)
      then have "serve S now cn bearer e (opened w) = dispatch S now cn (Some u) e (opened ?w2)" unfolding w12 .
      then show thesis using Inr r True by (intro handled [of u c]) (simp_all add: web_request_def)
    qed
  qed
qed

section \<open>Invariants of handlers\<close>

definition of_app :: "(st \<Rightarrow> bool) \<Rightarrow> web \<Rightarrow> bool" where
  "of_app P w = P (wb_st w)"

lemma of_app_pres [pres]:
  "preserves P m \<Longrightarrow> preserves (of_app P) (on_app m)" "preserves (of_app P) (on_hydra h)"
  "preserves (of_app P) m' \<Longrightarrow> preserves (of_app P) (and_reply f m')"
  "preserves (of_app P) (page_bounds l k)"
  by (auto simp: preserves_def of_app_def on_app_def on_hydra_def and_reply_def page_bounds_def bnd_def case_prod_unfold Let_def
      split: sum.splits)

lemma preserves_attempt [pres]: "preserves P m \<Longrightarrow> preserves P (attempt m)"
  by (simp add: preserves_def attempt_def case_prod_unfold Let_def)

lemma preserves_sum [pres]:
  "(\<And>e. x = Inl e \<Longrightarrow> preserves P (f e)) \<Longrightarrow> (\<And>y. x = Inr y \<Longrightarrow> preserves P (g y)) \<Longrightarrow> preserves P (case x of Inl e \<Rightarrow> f e | Inr y \<Rightarrow> g y)"
  by (cases x) auto

lemma preserves_do_if [pres]: "preserves P m \<Longrightarrow> preserves P (do_if b m)"
  by (simp add: preserves_def)

text \<open>If a handler keeps an invariant of the application's state, so does the whole request, as far as
  the committed database is concerned.\<close>

lemma request_preserves:
  assumes "preserves (of_app P) h" and "P (wb_st (opened w))" and "\<And>s. P s \<Longrightarrow> Q (st_committed s)"
  shows "Q (st_committed (wb_st (snd (web_request h w))))"
  using assms by (simp add: web_request_def preserves_def of_app_def case_prod_unfold Let_def) 

lemma dispatch_user_isolated:
  assumes "NeedAdmin \<notin> set (guards e)" and "\<not> excluded (route_path e)"
  shows "preserves (of_app (isolated (us_user_id u) D)) (dispatch S now cn (Some u) e)"
proof -
  let ?P = "isolated (us_user_id u) D"
  have q: "preserves ?P (api_get_me now u)" "preserves ?P (api_get_sessions E now u l f)" for E l f
    unfolding api_get_me_def api_get_sessions_def by (intro pres)+
  have p: "preserves ?P (api_update_profile E now u n m)" for E n m
    unfolding api_update_profile_def by (intro preserves_bnd isolated_update_profile pres)
  note all = isolated_delete_me isolated_change_password isolated_two_factor isolated_sessions
  show ?thesis using assms(1) assms(2) [unfolded excluded_iff]
    by (cases e) (auto simp: handlers with_user_def revoke_all_sessions_use_case_def intro!: of_app_pres q p all preserves_thn)
qed

text \<open>C7. A signed-in user can change only what is theirs. A request to a route that needs a caller and is
  no admin route either is refused, and then leaves the committed database and the authorization
  server alone: without a token the server vouches for, or without the scopes the route asks for.
  Or it leaves every other account, every session and refresh token of other accounts, and all
  roles, permissions and assignments exactly as they were.\<close>

theorem requests_isolated:
  assumes "db_ok (st_committed (wb_st w))" and "\<not> excluded (route_path e)" and "NeedAdmin \<notin> set (guards e)"
  shows "let rw = web_request (serve S now cn bearer e) w in
     case caller S now bearer w of
       None \<Rightarrow> refused w rw
     | Some u \<Rightarrow>
         (if list_all (permits (st_committed (wb_st w)) u) (guards e)
          then kept (us_user_id u) (st_committed (wb_st w)) (st_committed (wb_st (snd rw)))
          else refused w rw)"
proof (cases rule: serve_cases [OF assms(1,2), of S now cn bearer])
  case 1
  then show ?thesis by (simp split: option.splits)
next
  case (2 u c)
  let ?d = "st_committed (wb_st w)" and ?w = "w\<lparr>wb_st := (wb_st w)\<lparr>st_cache := c\<rparr>\<rparr>"
  have "kept (us_user_id u) ?d (st_committed (wb_st (snd (web_request (dispatch S now cn (Some u) e) ?w))))"
  proof (rule request_preserves [OF dispatch_user_isolated [OF assms(3,2)]])
    show "isolated (us_user_id u) ?d (wb_st (opened ?w))"
      using assms(1) by (simp add: isolated_def holds_def uow_ok_def kept_refl)
  qed (simp add: isolated_def)
  with 2 show ?thesis by simp
qed

section \<open>Who can change the roles\<close>

context account_writes
begin

lemma kept_register [pres]: "preserves (holds I) (register_endpoint E dump validate is_trusted cfg now rq)"
  unfolding register_endpoint_def by (intro pres)

lemma kept_controllers [pres]:
  "preserves (holds I) (api_login E is_trusted cfg now cn p n m)" "preserves (holds I) (api_get_me now u)"
  "preserves (holds I) (api_update_profile E now u n m)" "preserves (holds I) (api_refresh E now t)"
  "preserves (holds I) (api_complete_two_factor E now t c)" "preserves (holds I) (verify_email_landing E now t)"
  "preserves (holds I) (api_get_sessions E now u l f)"
  unfolding api_login_def api_get_me_def api_update_profile_def api_refresh_def api_complete_two_factor_def
    verify_email_landing_def api_get_sessions_def
  by (intro pres)+

lemma kept_dispatch: "NeedAdmin \<notin> set (guards e) \<Longrightarrow> preserves (of_app (holds I)) (dispatch S now cn user e)"
  by (cases e) (auto simp: handlers with_user_def revoke_all_sessions_use_case_def intro!: pres)

end

lemma roles_kept_unless_admin:
  assumes "db_ok (st_committed (wb_st w))"
  shows "role_tables (st_committed (wb_st (snd (web_request (serve S now cn bearer e) w)))) = role_tables (st_committed (wb_st w)) \<or>
     (\<exists>u. caller S now bearer w = Some u \<and> grants (st_committed (wb_st w)) (us_user_id u) ADMIN_PERMISSION)"
proof (cases "excluded (route_path e)")
  case True
  let ?R = "role_tables (st_committed (wb_st w))"
  have g: "guards e = []" using True unfolding excluded_iff by (cases e) simp_all
  then have "preserves (of_app (holds (\<lambda>d. role_tables d = ?R))) (serve S now cn bearer e)"
    using True role_rows.kept_dispatch [of e ?R S now cn None] by (simp add: serve_def thn_def bnd_def preserves_def)
  then have "role_tables (st_committed (wb_st (snd (web_request (serve S now cn bearer e) w)))) = ?R"
    by (rule request_preserves [where Q = "\<lambda>d. role_tables d = ?R"]) (auto simp: holds_def)
  then show ?thesis ..
next
  case False
  from assms False show ?thesis
  proof (cases rule: serve_cases [OF assms False, of S now cn bearer])
    case 1
    then show ?thesis by (simp add: refused_def)
  next
    case (2 u c)
    show ?thesis
    proof (cases "NeedAdmin \<in> set (guards e)")
      case True
      with 2 show ?thesis by (auto simp: list_all_iff permits_def split: guard.splits)
    next
      case no: False
      let ?R = "role_tables (st_committed (wb_st w))" and ?w = "w\<lparr>wb_st := (wb_st w)\<lparr>st_cache := c\<rparr>\<rparr>"
      have "role_tables (st_committed (wb_st (snd (web_request (dispatch S now cn (Some u) e) ?w)))) = ?R"
        by (rule request_preserves [OF role_rows.kept_dispatch [OF no], where Q = "\<lambda>d. role_tables d = ?R"]) (auto simp: holds_def)
      then show ?thesis using 2(3) by simp
    qed
  qed
qed


text \<open>C8. No request raises its caller's own privileges: whatever the route, the token and the data, the
  tables of roles, permissions and assignments after a request are the ones before it, unless the
  caller is one the authorization server vouches for and who already holds the admin permission.\<close>

theorem no_privilege_escalation:
  assumes "db_ok (st_committed (wb_st w))"
  shows "role_tables (st_committed (wb_st (snd (web_request (serve S now cn bearer e) w)))) = role_tables (st_committed (wb_st w)) \<or>
     (\<exists>u. caller S now bearer w = Some u \<and> grants (st_committed (wb_st w)) (us_user_id u) ADMIN_PERMISSION)"
  using assms by (rule roles_kept_unless_admin)

section \<open>An example\<close>

definition demo_site :: site where
  "demo_site =
     \<lparr>si_env = sample_env,
      si_hydra = \<lparr>hy_server = (\<lambda>_ _. Inl (TransportError [])), hy_login_request = (\<lambda>_. Inl (TransportError [])),
        hy_consent_request = (\<lambda>_ _. Inl (TransportError [])), hy_logout_request = (\<lambda>_. Inl (TransportError [])),
        hy_redirect = Inr, hy_introspection = (\<lambda>_. Inl (TransportError [])), hy_client = (\<lambda>_ _. Inl (TransportError [])),
        hy_clients = (\<lambda>_ _. Inr [])\<rparr>,
      si_introspector = demo_introspector,
      si_hydra_config = \<lparr>hg_login_remember_seconds = 0, hg_consent_remember_seconds = 0, hg_ttl = 30, hg_negative_ttl = 5\<rparr>,
      si_rate_limits = default_config, si_is_trusted = (\<lambda>_. False), si_dump = (\<lambda>_. []),
      si_validate = (\<lambda>_. Inl (ValueError []))\<rparr>"

definition demo_web :: web where
  "demo_web = \<lparr>wb_st = demo_st, wb_calls = []\<rparr>"

definition demo_connection :: connection where
  "demo_connection = \<lparr>cn_peer = None, cn_forwarded = None, cn_user_agent = None\<rparr>"

lemma demo_caller: "caller demo_site 0 (Some ''tok'') demo_web = Some \<lparr>us_user_id = 7, us_scopes = [''openid'', ''profile'']\<rparr>"
proof -
  have "uuid_parse (uuid_str 7) = Some 7" "split_ws ''openid profile'' = [''openid'', ''profile'']" "uuid_str 7 \<noteq> []" by code_simp+
  then show ?thesis
    by (simp add: caller_def demo_site_def demo_web_def demo_st_def authenticate_token_def mem_get_def demo_introspector_def
      accept_introspection_def demo_introspection_def retrieve_user_def)
qed

lemma demo_web_simps [simp]: "st_committed (wb_st demo_web) = demo_db" "wb_calls demo_web = []"
  by (simp_all add: demo_web_def demo_st_def)

theorem requests_isolated_witness:
  "kept 7 demo_db (st_committed (wb_st (snd (web_request (serve demo_site 0 demo_connection (Some ''tok'') (PatchMe (Some ''bob'') None)) demo_web)))) \<and>
   refused demo_web (web_request (serve demo_site 0 demo_connection (Some ''tok'') DeleteSessions) demo_web)"
proof -
  note r = requests_isolated [of demo_web _ demo_site 0 demo_connection "Some ''tok''"]
  show ?thesis using r [of "PatchMe (Some ''bob'') None"] r [of DeleteSessions] demo_db_ok
    by (simp add: demo_caller permits_def SCOPE_PROFILE_def SCOPE_SESSIONS_WRITE_def excluded_def exclude_prefixes_def exclude_exact_def)
qed

theorem no_privilege_escalation_witness:
  "role_tables (st_committed (wb_st (snd (web_request (serve demo_site 0 demo_connection (Some ''tok'') (PostAssign 9 7)) demo_web)))) =
     role_tables demo_db"
proof -
  have "\<not> grants demo_db 7 ADMIN_PERMISSION" by (simp add: grants_def demo_db_def empty_db_def)
  with no_privilege_escalation [of demo_web demo_site 0 demo_connection "Some ''tok''" "PostAssign 9 7"] demo_db_ok show ?thesis
    by (simp add: demo_caller)
qed

end
