(* ===== verification/Relay.thy ===== *)
theory Relay
  imports Outbox
begin

text \<open>
  Properties of the outbox relay over many polls: every event is settled after finitely many
  attempts, replicas never hold the same event, credentials do not reach the broker, and where the
  relay loses an email or a usable exchange.
\<close>

section \<open>Every event is settled after finitely many attempts\<close>

text \<open>A loop that makes progress whenever it is ready is done after as many rounds as its
  measure.\<close>

locale draining =
  fixes left :: "'s \<Rightarrow> nat" and ready :: "'q \<Rightarrow> 's \<Rightarrow> bool" and round :: "'q \<Rightarrow> 's \<Rightarrow> 's"
  assumes progress: "ready q s \<Longrightarrow> 0 < left s \<Longrightarrow> left (round q s) < left s"
    and rests: "ready q s \<Longrightarrow> left s = 0 \<Longrightarrow> left (round q s) = 0"
begin

primrec all_ready :: "'q list \<Rightarrow> 's \<Rightarrow> bool" where
  "all_ready [] s = True"
| "all_ready (q # qs) s = (ready q s \<and> all_ready qs (round q s))"

lemma drained:
  "all_ready qs s \<Longrightarrow> left (fold round qs s) \<le> left s - length qs"
proof (induction qs arbitrary: s)
  case (Cons q qs)
  then have "left (fold round qs (round q s)) \<le> left (round q s) - length qs" by simp
  moreover have "left (round q s) \<le> left s - 1"
    using Cons.prems progress [of q s] rests [of q s] by (cases "left s") auto
  ultimately show ?case by simp
qed simp

end

definition waiting_row :: "outbox_row \<Rightarrow> bool" where
  "waiting_row r = (ob_processed_at r = None \<and> ob_failed_at r = None)"

text \<open>How many more attempts a row can take.\<close>

definition attempts_left :: "outbox_row \<Rightarrow> nat" where
  "attempts_left r = (if waiting_row r then Suc (7 - ob_attempts r) else 0)"

definition backlog :: "db \<Rightarrow> nat" where
  "backlog d = sum_list (map attempts_left (outbox_events d))"

lemma attempts_left_settle:
  "waiting_row r \<Longrightarrow> attempts_left (settle_row now fs r) < attempts_left r"
  by (auto simp: attempts_left_def settle_row_def reschedule_event_def mark_event_def waiting_row_def OUTBOX_MAX_ATTEMPTS_def Let_def)

lemma due_waiting: "outbox_due now r \<Longrightarrow> waiting_row r"
  by (simp add: outbox_due_def waiting_row_def)

lemma sum_list_less:
  "(\<And>x. x \<in> set xs \<Longrightarrow> f x \<le> (g x :: nat)) \<Longrightarrow> y \<in> set xs \<Longrightarrow> f y < g y \<Longrightarrow> sum_list (map f xs) < sum_list (map g xs)"
proof (induction xs)
  case (Cons x xs)
  have "sum_list (map f xs) \<le> sum_list (map g xs)" using Cons.prems(1) by (intro sum_list_mono) simp
  with Cons show ?case by (cases "y = x") (auto simp: add_less_le_mono add_le_less_mono)
qed simp

lemma claimed_due:
  assumes "distinct (map ob_id (outbox_events d))" and "r \<in> set (outbox_events d)" and "ob_id r \<in> set (claimed_ids now locked n d)"
  shows "outbox_due now r"
  using find_claimed [OF assms(1,3)] find_row_unique [OF assms(1,2)] by auto

lemma backlog_0: "backlog d = 0 \<longleftrightarrow> (\<forall>r \<in> set (outbox_events d). \<not> waiting_row r)"
  by (auto simp: backlog_def attempts_left_def)

lemma backlog_le: "backlog d \<le> OUTBOX_MAX_ATTEMPTS * length (outbox_events d)"
proof -
  have "backlog d \<le> sum_list (map (\<lambda>r. 8) (outbox_events d))"
    unfolding backlog_def by (rule sum_list_mono) (simp add: attempts_left_def)
  then show ?thesis by (simp add: OUTBOX_MAX_ATTEMPTS_def sum_list_triv)
qed

text \<open>Every row that is waiting can be claimed at the given time.\<close>

definition all_due :: "datetime \<Rightarrow> db \<Rightarrow> bool" where
  "all_due t d = list_all (\<lambda>r. waiting_row r \<longrightarrow> outbox_due t r) (outbox_events d)"

lemma sort_key_Nil: "sort_key f xs = [] \<longleftrightarrow> xs = []"
  by (subst length_0_conv [symmetric], subst length_sort) simp

lemma get_unprocessed_Nil:
  "get_unprocessed now locked n d = [] \<longleftrightarrow>
     n = 0 \<or> filter (\<lambda>r. outbox_due now r \<and> ob_id r \<notin> set locked) (outbox_events d) = []"
  by (simp add: get_unprocessed_def sort_key_Nil)

lemma claimed_left:
  assumes "distinct (map ob_id (outbox_events d))" and "r \<in> set (outbox_events d)" and "ob_id r \<in> set (claimed_ids now locked n d)"
  shows "attempts_left (settle_row now fs r) < attempts_left r"
  by (rule attempts_left_settle, rule due_waiting, rule claimed_due [OF assms])

lemma batch_progress:
  assumes ids: "distinct (map ob_id (outbox_events d))" and n: "0 < n" and due: "all_due now d" and left: "0 < backlog d"
  shows "backlog (snd (snd (snd (process_batch E M n B True now [] p d)))) < backlog d"
proof -
  obtain fs p' where fs: "publish_outbox E B (get_unprocessed now [] n d) p = (fs, p')" by force
  let ?g = "\<lambda>r. if ob_id r \<in> set (claimed_ids now [] n d) then settle_row now fs r else r"
  have "\<exists>r \<in> set (outbox_events d). waiting_row r"
    using left backlog_0 [of d] by auto
  then have "filter (outbox_due now) (outbox_events d) \<noteq> []"
    using due by (auto simp: all_due_def list_all_iff filter_empty_conv)
  then have "get_unprocessed now [] n d \<noteq> []"
    using n by (simp add: get_unprocessed_Nil)
  then obtain y where y: "y \<in> set (outbox_events d)" "ob_id y \<in> set (claimed_ids now [] n d)"
    by (metis claimed_ids_def imageI last_in_set set_get_unprocessed set_map)
  have "sum_list (map (\<lambda>r. attempts_left (?g r)) (outbox_events d)) < backlog d"
    unfolding backlog_def
  proof (rule sum_list_less [OF _ y(1)])
    show "attempts_left (?g x) \<le> attempts_left x" if "x \<in> set (outbox_events d)" for x
      using claimed_left [OF ids that, of now "[]" n fs] by (auto simp: less_imp_le)
    show "attempts_left (?g y) < attempts_left y"
      using claimed_left [OF ids y, of fs] y(2) by simp
  qed
  then show ?thesis
    by (simp add: process_batch_rows [OF ids] fs Let_def update_where_def o_def backlog_def)
qed

lemma batch_rest:
  assumes "backlog d = 0"
  shows "process_batch E M n B ok now locked p d = (ok, [], p, d)"
proof -
  have "filter (\<lambda>r. outbox_due now r \<and> ob_id r \<notin> set locked) (outbox_events d) = []"
    using assms by (auto simp: backlog_0 filter_empty_conv dest: due_waiting)
  then have "get_unprocessed now locked n d = []"
    by (simp only: get_unprocessed_Nil) simp
  then show ?thesis by (simp add: process_batch_def)
qed

lemma batch_ids:
  assumes "distinct (map ob_id (outbox_events d))"
  shows "map ob_id (outbox_events (snd (snd (snd (process_batch E M n B True now locked p d))))) = map ob_id (outbox_events d)"
  by (simp add: process_batch_rows [OF assms] Let_def map_update_where split: prod.splits)

text \<open>The longest wait after a failed attempt that is not the last is 128 seconds.\<close>

lemma backoff_bound: "n < OUTBOX_MAX_ATTEMPTS \<Longrightarrow> backoff_delay n \<le> seconds 128"
proof -
  assume "n < OUTBOX_MAX_ATTEMPTS"
  then have "(2::int) ^ n \<le> 2 ^ 7" by (intro power_increasing) (simp_all add: OUTBOX_MAX_ATTEMPTS_def)
  then show ?thesis by (simp add: backoff_delay_def push_bit_eq_mult)
qed

lemma settle_due:
  "outbox_due now r \<Longrightarrow> waiting_row (settle_row now fs r) \<Longrightarrow> outbox_due (now + seconds 128) (settle_row now fs r)"
  using backoff_bound [of "Suc (ob_attempts r)"]
  by (auto simp: outbox_due_def waiting_row_def settle_row_def reschedule_event_def mark_event_def Let_def split: if_splits)

lemma due_mono: "outbox_due t r \<Longrightarrow> t \<le> t' \<Longrightarrow> outbox_due t' r"
  by (auto simp: outbox_due_def split: option.splits)

lemma all_due_mono: "all_due t d \<Longrightarrow> t \<le> t' \<Longrightarrow> all_due t' d"
  by (auto simp: all_due_def list_all_iff intro: due_mono)

lemma batch_all_due:
  assumes "distinct (map ob_id (outbox_events d))" and "all_due now d"
  shows "all_due (now + seconds 128) (snd (snd (snd (process_batch E M n B True now locked p d))))"
  proof -
  obtain fs p' where fs: "publish_outbox E B (get_unprocessed now locked n d) p = (fs, p')" by force
  have c: "outbox_due now r" if "r \<in> set (outbox_events d)" "ob_id r \<in> set (claimed_ids now locked n d)" for r
    by (rule claimed_due [OF assms(1) that])
  have "waiting_row x \<longrightarrow> outbox_due (now + seconds 128) x"
    if "x \<in> set (update_where (\<lambda>r. ob_id r \<in> set (claimed_ids now locked n d)) (settle_row now fs) (outbox_events d))" for x
    using that assms(2) c settle_due [of now _ fs]
    by (auto simp: set_update_where all_due_def list_all_iff intro: due_mono split: if_splits)
  then show ?thesis by (simp add: process_batch_rows [OF assms(1)] Let_def fs all_due_def list_all_iff)
qed

definition relay_ready :: "nat \<Rightarrow> poll \<Rightarrow> worker \<times> db \<Rightarrow> bool" where
  "relay_ready n q wd =
     (0 < n \<and> po_commit_ok q \<and> po_locked q = [] \<and> all_due (po_now q) (snd wd) \<and> distinct (map ob_id (outbox_events (snd wd))))"

lemma worker_step_db:
  "snd (worker_step E M n q wd) =
     snd (snd (snd (process_batch E M n (po_broker q) (po_commit_ok q) (po_now q) (po_locked q) (wk_publisher (fst wd)) (snd wd))))"
  by (simp add: worker_step_def Let_def split: prod.splits)

interpretation relay: draining "\<lambda>wd. backlog (snd wd)" "relay_ready n" "worker_step E M n" for E M n
  by unfold_locales (auto simp: relay_ready_def worker_step_db batch_rest intro!: batch_progress)

primrec spaced :: "datetime \<Rightarrow> poll list \<Rightarrow> bool" where
  "spaced t [] = True"
| "spaced t (q # qs) = (t \<le> po_now q \<and> spaced (po_now q + seconds 128) qs)"

lemma spaced_ready:
  assumes "0 < n" and "list_all (\<lambda>q. po_commit_ok q \<and> po_locked q = []) polls"
  shows "all_due t (snd wd) \<Longrightarrow> distinct (map ob_id (outbox_events (snd wd))) \<Longrightarrow> spaced t polls \<Longrightarrow>
     relay.all_ready n E M polls wd"
  using assms(2)
proof (induction polls arbitrary: t wd)
  case (Cons q qs)
  let ?wd = "worker_step E M n q wd"
  have due: "all_due (po_now q) (snd wd)" using Cons.prems by (auto intro: all_due_mono)
  have "all_due (po_now q + seconds 128) (snd ?wd)" "distinct (map ob_id (outbox_events (snd ?wd)))"
    using Cons.prems batch_all_due [OF Cons.prems(2) due] batch_ids [OF Cons.prems(2)]
    by (simp_all add: worker_step_db)
  with Cons.IH [of "po_now q + seconds 128" ?wd] Cons.prems due assms(1) show ?case
    by (simp add: relay_ready_def [of n q wd])
qed simp

text \<open>C20. The outbox drains, whatever the broker does: once no row is added and every
  waiting row is due, polls that are at least 128 seconds apart, that commit and that
  find no row locked by another worker settle every row, as delivered or as a dead letter, after at
  most eight polls per row, for every batch size.\<close>

theorem outbox_drains:
  assumes "distinct (map ob_id (outbox_events d))" and "0 < batch_size" and "all_due t d" and "spaced t polls"
    and "list_all (\<lambda>q. po_commit_ok q \<and> po_locked q = []) polls"
    and "OUTBOX_MAX_ATTEMPTS * length (outbox_events d) \<le> length polls"
  shows "list_all (\<lambda>r. ob_processed_at r \<noteq> None \<or> ob_failed_at r \<noteq> None)
     (outbox_events (snd (worker_loop E M batch_size polls (w, d))))"
proof -
  have "relay.all_ready batch_size E M polls (w, d)"
    using spaced_ready [OF assms(2,5), of t "(w, d)"] assms by simp
  from relay.drained [OF this] have "backlog (snd (worker_loop E M batch_size polls (w, d))) = 0"
    using backlog_le [of d] assms(6) by (simp add: worker_loop_def)
  then show ?thesis by (auto simp: backlog_0 waiting_row_def list_all_iff)
qed

section \<open>Workers side by side\<close>

text \<open>
  Several replicas run the same loop. A batch is not atomic: its transaction first claims rows,
  then publishes, then ends. \<open>rl_claims\<close> are the rows each open transaction holds locked.
\<close>

record relay =
  rl_db :: db
  rl_claims :: "(nat \<times> outbox_row list) list"

definition locked_ids :: "relay \<Rightarrow> uuid list" where
  "locked_ids s = concat (map (\<lambda>(w, events). map ob_id events) (rl_claims s))"

inductive relay_step :: "relay \<Rightarrow> relay \<Rightarrow> bool" where
  enqueue: "ob_id r \<notin> ob_id ` set (outbox_events (rl_db s)) \<Longrightarrow> waiting_row r \<Longrightarrow>
     relay_step s (s\<lparr>rl_db := rl_db s\<lparr>outbox_events := outbox_events (rl_db s) @ [r]\<rparr>\<rparr>)"
| claim: "w \<notin> fst ` set (rl_claims s) \<Longrightarrow>
     relay_step s (s\<lparr>rl_claims := (w, get_unprocessed now (locked_ids s) n (rl_db s)) # rl_claims s\<rparr>)"
| settle: "(w, events) \<in> set (rl_claims s) \<Longrightarrow> (fs, p') = publish_outbox E B events p \<Longrightarrow>
     relay_step s (s\<lparr>rl_db := settle_batch now fs events (rl_db s), rl_claims := filter (\<lambda>c. fst c \<noteq> w) (rl_claims s)\<rparr>)"
| abort: "relay_step s (s\<lparr>rl_claims := filter (\<lambda>c. fst c \<noteq> w) (rl_claims s)\<rparr>)"
| requeue: "relay_step s (s\<lparr>rl_db := snd (replay ids (rl_db s))\<rparr>)"
| prune: "relay_step s (s\<lparr>rl_db := snd (delete_processed_older_than t (rl_db s))\<rparr>)"

text \<open>The invariant: identifiers are unique, no row is held twice, and a held row is still in the
  table, waiting, exactly as it was claimed.\<close>

definition relay_ok :: "relay \<Rightarrow> bool" where
  "relay_ok s =
     (distinct (map ob_id (outbox_events (rl_db s))) \<and> distinct (map fst (rl_claims s)) \<and> distinct (locked_ids s) \<and>
      list_all (\<lambda>(w, events). list_all (\<lambda>r. r \<in> set (outbox_events (rl_db s)) \<and> waiting_row r) events) (rl_claims s))"

lemma locked_ids_filter:
  "distinct (locked_ids s) \<Longrightarrow> distinct (locked_ids (s\<lparr>rl_claims := filter P (rl_claims s)\<rparr>))"
proof -
  have "distinct (concat (map f cs)) \<Longrightarrow> distinct (concat (map f (filter P cs)))" for f :: "nat \<times> outbox_row list \<Rightarrow> uuid list" and cs
    by (induction cs) auto
  then show "distinct (locked_ids s) \<Longrightarrow> ?thesis" by (simp add: locked_ids_def)
qed

lemma claims_disjoint:
  assumes "distinct (concat (map f cs))" and "distinct (map fst cs)" and "(w, e) \<in> set cs" and "(w', e') \<in> set cs" and "w \<noteq> w'"
  shows "set (f (w, e)) \<inter> set (f (w', e')) = {}"
  using assms by (induction cs) fastforce+

lemma relay_ok_rows:
  assumes "relay_ok s" and "distinct (map ob_id (outbox_events d))"
    and "\<And>r. r \<in> set (outbox_events (rl_db s)) \<Longrightarrow> waiting_row r \<Longrightarrow> r \<in> set (outbox_events d)"
  shows "relay_ok (s\<lparr>rl_db := d\<rparr>)"
  using assms by (fastforce simp: relay_ok_def locked_ids_def list_all_iff)

lemma relay_ok_settle:
  assumes ok: "relay_ok s" and c: "(w, events) \<in> set (rl_claims s)"
  shows "relay_ok (s\<lparr>rl_db := settle_batch now fs events (rl_db s), rl_claims := filter (\<lambda>c. fst c \<noteq> w) (rl_claims s)\<rparr>)"
proof -
  let ?ids = "\<lambda>(w, events). map ob_id events"
  have d: "distinct (concat (map ?ids (rl_claims s)))" and f: "distinct (map fst (rl_claims s))"
    using ok by (simp_all add: relay_ok_def locked_ids_def)
  have "distinct (map ob_id events)"
    using d c by (force simp: distinct_concat_iff)
  note b = settle_batch_rows [OF this, of now fs "rl_db s"]
  have ids: "distinct (map ob_id (outbox_events (settle_batch now fs events (rl_db s))))"
    using ok by (simp add: b map_update_where relay_ok_def)
  have stay: "r \<in> set (outbox_events (settle_batch now fs events (rl_db s))) \<and> waiting_row r"
    if "(w', ev) \<in> set (rl_claims s)" "w' \<noteq> w" "r \<in> set ev" for w' ev r
  proof -
    have "ob_id r \<notin> ob_id ` set events"
      using claims_disjoint [OF d f that(1) c that(2)] that(3) by auto
    moreover have "r \<in> set (outbox_events (rl_db s))" "waiting_row r"
      using ok that by (fastforce simp: relay_ok_def list_all_iff)+
    ultimately show ?thesis by (auto simp: b set_update_where)
  qed
  show ?thesis
    using ids stay locked_ids_filter [of s "\<lambda>c. fst c \<noteq> w"] ok
    by (auto simp: relay_ok_def list_all_iff distinct_map_filter locked_ids_def)
qed

lemma relay_ok_claim:
  assumes ok: "relay_ok s" and "w \<notin> fst ` set (rl_claims s)"
  shows "relay_ok (s\<lparr>rl_claims := (w, get_unprocessed now (locked_ids s) n (rl_db s)) # rl_claims s\<rparr>)"
proof -
  have "distinct (map ob_id (get_unprocessed now (locked_ids s) n (rl_db s)))"
    using ok distinct_claimed [of "rl_db s" now "locked_ids s" n] by (simp add: relay_ok_def claimed_ids_def)
  moreover have "set (map ob_id (get_unprocessed now (locked_ids s) n (rl_db s))) \<inter> set (locked_ids s) = {}"
    by (auto dest!: set_get_unprocessed)
  moreover have "list_all (\<lambda>r. r \<in> set (outbox_events (rl_db s)) \<and> waiting_row r) (get_unprocessed now (locked_ids s) n (rl_db s))"
    by (auto simp: list_all_iff dest!: set_get_unprocessed intro: due_waiting)
  ultimately show ?thesis
    using assms by (simp add: relay_ok_def locked_ids_def [of "s\<lparr>rl_claims := _\<rparr>"]) (simp add: locked_ids_def)
qed

lemma relay_step_ok: "relay_step s s' \<Longrightarrow> relay_ok s \<Longrightarrow> relay_ok s'"
proof (induction rule: relay_step.induct)
  case (enqueue r s)
  then show ?case by (intro relay_ok_rows) (auto simp: relay_ok_def)
next
  case (claim w s now n)
  then show ?case by (intro relay_ok_claim)
next
  case (settle w events s fs p' E B p now)
  then show ?case by (intro relay_ok_settle)
next
  case (abort s w)
  then show ?case
    using locked_ids_filter [of s "\<lambda>c. fst c \<noteq> w"]
    by (auto simp: relay_ok_def list_all_iff distinct_map_filter)
next
  case (requeue s ids)
  then show ?case
    by (intro relay_ok_rows) (auto simp: replay_def Let_def map_update_where relay_ok_def set_update_where waiting_row_def)
next
  case (prune s t)
  then show ?case
    by (intro relay_ok_rows)
      (auto simp: delete_processed_older_than_def Let_def distinct_map_delete_where relay_ok_def set_delete_where waiting_row_def)
qed

text \<open>C23. Replicas never work on the same event: whatever the interleaving of new events, claims,
  commits, aborted batches, replays and pruning, the rows two open batches hold are disjoint, and
  every held row is still stored as it was claimed and still waiting to be delivered.\<close>

theorem claims_exclusive:
  assumes "relay_step\<^sup>*\<^sup>* \<lparr>rl_db = d, rl_claims = []\<rparr> s" and "distinct (map ob_id (outbox_events d))"
    and "(w, ev) \<in> set (rl_claims s)" and "(w', ev') \<in> set (rl_claims s)" and "w \<noteq> w'"
  shows "set (map ob_id ev) \<inter> set (map ob_id ev') = {} \<and>
     list_all (\<lambda>r. r \<in> set (outbox_events (rl_db s)) \<and> waiting_row r) ev"
proof -
  have "relay_ok s"
    using assms(1)
  proof (induction rule: rtranclp_induct)
    case base
    show ?case using assms(2) by (simp add: relay_ok_def locked_ids_def)
  qed (blast intro: relay_step_ok)
  then show ?thesis
    using claims_disjoint [of "\<lambda>(w, events). map ob_id events" "rl_claims s" w ev w' ev'] assms(3-5)
    by (auto simp: relay_ok_def locked_ids_def list_all_iff)
qed

section \<open>Credentials do not leave the service\<close>

text \<open>C24. What reaches the broker and what stays in a delivered row do not depend on the mailed
  credential: for both events that carry one, the message is the same for every token, and so is
  the row once it is marked processed.\<close>

theorem credentials_never_published:
  "event_message E (outbox_row_of E k now agg (PasswordResetRequestedEvent u m t)) =
     event_message E (outbox_row_of E k now agg (PasswordResetRequestedEvent u m t')) \<and>
   event_message E (outbox_row_of E k now agg (EmailVerificationRequestedEvent u m t)) =
     event_message E (outbox_row_of E k now agg (EmailVerificationRequestedEvent u m t')) \<and>
   mark_event later (outbox_row_of E k now agg (PasswordResetRequestedEvent u m t)) =
     mark_event later (outbox_row_of E k now agg (PasswordResetRequestedEvent u m t')) \<and>
   mark_event later (outbox_row_of E k now agg (EmailVerificationRequestedEvent u m t)) =
     mark_event later (outbox_row_of E k now agg (EmailVerificationRequestedEvent u m t'))"
  by (simp add: event_message_def wire_payload_def outbox_row_of_def sensitive_fields_def redact_def mark_event_def)

text \<open>A dead letter keeps its credential: giving up on an event leaves its payload as it was.
  Only a delivered row is scrubbed.\<close>

theorem dead_letter_keeps_payload:
  "let r' = reschedule_event now err r in
   ob_payload r' = ob_payload r \<and> ob_sensitive_keys r' = ob_sensitive_keys r \<and>
   ob_failed_at r' = (if ob_attempts r + 1 \<ge> OUTBOX_MAX_ATTEMPTS then Some now else ob_failed_at r)"
  by (simp add: reschedule_event_def Let_def)

text \<open>An email that the mail server refuses is lost: a batch whose messages the broker accepts
  marks the row processed whatever the sender answers, so no later poll builds the email again.\<close>

theorem refused_email_lost:
  assumes "distinct (map ob_id (outbox_events d))" and "r \<in> set (get_unprocessed now [] n d)"
    and "fst (publish_outbox E B (get_unprocessed now [] n d) p) = []"
  shows "\<exists>d' mails p'. process_batch E (Some ml) n B True now [] p d = (True, mails, p', d') \<and>
     (\<forall>t k. r \<notin> set (get_unprocessed t [] k d') \<and> ob_id r \<notin> set (claimed_ids t [] k d')) \<and>
     (list_all (\<lambda>x. ml_send ml x \<noteq> None) (List.map_filter (build_email ml) (get_unprocessed now [] n d)) \<longrightarrow> mails = [])"
proof -
  obtain p' where p: "publish_outbox E B (get_unprocessed now [] n d) p = ([], p')"
    using assms(3) by (metis prod.collapse)
  let ?d = "d\<lparr>outbox_events := update_where (\<lambda>r. ob_id r \<in> set (claimed_ids now [] n d)) (settle_row now []) (outbox_events d)\<rparr>"
  let ?m = "send_emails (Some ml) (published_events [] (get_unprocessed now [] n d))"
  have run: "process_batch E (Some ml) n B True now [] p d = (True, ?m, p', ?d)"
    by (simp add: process_batch_rows [OF assms(1)] Let_def p)
  have ids: "distinct (map ob_id (outbox_events ?d))" using assms(1) by (simp add: map_update_where)
  have c: "ob_id r \<in> set (claimed_ids now [] n d)" using assms(2) by (simp add: claimed_ids_def)
  have "ob_id r \<notin> set (claimed_ids t [] k ?d)" for t k
  proof
    assume "ob_id r \<in> set (claimed_ids t [] k ?d)"
    from find_claimed [OF ids this] c show False
      by (auto simp: find_row_update_where settle_row_def failed_ids_def mark_event_def outbox_due_def dest: find_row_Some_iff)
  qed
  then have "\<forall>t k. r \<notin> set (get_unprocessed t [] k ?d) \<and> ob_id r \<notin> set (claimed_ids t [] k ?d)"
    by (auto simp: claimed_ids_def)
  moreover have "?m = []" if "list_all (\<lambda>x. ml_send ml x \<noteq> None) (List.map_filter (build_email ml) (get_unprocessed now [] n d))"
    using that by (simp add: send_emails_def published_events_def failed_ids_def list_all_iff filter_empty_conv)
  ultimately show ?thesis using run by blast
qed

text \<open>A failed declaration leaves the publisher with a stale exchange: when the old channel is
  closed and a new channel opens but the exchange cannot be declared on it, the next call uses the
  exchange of the closed channel without opening anything.\<close>

theorem stale_exchange_reused:
  assumes "pb_exchange p = Some old" and "pb_channel p = Some old" and "br_chan_closed B old"
    and "pb_connection p = Some c" and "\<not> br_conn_closed B c" and "br_channel B c = Inr ch"
    and "br_declare B ch EXCHANGE_NAME = Inl e" and "\<not> br_chan_closed B' ch"
  shows "fst (get_exchange B p) = Inl e \<and> fst (get_exchange B' (snd (get_exchange B p))) = Inr old"
  using assms by (simp add: get_exchange_def open_exchange_def get_connection_def handle_usable_def bnd_def thn_def)

definition demo_polls :: "poll list" where
  "demo_polls = map (\<lambda>n. \<lparr>po_broker = (\<lambda>_. demo_broker False), po_commit_ok = True, po_now = 9 + int n * seconds 128, po_locked = []\<rparr>) [0..<16]"

definition idle_worker :: worker where
  "idle_worker = \<lparr>wk_publisher = idle_publisher, wk_failures = 0, wk_delays = [], wk_emails = []\<rparr>"

theorem outbox_drains_witness:
  "list_all (\<lambda>r. ob_processed_at r \<noteq> None \<or> ob_failed_at r \<noteq> None)
     (outbox_events (snd (worker_loop sample_env None 1 demo_polls (idle_worker, demo_outbox))))"
proof (rule outbox_drains [OF demo_outbox_distinct])
  show "all_due 9 demo_outbox"
    by (simp add: all_due_def demo_outbox_def outbox_row_of_def outbox_due_def)
  show "spaced 9 demo_polls" "list_all (\<lambda>q. po_commit_ok q \<and> po_locked q = []) demo_polls"
    by (simp_all add: demo_polls_def upt_rec list_all_iff)
  show "OUTBOX_MAX_ATTEMPTS * length (outbox_events demo_outbox) \<le> length demo_polls"
    by (simp add: demo_polls_def demo_outbox_def OUTBOX_MAX_ATTEMPTS_def)
qed simp

theorem claims_exclusive_witness:
  "\<exists>s w ev w' ev'. relay_step\<^sup>*\<^sup>* \<lparr>rl_db = demo_outbox, rl_claims = []\<rparr> s \<and> (w, ev) \<in> set (rl_claims s) \<and>
     (w', ev') \<in> set (rl_claims s) \<and> ev \<noteq> [] \<and> ev' \<noteq> [] \<and> set (map ob_id ev) \<inter> set (map ob_id ev') = {}"
proof -
  let ?s0 = "\<lparr>rl_db = demo_outbox, rl_claims = []\<rparr>"
  let ?a = "get_unprocessed 9 [] 1 demo_outbox" and ?b = "get_unprocessed 9 [2] 1 demo_outbox"
  let ?s1 = "\<lparr>rl_db = demo_outbox, rl_claims = [(0, ?a)]\<rparr>"
  let ?s2 = "\<lparr>rl_db = demo_outbox, rl_claims = [(1, ?b), (0, ?a)]\<rparr>"
  have ab: "map ob_id ?a = [2]" "map ob_id ?b = [3]"
    by (simp_all add: get_unprocessed_def demo_outbox_def outbox_row_of_def outbox_due_def)
  have "relay_step ?s0 ?s1" using relay_step.claim [of 0 ?s0 9 1] by (simp add: locked_ids_def)
  moreover have "relay_step ?s1 ?s2" using relay_step.claim [of 1 ?s1 9 1] ab by (simp add: locked_ids_def)
  ultimately have reach: "relay_step\<^sup>*\<^sup>* ?s0 ?s2" by (meson rtranclp.rtrancl_refl rtranclp.rtrancl_into_rtrancl)
  have "set (map ob_id ?b) \<inter> set (map ob_id ?a) = {}"
    using claims_exclusive [OF reach demo_outbox_distinct, of 1 ?b 0 ?a] by simp
  moreover have "?a \<noteq> []" "?b \<noteq> []" using ab by force+
  ultimately show ?thesis using reach
    by (intro exI [of _ ?s2] exI [of _ 1] exI [of _ ?b] exI [of _ 0] exI [of _ ?a]) simp
qed

theorem refused_email_lost_witness:
  "\<exists>d' p'. process_batch sample_env (Some demo_mailer) 10 (\<lambda>_. demo_broker True) True 9 [] idle_publisher demo_outbox = (True, [], p', d') \<and>
     (\<forall>t k. 2 \<notin> set (claimed_ids t [] k d'))"
proof -
  let ?r = "outbox_row_of sample_env 1 0 (''user'', Some 7) (PasswordResetRequestedEvent 7 ''al@ex.org'' ''tok'')"
  have r: "?r \<in> set (get_unprocessed 9 [] 10 demo_outbox)" unfolding demo_outbox_claim by (simp add: demo_outbox_def)
  have i: "ob_id ?r = 2" by (simp add: outbox_row_of_def)
  have s: "list_all (\<lambda>x. ml_send demo_mailer x \<noteq> None) xs" for xs by (simp add: demo_mailer_def list_all_iff)
  show ?thesis
    using refused_email_lost [OF demo_outbox_distinct r, of sample_env "\<lambda>_. demo_broker True" idle_publisher demo_mailer]
      demo_outbox_publish(1) s unfolding demo_outbox_claim i by blast
qed

theorem stale_exchange_reused_witness:
  "\<exists>B B' p. fst (get_exchange B p) = Inl ''access refused'' \<and> fst (get_exchange B' (snd (get_exchange B p))) = Inr (1 :: nat)"
proof -
  let ?B = "(demo_broker True)\<lparr>br_chan_closed := (\<lambda>h. h = 1), br_declare := (\<lambda>_ _. Inl ''access refused'')\<rparr>"
  let ?p = "\<lparr>pb_connection = Some 0, pb_channel = Some 1, pb_exchange = Some 1\<rparr>"
  have "fst (get_exchange ?B ?p) = Inl ''access refused'' \<and> fst (get_exchange (demo_broker True) (snd (get_exchange ?B ?p))) = Inr 1"
    by (rule stale_exchange_reused [where c = 0 and ch = 2]) (simp_all add: demo_broker_def)
  then show ?thesis by blast
qed

end
