(* ===== verification/System.thy ===== *)
theory System
  imports Requests Startup Relay Maintenance
begin

text \<open>
  The running system: the processes that share the database, as one step relation. A step is a
  whole request to the JSON interface or to the login and consent pages, one batch of the relay, a
  replay of dead letters, one run of the janitor, or a start of the service. Requests interleave
  here as wholes; the interleaving of relays inside a batch is the one of theory Relay, and two
  writers of one account are the subject of theory User_Repo.
\<close>

section \<open>Steps\<close>

datatype page =
    LoginForm string
  | LoginSubmit login_form_data
  | ConsentForm string
  | ConsentSubmit string string
  | LogoutPage string

primrec show_page :: "site \<Rightarrow> datetime \<Rightarrow> connection \<Rightarrow> page \<Rightarrow> bridge_reply web_action" where
  "show_page S now cn (LoginForm c) = login_form (si_hydra S) c"
| "show_page S now cn (LoginSubmit data) =
     login_submit (si_env S) (si_hydra S) (si_hydra_config S) (si_is_trusted S) (si_rate_limits S) now cn data"
| "show_page S now cn (ConsentForm c) = consent_form (si_hydra S) (si_hydra_config S) now c"
| "show_page S now cn (ConsentSubmit c approve) = consent_submit (si_hydra S) (si_hydra_config S) now c approve"
| "show_page S now cn (LogoutPage c) = logout (si_hydra S) c"

text \<open>\<open>on_startup\<close>: the clients, then the admin role.\<close>

definition startup :: "site \<Rightarrow> datetime \<Rightarrow> seed_client_config list \<Rightarrow> string option \<Rightarrow> unit web_action" where
  "startup S now clients initial_admin =
     thn (on_hydra (seed_oauth_clients (si_hydra S) clients)) (on_app (seed_admin_role (si_env S) now initial_admin))"

text \<open>A worker of its own writes the committed database.\<close>

definition written :: "(db \<Rightarrow> db) \<Rightarrow> web \<Rightarrow> web" where
  "written f w = w\<lparr>wb_st := (wb_st w)\<lparr>st_committed := f (st_committed (wb_st w))\<rparr>\<rparr>"

inductive serving :: "site \<Rightarrow> web \<Rightarrow> web \<Rightarrow> bool" for S where
  api: "serving S w (snd (web_request (serve S now cn bearer e) w))"
| page: "serving S w (snd (web_request (show_page S now cn p) w))"
| relay: "serving S w (written (\<lambda>d. snd (snd (snd (process_batch (si_env S) M n B commit_ok now locked pub d)))) w)"
| replay: "serving S w (written (\<lambda>d. snd (replay ids d)) w)"
| janitor: "serving S w (written (\<lambda>d. snd (run_once db_fails cfg now d)) w)"

inductive system_step :: "site \<Rightarrow> web \<Rightarrow> web \<Rightarrow> bool" for S where
  served: "serving S w w' \<Longrightarrow> system_step S w w'"
| started: "system_step S w (snd (web_request (startup S now clients initial_admin) w))"

section \<open>What the steps keep\<close>

lemma written_committed [simp]: "st_committed (wb_st (written f w)) = f (st_committed (wb_st w))"
  by (simp add: written_def)

lemma or_unknown_pres [pres]: "preserves P m \<Longrightarrow> preserves P (or_unknown what m)"
  by (auto simp: preserves_def or_unknown_def split: prod.splits sum.splits)

context account_writes
begin

lemma kept_pages: "preserves (of_app (holds I)) (show_page S now cn p)"
proof -
  have [pres]: "preserves (of_app (holds I)) (accept_consent H G now c)" for H G c
    unfolding accept_consent_def Let_def by (intro pres) (simp add: pres split: json.split option.split)
  have [pres]: "preserves (of_app (holds I)) (answer_code H G data r)" "preserves (of_app (holds I)) (answer_password H G data r')"
    for H G data r r' unfolding answer_code_def answer_password_def by (intro pres)+
  have [pres]: "preserves (of_app (holds I)) (submit_two_factor E H G cfg now data host)" for E H G cfg data host
    unfolding submit_two_factor_def Let_def by (intro pres)
  have "preserves (of_app (holds I)) (login_form H c)" "preserves (of_app (holds I)) (login_submit E H G tr cfg now cn data)"
    "preserves (of_app (holds I)) (consent_form H G now c)" "preserves (of_app (holds I)) (consent_submit H G now c a)"
    "preserves (of_app (holds I)) (logout H c)" for E H G tr cfg data c a
    unfolding login_form_def login_submit_def consent_form_def consent_submit_def logout_def Let_def by (intro pres)+
  then show ?thesis by (cases p) simp_all
qed

end

lemma ok_dispatch: "preserves (of_app constrained) (dispatch S now cn user e)"
proof (cases "NeedAdmin \<in> set (guards e)")
  case True
  have q: "preserves P (on_app api_list_roles)" "preserves P (on_app (api_get_user_roles v))" "preserves P (on_app api_list_permissions)" for P v
    unfolding api_list_roles_def api_get_user_roles_def api_list_permissions_def
    by (auto simp: preserves_def on_app_def bnd_def query_def split: sum.splits)
  from True show ?thesis by (cases e) (auto simp: handlers with_user_def split: option.split intro!: pres q)
qed (rule schema.kept_dispatch)

lemma ok_serve: "preserves (of_app constrained) (serve S now cn bearer e)"
proof -
  have [pres]: "preserves (of_app constrained) (authenticate S now bearer)"
    by (auto simp: preserves_def of_app_def holds_def authenticate_def case_prod_unfold Let_def split: option.splits)
  have [pres]: "preserves (of_app constrained) (check_guard user g)" for user g
    by (auto simp: preserves_def check_guard_def with_user_def split: option.splits)
  show ?thesis unfolding serve_def by (intro pres ok_dispatch)
qed

lemma ok_startup: "preserves (of_app constrained) (startup S now clients initial_admin)"
proof -
  have [pres]: "preserves constrained (seed_admin_role E now initial_admin)" for E
    unfolding seed_admin_role_def ensure_admin_role_def find_admin_role_def by (intro pres)
  show ?thesis unfolding startup_def by (intro pres)
qed

lemma request_ok:
  assumes "preserves (of_app constrained) h" and "db_ok (st_committed (wb_st w))"
  shows "db_ok (st_committed (wb_st (snd (web_request h w))))"
  by (rule request_preserves [OF assms(1), where Q = db_ok]) (use assms(2) in \<open>auto simp: holds_def\<close>)

text \<open>The workers.\<close>

lemma batch_ok:
  assumes "db_ok d"
  shows "db_ok (snd (snd (snd (process_batch E M n B ok now locked p d))))"
    "role_tables (snd (snd (snd (process_batch E M n B ok now locked p d)))) = role_tables d"
proof -
  have dist: "distinct (map ob_id (outbox_events d))" using assms by (simp add: db_ok_def logs_ok_def)
  let ?d = "snd (snd (snd (process_batch E M n B ok now locked p d)))"
  obtain rows where r: "?d = d\<lparr>outbox_events := rows\<rparr>" "map ob_id rows = map ob_id (outbox_events d)"
  proof (cases ok)
    case True
    then show thesis
      using that process_batch_rows [OF dist, of E M n B now locked p] batch_ids [OF dist, of E M n B now locked p]
      by (simp add: Let_def split: prod.splits)
  next
    case False
    then have "?d = d" by (auto simp: process_batch_def Let_def split: prod.splits)
    then show thesis using that [of "outbox_events d"] by simp
  qed
  show "db_ok ?d" using assms r(2) by (simp add: r(1) db_ok_def sessions_ok_def rbac_ok_def logs_ok_def)
  show "role_tables ?d = role_tables d" by (simp add: r(1) role_tables_def)
qed

lemma replay_ok: "db_ok d \<Longrightarrow> db_ok (snd (replay ids d))" "role_tables (snd (replay ids d)) = role_tables d"
  by (simp_all add: replay_def Let_def map_update_where db_ok_def sessions_ok_def rbac_ok_def logs_ok_def role_tables_def)

lemma anonymise_ok:
  assumes "db_ok d" and "anonymise_deleted_users cfg now d = Inr (n, d')"
  shows "db_ok d'"
proof -
  let ?us = "update_where (to_anonymise (now - days (mc_deleted_user_retention_days cfg))) anonymise_row (users d)"
  from assms(2) have d': "d' = d\<lparr>users := ?us\<rparr>" "distinct (map c_username ?us)"
    by (auto simp: anonymise_deleted_users_def Let_def split: if_splits)
  have ids: "map c_id ?us = map c_id (users d)" by (simp add: map_update_where anonymise_row_def)
  then have "users_ok ?us" using d'(2) some_emails_anonymised [of _ "users d"] db_ok_users [OF assms(1)] by (simp add: users_ok_def)
  moreover have "has_user i (d\<lparr>users := ?us\<rparr>) = has_user i d" for i using has_user_cong [of "d\<lparr>users := ?us\<rparr>" d] ids by simp
  ultimately show ?thesis using assms(1) by (simp add: d'(1) db_ok_def sessions_ok_def rbac_ok_def logs_ok_def)
qed

lemma jobs_keep:
  assumes "(name, f) \<in> set jobs" and "f cfg now d = Inr (n, d')"
  shows "db_ok d \<Longrightarrow> db_ok d'" "role_tables d' = role_tables d"
  using assms anonymise_ok [of d cfg now n d'] delete_sessions_ok logs_pruned_ok
  by (auto simp: jobs_def purge_expired_sessions_def prune_outbox_def prune_audit_log_def delete_processed_older_than_def
      delete_sessions_def anonymise_deleted_users_def role_tables_def Let_def split: if_splits)

lemma run_job_keeps:
  assumes "job \<in> set jobs"
  shows "db_ok (snd acc) \<Longrightarrow> db_ok (snd (run_job db_fails cfg now job acc))"
    "role_tables (snd (run_job db_fails cfg now job acc)) = role_tables (snd acc)"
  using assms jobs_keep by (auto simp: run_job_def split: prod.splits sum.splits)

lemma run_once_keeps:
  "db_ok d \<Longrightarrow> db_ok (snd (run_once db_fails cfg now d))" "role_tables (snd (run_once db_fails cfg now d)) = role_tables d"
proof -
  have "(db_ok (snd acc) \<longrightarrow> db_ok (snd (fold (run_job db_fails cfg now) js acc))) \<and>
      role_tables (snd (fold (run_job db_fails cfg now) js acc)) = role_tables (snd acc)" if "set js \<subseteq> set jobs" for js acc
    using that by (induction js arbitrary: acc) (simp_all add: run_job_keeps)
  from this [of jobs "([], d)"] show "db_ok d \<Longrightarrow> db_ok (snd (run_once db_fails cfg now d))"
    "role_tables (snd (run_once db_fails cfg now d)) = role_tables d" by (simp_all add: run_once_def)
qed

section \<open>Every reachable database\<close>

lemma serving_ok: "serving S w w' \<Longrightarrow> db_ok (st_committed (wb_st w)) \<Longrightarrow> db_ok (st_committed (wb_st w'))"
  by (induction rule: serving.induct)
    (simp_all add: request_ok ok_serve schema.kept_pages batch_ok(1) replay_ok(1) run_once_keeps(1))

lemma serving_roles:
  assumes "serving S w w'" and "db_ok (st_committed (wb_st w))" and "\<And>u. \<not> grants (st_committed (wb_st w)) u ADMIN_PERMISSION"
  shows "role_tables (st_committed (wb_st w')) = role_tables (st_committed (wb_st w))"
  using assms
proof (induction rule: serving.induct)
  case (api w now cn bearer e)
  then show ?case using roles_kept_unless_admin by blast
next
  case (page w now cn p)
  show ?case by (rule request_preserves [OF role_rows.kept_pages, where Q = "\<lambda>d. role_tables d = role_tables (st_committed (wb_st w))"])
    (auto simp: holds_def)
qed (simp_all add: batch_ok(2) replay_ok(2) run_once_keeps(2))

text \<open>The hypothesis \<open>db_ok\<close> of the properties holds in every database the processes reach.\<close>

lemma reachable_db_ok:
  assumes "(system_step S)\<^sup>*\<^sup>* w w'" and "db_ok (st_committed (wb_st w))"
  shows "db_ok (st_committed (wb_st w'))"
  using assms
proof (induction rule: rtranclp_induct)
  case (step w1 w2)
  from step.hyps(2) step.IH [OF step.prems] show ?case
    by (cases rule: system_step.cases) (auto intro: serving_ok request_ok [OF ok_startup])
qed

text \<open>C17. Nobody becomes an administrator by using the system: while no account holds the admin
  permission, no sequence of requests, pages and background work changes the roles, permissions and
  assignments at all; only a start of the service can make the first administrator.\<close>

theorem no_first_admin_by_use:
  assumes "(serving S)\<^sup>*\<^sup>* w w'" and "db_ok (st_committed (wb_st w))"
    and "\<forall>u. \<not> grants (st_committed (wb_st w)) u ADMIN_PERMISSION"
  shows "role_tables (st_committed (wb_st w')) = role_tables (st_committed (wb_st w)) \<and>
     (\<forall>u. \<not> grants (st_committed (wb_st w')) u ADMIN_PERMISSION)"
proof -
  have "db_ok (st_committed (wb_st w')) \<and> role_tables (st_committed (wb_st w')) = role_tables (st_committed (wb_st w))"
    using assms
  proof (induction rule: rtranclp_induct)
    case (step w1 w2)
    then have i: "db_ok (st_committed (wb_st w1))" "role_tables (st_committed (wb_st w1)) = role_tables (st_committed (wb_st w))" by simp_all
    have "\<not> grants (st_committed (wb_st w1)) u ADMIN_PERMISSION" for u using role_tables_rows(6) [OF i(2)] step.prems by simp
    with serving_ok [OF step.hyps(2) i(1)] serving_roles [OF step.hyps(2) i(1)] i show ?case by simp
  qed simp
  then show ?thesis using role_tables_rows(6) assms(3) by blast
qed

text \<open>A user who tries to give himself a role.\<close>

theorem no_first_admin_by_use_witness:
  "\<not> grants (st_committed (wb_st (snd (web_request (serve demo_site 0 demo_connection (Some ''tok'') (PostAssign 9 7)) demo_web)))) 7 ADMIN_PERMISSION"
proof -
  have "(serving demo_site)\<^sup>*\<^sup>* demo_web (snd (web_request (serve demo_site 0 demo_connection (Some ''tok'') (PostAssign 9 7)) demo_web))"
    by (intro r_into_rtranclp serving.api)
  from no_first_admin_by_use [OF this] show ?thesis using demo_db_ok by (simp add: grants_def demo_db_def empty_db_def)
qed

end
