(* ===== verification/Catalog.thy ===== *)
theory Catalog
  imports Prelude
begin

text \<open>
  The database catalogue and the data definition commands that the migrations issue: tables with
  their columns, keys, indexes and foreign keys, and one command at a time with its refusals. The
  commands are PostgreSQL's, as Alembic's operations of the same names emit them. A table may hold
  rows, so a required column without a default cannot be added to it. Columns, keys, indexes and
  tables are found by name and their order means nothing: every collection is kept in one canonical
  order of names, so that two catalogues with the same content are equal.
\<close>

section \<open>Collections by name\<close>

text \<open>Any linear order of names serves; this one compares the bits of the characters.\<close>

primrec char_bits :: "char \<Rightarrow> bool list" where
  "char_bits (Char b0 b1 b2 b3 b4 b5 b6 b7) = [b0, b1, b2, b3, b4, b5, b6, b7]"

fun bits_before :: "bool list \<Rightarrow> bool list \<Rightarrow> bool" where
  "bits_before xs [] = False"
| "bits_before [] (y # ys) = True"
| "bits_before (x # xs) (y # ys) = (if x = y then bits_before xs ys else y)"

fun before :: "string \<Rightarrow> string \<Rightarrow> bool" where
  "before s [] = False"
| "before [] (d # t) = True"
| "before (c # s) (d # t) = (if c = d then before s t else bits_before (char_bits c) (char_bits d))"

type_synonym 'v named = "(string \<times> 'v) list"

primrec put :: "string \<Rightarrow> 'v \<Rightarrow> 'v named \<Rightarrow> 'v named" where
  "put k v [] = [(k, v)]"
| "put k v (p # m) =
     (if k = fst p then (k, v) # m else if before k (fst p) then (k, v) # p # m else p # put k v m)"

definition without :: "string \<Rightarrow> 'v named \<Rightarrow> 'v named" where
  "without k m = filter (\<lambda>p. fst p \<noteq> k) m"

abbreviation named_of :: "'v named \<Rightarrow> 'v named" where
  "named_of ps \<equiv> foldl (\<lambda>m p. put (fst p) (snd p) m) [] ps"

section \<open>The catalogue\<close>

datatype sql_type = Uuid | VarChar "nat option" | Bytea | TimestampTz | Boolean | Integer | Json | Jsonb | Text

datatype on_delete = Cascade | SetNull

record column =
  cl_type :: sql_type
  cl_nullable :: bool
  cl_server_default :: "string option"

record index =
  ix_columns :: "string list"
  ix_unique :: bool
  ix_where :: "string option"

record foreign_key =
  fk_columns :: "string list"
  fk_table :: string
  fk_references :: "string list"
  fk_on_delete :: on_delete

record table =
  tb_columns :: "column named"
  tb_primary_key :: "(string \<times> string list) option"
  tb_uniques :: "string list named"
  tb_indexes :: "index named"
  tb_foreign_keys :: "foreign_key named"

type_synonym catalog = "table named"

definition required_col :: "string \<Rightarrow> sql_type \<Rightarrow> string option \<Rightarrow> string \<times> column" where
  "required_col name ty dflt = (name, \<lparr>cl_type = ty, cl_nullable = False, cl_server_default = dflt\<rparr>)"

definition nullable_col :: "string \<Rightarrow> sql_type \<Rightarrow> string option \<Rightarrow> string \<times> column" where
  "nullable_col name ty dflt = (name, \<lparr>cl_type = ty, cl_nullable = True, cl_server_default = dflt\<rparr>)"

section \<open>Commands\<close>

datatype ddl =
    CreateTable string "(string \<times> column) list" "string \<times> string list" "(string \<times> string list) list"
  | DropTable string
  | AddColumn string "string \<times> column"
  | DropColumn string string
  | AlterColumnType string string sql_type
  | CreateIndex string string "string list" bool "string option"
  | DropIndex string string
  | CreateForeignKey string string string "string list" "string list" on_delete
  | DropConstraint string string
  | Execute string

datatype ddl_error =
    NoTable string | TableExists string | NoColumn string string | ColumnExists string string
  | NullsInColumn string string | NameTaken string | NoIndex string | NoConstraint string
  | StillReferenced string | NotUnique string "string list"

definition the_table :: "string \<Rightarrow> catalog \<Rightarrow> ddl_error + table" where
  "the_table t c = (case map_of c t of None \<Rightarrow> Inl (NoTable t) | Some tb \<Rightarrow> Inr tb)"

definition demand :: "ddl_error \<Rightarrow> bool \<Rightarrow> ddl_error + unit" where
  "demand e ok = (if ok then Inr () else Inl e)"

text \<open>Tables, keys and indexes share one space of names.\<close>

definition relation_names :: "catalog \<Rightarrow> string list" where
  "relation_names c =
     concat (map (\<lambda>(t, tb). t # (case tb_primary_key tb of None \<Rightarrow> [] | Some k \<Rightarrow> [fst k]) @
                            map fst (tb_uniques tb) @ map fst (tb_indexes tb)) c)"

definition has_columns :: "table \<Rightarrow> string list \<Rightarrow> bool" where
  "has_columns tb cs = list_all (\<lambda>k. map_of (tb_columns tb) k \<noteq> None) cs"

text \<open>The columns a foreign key refers to must be a key of their table.\<close>

definition unique_columns :: "table \<Rightarrow> string list \<Rightarrow> bool" where
  "unique_columns tb cs =
     (map_option snd (tb_primary_key tb) = Some cs \<or> cs \<in> set (map snd (tb_uniques tb)) \<or>
      list_ex (\<lambda>(_, i). ix_unique i \<and> ix_where i = None \<and> ix_columns i = cs) (tb_indexes tb))"

definition referenced :: "string \<Rightarrow> (string list \<Rightarrow> bool) \<Rightarrow> catalog \<Rightarrow> bool" where
  "referenced t hit c =
     list_ex (\<lambda>(s, tb). s \<noteq> t \<and> list_ex (\<lambda>(_, f). fk_table f = t \<and> hit (fk_references f)) (tb_foreign_keys tb)) c"

text \<open>A dropped column takes along the keys, indexes and foreign keys of its own table that use it.\<close>

definition without_column :: "string \<Rightarrow> table \<Rightarrow> table" where
  "without_column k tb =
     \<lparr>tb_columns = without k (tb_columns tb),
      tb_primary_key = (case tb_primary_key tb of None \<Rightarrow> None | Some p \<Rightarrow> if k \<in> set (snd p) then None else Some p),
      tb_uniques = filter (\<lambda>(_, cs). k \<notin> set cs) (tb_uniques tb),
      tb_indexes = filter (\<lambda>(_, i). k \<notin> set (ix_columns i)) (tb_indexes tb),
      tb_foreign_keys = filter (\<lambda>(_, f). k \<notin> set (fk_columns f)) (tb_foreign_keys tb)\<rparr>"

definition drop_constraint :: "string \<Rightarrow> table \<Rightarrow> ddl_error + table" where
  "drop_constraint n tb =
     (if map_of (tb_foreign_keys tb) n \<noteq> None then Inr (tb\<lparr>tb_foreign_keys := without n (tb_foreign_keys tb)\<rparr>)
      else if map_of (tb_uniques tb) n \<noteq> None then Inr (tb\<lparr>tb_uniques := without n (tb_uniques tb)\<rparr>)
      else Inl (NoConstraint n))"

primrec apply_ddl :: "ddl \<Rightarrow> catalog \<Rightarrow> ddl_error + catalog" where
  "apply_ddl (CreateTable t cols key uqs) c =
     (let tb = \<lparr>tb_columns = named_of cols, tb_primary_key = Some key, tb_uniques = named_of uqs, tb_indexes = [],
               tb_foreign_keys = []\<rparr> in
      rbind (demand (TableExists t) (t \<notin> set (relation_names c))) (\<lambda>_.
      rbind (demand (NoColumn t (fst key)) (list_all (has_columns tb) (snd key # map snd uqs))) (\<lambda>_.
        Inr (put t tb c))))"
| "apply_ddl (DropTable t) c =
     rbind (the_table t c) (\<lambda>_.
     rbind (demand (StillReferenced t) (\<not> referenced t (\<lambda>_. True) c)) (\<lambda>_. Inr (without t c)))"
| "apply_ddl (AddColumn t col) c =
     rbind (the_table t c) (\<lambda>tb.
     rbind (demand (ColumnExists t (fst col)) (map_of (tb_columns tb) (fst col) = None)) (\<lambda>_.
     rbind (demand (NullsInColumn t (fst col)) (cl_nullable (snd col) \<or> cl_server_default (snd col) \<noteq> None)) (\<lambda>_.
       Inr (put t (tb\<lparr>tb_columns := put (fst col) (snd col) (tb_columns tb)\<rparr>) c))))"
| "apply_ddl (DropColumn t k) c =
     rbind (the_table t c) (\<lambda>tb.
     rbind (demand (NoColumn t k) (map_of (tb_columns tb) k \<noteq> None)) (\<lambda>_.
     rbind (demand (StillReferenced t) (\<not> referenced t (\<lambda>cs. k \<in> set cs) c)) (\<lambda>_.
       Inr (put t (without_column k tb) c))))"
| "apply_ddl (AlterColumnType t k ty) c =
     rbind (the_table t c) (\<lambda>tb.
       case map_of (tb_columns tb) k of
         None \<Rightarrow> Inl (NoColumn t k)
       | Some col \<Rightarrow> Inr (put t (tb\<lparr>tb_columns := put k (col\<lparr>cl_type := ty\<rparr>) (tb_columns tb)\<rparr>) c))"
| "apply_ddl (CreateIndex n t cs uq wh) c =
     rbind (the_table t c) (\<lambda>tb.
     rbind (demand (NoColumn t n) (has_columns tb cs)) (\<lambda>_.
     rbind (demand (NameTaken n) (n \<notin> set (relation_names c))) (\<lambda>_.
       Inr (put t (tb\<lparr>tb_indexes := put n \<lparr>ix_columns = cs, ix_unique = uq, ix_where = wh\<rparr> (tb_indexes tb)\<rparr>) c))))"
| "apply_ddl (DropIndex n t) c =
     (case find_row (\<lambda>(_, tb). map_of (tb_indexes tb) n \<noteq> None) c of
        None \<Rightarrow> Inl (NoIndex n)
      | Some (s, tb) \<Rightarrow> Inr (put s (tb\<lparr>tb_indexes := without n (tb_indexes tb)\<rparr>) c))"
| "apply_ddl (CreateForeignKey n t r cs rcs act) c =
     rbind (the_table t c) (\<lambda>tb.
     rbind (the_table r c) (\<lambda>rt.
     rbind (demand (NoColumn t n) (has_columns tb cs \<and> has_columns rt rcs)) (\<lambda>_.
     rbind (demand (NotUnique r rcs) (unique_columns rt rcs)) (\<lambda>_.
     rbind (demand (NameTaken n) (map_of (tb_foreign_keys tb) n = None)) (\<lambda>_.
       Inr (put t (tb\<lparr>tb_foreign_keys := put n \<lparr>fk_columns = cs, fk_table = r, fk_references = rcs, fk_on_delete = act\<rparr>
                                            (tb_foreign_keys tb)\<rparr>) c))))))"
| "apply_ddl (DropConstraint n t) c =
     rbind (the_table t c) (\<lambda>tb. rbind (drop_constraint n tb) (\<lambda>tb'. Inr (put t tb' c)))"
| "apply_ddl (Execute sql) c = Inr c"

primrec run_ddl :: "ddl list \<Rightarrow> catalog \<Rightarrow> ddl_error + catalog" where
  "run_ddl [] c = Inr c"
| "run_ddl (x # xs) c = rbind (apply_ddl x c) (run_ddl xs)"

end
