(* ===== verification/Migrations.thy ===== *)
theory Migrations
  imports Catalog Py_Text
begin

text \<open>
  The revisions of the schema, \<open>infrastructure/db/sqlalchemy/migrations/versions\<close>, as the commands
  their upgrade and downgrade issue, and the tables as \<open>infrastructure/db/sqlalchemy/models\<close> declares
  them. The code works with the tables of the models; what runs is what the revisions built. The
  theory shows that the two are the same, and that every revision can be taken back.
\<close>

section \<open>Revisions\<close>

record revision =
  rv_revision :: string
  rv_down_revision :: "string option"
  rv_upgrade :: "ddl list"
  rv_downgrade :: "ddl list"

definition upgrade_initial_users :: "ddl list" where
  "upgrade_initial_users =
     [CreateTable ''users''
        [required_col ''id'' Uuid None,
         required_col ''username'' (VarChar None) None,
         nullable_col ''email'' (VarChar None) None,
         required_col ''hashed_password'' Bytea None,
         nullable_col ''deleted_at'' TimestampTz None]
        (''pk_users'', [''id'']) [(''uq_users_email'', [''email'']), (''uq_users_username'', [''username''])]]"

definition downgrade_initial_users :: "ddl list" where
  "downgrade_initial_users =
     [DropTable ''users'']"

definition rev_initial_users :: revision where
  "rev_initial_users = \<lparr>rv_revision = ''65180c3d97a5'', rv_down_revision = None,
     rv_upgrade = upgrade_initial_users, rv_downgrade = downgrade_initial_users\<rparr>"

definition upgrade_add_audit_logs :: "ddl list" where
  "upgrade_add_audit_logs =
     [CreateTable ''audit_logs''
        [required_col ''id'' Uuid None,
         nullable_col ''user_id'' Uuid None,
         required_col ''action'' (VarChar None) None,
         required_col ''entity_type'' (VarChar None) None,
         nullable_col ''entity_id'' Uuid None,
         required_col ''details'' Json None,
         nullable_col ''ip_address'' (VarChar None) None,
         nullable_col ''user_agent'' (VarChar None) None,
         required_col ''timestamp'' TimestampTz None,
         required_col ''success'' Boolean (Some ''true'')]
        (''pk_audit_logs'', [''id'']) [],
      CreateIndex ''ix_audit_logs_user_id'' ''audit_logs'' [''user_id''] False None,
      CreateIndex ''ix_audit_logs_action'' ''audit_logs'' [''action''] False None,
      CreateIndex ''ix_audit_logs_timestamp'' ''audit_logs'' [''timestamp''] False None]"

definition downgrade_add_audit_logs :: "ddl list" where
  "downgrade_add_audit_logs =
     [DropIndex ''ix_audit_logs_timestamp'' ''audit_logs'',
      DropIndex ''ix_audit_logs_action'' ''audit_logs'',
      DropIndex ''ix_audit_logs_user_id'' ''audit_logs'',
      DropTable ''audit_logs'']"

definition rev_add_audit_logs :: revision where
  "rev_add_audit_logs = \<lparr>rv_revision = ''add_audit_logs'', rv_down_revision = Some ''add_security_tables'',
     rv_upgrade = upgrade_add_audit_logs, rv_downgrade = downgrade_add_audit_logs\<rparr>"

definition upgrade_add_foreign_keys :: "ddl list" where
  "upgrade_add_foreign_keys =
     [AddColumn ''authorization_codes'' (nullable_col ''session_id'' Uuid None),
      CreateForeignKey ''fk_sessions_user_id_users'' ''sessions'' ''users'' [''user_id''] [''id''] Cascade,
      CreateForeignKey ''fk_refresh_tokens_session_id_sessions'' ''refresh_tokens'' ''sessions'' [''session_id''] [''session_id''] Cascade,
      CreateForeignKey ''fk_role_permissions_role_id_roles'' ''role_permissions'' ''roles'' [''role_id''] [''id''] Cascade,
      CreateForeignKey ''fk_role_permissions_permission_id_permissions'' ''role_permissions'' ''permissions''
         [''permission_id''] [''id''] Cascade,
      CreateForeignKey ''fk_user_roles_user_id_users'' ''user_roles'' ''users'' [''user_id''] [''id''] Cascade,
      CreateForeignKey ''fk_user_roles_role_id_roles'' ''user_roles'' ''roles'' [''role_id''] [''id''] Cascade,
      CreateForeignKey ''fk_user_roles_assigned_by_users'' ''user_roles'' ''users'' [''assigned_by''] [''id''] SetNull,
      CreateForeignKey ''fk_authorization_codes_client_id_oauth_clients'' ''authorization_codes'' ''oauth_clients''
         [''client_id''] [''client_id''] Cascade,
      CreateForeignKey ''fk_authorization_codes_user_id_users'' ''authorization_codes'' ''users'' [''user_id''] [''id''] Cascade,
      CreateForeignKey ''fk_audit_logs_user_id_users'' ''audit_logs'' ''users'' [''user_id''] [''id''] SetNull]"

definition downgrade_add_foreign_keys :: "ddl list" where
  "downgrade_add_foreign_keys =
     [DropConstraint ''fk_audit_logs_user_id_users'' ''audit_logs'',
      DropConstraint ''fk_authorization_codes_user_id_users'' ''authorization_codes'',
      DropConstraint ''fk_authorization_codes_client_id_oauth_clients'' ''authorization_codes'',
      DropConstraint ''fk_user_roles_assigned_by_users'' ''user_roles'',
      DropConstraint ''fk_user_roles_role_id_roles'' ''user_roles'',
      DropConstraint ''fk_user_roles_user_id_users'' ''user_roles'',
      DropConstraint ''fk_role_permissions_permission_id_permissions'' ''role_permissions'',
      DropConstraint ''fk_role_permissions_role_id_roles'' ''role_permissions'',
      DropConstraint ''fk_refresh_tokens_session_id_sessions'' ''refresh_tokens'',
      DropConstraint ''fk_sessions_user_id_users'' ''sessions'',
      DropColumn ''authorization_codes'' ''session_id'']"

definition rev_add_foreign_keys :: revision where
  "rev_add_foreign_keys = \<lparr>rv_revision = ''add_foreign_keys'', rv_down_revision = Some ''add_oauth_tables'',
     rv_upgrade = upgrade_add_foreign_keys, rv_downgrade = downgrade_add_foreign_keys\<rparr>"

definition upgrade_add_oauth_tables :: "ddl list" where
  "upgrade_add_oauth_tables =
     [CreateTable ''oauth_clients''
        [required_col ''client_id'' (VarChar (Some 64)) None,
         nullable_col ''client_secret_hash'' Bytea None,
         nullable_col ''client_secret_salt'' Bytea None,
         required_col ''client_name'' (VarChar (Some 128)) None,
         nullable_col ''client_uri'' (VarChar (Some 256)) None,
         nullable_col ''logo_uri'' (VarChar (Some 256)) None,
         required_col ''redirect_uris'' Json None,
         required_col ''grant_types'' Json None,
         required_col ''response_types'' Json None,
         required_col ''scopes'' Json None,
         required_col ''is_confidential'' Boolean (Some ''false''),
         required_col ''require_auth_time'' Boolean (Some ''false''),
         required_col ''is_active'' Boolean (Some ''true''),
         required_col ''created_at'' TimestampTz None]
        (''pk_oauth_clients'', [''client_id'']) [],
      CreateTable ''authorization_codes''
        [required_col ''code'' (VarChar (Some 128)) None,
         required_col ''client_id'' (VarChar (Some 64)) None,
         required_col ''user_id'' Uuid None,
         required_col ''redirect_uri'' (VarChar (Some 256)) None,
         required_col ''scopes'' Json None,
         nullable_col ''nonce'' (VarChar (Some 256)) None,
         required_col ''auth_time'' TimestampTz None,
         nullable_col ''code_challenge'' (VarChar (Some 256)) None,
         nullable_col ''code_challenge_method'' (VarChar (Some 8)) None,
         required_col ''expires_at'' TimestampTz None,
         required_col ''is_used'' Boolean (Some ''false'')]
        (''pk_authorization_codes'', [''code'']) [],
      CreateIndex ''ix_authorization_codes_client_id'' ''authorization_codes'' [''client_id''] False None,
      CreateTable ''signing_keys''
        [required_col ''kid'' (VarChar (Some 64)) None,
         required_col ''algorithm'' (VarChar (Some 8)) None,
         required_col ''private_key_pem'' Text None,
         required_col ''public_key_pem'' Text None,
         required_col ''created_at'' TimestampTz None,
         nullable_col ''expires_at'' TimestampTz None,
         required_col ''is_active'' Boolean (Some ''true'')]
        (''pk_signing_keys'', [''kid'']) [],
      CreateIndex ''ix_signing_keys_is_active'' ''signing_keys'' [''is_active''] False None]"

definition downgrade_add_oauth_tables :: "ddl list" where
  "downgrade_add_oauth_tables =
     [DropTable ''signing_keys'',
      DropTable ''authorization_codes'',
      DropTable ''oauth_clients'']"

definition rev_add_oauth_tables :: revision where
  "rev_add_oauth_tables = \<lparr>rv_revision = ''add_oauth_tables'', rv_down_revision = Some ''add_audit_logs'',
     rv_upgrade = upgrade_add_oauth_tables, rv_downgrade = downgrade_add_oauth_tables\<rparr>"

definition upgrade_add_outbox_retry :: "ddl list" where
  "upgrade_add_outbox_retry =
     [AddColumn ''outbox_events'' (nullable_col ''sensitive_keys'' Jsonb None),
      AddColumn ''outbox_events'' (required_col ''attempts'' Integer (Some ''0'')),
      AddColumn ''outbox_events'' (nullable_col ''last_error'' Text None),
      AddColumn ''outbox_events'' (nullable_col ''next_attempt_at'' TimestampTz None),
      AddColumn ''outbox_events'' (nullable_col ''failed_at'' TimestampTz None),
      AlterColumnType ''outbox_events'' ''payload'' Jsonb,
      CreateIndex ''ix_outbox_events_unprocessed'' ''outbox_events'' [''next_attempt_at'', ''created_at''] False
         (Some ''processed_at IS NULL AND failed_at IS NULL''),
      CreateIndex ''ix_outbox_events_processed_at'' ''outbox_events'' [''processed_at''] False None]"

definition downgrade_add_outbox_retry :: "ddl list" where
  "downgrade_add_outbox_retry =
     [DropIndex ''ix_outbox_events_processed_at'' ''outbox_events'',
      DropIndex ''ix_outbox_events_unprocessed'' ''outbox_events'',
      AlterColumnType ''outbox_events'' ''payload'' Json,
      DropColumn ''outbox_events'' ''failed_at'',
      DropColumn ''outbox_events'' ''next_attempt_at'',
      DropColumn ''outbox_events'' ''last_error'',
      DropColumn ''outbox_events'' ''attempts'',
      DropColumn ''outbox_events'' ''sensitive_keys'']"

definition rev_add_outbox_retry :: revision where
  "rev_add_outbox_retry = \<lparr>rv_revision = ''add_outbox_retry'', rv_down_revision = Some ''add_two_factor_backup_codes'',
     rv_upgrade = upgrade_add_outbox_retry, rv_downgrade = downgrade_add_outbox_retry\<rparr>"

definition upgrade_add_security_tables :: "ddl list" where
  "upgrade_add_security_tables =
     [AddColumn ''users'' (required_col ''is_locked'' Boolean (Some ''false'')),
      AddColumn ''users'' (nullable_col ''locked_at'' TimestampTz None),
      AddColumn ''users'' (nullable_col ''lock_reason'' (VarChar None) None),
      AddColumn ''users'' (required_col ''failed_attempts'' Integer (Some ''0'')),
      AddColumn ''users'' (nullable_col ''lock_until'' TimestampTz None),
      AddColumn ''users'' (required_col ''is_email_verified'' Boolean (Some ''false'')),
      AddColumn ''users'' (nullable_col ''email_verification_token'' (VarChar None) None),
      AddColumn ''users'' (nullable_col ''email_verified_at'' TimestampTz None),
      AddColumn ''users'' (nullable_col ''email_verification_expires_at'' TimestampTz None),
      AddColumn ''users'' (nullable_col ''password_reset_token'' (VarChar None) None),
      AddColumn ''users'' (nullable_col ''password_reset_created_at'' TimestampTz None),
      AddColumn ''users'' (nullable_col ''password_reset_expires_at'' TimestampTz None),
      AddColumn ''users'' (required_col ''password_reset_used'' Boolean (Some ''false'')),
      AddColumn ''users'' (nullable_col ''two_factor_secret'' (VarChar None) None),
      AddColumn ''users'' (nullable_col ''two_factor_enabled_at'' TimestampTz None),
      CreateTable ''sessions''
        [required_col ''session_id'' Uuid None,
         required_col ''user_id'' Uuid None,
         nullable_col ''user_agent'' (VarChar None) None,
         nullable_col ''ip_address'' (VarChar None) None,
         nullable_col ''device_name'' (VarChar None) None,
         nullable_col ''browser'' (VarChar None) None,
         nullable_col ''os'' (VarChar None) None,
         required_col ''is_mobile'' Boolean (Some ''false''),
         required_col ''created_at'' TimestampTz None,
         required_col ''expires_at'' TimestampTz None,
         required_col ''is_revoked'' Boolean (Some ''false'')]
        (''pk_sessions'', [''session_id'']) [],
      CreateIndex ''ix_sessions_user_id'' ''sessions'' [''user_id''] False None,
      CreateTable ''refresh_tokens''
        [required_col ''id'' Uuid None,
         required_col ''session_id'' Uuid None,
         required_col ''token_hash'' Bytea None,
         required_col ''expires_at'' TimestampTz None,
         required_col ''is_revoked'' Boolean (Some ''false''),
         required_col ''created_at'' TimestampTz None]
        (''pk_refresh_tokens'', [''id'']) [],
      CreateIndex ''ix_refresh_tokens_session_id'' ''refresh_tokens'' [''session_id''] False None,
      CreateIndex ''ix_refresh_tokens_token_hash'' ''refresh_tokens'' [''token_hash''] False None,
      CreateTable ''outbox_events''
        [required_col ''id'' Uuid None,
         required_col ''aggregate_type'' (VarChar None) None,
         nullable_col ''aggregate_id'' Uuid None,
         required_col ''event_type'' (VarChar None) None,
         required_col ''payload'' Json None,
         required_col ''created_at'' TimestampTz None,
         nullable_col ''processed_at'' TimestampTz None]
        (''pk_outbox_events'', [''id'']) [],
      CreateTable ''permissions''
        [required_col ''id'' Uuid None,
         required_col ''name'' (VarChar None) None,
         nullable_col ''description'' (VarChar None) None]
        (''pk_permissions'', [''id'']) [(''uq_permissions_name'', [''name''])],
      CreateTable ''roles''
        [required_col ''id'' Uuid None,
         required_col ''name'' (VarChar None) None,
         nullable_col ''description'' (VarChar None) None]
        (''pk_roles'', [''id'']) [(''uq_roles_name'', [''name''])],
      CreateTable ''role_permissions''
        [required_col ''role_id'' Uuid None,
         required_col ''permission_id'' Uuid None]
        (''pk_role_permissions'', [''role_id'', ''permission_id'']) [],
      CreateTable ''user_roles''
        [required_col ''user_id'' Uuid None,
         required_col ''role_id'' Uuid None,
         required_col ''assigned_at'' TimestampTz None,
         nullable_col ''assigned_by'' Uuid None]
        (''pk_user_roles'', [''user_id'', ''role_id'']) []]"

definition downgrade_add_security_tables :: "ddl list" where
  "downgrade_add_security_tables =
     [DropTable ''user_roles'',
      DropTable ''role_permissions'',
      DropTable ''roles'',
      DropTable ''permissions'',
      DropTable ''outbox_events'',
      DropTable ''refresh_tokens'',
      DropIndex ''ix_sessions_user_id'' ''sessions'',
      DropTable ''sessions'',
      DropColumn ''users'' ''two_factor_enabled_at'',
      DropColumn ''users'' ''two_factor_secret'',
      DropColumn ''users'' ''password_reset_used'',
      DropColumn ''users'' ''password_reset_expires_at'',
      DropColumn ''users'' ''password_reset_created_at'',
      DropColumn ''users'' ''password_reset_token'',
      DropColumn ''users'' ''email_verification_expires_at'',
      DropColumn ''users'' ''email_verified_at'',
      DropColumn ''users'' ''email_verification_token'',
      DropColumn ''users'' ''is_email_verified'',
      DropColumn ''users'' ''lock_until'',
      DropColumn ''users'' ''failed_attempts'',
      DropColumn ''users'' ''lock_reason'',
      DropColumn ''users'' ''locked_at'',
      DropColumn ''users'' ''is_locked'']"

definition rev_add_security_tables :: revision where
  "rev_add_security_tables = \<lparr>rv_revision = ''add_security_tables'', rv_down_revision = Some ''65180c3d97a5'',
     rv_upgrade = upgrade_add_security_tables, rv_downgrade = downgrade_add_security_tables\<rparr>"

definition upgrade_add_two_factor_backup_codes :: "ddl list" where
  "upgrade_add_two_factor_backup_codes =
     [AddColumn ''users'' (nullable_col ''two_factor_backup_codes'' Json None)]"

definition downgrade_add_two_factor_backup_codes :: "ddl list" where
  "downgrade_add_two_factor_backup_codes =
     [DropColumn ''users'' ''two_factor_backup_codes'']"

definition rev_add_two_factor_backup_codes :: revision where
  "rev_add_two_factor_backup_codes = \<lparr>rv_revision = ''add_two_factor_backup_codes'', rv_down_revision = Some ''drop_oauth_and_keys_tables'',
     rv_upgrade = upgrade_add_two_factor_backup_codes, rv_downgrade = downgrade_add_two_factor_backup_codes\<rparr>"

definition upgrade_add_user_version_and_indexes :: "ddl list" where
  "upgrade_add_user_version_and_indexes =
     [AddColumn ''users'' (required_col ''version'' Integer (Some ''0'')),
      CreateIndex ''ix_user_roles_role_id'' ''user_roles'' [''role_id''] False None,
      CreateIndex ''ix_user_roles_assigned_by'' ''user_roles'' [''assigned_by''] False None,
      CreateIndex ''ix_role_permissions_permission_id'' ''role_permissions'' [''permission_id''] False None,
      CreateIndex ''ix_audit_logs_entity'' ''audit_logs'' [''entity_type'', ''entity_id''] False None,
      CreateIndex ''ix_sessions_expires_at'' ''sessions'' [''expires_at''] False None,
      DropIndex ''ix_refresh_tokens_token_hash'' ''refresh_tokens'',
      CreateIndex ''ix_refresh_tokens_token_hash'' ''refresh_tokens'' [''token_hash''] True None]"

definition downgrade_add_user_version_and_indexes :: "ddl list" where
  "downgrade_add_user_version_and_indexes =
     [DropIndex ''ix_refresh_tokens_token_hash'' ''refresh_tokens'',
      CreateIndex ''ix_refresh_tokens_token_hash'' ''refresh_tokens'' [''token_hash''] False None,
      DropIndex ''ix_sessions_expires_at'' ''sessions'',
      DropIndex ''ix_audit_logs_entity'' ''audit_logs'',
      DropIndex ''ix_role_permissions_permission_id'' ''role_permissions'',
      DropIndex ''ix_user_roles_assigned_by'' ''user_roles'',
      DropIndex ''ix_user_roles_role_id'' ''user_roles'',
      DropColumn ''users'' ''version'']"

definition rev_add_user_version_and_indexes :: revision where
  "rev_add_user_version_and_indexes = \<lparr>rv_revision = ''add_user_version_and_indexes'', rv_down_revision = Some ''hash_and_encrypt_user_secrets'',
     rv_upgrade = upgrade_add_user_version_and_indexes, rv_downgrade = downgrade_add_user_version_and_indexes\<rparr>"

definition upgrade_drop_oauth_and_keys_tables :: "ddl list" where
  "upgrade_drop_oauth_and_keys_tables =
     [DropTable ''signing_keys'',
      DropTable ''authorization_codes'',
      DropTable ''oauth_clients'']"

definition downgrade_drop_oauth_and_keys_tables :: "ddl list" where
  "downgrade_drop_oauth_and_keys_tables =
     [CreateTable ''oauth_clients''
        [required_col ''client_id'' (VarChar (Some 64)) None,
         nullable_col ''client_secret_hash'' Bytea None,
         nullable_col ''client_secret_salt'' Bytea None,
         required_col ''client_name'' (VarChar (Some 128)) None,
         nullable_col ''client_uri'' (VarChar (Some 256)) None,
         nullable_col ''logo_uri'' (VarChar (Some 256)) None,
         required_col ''redirect_uris'' Json None,
         required_col ''grant_types'' Json None,
         required_col ''response_types'' Json None,
         required_col ''scopes'' Json None,
         required_col ''is_confidential'' Boolean (Some ''false''),
         required_col ''require_auth_time'' Boolean (Some ''false''),
         required_col ''is_active'' Boolean (Some ''true''),
         required_col ''created_at'' TimestampTz None]
        (''pk_oauth_clients'', [''client_id'']) [],
      CreateTable ''authorization_codes''
        [required_col ''code'' (VarChar (Some 128)) None,
         required_col ''client_id'' (VarChar (Some 64)) None,
         required_col ''user_id'' Uuid None,
         required_col ''redirect_uri'' (VarChar (Some 256)) None,
         required_col ''scopes'' Json None,
         nullable_col ''nonce'' (VarChar (Some 256)) None,
         required_col ''auth_time'' TimestampTz None,
         nullable_col ''code_challenge'' (VarChar (Some 256)) None,
         nullable_col ''code_challenge_method'' (VarChar (Some 8)) None,
         required_col ''expires_at'' TimestampTz None,
         required_col ''is_used'' Boolean (Some ''false''),
         nullable_col ''session_id'' Uuid None]
        (''pk_authorization_codes'', [''code'']) [],
      CreateIndex ''ix_authorization_codes_client_id'' ''authorization_codes'' [''client_id''] False None,
      CreateForeignKey ''fk_authorization_codes_client_id_oauth_clients'' ''authorization_codes'' ''oauth_clients''
         [''client_id''] [''client_id''] Cascade,
      CreateForeignKey ''fk_authorization_codes_user_id_users'' ''authorization_codes'' ''users'' [''user_id''] [''id''] Cascade,
      CreateTable ''signing_keys''
        [required_col ''kid'' (VarChar (Some 64)) None,
         required_col ''algorithm'' (VarChar (Some 8)) None,
         required_col ''private_key_pem'' Text None,
         required_col ''public_key_pem'' Text None,
         required_col ''created_at'' TimestampTz None,
         nullable_col ''expires_at'' TimestampTz None,
         required_col ''is_active'' Boolean (Some ''true'')]
        (''pk_signing_keys'', [''kid'']) [],
      CreateIndex ''ix_signing_keys_is_active'' ''signing_keys'' [''is_active''] False None]"

definition rev_drop_oauth_and_keys_tables :: revision where
  "rev_drop_oauth_and_keys_tables = \<lparr>rv_revision = ''drop_oauth_and_keys_tables'', rv_down_revision = Some ''add_foreign_keys'',
     rv_upgrade = upgrade_drop_oauth_and_keys_tables, rv_downgrade = downgrade_drop_oauth_and_keys_tables\<rparr>"

definition upgrade_hash_and_encrypt_user_secrets :: "ddl list" where
  "upgrade_hash_and_encrypt_user_secrets =
     [DropColumn ''users'' ''email_verification_token'',
      AddColumn ''users'' (nullable_col ''email_verification_token_hash'' Bytea None),
      CreateIndex ''ix_users_email_verification_token_hash'' ''users'' [''email_verification_token_hash''] False None,
      DropColumn ''users'' ''password_reset_token'',
      AddColumn ''users'' (nullable_col ''password_reset_token_hash'' Bytea None),
      CreateIndex ''ix_users_password_reset_token_hash'' ''users'' [''password_reset_token_hash''] False None,
      DropColumn ''users'' ''two_factor_secret'',
      AddColumn ''users'' (nullable_col ''two_factor_secret'' Bytea None),
      DropColumn ''users'' ''two_factor_backup_codes'',
      AddColumn ''users'' (nullable_col ''two_factor_backup_codes'' Jsonb None),
      Execute ''UPDATE users SET two_factor_enabled_at = NULL WHERE two_factor_enabled_at IS NOT NULL'']"

definition downgrade_hash_and_encrypt_user_secrets :: "ddl list" where
  "downgrade_hash_and_encrypt_user_secrets =
     [DropColumn ''users'' ''two_factor_backup_codes'',
      AddColumn ''users'' (nullable_col ''two_factor_backup_codes'' Json None),
      DropColumn ''users'' ''two_factor_secret'',
      AddColumn ''users'' (nullable_col ''two_factor_secret'' (VarChar None) None),
      DropIndex ''ix_users_password_reset_token_hash'' ''users'',
      DropColumn ''users'' ''password_reset_token_hash'',
      AddColumn ''users'' (nullable_col ''password_reset_token'' (VarChar None) None),
      DropIndex ''ix_users_email_verification_token_hash'' ''users'',
      DropColumn ''users'' ''email_verification_token_hash'',
      AddColumn ''users'' (nullable_col ''email_verification_token'' (VarChar None) None)]"

definition rev_hash_and_encrypt_user_secrets :: revision where
  "rev_hash_and_encrypt_user_secrets = \<lparr>rv_revision = ''hash_and_encrypt_user_secrets'', rv_down_revision = Some ''add_outbox_retry'',
     rv_upgrade = upgrade_hash_and_encrypt_user_secrets, rv_downgrade = downgrade_hash_and_encrypt_user_secrets\<rparr>"

text \<open>The files of the directory. The order in which they are applied follows from down_revision.\<close>

definition versions :: "revision list" where
  "versions =
     [rev_initial_users, rev_add_audit_logs, rev_add_foreign_keys, rev_add_oauth_tables, rev_add_outbox_retry,
      rev_add_security_tables, rev_add_two_factor_backup_codes, rev_add_user_version_and_indexes,
      rev_drop_oauth_and_keys_tables, rev_hash_and_encrypt_user_secrets]"

primrec follow :: "nat \<Rightarrow> string option \<Rightarrow> revision list" where
  "follow 0 at = []"
| "follow (Suc n) at =
     (case filter (\<lambda>r. rv_down_revision r = at) versions of
        [r] \<Rightarrow> r # follow n (Some (rv_revision r))
      | _ \<Rightarrow> [])"

definition history :: "revision list" where
  "history = follow (length versions) None"

primrec migrate_up :: "revision list \<Rightarrow> catalog \<Rightarrow> ddl_error + catalog" where
  "migrate_up [] c = Inr c"
| "migrate_up (r # rs) c = rbind (run_ddl (rv_upgrade r) c) (migrate_up rs)"

primrec migrate_down :: "revision list \<Rightarrow> catalog \<Rightarrow> ddl_error + catalog" where
  "migrate_down [] c = Inr c"
| "migrate_down (r # rs) c = rbind (migrate_down rs c) (run_ddl (rv_downgrade r))"

section \<open>Models\<close>

text \<open>The arguments of Column: \<open>default\<close> is filled in by the client and is not part of the schema.\<close>

datatype column_flag = PrimaryKey | Unique | Indexed | Nullable | NotNull | ServerDefault string | ClientDefault string

datatype schema_item =
    MColumn string sql_type "column_flag list"
  | MPrimaryKey "string list"
  | MIndex string "string list" "string option"
  | MForeignKey "string list" string "string list" on_delete

type_synonym model = "string \<times> schema_item list"

definition USERS_TABLE :: model where
  "USERS_TABLE = (''users'',
     [MColumn ''id'' Uuid [PrimaryKey],
      MColumn ''username'' (VarChar None) [Unique, NotNull],
      MColumn ''email'' (VarChar None) [Unique, Nullable],
      MColumn ''hashed_password'' Bytea [NotNull],
      MColumn ''deleted_at'' TimestampTz [Nullable],
      MColumn ''is_locked'' Boolean [ClientDefault ''False'', NotNull],
      MColumn ''locked_at'' TimestampTz [Nullable],
      MColumn ''lock_reason'' (VarChar None) [Nullable],
      MColumn ''failed_attempts'' Integer [ClientDefault ''0'', NotNull],
      MColumn ''lock_until'' TimestampTz [Nullable],
      MColumn ''version'' Integer [NotNull, ServerDefault ''0''],
      MColumn ''is_email_verified'' Boolean [ClientDefault ''False'', NotNull],
      MColumn ''email_verification_token_hash'' Bytea [Nullable, Indexed],
      MColumn ''email_verified_at'' TimestampTz [Nullable],
      MColumn ''email_verification_expires_at'' TimestampTz [Nullable],
      MColumn ''password_reset_token_hash'' Bytea [Nullable, Indexed],
      MColumn ''password_reset_created_at'' TimestampTz [Nullable],
      MColumn ''password_reset_expires_at'' TimestampTz [Nullable],
      MColumn ''password_reset_used'' Boolean [ClientDefault ''False'', NotNull],
      MColumn ''two_factor_secret'' Bytea [Nullable],
      MColumn ''two_factor_enabled_at'' TimestampTz [Nullable],
      MColumn ''two_factor_backup_codes'' Jsonb [Nullable]])"

definition SESSIONS_TABLE :: model where
  "SESSIONS_TABLE = (''sessions'',
     [MColumn ''session_id'' Uuid [PrimaryKey],
      MColumn ''user_id'' Uuid [NotNull, Indexed],
      MColumn ''user_agent'' (VarChar None) [Nullable],
      MColumn ''ip_address'' (VarChar None) [Nullable],
      MColumn ''device_name'' (VarChar None) [Nullable],
      MColumn ''browser'' (VarChar None) [Nullable],
      MColumn ''os'' (VarChar None) [Nullable],
      MColumn ''is_mobile'' Boolean [ClientDefault ''False'', NotNull],
      MColumn ''created_at'' TimestampTz [NotNull],
      MColumn ''expires_at'' TimestampTz [NotNull, Indexed],
      MColumn ''is_revoked'' Boolean [ClientDefault ''False'', NotNull],
      MForeignKey [''user_id''] ''users'' [''id''] Cascade])"

definition REFRESH_TOKENS_TABLE :: model where
  "REFRESH_TOKENS_TABLE = (''refresh_tokens'',
     [MColumn ''id'' Uuid [PrimaryKey],
      MColumn ''session_id'' Uuid [NotNull, Indexed],
      MColumn ''token_hash'' Bytea [NotNull, Unique, Indexed],
      MColumn ''expires_at'' TimestampTz [NotNull],
      MColumn ''is_revoked'' Boolean [ClientDefault ''False'', NotNull],
      MColumn ''created_at'' TimestampTz [NotNull],
      MForeignKey [''session_id''] ''sessions'' [''session_id''] Cascade])"

definition AUDIT_LOGS_TABLE :: model where
  "AUDIT_LOGS_TABLE = (''audit_logs'',
     [MColumn ''id'' Uuid [PrimaryKey],
      MColumn ''user_id'' Uuid [Nullable, Indexed],
      MColumn ''action'' (VarChar None) [NotNull, Indexed],
      MColumn ''entity_type'' (VarChar None) [NotNull],
      MColumn ''entity_id'' Uuid [Nullable],
      MIndex ''ix_audit_logs_entity'' [''entity_type'', ''entity_id''] None,
      MColumn ''details'' Json [NotNull],
      MColumn ''ip_address'' (VarChar None) [Nullable],
      MColumn ''user_agent'' (VarChar None) [Nullable],
      MColumn ''timestamp'' TimestampTz [NotNull, Indexed],
      MColumn ''success'' Boolean [NotNull, ServerDefault ''true''],
      MForeignKey [''user_id''] ''users'' [''id''] SetNull])"

definition PERMISSIONS_TABLE :: model where
  "PERMISSIONS_TABLE = (''permissions'',
     [MColumn ''id'' Uuid [PrimaryKey],
      MColumn ''name'' (VarChar None) [Unique, NotNull],
      MColumn ''description'' (VarChar None) [Nullable]])"

definition ROLES_TABLE :: model where
  "ROLES_TABLE = (''roles'',
     [MColumn ''id'' Uuid [PrimaryKey],
      MColumn ''name'' (VarChar None) [Unique, NotNull],
      MColumn ''description'' (VarChar None) [Nullable]])"

definition ROLE_PERMISSIONS_TABLE :: model where
  "ROLE_PERMISSIONS_TABLE = (''role_permissions'',
     [MColumn ''role_id'' Uuid [NotNull],
      MColumn ''permission_id'' Uuid [NotNull],
      MPrimaryKey [''role_id'', ''permission_id''],
      MIndex ''ix_role_permissions_permission_id'' [''permission_id''] None,
      MForeignKey [''role_id''] ''roles'' [''id''] Cascade,
      MForeignKey [''permission_id''] ''permissions'' [''id''] Cascade])"

definition USER_ROLES_TABLE :: model where
  "USER_ROLES_TABLE = (''user_roles'',
     [MColumn ''user_id'' Uuid [NotNull],
      MColumn ''role_id'' Uuid [NotNull],
      MColumn ''assigned_at'' TimestampTz [NotNull],
      MColumn ''assigned_by'' Uuid [Nullable],
      MPrimaryKey [''user_id'', ''role_id''],
      MIndex ''ix_user_roles_role_id'' [''role_id''] None,
      MIndex ''ix_user_roles_assigned_by'' [''assigned_by''] None,
      MForeignKey [''user_id''] ''users'' [''id''] Cascade,
      MForeignKey [''role_id''] ''roles'' [''id''] Cascade,
      MForeignKey [''assigned_by''] ''users'' [''id''] SetNull])"

definition OUTBOX_EVENTS :: model where
  "OUTBOX_EVENTS = (''outbox_events'',
     [MColumn ''id'' Uuid [PrimaryKey],
      MColumn ''aggregate_type'' (VarChar None) [NotNull],
      MColumn ''aggregate_id'' Uuid [Nullable],
      MColumn ''event_type'' (VarChar None) [NotNull],
      MColumn ''payload'' Jsonb [NotNull],
      MColumn ''sensitive_keys'' Jsonb [Nullable],
      MColumn ''created_at'' TimestampTz [NotNull],
      MColumn ''processed_at'' TimestampTz [Nullable],
      MColumn ''attempts'' Integer [NotNull, ServerDefault ''0''],
      MColumn ''last_error'' Text [Nullable],
      MColumn ''next_attempt_at'' TimestampTz [Nullable],
      MColumn ''failed_at'' TimestampTz [Nullable],
      MIndex ''ix_outbox_events_unprocessed'' [''next_attempt_at'', ''created_at''] (Some ''processed_at IS NULL AND failed_at IS NULL''),
      MIndex ''ix_outbox_events_processed_at'' [''processed_at''] None])"

definition metadata :: "model list" where
  "metadata = [USERS_TABLE, SESSIONS_TABLE, REFRESH_TOKENS_TABLE, AUDIT_LOGS_TABLE, PERMISSIONS_TABLE, ROLES_TABLE,
     ROLE_PERMISSIONS_TABLE, USER_ROLES_TABLE, OUTBOX_EVENTS]"

text \<open>\<open>convention\<close> of the metadata: the names of keys, indexes and constraints that are given none.\<close>

definition ix_name :: "string \<Rightarrow> string \<Rightarrow> string" where
  "ix_name table column_0 = ''ix_'' @ table @ ''_'' @ column_0"

definition uq_name :: "string \<Rightarrow> string list \<Rightarrow> string" where
  "uq_name table cols = ''uq_'' @ table @ ''_'' @ join ''_'' cols"

definition fk_name :: "string \<Rightarrow> string list \<Rightarrow> string \<Rightarrow> string" where
  "fk_name table cols referred = ''fk_'' @ table @ ''_'' @ join ''_'' cols @ ''_'' @ referred"

definition pk_name :: "string \<Rightarrow> string" where
  "pk_name table = ''pk_'' @ table"

fun server_default :: "column_flag list \<Rightarrow> string option" where
  "server_default [] = None"
| "server_default (ServerDefault v # fs) = Some v"
| "server_default (f # fs) = server_default fs"

primrec add_item :: "string \<Rightarrow> table \<Rightarrow> schema_item \<Rightarrow> table" where
  "add_item t tb (MColumn k ty flags) =
     tb\<lparr>tb_columns := put k \<lparr>cl_type = ty, cl_nullable = (PrimaryKey \<notin> set flags \<and> NotNull \<notin> set flags),
                            cl_server_default = server_default flags\<rparr> (tb_columns tb),
        tb_primary_key := (if PrimaryKey \<in> set flags then Some (pk_name t, [k]) else tb_primary_key tb),
        tb_uniques := (if Unique \<in> set flags \<and> Indexed \<notin> set flags then put (uq_name t [k]) [k] (tb_uniques tb) else tb_uniques tb),
        tb_indexes :=
          (if Indexed \<in> set flags
           then put (ix_name t k) \<lparr>ix_columns = [k], ix_unique = (Unique \<in> set flags), ix_where = None\<rparr> (tb_indexes tb)
           else tb_indexes tb)\<rparr>"
| "add_item t tb (MPrimaryKey cs) = tb\<lparr>tb_primary_key := Some (pk_name t, cs)\<rparr>"
| "add_item t tb (MIndex n cs wh) =
     tb\<lparr>tb_indexes := put n \<lparr>ix_columns = cs, ix_unique = False, ix_where = wh\<rparr> (tb_indexes tb)\<rparr>"
| "add_item t tb (MForeignKey cs r rcs act) =
     tb\<lparr>tb_foreign_keys := put (fk_name t cs r) \<lparr>fk_columns = cs, fk_table = r, fk_references = rcs, fk_on_delete = act\<rparr>
                              (tb_foreign_keys tb)\<rparr>"

definition create_table :: "model \<Rightarrow> table" where
  "create_table m =
     foldl (add_item (fst m))
       \<lparr>tb_columns = [], tb_primary_key = None, tb_uniques = [], tb_indexes = [], tb_foreign_keys = []\<rparr> (snd m)"

definition models :: catalog where
  "models = named_of (map (\<lambda>m. (fst m, create_table m)) metadata)"

text \<open>A database serves the models if it differs from them at most in having defaults of its own.\<close>

definition column_serves :: "string \<times> column \<Rightarrow> string \<times> column \<Rightarrow> bool" where
  "column_serves m d =
     (fst m = fst d \<and> cl_type (snd m) = cl_type (snd d) \<and> cl_nullable (snd m) = cl_nullable (snd d) \<and>
      (cl_server_default (snd m) = None \<or> cl_server_default (snd m) = cl_server_default (snd d)))"

definition table_serves :: "string \<times> table \<Rightarrow> string \<times> table \<Rightarrow> bool" where
  "table_serves m d =
     (fst m = fst d \<and> list_all2 column_serves (tb_columns (snd m)) (tb_columns (snd d)) \<and>
      tb_primary_key (snd m) = tb_primary_key (snd d) \<and> tb_uniques (snd m) = tb_uniques (snd d) \<and>
      tb_indexes (snd m) = tb_indexes (snd d) \<and> tb_foreign_keys (snd m) = tb_foreign_keys (snd d))"

definition serves_models :: "catalog \<Rightarrow> bool" where
  "serves_models c = list_all2 table_serves models c"

section \<open>The revisions build the models\<close>

lemma history_order:
  "history = [rev_initial_users, rev_add_security_tables, rev_add_audit_logs, rev_add_oauth_tables, rev_add_foreign_keys,
     rev_drop_oauth_and_keys_tables, rev_add_two_factor_backup_codes, rev_add_outbox_retry,
     rev_hash_and_encrypt_user_secrets, rev_add_user_version_and_indexes]"
  by (simp add: history_def versions_def rev_initial_users_def rev_add_security_tables_def rev_add_audit_logs_def
    rev_add_oauth_tables_def rev_add_foreign_keys_def rev_drop_oauth_and_keys_tables_def
    rev_add_two_factor_backup_codes_def rev_add_outbox_retry_def rev_hash_and_encrypt_user_secrets_def
    rev_add_user_version_and_indexes_def)

text \<open>C21. The revisions of the schema form one chain without a fork or a loose end. Applied in its order to
  an empty database, none of their commands is refused, not even where tables hold rows and a
  required column needs a default, and the result has exactly the tables of the models: the same
  columns with the same types and nullability, the same keys, unique columns, indexes and foreign
  keys, all under the same names, and every default the models ask for.\<close>

theorem migrations_build_models:
  "set (map rv_revision history) = set (map rv_revision versions) \<and> distinct (map rv_revision history) \<and>
   (case migrate_up history [] of Inl e \<Rightarrow> False | Inr c \<Rightarrow> serves_models c)"
  unfolding history_order by code_simp

section \<open>Revisions can be taken back\<close>

text \<open>Each step of a path can be undone: its downgrade leads back to the catalogue it started from.\<close>

primrec reversible :: "revision list \<Rightarrow> catalog \<Rightarrow> bool" where
  "reversible [] c = True"
| "reversible (r # rs) c =
     (case run_ddl (rv_upgrade r) c of
        Inl e \<Rightarrow> False
      | Inr c' \<Rightarrow> run_ddl (rv_downgrade r) c' = Inr c \<and> reversible rs c')"

lemma migrate_up_append: "migrate_up (xs @ ys) c = rbind (migrate_up xs c) (migrate_up ys)"
proof (induction xs arbitrary: c)
  case (Cons r rs)
  then show ?case by (cases "run_ddl (rv_upgrade r) c") simp_all
qed simp

lemma reversible_append: "reversible (xs @ ys) c \<longleftrightarrow>
    reversible xs c \<and> (case migrate_up xs c of Inl e \<Rightarrow> False | Inr c' \<Rightarrow> reversible ys c')"
  by (induction xs arbitrary: c) (auto split: sum.splits)

lemma reversible_undone:
  assumes "reversible rs c"
  shows "\<exists>c'. migrate_up rs c = Inr c' \<and> migrate_down rs c' = Inr c"
  using assms
proof (induction rs arbitrary: c)
  case (Cons r rs)
  then obtain c1 where "run_ddl (rv_upgrade r) c = Inr c1" "run_ddl (rv_downgrade r) c1 = Inr c" "reversible rs c1"
    by (auto split: sum.splits)
  with Cons.IH [of c1] show ?case by auto
qed simp

lemma early_reversible: "reversible (take 5 history) []"
  unfolding history_order by code_simp

lemma late_reversible:
  "case migrate_up (take 5 history) [] of Inl e \<Rightarrow> False | Inr c \<Rightarrow> reversible (drop 5 history) c"
  unfolding history_order by code_simp

lemma history_reversible: "reversible history []"
  using early_reversible late_reversible reversible_append [of "take 5 history" "drop 5 history"]
  by (auto split: sum.splits)

text \<open>C37. Every migration can be taken back: from any revision of the history a downgrade to an earlier one
  succeeds and leads to exactly the schema that upgrading to that one builds.\<close>

theorem downgrade_restores:
  assumes "j \<le> k"
  shows "\<exists>c d. migrate_up (take j history) [] = Inr c \<and> migrate_up (take k history) [] = Inr d \<and>
     migrate_down (drop j (take k history)) d = Inr c"
proof -
  let ?rs = "take k history"
  have s: "take j history @ drop j ?rs = ?rs" using assms by (metis append_take_drop_id min.absorb1 take_take)
  have r: "reversible (take j history @ drop j ?rs) []"
    using history_reversible reversible_append [of ?rs "drop k history"] by (simp add: s)
  then obtain c where c: "migrate_up (take j history) [] = Inr c" "reversible (drop j ?rs) c"
    by (auto simp: reversible_append split: sum.splits)
  from reversible_undone [OF c(2)] obtain d where "migrate_up (drop j ?rs) c = Inr d" "migrate_down (drop j ?rs) d = Inr c" by blast
  with c(1) migrate_up_append [of "take j history" "drop j ?rs" "[]"] show ?thesis by (auto simp: s)
qed

theorem downgrade_restores_witness:
  "\<exists>c d. migrate_up (take 1 history) [] = Inr c \<and> migrate_up (take 10 history) [] = Inr d \<and>
     migrate_down (drop 1 (take 10 history)) d = Inr c"
  using downgrade_restores [of 1 10] by simp

end
