(* ===== verification/Spec2Isabelle.thy ===== *)
theory Spec2Isabelle
  imports Wiring Observability Consumers Overlap Authority Registration System Migrations
begin

text \<open>
  Verification of FastStream_Template, an identity service in Python (paths below are relative to
  \<open>src/src/\<close> of the repository).

  \<^bold>\<open>The program.\<close> A litestar application serves a JSON interface and the login and consent pages of an
  Ory Hydra authorization server (\<open>presentation/http\<close>). Its controllers call use cases
  (\<open>application/user/commands\<close>, \<open>application/user/queries\<close>, \<open>application/hydra_clients\<close>), which work
  through two services (\<open>application/user/services.py\<close>, \<open>rbac_service.py\<close>) on immutable aggregates
  (\<open>domain/user/entities\<close>) made of value objects (\<open>domain/user/value_objects\<close>). Repositories
  (\<open>infrastructure/db/sqlalchemy/repositories\<close>) keep the aggregates in PostgreSQL. The unit of work
  (\<open>infrastructure/db/sqlalchemy/uow.py\<close>) commits the rows together with the domain events, as outbox
  rows and audit rows. Two background workers share the database: the outbox relay
  (\<open>infrastructure/queue\<close>), which publishes the events and sends mails, and the janitor
  (\<open>infrastructure/maintenance\<close>). Cache and limiters (\<open>infrastructure/cache\<close>,
  \<open>infrastructure/security\<close>) live in memory or in Redis.

  \<^bold>\<open>Conventions.\<close>
  \<^item> Pure code that may raise returns \<open>app_error + 'a\<close>, with one constructor per exception class
    (theory Errors). A use case is an \<open>action\<close>: a function from the request state \<open>st\<close> to an outcome
    and the state left behind, which survives an exception as the program's does.
  \<^item> \<open>st_committed\<close> is the database that others see and \<open>st_work\<close> the one the transaction sees;
    \<open>in_request\<close> and \<open>web_request\<close> open a transaction and drop what was not committed.
  \<^item> One operation runs at one instant \<open>now\<close>, an integer of microseconds. Random values come from a
    source indexed by the counter \<open>st_draw\<close>; where the code relies on a fresh UUID or token, freshness
    is a hypothesis (\<open>fresh_ids\<close>).
  \<^item> Code outside the repository is an argument: bcrypt, SHA-256, Fernet, pyotp, the JSON codecs and
    isoformat in the record \<open>env\<close>; the authorization server in \<open>hydra\<close> and \<open>introspector\<close>; broker and
    mail server in \<open>broker\<close> and \<open>mailer\<close>; Redis in \<open>redis\<close>. What is assumed of them is stated in the
    theorems (\<open>fernet_law\<close>, \<open>challenge_codec_law\<close>, \<open>introspection_codec_law\<close>, \<open>redis_law\<close>, \<open>amqp_law\<close>), and each
    such law is instantiated by a concrete function in a witness.
  \<^item> Tables are lists of row records; the constraints of the schema are the predicate \<open>db_ok\<close>, and a
    statement that violates one raises what the repository makes of it.
  \<^item> The use cases run on the in-memory cache and limiters. The Redis adapters are modelled beside
    them: the Redis cache meets the same contract \<open>cache_store\<close>, the Redis limiters have theorems of
    their own because they count differently.

  \<^bold>\<open>Foundations.\<close> Prelude: result and action combinators, tables, rule collections. Py_Text: Python's
  text functions. Errors: exceptions, status codes, messages.

  \<^bold>\<open>Domain.\<close> Value_Objects, Events, Audit_Log, User_Entity, Session_Entity, Rbac_Entity: one function per
  method of the classes of the same name. The theorems on them: a password changes only with the old
  one or a valid reset token, a second factor becomes active only when confirmed, rotation of
  refresh tokens, single use of reset tokens and recovery codes, exactness of the lockout, and that
  every method keeps the aggregate storable (\<open>user_run_wf\<close>).

  \<^bold>\<open>Persistence.\<close> Database, User_Repo, Session_Repo, Rbac_Repo, Readers, Revocation: rows round-trip,
  updates are conditional on the version (locale \<open>versioned_store\<close>, \<open>no_lost_update\<close>), the joined
  role query answers what the tables grant. Unit_Of_Work: registration and draining of events
  (locale \<open>event_tracking\<close>), commit and rollback (\<open>commit_atomic\<close>). Catalog and Migrations: the
  revisions of \<open>migrations/versions\<close> as commands over a catalogue of tables, columns, keys, indexes
  and foreign keys; together they build the tables of \<open>models\<close> (\<open>migrations_build_models\<close>), and each
  can be taken back (\<open>downgrade_restores\<close>).

  \<^bold>\<open>Stores.\<close> Cache (locale \<open>cache_store\<close>: challenges, spent codes, idempotent answers), Limiter (sliding
  window, bound over every window), Redis (fixed windows, failed-login counters, both with exact
  bounds).

  \<^bold>\<open>Use cases.\<close> User_Service, Use_Cases, Rbac_Service are the services and commands. Preserves is the
  calculus in which invariants of actions are read off their text; Atomicity shows that every
  command commits everything or nothing; Login, Refresh, Accounts, Registration, Roles are the
  properties of whole requests; Overlap those of two requests on one account whose transactions
  overlap. Authority states the contract of role management, who holds which role and what each role
  allows, and that the commands refine it (\<open>role_commands_refine\<close>). Constraints (locale \<open>account_writes\<close>, interpreted for the schema and
  for the role tables) and Isolation say what a command can write at all. Samples has the concrete
  state of the witnesses.

  \<^bold>\<open>Workers.\<close> Outbox and Relay: a batch refines an abstract delivery of the events the broker accepts,
  replicas never claim the same row, every event is delivered or dead-lettered after finitely many
  polls (locale \<open>draining\<close>), credentials never reach the broker. Consumers: the other end of the exchange;
  what is published for an event fits the schema of its consumer and of no other
  (\<open>events_reach_their_consumer\<close>). Maintenance: the janitor keeps what it has to retain and, run after
  run, catches up with what failed before (\<open>maintenance_catches_up\<close>).

  \<^bold>\<open>HTTP.\<close> Hydra_Client: every call to the authorization server. Http_Edge: client address, HTTPS
  redirect, authentication by introspection with its cache, guards, exception handlers, the
  registration endpoint. Bridge: the login and consent pages, whom they vouch for and what they
  grant. Api: every route, its guards and its handler. Requests: over all routes, what a caller can
  change. Middleware: response headers, request identifiers, origins, readiness.

  \<^bold>\<open>The whole.\<close> Settings: the configuration from the environment. Wiring: the dependency container; the
  locale \<open>container\<close> says what a complete set of factories is, and its interpretation on the
  registrations of \<open>infrastructure/di.py\<close> shows that everything asked for can be built and that nothing
  shared between requests holds a transaction. Observability: log lines, the set-up of logging and
  tracing, the call that sends a mail, liveness. Startup: seeding of OAuth clients and
  of the admin role. System: requests, pages, relay, janitor and restarts as one step relation, with
  what holds in everything that can be reached (\<open>reachable_db_ok\<close>, \<open>no_first_admin_by_use\<close>).

  \<^bold>\<open>Bounds and fuel.\<close> The only loop that need not end is the relay's polling; \<open>worker_loop\<close> runs a given
  number of polls, and \<open>outbox_drains\<close> proves a number that suffices: the attempts left to the waiting
  events. \<open>follow\<close> walks the revisions with as much fuel as there are files. Everything else recurses
  structurally or by a measure. Python's integers are \<open>int\<close>, UUIDs 128-bit words; strings are lists of
  8-bit characters, passwords lists of code points, because the difference between characters and
  UTF-8 bytes decides there.

  \<^bold>\<open>Interleaving.\<close> Requests interleave as wholes in System. Two writers of one account inside their
  transactions are the subject of \<open>no_lost_update\<close>. Overlap splits a refresh and a password reset at
  the read they decide on and resumes them after another request has committed: a second reset is
  refused, a refresh undoes a sign-out, and two refreshes with one token both succeed
  (\<open>overlapping_refreshes_fork\<close>). Relays inside a batch are the subject of \<open>claims_exclusive\<close>; the
  gap between the two commands of the Redis limiter of \<open>counter_without_expiry\<close>. Other interleavings
  inside a request are not modelled.

  \<^bold>\<open>Not modelled.\<close> The bodies of bcrypt, pyotp, Fernet and the clocks, which are arguments; the metric
  registry and its rendering; opening and closing the connections of libraries; routing, parsing and
  rendering by litestar and pydantic; redelivery by the broker; a failure of the database's commit
  other than a row it refuses (the code rolls back in both cases); the effect of the one data statement
  of a migration on rows; the construction of the application objects.
\<close>

end
